(* ===== verification/Prelude.thy ===== *)
theory Prelude
  imports Main "HOL-Library.Monad_Syntax"
begin

text \<open>
  The vocabulary every theory of the development shares: Go errors as values (with the
  chain that \<^verbatim>\<open>errors.Wrapf\<close> and \<^verbatim>\<open>fmt.Errorf("... %w")\<close> build), results of fallible calls,
  the handful of \<^verbatim>\<open>strings\<close> functions the code calls, and the generic list and map
  lemmas of the component proofs.
\<close>

named_theorems go_defs \<open>definitions of the Go standard library vocabulary\<close>
named_theorems api_defs \<open>accessors and setters of the API types\<close>
named_theorems ctrl_defs \<open>small helper definitions of the two controllers\<close>

section \<open>Go errors\<close>

text \<open>
  \<^verbatim>\<open>metav1.StatusReason\<close> of an API server error. Only \<^verbatim>\<open>NotFound\<close> is ever tested by the
  code; the other reasons only travel.
\<close>

datatype status_reason = NotFound | AlreadyExists | Conflict | Invalid | OtherReason string

text \<open>
  An \<^verbatim>\<open>error\<close> value: an API status error, Helm's sentinel \<^verbatim>\<open>driver.ErrReleaseNotFound\<close>, an
  error made from a string, an error wrapped with a message (\<^verbatim>\<open>errors.Wrapf\<close>,
  \<^verbatim>\<open>fmt.Errorf\<close> with \<^verbatim>\<open>%w\<close> at the end), and a run-time panic that unwinds the stack.
\<close>

datatype go_error =
    ApiError status_reason string
  | ErrReleaseNotFound
  | Errorf string
  | Wrapf go_error string
  | GoPanic string

type_synonym 'a res = "go_error + 'a"

text \<open>\<^verbatim>\<open>err.Error()\<close>; a wrapped error prints as \<^verbatim>\<open>message: cause\<close>.\<close>

fun Error :: "go_error \<Rightarrow> string" where
  "Error (ApiError r m) = m"
| "Error ErrReleaseNotFound = ''release: not found''"
| "Error (Errorf m) = m"
| "Error (Wrapf e m) = m @ '': '' @ Error e"
| "Error (GoPanic m) = m"

text \<open>\<^verbatim>\<open>apierrors.IsNotFound\<close> and \<^verbatim>\<open>errors.Is\<close> look through wrapped errors.\<close>

fun IsNotFound :: "go_error \<Rightarrow> bool" where
  "IsNotFound (ApiError r m) = (r = NotFound)"
| "IsNotFound (Wrapf e m) = IsNotFound e"
| "IsNotFound _ = False"

fun IsReleaseNotFound :: "go_error \<Rightarrow> bool" where
  "IsReleaseNotFound ErrReleaseNotFound = True"
| "IsReleaseNotFound (Wrapf e m) = IsReleaseNotFound e"
| "IsReleaseNotFound _ = False"

fun IsPanic :: "go_error \<Rightarrow> bool" where
  "IsPanic (GoPanic m) = True"
| "IsPanic _ = False"

text \<open>Results of calls that return \<^verbatim>\<open>(T, error)\<close>, seen as an optional error.\<close>

definition err_of :: "'a res \<Rightarrow> go_error option" where
  "err_of r = (case r of Inl e \<Rightarrow> Some e | Inr _ \<Rightarrow> None)"

lemma err_of_simps [simp]: "err_of (Inl e) = Some e" "err_of (Inr x) = None"
  by (simp_all add: err_of_def)

lemma err_of_eq_None_iff: "err_of r = None \<longleftrightarrow> (\<exists>x. r = Inr x)"
  by (cases r) auto

section \<open>The \<open>strings\<close> package\<close>

definition HasPrefix :: "string \<Rightarrow> string \<Rightarrow> bool" where
  "HasPrefix s p = (take (length p) s = p)"

text \<open>\<^verbatim>\<open>strings.Cut(s, sep)\<close> for a one-byte separator: \<^verbatim>\<open>(before, after, found)\<close>.\<close>

fun Cut :: "string \<Rightarrow> char \<Rightarrow> string \<times> string \<times> bool" where
  "Cut [] c = ([], [], False)"
| "Cut (x # xs) c =
     (if x = c then ([], xs, True)
      else (case Cut xs c of (b, a, f) \<Rightarrow> if f then (x # b, a, True) else (x # xs, [], False)))"

text \<open>\<^verbatim>\<open>strings.Join(elems, sep)\<close>.\<close>

fun Join :: "string list \<Rightarrow> string \<Rightarrow> string" where
  "Join [] sep = []"
| "Join [x] sep = x"
| "Join (x # y # xs) sep = x @ sep @ Join (y # xs) sep"

lemma HasPrefix_append [simp]: "HasPrefix (p @ s) p"
  by (simp add: HasPrefix_def)

lemma HasPrefix_iff: "HasPrefix s p \<longleftrightarrow> (\<exists>t. s = p @ t)"
proof
  assume "HasPrefix s p"
  then have "s = p @ drop (length p) s"
    by (metis HasPrefix_def append_take_drop_id)
  then show "\<exists>t. s = p @ t" ..
next
  assume "\<exists>t. s = p @ t"
  then show "HasPrefix s p" by auto
qed

lemma Cut_found: "Cut s c = (b, a, True) \<Longrightarrow> s = b @ c # a \<and> c \<notin> set b"
  by (induction s arbitrary: b) (auto split: if_splits prod.splits)

lemma Cut_no_sep: "c \<notin> set s \<Longrightarrow> Cut s c = (s, [], False)"
  by (induction s) auto

lemma Cut_not_found: "Cut s c = (b, a, False) \<Longrightarrow> c \<notin> set s \<and> b = s \<and> a = []"
  by (induction s arbitrary: b a) (auto split: if_splits prod.splits)

lemma Cut_sep: "c \<notin> set b \<Longrightarrow> Cut (b @ c # a) c = (b, a, True)"
  by (induction b) auto

text \<open>
  Keys of the form \<open>namespace/name\<close> are injective as long as the first part has no
  separator: the shape of the key in \<^verbatim>\<open>getOrphanedHelmReleaseProxies\<close>.
\<close>

lemma sep_key_inject:
  fixes c :: char
  assumes "c \<notin> set a" "c \<notin> set a'"
  shows "a @ c # b = a' @ c # b' \<longleftrightarrow> a = a' \<and> b = b'"
proof
  assume eq: "a @ c # b = a' @ c # b'"
  have "Cut (a @ c # b) c = Cut (a' @ c # b') c" by (simp only: eq)
  with assms show "a = a' \<and> b = b'" by (simp add: Cut_sep)
qed auto

section \<open>Loops that stop at the first error\<close>

text \<open>
  \<^verbatim>\<open>for i := range xs { if err := f(xs[i]); err != nil { return err } }\<close> over a state:
  the shape of the delete and reconcile loops of the chart controller.
\<close>

fun for_each :: "('x \<Rightarrow> 's \<Rightarrow> go_error option \<times> 's) \<Rightarrow> 'x list \<Rightarrow> 's \<Rightarrow> go_error option \<times> 's" where
  "for_each f [] s = (None, s)"
| "for_each f (x # xs) s =
     (case f x s of (Some e, s') \<Rightarrow> (Some e, s') | (None, s') \<Rightarrow> for_each f xs s')"

lemma for_each_cong [fundef_cong]:
  "xs = ys \<Longrightarrow> s = t \<Longrightarrow> (\<And>x u. x \<in> set ys \<Longrightarrow> f x u = g x u) \<Longrightarrow> for_each f xs s = for_each g ys t"
  by (induction xs arbitrary: ys s t) (auto split: option.splits prod.splits)

lemma for_each_append:
  "for_each f (xs @ ys) s =
     (case for_each f xs s of (Some e, s') \<Rightarrow> (Some e, s') | (None, s') \<Rightarrow> for_each f ys s')"
  by (induction xs arbitrary: s) (auto split: option.splits prod.splits)

text \<open>An invariant of the body is an invariant of the loop, whether it errs or not.\<close>

lemma for_each_invariant:
  assumes "\<And>x u e u'. x \<in> set xs \<Longrightarrow> I u \<Longrightarrow> f x u = (e, u') \<Longrightarrow> I u'"
    and "I s" and "for_each f xs s = (e, s')"
  shows "I s'"
  using assms
proof (induction xs arbitrary: s)
  case Nil
  then show ?case by simp
next
  case (Cons x xs)
  obtain e1 s1 where f: "f x s = (e1, s1)" by (cases "f x s")
  have I1: "I s1" using Cons.prems(1) [OF _ Cons.prems(2) f] by simp
  show ?case
  proof (cases e1)
    case None
    with Cons.prems(3) f have "for_each f xs s1 = (e, s')" by simp
    with I1 show ?thesis by (rule Cons.IH [rotated]) (use Cons.prems(1) in auto)
  next
    case (Some err)
    with Cons.prems(3) f I1 show ?thesis by simp
  qed
qed

text \<open>A loop that returns no error ran its body on every element without one, in a state that
  satisfies the loop's invariant.\<close>

lemma for_each_ok_invariant:
  assumes "for_each f xs s = (None, s')" and "x \<in> set xs" and "I s"
    and "\<And>y u e u'. I u \<Longrightarrow> f y u = (e, u') \<Longrightarrow> I u'"
  shows "\<exists>u u'. I u \<and> f x u = (None, u')"
  using assms(1-3)
proof (induction xs arbitrary: s)
  case (Cons y ys)
  obtain e1 s1 where f: "f y s = (e1, s1)" by (cases "f y s")
  with Cons.prems have "e1 = None" "for_each f ys s1 = (None, s')" "I s1"
    using assms(4) by (auto split: option.splits)
  with Cons f show ?case by auto
qed simp

lemma for_each_skip:
  "(\<And>x. x \<in> set xs \<Longrightarrow> f x s = (None, s)) \<Longrightarrow> for_each f xs s = (None, s)"
  by (induction xs) auto

lemma for_each_filter:
  "for_each (\<lambda>x s. if P x then f x s else (None, s)) xs s = for_each f (filter P xs) s"
  by (induction xs arbitrary: s) (auto split: option.splits prod.splits)

end
