(* ===== verification/Api_Types.thy ===== *)
theory Api_Types
  imports Prelude
begin

text \<open>
  The API types of \<^verbatim>\<open>api/v1alpha1\<close> (\<^verbatim>\<open>helmchartproxy_types.go\<close>, \<^verbatim>\<open>helmreleaseproxy_types.go\<close>,
  \<^verbatim>\<open>condition_consts.go\<close>) as records with the source's fields, the Kubernetes and Cluster API
  types they are built from, and the accessors and setters of the two kinds. A pointer
  field is an \<open>option\<close>; a \<^verbatim>\<open>map[string]string\<close> is a map whose empty value also stands for the
  nil map, which Go reads the same way.
\<close>

section \<open>Kubernetes and Cluster API types\<close>

type_synonym labels = "string \<rightharpoonup> string"

text \<open>\<^verbatim>\<open>types.NamespacedName\<close> and \<^verbatim>\<open>client.ObjectKey\<close>.\<close>

record nsname =
  nn_Namespace :: string
  nn_Name :: string

record OwnerReference =
  or_APIVersion :: string
  or_Kind :: string
  or_Name :: string
  or_UID :: string
  or_Controller :: "bool option"
  or_BlockOwnerDeletion :: "bool option"

text \<open>The fields of \<^verbatim>\<open>metav1.ObjectMeta\<close> that the code or the API server reads.\<close>

record ObjectMeta =
  m_Name :: string
  m_GenerateName :: string
  m_Namespace :: string
  m_UID :: string
  m_ResourceVersion :: string
  m_Generation :: int
  m_DeletionTimestamp :: "nat option"
  m_Labels :: labels
  m_Annotations :: labels
  m_OwnerReferences :: "OwnerReference list"
  m_Finalizers :: "string list"

text \<open>The object key \<^verbatim>\<open>client.ObjectKeyFromObject\<close> reads off the metadata.\<close>

definition meta_key :: "ObjectMeta \<Rightarrow> nsname" where
  "meta_key m = \<lparr>nn_Namespace = m_Namespace m, nn_Name = m_Name m\<rparr>"

definition zero_meta :: ObjectMeta where
  "zero_meta = \<lparr>m_Name = [], m_GenerateName = [], m_Namespace = [], m_UID = [],
     m_ResourceVersion = [], m_Generation = 0, m_DeletionTimestamp = None,
     m_Labels = Map.empty, m_Annotations = Map.empty, m_OwnerReferences = [], m_Finalizers = []\<rparr>"

record SecretReference =
  sr_Name :: string
  sr_Namespace :: string

record ObjectReference =
  ref_Kind :: string
  ref_APIVersion :: string
  ref_Name :: string
  ref_Namespace :: string

datatype ConditionStatus = ConditionTrue | ConditionFalse | ConditionUnknown

record Condition =
  c_Type :: string
  c_Status :: ConditionStatus
  c_Reason :: string
  c_Message :: string

text \<open>A condition list is keyed by the condition's type.\<close>

definition get_condition :: "Condition list \<Rightarrow> string \<Rightarrow> Condition option" where
  "get_condition cs t = find (\<lambda>c. c_Type c = t) cs"

record LabelSelectorRequirement =
  lr_Key :: string
  lr_Operator :: string
  lr_Values :: "string list"

record LabelSelector =
  ls_MatchLabels :: labels
  ls_MatchExpressions :: "LabelSelectorRequirement list"

record ContractVersionedObjectReference =
  cv_APIGroup :: string
  cv_Kind :: string
  cv_Name :: string

text \<open>The fields of a \<^verbatim>\<open>clusterv1.Cluster\<close> that the code reads.\<close>

record Cluster =
  cl_Kind :: string
  cl_APIVersion :: string
  cl_Meta :: ObjectMeta
  cl_Paused :: "bool option"
  cl_ControlPlaneRef :: ContractVersionedObjectReference
  cl_InfrastructureRef :: ContractVersionedObjectReference
  cl_ControlPlaneInitialized :: "bool option"

text \<open>Constants of \<^verbatim>\<open>clusterv1\<close> (\<^verbatim>\<open>sigs.k8s.io/cluster-api/api/core/v1beta2\<close>).\<close>

definition ReadyCondition :: string where "ReadyCondition = ''Ready''"
definition ReadyReason :: string where "ReadyReason = ''Ready''"
definition UpToDateReason :: string where "UpToDateReason = ''UpToDate''"
definition AvailableReason :: string where "AvailableReason = ''Available''"
definition ClusterControlPlaneNotAvailableReason :: string where "ClusterControlPlaneNotAvailableReason = ''NotAvailable''"
definition ClusterNameLabel :: string where "ClusterNameLabel = ''cluster.x-k8s.io/cluster-name''"
definition ClusterKind :: string where "ClusterKind = ''Cluster''"
definition ClusterGroupVersion :: string where "ClusterGroupVersion = ''cluster.x-k8s.io/v1beta2''"

section \<open>Constants of the API group\<close>

definition HelmChartProxyFinalizer :: string where "HelmChartProxyFinalizer = ''helmchartproxy.addons.cluster.x-k8s.io''"
definition DefaultOCIKey :: string where "DefaultOCIKey = ''config.json''"
definition ReconcileStrategyContinuous :: string where "ReconcileStrategyContinuous = ''Continuous''"
definition ReconcileStrategyInstallOnce :: string where "ReconcileStrategyInstallOnce = ''InstallOnce''"

definition HelmReleaseProxyFinalizer :: string where "HelmReleaseProxyFinalizer = ''helmreleaseproxy.addons.cluster.x-k8s.io''"
definition HelmChartProxyLabelName :: string where "HelmChartProxyLabelName = ''helmreleaseproxy.addons.cluster.x-k8s.io/helmchartproxy-name''"
definition IsReleaseNameGeneratedAnnotation :: string where "IsReleaseNameGeneratedAnnotation = ''helmreleaseproxy.addons.cluster.x-k8s.io/is-release-name-generated''"
definition ReleaseSuccessfullyInstalledAnnotation :: string where "ReleaseSuccessfullyInstalledAnnotation = ''helmreleaseproxy.addons.cluster.x-k8s.io/release-successfully-installed''"

definition HelmReleaseProxySpecsUpToDateCondition :: string where "HelmReleaseProxySpecsUpToDateCondition = ''HelmReleaseProxySpecsUpToDate''"
definition HelmReleaseProxySpecsUpdatingReason :: string where "HelmReleaseProxySpecsUpdatingReason = ''HelmReleaseProxySpecsUpdating''"
definition HelmReleaseProxyCreationFailedReason :: string where "HelmReleaseProxyCreationFailedReason = ''HelmReleaseProxyCreationFailed''"
definition HelmReleaseProxyDeletionFailedReason :: string where "HelmReleaseProxyDeletionFailedReason = ''HelmReleaseProxyDeletionFailed''"
definition HelmReleaseProxyReinstallingReason :: string where "HelmReleaseProxyReinstallingReason = ''HelmReleaseProxyReinstalling''"
definition ValueParsingFailedReason :: string where "ValueParsingFailedReason = ''ValueParsingFailed''"
definition ClusterSelectionFailedReason :: string where "ClusterSelectionFailedReason = ''ClusterSelectionFailed''"
definition HelmReleaseProxiesReadyCondition :: string where "HelmReleaseProxiesReadyCondition = ''HelmReleaseProxiesReady''"

definition HelmReleaseReadyCondition :: string where "HelmReleaseReadyCondition = ''HelmReleaseReady''"
definition PreparingToHelmInstallReason :: string where "PreparingToHelmInstallReason = ''PreparingToHelmInstall''"
definition HelmReleasePendingReason :: string where "HelmReleasePendingReason = ''HelmReleasePending''"
definition HelmInstallOrUpgradeFailedReason :: string where "HelmInstallOrUpgradeFailedReason = ''HelmInstallOrUpgradeFailed''"
definition HelmReleaseDeletionFailedReason :: string where "HelmReleaseDeletionFailedReason = ''HelmReleaseDeletionFailed''"
definition HelmReleaseDeletedReason :: string where "HelmReleaseDeletedReason = ''HelmReleaseDeleted''"
definition HelmReleaseGetFailedReason :: string where "HelmReleaseGetFailedReason = ''HelmReleaseGetFailed''"
definition ClusterAvailableCondition :: string where "ClusterAvailableCondition = ''ClusterAvailable''"
definition GetClusterFailedReason :: string where "GetClusterFailedReason = ''GetClusterFailed''"
definition GetKubeconfigFailedReason :: string where "GetKubeconfigFailedReason = ''GetKubeconfigFailed''"
definition GetCredentialsFailedReason :: string where "GetCredentialsFailedReason = ''GetCredentialsFailed''"
definition GetCACertificateFailedReason :: string where "GetCACertificateFailedReason = ''GetCACertificateFailed''"

lemmas const_defs =
  ReadyCondition_def ReadyReason_def UpToDateReason_def AvailableReason_def
  ClusterControlPlaneNotAvailableReason_def ClusterNameLabel_def ClusterKind_def
  ClusterGroupVersion_def HelmChartProxyFinalizer_def DefaultOCIKey_def
  ReconcileStrategyContinuous_def ReconcileStrategyInstallOnce_def
  HelmReleaseProxyFinalizer_def HelmChartProxyLabelName_def
  IsReleaseNameGeneratedAnnotation_def ReleaseSuccessfullyInstalledAnnotation_def
  HelmReleaseProxySpecsUpToDateCondition_def HelmReleaseProxySpecsUpdatingReason_def
  HelmReleaseProxyCreationFailedReason_def HelmReleaseProxyDeletionFailedReason_def
  HelmReleaseProxyReinstallingReason_def ValueParsingFailedReason_def
  ClusterSelectionFailedReason_def HelmReleaseProxiesReadyCondition_def
  HelmReleaseReadyCondition_def PreparingToHelmInstallReason_def HelmReleasePendingReason_def
  HelmInstallOrUpgradeFailedReason_def HelmReleaseDeletionFailedReason_def
  HelmReleaseDeletedReason_def HelmReleaseGetFailedReason_def ClusterAvailableCondition_def
  GetClusterFailedReason_def GetKubeconfigFailedReason_def GetCredentialsFailedReason_def
  GetCACertificateFailedReason_def

section \<open>Helm options, credentials and TLS configuration\<close>

record HelmInstallOptions =
  io_CreateNamespace :: bool
  io_IncludeCRDs :: bool

record HelmUpgradeOptions =
  uo_Force :: bool
  uo_ResetValues :: bool
  uo_ReuseValues :: bool
  uo_ResetThenReuseValues :: bool
  uo_Recreate :: bool
  uo_MaxHistory :: int
  uo_CleanupOnFail :: bool

record HelmUninstallOptions =
  no_KeepHistory :: bool
  no_Description :: string

text \<open>A \<^verbatim>\<open>metav1.Duration\<close> is a number of nanoseconds.\<close>

record HelmOptions =
  o_DisableHooks :: bool
  o_Wait :: bool
  o_WaitForJobs :: bool
  o_DependencyUpdate :: bool
  o_Timeout :: "int option"
  o_SkipCRDs :: bool
  o_SubNotes :: bool
  o_DisableOpenAPIValidation :: bool
  o_Atomic :: bool
  o_Install :: HelmInstallOptions
  o_Upgrade :: HelmUpgradeOptions
  o_Uninstall :: "HelmUninstallOptions option"
  o_EnableClientCache :: bool
  o_TakeOwnership :: bool

record Credentials =
  cr_Secret :: SecretReference
  cr_Key :: string

record TLSConfig =
  tls_CASecretRef :: "SecretReference option"
  tls_InsecureSkipTLSVerify :: bool

section \<open>\<open>HelmChartProxy\<close>\<close>

record HelmChartProxySpec =
  cs_ClusterSelector :: LabelSelector
  cs_ChartName :: string
  cs_RepoURL :: string
  cs_ReleaseName :: string
  cs_ReleaseNamespace :: string
  cs_Version :: string
  cs_ValuesTemplate :: string
  cs_ReconcileStrategy :: string
  cs_Options :: HelmOptions
  cs_Credentials :: "Credentials option"
  cs_TLSConfig :: "TLSConfig option"

record HelmChartProxyStatus =
  ct_Conditions :: "Condition list"
  ct_MatchingClusters :: "ObjectReference list"
  ct_ObservedGeneration :: int

record HelmChartProxy =
  hcp_Meta :: ObjectMeta
  hcp_Spec :: HelmChartProxySpec
  hcp_Status :: HelmChartProxyStatus

definition hcp_GetConditions :: "HelmChartProxy \<Rightarrow> Condition list" where
  [api_defs]: "hcp_GetConditions c = ct_Conditions (hcp_Status c)"

definition hcp_SetConditions :: "HelmChartProxy \<Rightarrow> Condition list \<Rightarrow> HelmChartProxy" where
  [api_defs]: "hcp_SetConditions c cs = c\<lparr>hcp_Status := (hcp_Status c)\<lparr>ct_Conditions := cs\<rparr>\<rparr>"

text \<open>\<^verbatim>\<open>SetMatchingClusters\<close> builds one reference per listed cluster, in the list's order.\<close>

definition SetMatchingClusters :: "HelmChartProxy \<Rightarrow> Cluster list \<Rightarrow> HelmChartProxy" where
  [api_defs]: "SetMatchingClusters c clusterList =
     c\<lparr>hcp_Status := (hcp_Status c)\<lparr>ct_MatchingClusters :=
        map (\<lambda>cluster. \<lparr>ref_Kind = ClusterKind, ref_APIVersion = ClusterGroupVersion,
                          ref_Name = m_Name (cl_Meta cluster),
                          ref_Namespace = m_Namespace (cl_Meta cluster)\<rparr>) clusterList\<rparr>\<rparr>"

section \<open>\<open>HelmReleaseProxy\<close>\<close>

record HelmReleaseProxySpec =
  rs_ClusterRef :: ObjectReference
  rs_ChartName :: string
  rs_RepoURL :: string
  rs_ReleaseName :: string
  rs_ReleaseNamespace :: string
  rs_Version :: string
  rs_Values :: string
  rs_ReconcileStrategy :: string
  rs_Options :: HelmOptions
  rs_Credentials :: "Credentials option"
  rs_TLSConfig :: "TLSConfig option"

record HelmReleaseProxyStatus =
  rt_Conditions :: "Condition list"
  rt_Status :: string
  rt_Revision :: int
  rt_ObservedGeneration :: int

record HelmReleaseProxy =
  hrp_Meta :: ObjectMeta
  hrp_Spec :: HelmReleaseProxySpec
  hrp_Status :: HelmReleaseProxyStatus

definition hrp_GetConditions :: "HelmReleaseProxy \<Rightarrow> Condition list" where
  [api_defs]: "hrp_GetConditions r = rt_Conditions (hrp_Status r)"

definition hrp_SetConditions :: "HelmReleaseProxy \<Rightarrow> Condition list \<Rightarrow> HelmReleaseProxy" where
  [api_defs]: "hrp_SetConditions r cs = r\<lparr>hrp_Status := (hrp_Status r)\<lparr>rt_Conditions := cs\<rparr>\<rparr>"

definition SetReleaseStatus :: "HelmReleaseProxy \<Rightarrow> string \<Rightarrow> HelmReleaseProxy" where
  [api_defs]: "SetReleaseStatus r status = r\<lparr>hrp_Status := (hrp_Status r)\<lparr>rt_Status := status\<rparr>\<rparr>"

definition SetReleaseRevision :: "HelmReleaseProxy \<Rightarrow> int \<Rightarrow> HelmReleaseProxy" where
  [api_defs]: "SetReleaseRevision r version =
     r\<lparr>hrp_Status := (hrp_Status r)\<lparr>rt_Revision := version\<rparr>\<rparr>"

definition SetReleaseName :: "HelmReleaseProxy \<Rightarrow> string \<Rightarrow> HelmReleaseProxy" where
  [api_defs]: "SetReleaseName r name =
     (if rs_ReleaseName (hrp_Spec r) = [] then r\<lparr>hrp_Spec := (hrp_Spec r)\<lparr>rs_ReleaseName := name\<rparr>\<rparr>
      else r)"

text \<open>\<^verbatim>\<open>GetAnnotations\<close> and \<^verbatim>\<open>SetAnnotations\<close> of the embedded \<^verbatim>\<open>ObjectMeta\<close>.\<close>

definition hrp_GetAnnotations :: "HelmReleaseProxy \<Rightarrow> labels" where
  [api_defs]: "hrp_GetAnnotations r = m_Annotations (hrp_Meta r)"

definition hrp_SetAnnotations :: "HelmReleaseProxy \<Rightarrow> labels \<Rightarrow> HelmReleaseProxy" where
  [api_defs]: "hrp_SetAnnotations r a = r\<lparr>hrp_Meta := (hrp_Meta r)\<lparr>m_Annotations := a\<rparr>\<rparr>"

abbreviation hcp_Name :: "HelmChartProxy \<Rightarrow> string" where
  "hcp_Name c \<equiv> m_Name (hcp_Meta c)"

abbreviation hcp_Namespace :: "HelmChartProxy \<Rightarrow> string" where
  "hcp_Namespace c \<equiv> m_Namespace (hcp_Meta c)"

abbreviation hrp_Name :: "HelmReleaseProxy \<Rightarrow> string" where
  "hrp_Name r \<equiv> m_Name (hrp_Meta r)"

abbreviation hrp_Namespace :: "HelmReleaseProxy \<Rightarrow> string" where
  "hrp_Namespace r \<equiv> m_Namespace (hrp_Meta r)"

abbreviation cl_Name :: "Cluster \<Rightarrow> string" where
  "cl_Name c \<equiv> m_Name (cl_Meta c)"

abbreviation cl_Namespace :: "Cluster \<Rightarrow> string" where
  "cl_Namespace c \<equiv> m_Namespace (cl_Meta c)"

text \<open>The zero values Go gives \<^verbatim>\<open>&HelmReleaseProxy{}\<close> and its parts.\<close>

definition zero_ref :: ObjectReference where
  "zero_ref = \<lparr>ref_Kind = [], ref_APIVersion = [], ref_Name = [], ref_Namespace = []\<rparr>"

definition zero_options :: HelmOptions where
  "zero_options = \<lparr>o_DisableHooks = False, o_Wait = False, o_WaitForJobs = False,
     o_DependencyUpdate = False, o_Timeout = None, o_SkipCRDs = False, o_SubNotes = False,
     o_DisableOpenAPIValidation = False, o_Atomic = False,
     o_Install = \<lparr>io_CreateNamespace = False, io_IncludeCRDs = False\<rparr>,
     o_Upgrade = \<lparr>uo_Force = False, uo_ResetValues = False, uo_ReuseValues = False,
       uo_ResetThenReuseValues = False, uo_Recreate = False, uo_MaxHistory = 0,
       uo_CleanupOnFail = False\<rparr>,
     o_Uninstall = None, o_EnableClientCache = False, o_TakeOwnership = False\<rparr>"

definition zero_hrp :: HelmReleaseProxy where
  "zero_hrp = \<lparr>hrp_Meta = zero_meta,
     hrp_Spec = \<lparr>rs_ClusterRef = zero_ref, rs_ChartName = [], rs_RepoURL = [],
       rs_ReleaseName = [], rs_ReleaseNamespace = [], rs_Version = [], rs_Values = [],
       rs_ReconcileStrategy = [], rs_Options = zero_options, rs_Credentials = None,
       rs_TLSConfig = None\<rparr>,
     hrp_Status = \<lparr>rt_Conditions = [], rt_Status = [], rt_Revision = 0, rt_ObservedGeneration = 0\<rparr>\<rparr>"

text \<open>\<^verbatim>\<open>internal.HasHelmReleaseBeenSuccessfullyInstalled\<close>: only the presence of the annotation
  matters, not its value; a nil proxy was never installed.\<close>

definition HasHelmReleaseBeenSuccessfullyInstalled :: "HelmReleaseProxy option \<Rightarrow> bool" where
  "HasHelmReleaseBeenSuccessfullyInstalled hrp =
     (case hrp of None \<Rightarrow> False
      | Some r \<Rightarrow> hrp_GetAnnotations r ReleaseSuccessfullyInstalledAnnotation \<noteq> None)"

section \<open>Frame lemmas of the setters\<close>

lemma hrp_SetConditions_frame [simp]:
  "hrp_Meta (hrp_SetConditions r cs) = hrp_Meta r"
  "hrp_Spec (hrp_SetConditions r cs) = hrp_Spec r"
  "hrp_GetConditions (hrp_SetConditions r cs) = cs"
  by (simp_all add: api_defs)

lemma hcp_SetConditions_frame [simp]:
  "hcp_Meta (hcp_SetConditions c cs) = hcp_Meta c"
  "hcp_Spec (hcp_SetConditions c cs) = hcp_Spec c"
  "hcp_GetConditions (hcp_SetConditions c cs) = cs"
  by (simp_all add: api_defs)

lemma hcp_SetConditions_twice [simp]:
  "hcp_SetConditions (hcp_SetConditions c cs) ds = hcp_SetConditions c ds"
  "hrp_SetConditions (hrp_SetConditions r cs) ds = hrp_SetConditions r ds"
  by (simp_all add: api_defs)

lemma SetMatchingClusters_frame [simp]:
  "hcp_Meta (SetMatchingClusters c cls) = hcp_Meta c"
  "hcp_Spec (SetMatchingClusters c cls) = hcp_Spec c"
  "hcp_GetConditions (SetMatchingClusters c cls) = hcp_GetConditions c"
  by (simp_all add: api_defs)

lemma SetRelease_frame [simp]:
  "hrp_Meta (SetReleaseStatus r s) = hrp_Meta r" "hrp_Spec (SetReleaseStatus r s) = hrp_Spec r"
  "hrp_Meta (SetReleaseRevision r v) = hrp_Meta r" "hrp_Spec (SetReleaseRevision r v) = hrp_Spec r"
  "hrp_Meta (SetReleaseName r n) = hrp_Meta r" "hrp_Status (SetReleaseName r n) = hrp_Status r"
  "hrp_GetConditions (SetReleaseStatus r s) = hrp_GetConditions r"
  "hrp_GetConditions (SetReleaseRevision r v) = hrp_GetConditions r"
  "hrp_GetConditions (SetReleaseName r n) = hrp_GetConditions r"
  by (simp_all add: api_defs)

lemma hrp_SetAnnotations_frame [simp]:
  "hrp_Spec (hrp_SetAnnotations r a) = hrp_Spec r" "hrp_Status (hrp_SetAnnotations r a) = hrp_Status r"
  "hrp_GetAnnotations (hrp_SetAnnotations r a) = a"
  "hrp_GetConditions (hrp_SetAnnotations r a) = hrp_GetConditions r"
  "m_Namespace (hrp_Meta (hrp_SetAnnotations r a)) = hrp_Namespace r"
  "m_Name (hrp_Meta (hrp_SetAnnotations r a)) = hrp_Name r"
  "m_Finalizers (hrp_Meta (hrp_SetAnnotations r a)) = m_Finalizers (hrp_Meta r)"
  by (simp_all add: api_defs)

lemma SetReleaseName_keeps: "rs_ReleaseName (hrp_Spec r) \<noteq> [] \<Longrightarrow> SetReleaseName r n = r"
  by (simp add: SetReleaseName_def)

end
