(* ===== verification/Go_Std.thy ===== *)
theory Go_Std
  imports Prelude
begin

text \<open>
  The parts of the Go standard library with state or structure that the code calls:
  \<^verbatim>\<open>path.Join\<close>, and the temporary files of \<^verbatim>\<open>os\<close> (\<^verbatim>\<open>os.CreateTemp\<close>, \<^verbatim>\<open>File.Write\<close>,
  \<^verbatim>\<open>os.ReadFile\<close>, \<^verbatim>\<open>os.Remove\<close>). The operating system is a state: the files, the random
  strings still to be drawn, and an oracle that says which system call fails. A failing
  write may have written a prefix of its data.
\<close>

section \<open>\<open>path\<close>\<close>

fun split_on :: "char \<Rightarrow> string \<Rightarrow> string list" where
  "split_on c [] = [[]]"
| "split_on c (x # xs) =
     (if x = c then [] # split_on c xs
      else (case split_on c xs of [] \<Rightarrow> [[x]] | s # ss \<Rightarrow> (x # s) # ss))"

definition clean_step :: "bool \<Rightarrow> string list \<Rightarrow> string \<Rightarrow> string list" where
  "clean_step rooted out seg =
     (if seg = [] \<or> seg = ''.'' then out
      else if seg = ''..'' then
        (if out \<noteq> [] \<and> last out \<noteq> ''..'' then butlast out
         else if rooted then out else out @ [seg])
      else out @ [seg])"

text \<open>\<^verbatim>\<open>path.Clean\<close>, on the segments of the path.\<close>

definition Clean :: "string \<Rightarrow> string" where
  "Clean p =
     (if p = [] then ''.''
      else let rooted = (hd p = CHR ''/'');
               r = Join (foldl (clean_step rooted) [] (split_on CHR ''/'' p)) ''/''
           in if rooted then CHR ''/'' # r else if r = [] then ''.'' else r)"

definition path_Join :: "string list \<Rightarrow> string" where
  "path_Join es =
     (let es' = filter (\<lambda>e. e \<noteq> []) es in if es' = [] then [] else Clean (Join es' ''/''))"

section \<open>\<open>os\<close>\<close>

record os_state =
  os_TempDir :: string
  os_files :: "string \<rightharpoonup> string"
  os_random :: "nat \<Rightarrow> string"
  os_draws :: nat
  os_faults :: "nat \<Rightarrow> (nat \<times> go_error) option"
  os_calls :: nat

text \<open>Every system call consumes one entry of the fault oracle.\<close>

definition sys_fault :: "os_state \<Rightarrow> (nat \<times> go_error) option" where
  "sys_fault s = os_faults s (os_calls s)"

definition sys_tick :: "os_state \<Rightarrow> os_state" where
  "sys_tick s = s\<lparr>os_calls := Suc (os_calls s)\<rparr>"

definition errPatternHasSeparator :: go_error where
  "errPatternHasSeparator = Errorf ''pattern contains path separator''"

definition ErrExist :: go_error where
  "ErrExist = Errorf ''file already exists''"

definition ErrNotExist :: go_error where
  "ErrNotExist = Errorf ''file does not exist''"

text \<open>\<^verbatim>\<open>prefixAndSuffix\<close>: the pattern may hold no separator; its last star is the place of the
  random string, which goes at the end when there is no star.\<close>

definition prefixAndSuffix :: "string \<Rightarrow> (string \<times> string) res" where
  "prefixAndSuffix pat =
     (if CHR ''/'' \<in> set pat then Inl errPatternHasSeparator
      else case Cut (rev pat) CHR ''*'' of
        (b, a, f) \<Rightarrow> if f then Inr (rev a, rev b) else Inr (pat, []))"

text \<open>The retry loop of \<^verbatim>\<open>os.CreateTemp\<close>: at most \<open>n\<close> exclusive opens.\<close>

fun createTemp_loop :: "nat \<Rightarrow> string \<Rightarrow> string \<Rightarrow> os_state \<Rightarrow> string res \<times> os_state" where
  "createTemp_loop n prefix suffix s =
     (let name = prefix @ os_random s (os_draws s) @ suffix;
          s1 = s\<lparr>os_draws := Suc (os_draws s)\<rparr>
      in case sys_fault s1 of
           Some (k, e) \<Rightarrow> (Inl e, sys_tick s1)
         | None \<Rightarrow>
             (if os_files s1 name = None
              then (Inr name, sys_tick (s1\<lparr>os_files := (os_files s1)(name \<mapsto> [])\<rparr>))
              else if n \<le> 1 then (Inl ErrExist, sys_tick s1)
              else createTemp_loop (n - 1) prefix suffix (sys_tick s1)))"

declare createTemp_loop.simps [simp del]

definition CreateTemp :: "string \<Rightarrow> os_state \<Rightarrow> string res \<times> os_state" where
  "CreateTemp pattern s =
     (case prefixAndSuffix pattern of
        Inl e \<Rightarrow> (Inl e, s)
      | Inr (prefix, suffix) \<Rightarrow>
          createTemp_loop 10000 (os_TempDir s @ ''/'' @ prefix) suffix s)"

text \<open>\<^verbatim>\<open>File.Write\<close> on an open file, named by its path.\<close>

definition Write :: "string \<Rightarrow> string \<Rightarrow> os_state \<Rightarrow> go_error option \<times> os_state" where
  "Write name data s =
     (let old = (case os_files s name of None \<Rightarrow> [] | Some d \<Rightarrow> d)
      in case sys_fault s of
           None \<Rightarrow> (None, sys_tick (s\<lparr>os_files := (os_files s)(name \<mapsto> old @ data)\<rparr>))
         | Some (k, e) \<Rightarrow>
             (Some e, sys_tick (s\<lparr>os_files := (os_files s)(name \<mapsto> old @ take k data)\<rparr>)))"

definition ReadFile :: "string \<Rightarrow> os_state \<Rightarrow> string res \<times> os_state" where
  "ReadFile name s =
     (case sys_fault s of
        Some (k, e) \<Rightarrow> (Inl e, sys_tick s)
      | None \<Rightarrow> (case os_files s name of
                     None \<Rightarrow> (Inl ErrNotExist, sys_tick s)
                   | Some d \<Rightarrow> (Inr d, sys_tick s)))"

definition Remove :: "string \<Rightarrow> os_state \<Rightarrow> go_error option \<times> os_state" where
  "Remove name s =
     (case sys_fault s of
        Some (k, e) \<Rightarrow> (Some e, sys_tick s)
      | None \<Rightarrow> (if os_files s name = None then (Some ErrNotExist, sys_tick s)
                 else (None, sys_tick (s\<lparr>os_files := (os_files s)(name := None)\<rparr>))))"

text \<open>The pattern shared by \<^verbatim>\<open>writeCredentialsToFile\<close>, \<^verbatim>\<open>writeCACertificateToFile\<close> and
  \<^verbatim>\<open>writeValuesToFile\<close> is create, then write; what the library promises of it is below.\<close>

definition create_and_write :: "string \<Rightarrow> string \<Rightarrow> os_state \<Rightarrow> string res \<times> os_state" where
  "create_and_write pattern data s =
     (case CreateTemp pattern s of
        (Inl e, s1) \<Rightarrow> (Inl e, s1)
      | (Inr name, s1) \<Rightarrow>
          (case Write name data s1 of
             (Some e, s2) \<Rightarrow> (Inl e, s2)
           | (None, s2) \<Rightarrow> (Inr name, s2)))"

definition no_faults :: "os_state \<Rightarrow> bool" where
  "no_faults s = (\<forall>n. os_faults s n = None)"

section \<open>Laws\<close>

lemma sys_tick_simps [simp]:
  "os_files (sys_tick s) = os_files s" "os_TempDir (sys_tick s) = os_TempDir s"
  "os_random (sys_tick s) = os_random s" "os_faults (sys_tick s) = os_faults s"
  "os_draws (sys_tick s) = os_draws s"
  by (simp_all add: sys_tick_def)

lemma no_faults_sys_fault [simp]: "no_faults s \<Longrightarrow> sys_fault s = None"
  by (simp add: no_faults_def sys_fault_def)

lemma no_faults_tick [simp]: "no_faults (sys_tick s) = no_faults s"
  by (simp add: no_faults_def)

lemma no_faults_upd [simp]:
  "no_faults (s\<lparr>os_files := f\<rparr>) = no_faults s" "no_faults (s\<lparr>os_draws := n\<rparr>) = no_faults s"
  by (simp_all add: no_faults_def)

lemma prefixAndSuffix_separator: "CHR ''/'' \<in> set pat \<Longrightarrow> prefixAndSuffix pat = Inl errPatternHasSeparator"
  by (simp add: prefixAndSuffix_def)

lemma CreateTemp_separator:
  "CHR ''/'' \<in> set pat \<Longrightarrow> CreateTemp pat s = (Inl errPatternHasSeparator, s)"
  by (simp add: CreateTemp_def prefixAndSuffix_separator)

text \<open>A created temporary file is fresh, empty, and the only change to the files.\<close>

lemma createTemp_loop_ok:
  "createTemp_loop n p q s = (Inr name, s') \<Longrightarrow>
     os_files s name = None \<and> os_files s' = (os_files s)(name \<mapsto> []) \<and>
     os_faults s' = os_faults s \<and> os_TempDir s' = os_TempDir s \<and> os_random s' = os_random s"
proof (induction n p q s rule: createTemp_loop.induct)
  case (1 n p q s)
  show ?case
    using "1.prems" "1.IH"
    by (subst (asm) createTemp_loop.simps) (auto simp: Let_def split: option.splits if_splits)
qed

lemma createTemp_loop_err:
  "createTemp_loop n p q s = (Inl e, s') \<Longrightarrow>
     os_files s' = os_files s \<and> os_faults s' = os_faults s"
proof (induction n p q s rule: createTemp_loop.induct)
  case (1 n p q s)
  show ?case
    using "1.prems" "1.IH"
    by (subst (asm) createTemp_loop.simps) (auto simp: Let_def split: option.splits if_splits)
qed

lemma CreateTemp_ok:
  assumes "CreateTemp pat s = (Inr name, s')"
  shows "os_files s name = None" "os_files s' = (os_files s)(name \<mapsto> [])"
    "os_faults s' = os_faults s"
  using assms
  by (auto simp: CreateTemp_def dest!: createTemp_loop_ok split: sum.splits prod.splits)

lemma CreateTemp_err:
  assumes "CreateTemp pat s = (Inl e, s')"
  shows "os_files s' = os_files s" "os_faults s' = os_faults s"
  using assms
  by (auto simp: CreateTemp_def dest!: createTemp_loop_err split: sum.splits prod.splits)

lemma Write_frame:
  assumes "Write name d s = (e, s')"
  shows "os_faults s' = os_faults s" "n \<noteq> name \<Longrightarrow> os_files s' n = os_files s n"
  using assms by (auto simp: Write_def Let_def split: option.splits)

lemma ReadFile_frame [simp]:
  "os_files (snd (ReadFile n s)) = os_files s" "os_faults (snd (ReadFile n s)) = os_faults s"
  by (auto simp: ReadFile_def split: option.splits)

lemma Remove_frame:
  assumes "Remove name s = (e, s')"
  shows "os_faults s' = os_faults s"
    "e = None \<Longrightarrow> os_files s' = (os_files s)(name := None)"
    "e \<noteq> None \<Longrightarrow> os_files s' = os_files s"
  using assms by (auto simp: Remove_def split: option.splits if_splits)

lemma Remove_no_faults:
  "no_faults s \<Longrightarrow> os_files (snd (Remove name s)) = (os_files s)(name := None)"
  by (auto simp: Remove_def)

lemma create_and_write_ok:
  assumes "create_and_write pat d s = (Inr name, s')"
  shows "os_files s name = None" "os_files s' = (os_files s)(name \<mapsto> d)"
    "os_faults s' = os_faults s"
proof -
  obtain s1 where c: "CreateTemp pat s = (Inr name, s1)"
    and w: "Write name d s1 = (None, s')"
    using assms by (auto simp: create_and_write_def split: sum.splits prod.splits option.splits)
  note ok = CreateTemp_ok [OF c]
  show "os_files s name = None" "os_files s' = (os_files s)(name \<mapsto> d)" "os_faults s' = os_faults s"
    using ok w by (auto simp: Write_def Let_def split: option.splits)
qed

text \<open>The path of a temporary file is never empty, the value the callers use for no file.\<close>

lemma createTemp_loop_prefix:
  "createTemp_loop n p q s = (Inr name, s') \<Longrightarrow> \<exists>t. name = p @ t"
proof (induction n p q s rule: createTemp_loop.induct)
  case (1 n p q s)
  show ?case
    using "1.prems" "1.IH"
    by (subst (asm) createTemp_loop.simps) (auto simp: Let_def split: option.splits if_splits)
qed

lemma create_and_write_name:
  assumes "create_and_write pat d s = (Inr name, s')"
  shows "name \<noteq> []"
  using assms
  by (auto simp: create_and_write_def CreateTemp_def dest!: createTemp_loop_prefix
      split: sum.splits prod.splits option.splits)

lemma create_and_write_no_faults_err:
  assumes "create_and_write pat d s = (Inl e, s')" and "no_faults s"
  shows "os_files s' = os_files s"
proof -
  obtain r s1 where c: "CreateTemp pat s = (r, s1)" by (cases "CreateTemp pat s")
  show ?thesis
  proof (cases r)
    case (Inl e')
    with assms c show ?thesis by (auto simp: create_and_write_def dest: CreateTemp_err)
  next
    case (Inr name)
    with c have "os_faults s1 = os_faults s" by (auto dest: CreateTemp_ok)
    with assms(2) have "no_faults s1" by (simp add: no_faults_def)
    with assms(1) c Inr show ?thesis by (simp add: create_and_write_def Write_def Let_def)
  qed
qed

lemma create_and_write_faults:
  assumes "create_and_write pat d s = (r, s')"
  shows "os_faults s' = os_faults s"
  using assms
  by (auto simp: create_and_write_def split: sum.splits prod.splits option.splits
      dest!: CreateTemp_ok(3) CreateTemp_err(2) Write_frame(1))

text \<open>Writing a temporary file and removing it again restores the files.\<close>

lemma create_write_remove_restores:
  assumes "create_and_write pat d s = (Inr name, s1)" and "no_faults s2"
    and "os_files s2 = os_files s1"
  shows "os_files (snd (Remove name s2)) = os_files s"
  using create_and_write_ok [OF assms(1)] assms(2,3)
  by (auto simp: Remove_no_faults fun_eq_iff)

end
