(* ===== verification/Env.thy ===== *)
theory Env
  imports Api_Types Go_Std
begin

text \<open>
  The code the repository calls but does not contain, as records of functions that the
  definitions of the model take as arguments: the controller-runtime client and the API
  server behind it (\<open>kube\<close>, over a state \<open>'k\<close>), the helper packages of Cluster API,
  controller-runtime and apimachinery (\<open>capi\<close>), the Helm SDK (\<open>helm_lib\<close>, over a state \<open>'h\<close>
  of workload clusters and chart repositories and an opaque type \<open>'v\<close> of chart values), and
  the template engine (\<open>tmpl\<close>). Reads see the state the last write of the same reconcile
  left; interleaving with other actors happens between reconciles.

  The locales state what the code relies on: that a condition can be read back after
  \<^verbatim>\<open>conditions.Set\<close>, that finalizers behave like a set, that reads and lists return the
  objects they were asked for, and that a patch persists the object without changing the
  caller's copy of it beyond what the server fills in.
\<close>

section \<open>The API server and the controller-runtime client\<close>

text \<open>
  \<^verbatim>\<open>client.Get\<close>, \<^verbatim>\<open>List\<close>, \<^verbatim>\<open>Create\<close>, \<^verbatim>\<open>Update\<close>, \<^verbatim>\<open>Delete\<close> on the kinds the controllers use.
  A label selector is the predicate on label sets it denotes. \<^verbatim>\<open>patchHelper.Patch\<close> gets the
  object as it was when the helper was made, the object to persist and the conditions the
  controller owns; it gives back the object with the fields it fills in.
\<close>

record 'k kube =
  k_get_hcp :: "nsname \<Rightarrow> 'k \<Rightarrow> HelmChartProxy res"
  k_get_hrp :: "nsname \<Rightarrow> 'k \<Rightarrow> HelmReleaseProxy res"
  k_get_cluster :: "nsname \<Rightarrow> 'k \<Rightarrow> Cluster res"
  k_get_secret :: "nsname \<Rightarrow> 'k \<Rightarrow> labels res"
  k_list_clusters :: "string \<Rightarrow> (labels \<Rightarrow> bool) \<Rightarrow> 'k \<Rightarrow> Cluster list res"
  k_list_hrps :: "string \<Rightarrow> labels \<Rightarrow> 'k \<Rightarrow> HelmReleaseProxy list res"
  k_list_hcps :: "string \<Rightarrow> 'k \<Rightarrow> HelmChartProxy list res"
  k_create_hrp :: "HelmReleaseProxy \<Rightarrow> 'k \<Rightarrow> go_error option \<times> 'k"
  k_update_hrp :: "HelmReleaseProxy \<Rightarrow> 'k \<Rightarrow> go_error option \<times> 'k"
  k_delete_hrp :: "HelmReleaseProxy \<Rightarrow> 'k \<Rightarrow> go_error option \<times> 'k"
  k_new_helper_hcp :: "HelmChartProxy \<Rightarrow> 'k \<Rightarrow> go_error option"
  k_new_helper_hrp :: "HelmReleaseProxy \<Rightarrow> 'k \<Rightarrow> go_error option"
  k_patch_hcp :: "HelmChartProxy \<Rightarrow> HelmChartProxy \<Rightarrow> string list \<Rightarrow> 'k
                    \<Rightarrow> go_error option \<times> HelmChartProxy \<times> 'k"
  k_patch_hrp :: "HelmReleaseProxy \<Rightarrow> HelmReleaseProxy \<Rightarrow> string list \<Rightarrow> 'k
                    \<Rightarrow> go_error option \<times> HelmReleaseProxy \<times> 'k"

section \<open>Helper packages\<close>

record ConditionWithOwnerInfo =
  co_Kind :: string
  co_Name :: string
  co_Condition :: Condition

text \<open>\<^verbatim>\<open>conditions.MergeStrategy\<close>: operation, conditions, condition types; the result is
  \<^verbatim>\<open>(status, reason, message, err)\<close>.\<close>

type_synonym merge_strategy =
  "string \<Rightarrow> ConditionWithOwnerInfo list \<Rightarrow> string list
     \<Rightarrow> ConditionStatus \<times> string \<times> string \<times> go_error option"

text \<open>A \<^verbatim>\<open>rest.Config\<close>; \<open>rc_Data\<close> stands for the fields the code never touches.\<close>

record rest_config =
  rc_Host :: string
  rc_BearerToken :: string
  rc_UserAgent :: string
  rc_Timeout :: int
  rc_Data :: string

text \<open>\<^verbatim>\<open>map[string]interface{}\<close> values of the templating context are opaque strings here.\<close>

type_synonym unstructured = string

record 'k capi =
  p_set :: "Condition list \<Rightarrow> Condition \<Rightarrow> Condition list"
  p_summary :: "Condition list \<Rightarrow> string \<Rightarrow> string list \<Rightarrow> Condition list res"
  p_aggregate :: "merge_strategy \<Rightarrow> HelmReleaseProxy list \<Rightarrow> Condition list \<Rightarrow> string \<Rightarrow> string
                    \<Rightarrow> Condition list res"
  p_default_merge :: merge_strategy
  p_is_paused :: "Cluster \<Rightarrow> HelmChartProxy \<Rightarrow> bool"
  p_has_finalizer :: "string list \<Rightarrow> string \<Rightarrow> bool"
  p_add_finalizer :: "string list \<Rightarrow> string \<Rightarrow> string list"
  p_remove_finalizer :: "string list \<Rightarrow> string \<Rightarrow> string list"
  p_ensure_owner :: "OwnerReference list \<Rightarrow> OwnerReference \<Rightarrow> OwnerReference list"
  p_controller_ref :: "HelmChartProxy \<Rightarrow> OwnerReference"
  p_selector :: "LabelSelector \<Rightarrow> (labels \<Rightarrow> bool) res"
  p_kubeconfig :: "nsname \<Rightarrow> 'k \<Rightarrow> string res"
  p_rest_config :: "string \<Rightarrow> rest_config res"
  p_user_agent :: "string \<Rightarrow> string"
  p_unstructured :: "Cluster \<Rightarrow> unstructured res"
  p_external :: "ContractVersionedObjectReference \<Rightarrow> string \<Rightarrow> 'k \<Rightarrow> unstructured res"

section \<open>The template engine\<close>

text \<open>\<^verbatim>\<open>sprig.TxtFuncMap\<close> as a map from function names to functions (an opaque type \<open>'f\<close>), and
  \<^verbatim>\<open>text/template\<close>: parsing a template under a name with a function map, executing it on a
  lookup table. A parsed template is represented by what it was made from.\<close>

record 'f tmpl =
  t_sprig :: "string \<rightharpoonup> 'f"
  t_parse :: "string \<Rightarrow> (string \<rightharpoonup> 'f) \<Rightarrow> string \<Rightarrow> go_error option"
  t_execute :: "string \<Rightarrow> (string \<rightharpoonup> 'f) \<Rightarrow> string \<Rightarrow> (string \<rightharpoonup> unstructured) \<Rightarrow> string res"

section \<open>The Helm SDK\<close>

text \<open>\<^verbatim>\<open>release.Status\<close> is a string; these are the values the code names.\<close>

definition StatusDeployed :: string where "StatusDeployed = ''deployed''"
definition StatusFailed :: string where "StatusFailed = ''failed''"

record Metadata =
  md_Version :: string

record Chart =
  ch_Metadata :: "Metadata option"

record 'v Release =
  rel_Name :: string
  rel_Version :: int
  rel_Status :: string
  rel_Chart :: "Chart option"
  rel_Config :: 'v

text \<open>A \<^verbatim>\<open>crypto/tls.Config\<close> with its certificate pool, and the options of a registry client.\<close>

record tls_client_config =
  tc_InsecureSkipVerify :: bool
  tc_RootCAs :: "string list option"

record http_client =
  hc_TLSClientConfig :: tls_client_config
  hc_IdleConnTimeout :: int

datatype registry_opt =
    ClientOptDebug bool
  | ClientOptEnableCache bool
  | ClientOptWriter string
  | ClientOptCredentialsFile string
  | ClientOptHTTPClient http_client

text \<open>A registry client is identified with the options it was made from.\<close>

type_synonym registry_client = "registry_opt list"

text \<open>\<^verbatim>\<open>genericclioptions.ConfigFlags\<close> as \<^verbatim>\<open>GetActionConfig\<close> fills it; \<open>cf_Wrap\<close> is what the wrap
  function makes of any \<^verbatim>\<open>rest.Config\<close>.\<close>

record config_flags =
  cf_APIServer :: string
  cf_BearerToken :: string
  cf_Namespace :: string
  cf_Insecure :: bool
  cf_Wrap :: "rest_config \<Rightarrow> rest_config"

record Configuration =
  ac_Flags :: config_flags
  ac_Namespace :: string
  ac_Driver :: string
  ac_RegistryClient :: "registry_client option"

record EnvSettings =
  es_RegistryConfig :: string

record Install =
  in_Cfg :: Configuration
  in_Registry :: "registry_client option"
  in_DisableHooks :: bool
  in_Wait :: bool
  in_WaitForJobs :: bool
  in_DependencyUpdate :: bool
  in_Timeout :: int
  in_SkipCRDs :: bool
  in_SubNotes :: bool
  in_DisableOpenAPIValidation :: bool
  in_Atomic :: bool
  in_IncludeCRDs :: bool
  in_CreateNamespace :: bool
  in_TakeOwnership :: bool
  in_RepoURL :: string
  in_Version :: string
  in_Namespace :: string
  in_ReleaseName :: string
  in_GenerateName :: bool

record Upgrade =
  up_Cfg :: Configuration
  up_Registry :: "registry_client option"
  up_DisableHooks :: bool
  up_Wait :: bool
  up_WaitForJobs :: bool
  up_Timeout :: int
  up_SkipCRDs :: bool
  up_SubNotes :: bool
  up_DisableOpenAPIValidation :: bool
  up_Atomic :: bool
  up_Force :: bool
  up_ResetValues :: bool
  up_ReuseValues :: bool
  up_ResetThenReuseValues :: bool
  up_Recreate :: bool
  up_MaxHistory :: int
  up_CleanupOnFail :: bool
  up_TakeOwnership :: bool
  up_RepoURL :: string
  up_Version :: string
  up_Namespace :: string

record Uninstall =
  un_Cfg :: Configuration
  un_DisableHooks :: bool
  un_Wait :: bool
  un_Timeout :: int
  un_KeepHistory :: bool
  un_Description :: string

text \<open>
  The SDK. \<^verbatim>\<open>RunWithContext\<close> of install and upgrade may return a release together with an
  error. \<open>h_merge_values\<close> reads the value files from the file system it is given.
\<close>

record ('h, 'v) helm_lib =
  h_new_settings :: EnvSettings
  h_init :: "config_flags \<Rightarrow> string \<Rightarrow> string \<Rightarrow> 'h \<Rightarrow> go_error option"
  h_get :: "Configuration \<Rightarrow> string \<Rightarrow> 'h \<Rightarrow> 'v Release res"
  h_list :: "Configuration \<Rightarrow> 'h \<Rightarrow> 'v Release list res"
  h_last :: "Configuration \<Rightarrow> string \<Rightarrow> 'h \<Rightarrow> 'v Release res"
  h_update :: "Configuration \<Rightarrow> 'v Release \<Rightarrow> 'h \<Rightarrow> go_error option \<times> 'h"
  h_is_pending :: "string \<Rightarrow> bool"
  h_is_oci :: "string \<Rightarrow> bool"
  h_certs_from_pem :: "string \<Rightarrow> string list"
  h_new_registry :: "registry_opt list \<Rightarrow> 'h \<Rightarrow> go_error option"
  h_new_install :: "Configuration \<Rightarrow> Install"
  h_new_upgrade :: "Configuration \<Rightarrow> Upgrade"
  h_new_uninstall :: "Configuration \<Rightarrow> Uninstall"
  h_name_and_chart :: "Install \<Rightarrow> string list \<Rightarrow> 'h \<Rightarrow> string res"
  h_locate_install :: "Install \<Rightarrow> string \<Rightarrow> EnvSettings \<Rightarrow> 'h \<Rightarrow> string res"
  h_locate_upgrade :: "Upgrade \<Rightarrow> string \<Rightarrow> EnvSettings \<Rightarrow> 'h \<Rightarrow> string res"
  h_merge_values :: "EnvSettings \<Rightarrow> string list \<Rightarrow> (string \<rightharpoonup> string) \<Rightarrow> 'v res"
  h_load :: "string \<Rightarrow> 'h \<Rightarrow> Chart option res"
  h_yaml :: "'v \<Rightarrow> string res"
  h_run_install :: "Install \<Rightarrow> Chart option \<Rightarrow> 'v \<Rightarrow> 'h \<Rightarrow> ('v Release option \<times> go_error option) \<times> 'h"
  h_run_upgrade :: "Upgrade \<Rightarrow> string \<Rightarrow> Chart \<Rightarrow> 'v \<Rightarrow> 'h \<Rightarrow> ('v Release option \<times> go_error option) \<times> 'h"
  h_run_uninstall :: "Uninstall \<Rightarrow> string \<Rightarrow> 'h \<Rightarrow> string res \<times> 'h"
  h_run_rollback :: "Configuration \<Rightarrow> string \<Rightarrow> 'h \<Rightarrow> go_error option \<times> 'h"

section \<open>The world\<close>

record ('k, 'h) world =
  w_kube :: 'k
  w_helm :: 'h
  w_os :: os_state

section \<open>Contracts\<close>

text \<open>The condition package: a set condition is read back, the others are untouched. The
  summary and the aggregate write their target condition only.\<close>

locale conditions_api =
  fixes P :: "'k capi"
  assumes get_set: "get_condition (p_set P cs c) t = (if t = c_Type c then Some c else get_condition cs t)"
    and set_nonempty: "p_set P cs c \<noteq> []"
    and summary_frame: "p_summary P cs tgt ts = Inr cs' \<Longrightarrow> t \<noteq> tgt \<Longrightarrow> get_condition cs' t = get_condition cs t"
    and aggregate_frame: "p_aggregate P m gs cs src tgt = Inr cs' \<Longrightarrow> t \<noteq> tgt \<Longrightarrow>
        get_condition cs' t = get_condition cs t"
begin

lemma get_set_same: "get_condition (p_set P cs c) (c_Type c) = Some c"
  by (simp add: get_set)

lemma get_set_other: "t \<noteq> c_Type c \<Longrightarrow> get_condition (p_set P cs c) t = get_condition cs t"
  by (simp add: get_set)

lemma set_overwrites:
  "c_Type c = c_Type d \<Longrightarrow> get_condition (p_set P (p_set P cs c) d) t = get_condition (p_set P cs d) t"
  by (simp add: get_set)

lemma set_commute:
  "c_Type c \<noteq> c_Type d \<Longrightarrow>
     get_condition (p_set P (p_set P cs c) d) t = get_condition (p_set P (p_set P cs d) c) t"
  by (simp add: get_set)

end

text \<open>\<^verbatim>\<open>controllerutil\<close>: finalizers are a set kept as a list.\<close>

locale finalizers_api =
  fixes P :: "'k capi"
  assumes has: "p_has_finalizer P fs f = (f \<in> set fs)"
    and add: "set (p_add_finalizer P fs f) = insert f (set fs)"
    and remove: "set (p_remove_finalizer P fs f) = set fs - {f}"
begin

lemma has_add: "p_has_finalizer P (p_add_finalizer P fs f) f"
  by (simp add: has add)

lemma has_remove: "\<not> p_has_finalizer P (p_remove_finalizer P fs f) f"
  by (simp add: has remove)

lemma has_other:
  "f \<noteq> g \<Longrightarrow> p_has_finalizer P (p_add_finalizer P fs f) g = p_has_finalizer P fs g"
  "f \<noteq> g \<Longrightarrow> p_has_finalizer P (p_remove_finalizer P fs f) g = p_has_finalizer P fs g"
  by (auto simp: has add remove)

end

text \<open>Both together: the package set the two controllers are written against.\<close>

locale capi_laws = conditions_api P + finalizers_api P for P :: "'k capi"

text \<open>The client: a read returns the object with the requested key, a list only objects of the
  namespace that match, and a patch leaves the caller's spec, conditions and metadata as they
  are, up to the resource version and the generation.\<close>

locale kube_api =
  fixes K :: "'k kube"
  assumes get_hcp: "k_get_hcp K key k = Inr c \<Longrightarrow> meta_key (hcp_Meta c) = key"
    and get_hrp: "k_get_hrp K key k = Inr r \<Longrightarrow> meta_key (hrp_Meta r) = key"
    and list_hrps: "k_list_hrps K ns ls k = Inr rs \<Longrightarrow> r \<in> set rs \<Longrightarrow>
      hrp_Namespace r = ns \<and> ls \<subseteq>\<^sub>m m_Labels (hrp_Meta r)"
    and list_clusters: "k_list_clusters K ns sel k = Inr cls \<Longrightarrow> cl \<in> set cls \<Longrightarrow>
      cl_Namespace cl = ns \<and> sel (m_Labels (cl_Meta cl))"
    and patch_hrp: "k_patch_hrp K before obj owned k = (e, obj', k') \<Longrightarrow>
      hrp_Spec obj' = hrp_Spec obj \<and> hrp_GetConditions obj' = hrp_GetConditions obj \<and>
      (\<exists>v g. hrp_Meta obj' = (hrp_Meta obj)\<lparr>m_ResourceVersion := v, m_Generation := g\<rparr>)"
    and patch_hcp: "k_patch_hcp K cbefore cobj owned k = (e, cobj', k') \<Longrightarrow>
      hcp_Spec cobj' = hcp_Spec cobj \<and> hcp_GetConditions cobj' = hcp_GetConditions cobj \<and>
      (\<exists>v g. hcp_Meta cobj' = (hcp_Meta cobj)\<lparr>m_ResourceVersion := v, m_Generation := g\<rparr>)"
begin

lemma patch_hrp_meta:
  assumes "k_patch_hrp K before obj owned k = (e, obj', k')"
  shows "hrp_Spec obj' = hrp_Spec obj" "hrp_GetConditions obj' = hrp_GetConditions obj"
    "m_Finalizers (hrp_Meta obj') = m_Finalizers (hrp_Meta obj)"
    "hrp_GetAnnotations obj' = hrp_GetAnnotations obj"
    "m_DeletionTimestamp (hrp_Meta obj') = m_DeletionTimestamp (hrp_Meta obj)"
    "hrp_Namespace obj' = hrp_Namespace obj"
  using patch_hrp [OF assms] by (auto simp: hrp_GetAnnotations_def)

lemma patch_hcp_meta:
  assumes "k_patch_hcp K before obj owned k = (e, obj', k')"
  shows "hcp_Spec obj' = hcp_Spec obj" "hcp_GetConditions obj' = hcp_GetConditions obj"
    "m_Finalizers (hcp_Meta obj') = m_Finalizers (hcp_Meta obj)"
    "m_DeletionTimestamp (hcp_Meta obj') = m_DeletionTimestamp (hcp_Meta obj)"
    "hcp_Namespace obj' = hcp_Namespace obj" "hcp_Name obj' = hcp_Name obj"
  using patch_hcp [OF assms] by auto

end

text \<open>
  The API server as a store of release proxies: \<open>valid\<close> are the well-formed states of the server,
  \<open>view\<close> says which release proxies a state holds, and with which labels. A create adds a fresh
  key in the object's namespace with the object's labels, or nothing; an update or a patch with
  the stored labels and a delete add no proxy and change no labels; lists are complete.
\<close>

definition hrp_key :: "HelmReleaseProxy \<Rightarrow> nsname" where
  "hrp_key r = meta_key (hrp_Meta r)"

locale proxy_store = kube_api K
  for K :: "'k kube" +
  fixes valid :: "'k \<Rightarrow> bool" and view :: "'k \<Rightarrow> nsname \<rightharpoonup> labels"
  assumes store_list: "valid k \<Longrightarrow> k_list_hrps K ns ls k = Inr rs \<Longrightarrow>
      distinct (map hrp_key rs) \<and> (\<forall>r \<in> set rs. view k (hrp_key r) = Some (m_Labels (hrp_Meta r))) \<and>
      (\<forall>key l. view k key = Some l \<and> nn_Namespace key = ns \<and> ls \<subseteq>\<^sub>m l \<longrightarrow> key \<in> hrp_key ` set rs)"
    and store_get: "valid k \<Longrightarrow> k_get_hrp K key k = Inr r \<Longrightarrow> view k key = Some (m_Labels (hrp_Meta r))"
    and store_create: "valid k \<Longrightarrow> k_create_hrp K r k = (e, k') \<Longrightarrow>
      valid k' \<and> (view k' = view k \<or> (\<exists>key. view k key = None \<and> nn_Namespace key = hrp_Namespace r \<and>
        view k' = (view k)(key \<mapsto> m_Labels (hrp_Meta r))))"
    and store_update: "valid k \<Longrightarrow> k_update_hrp K r k = (e, k') \<Longrightarrow>
      (\<forall>l. view k (hrp_key r) = Some l \<longrightarrow> l = m_Labels (hrp_Meta r)) \<Longrightarrow> valid k' \<and> view k' \<subseteq>\<^sub>m view k"
    and store_delete: "valid k \<Longrightarrow> k_delete_hrp K r k = (e, k') \<Longrightarrow> valid k' \<and> view k' \<subseteq>\<^sub>m view k"
    and store_patch_hrp: "valid k \<Longrightarrow> k_patch_hrp K before r owned k = (e, r', k') \<Longrightarrow>
      (\<forall>l. view k (hrp_key r) = Some l \<longrightarrow> l = m_Labels (hrp_Meta r)) \<Longrightarrow> valid k' \<and> view k' \<subseteq>\<^sub>m view k"
    and store_patch_hcp: "valid k \<Longrightarrow> k_patch_hcp K cbefore c owned k = (e, c', k') \<Longrightarrow>
      valid k' \<and> view k' = view k"

end
