(* ===== verification/Sim_Env.thy ===== *)
theory Sim_Env
  imports Env
begin

text \<open>
  A concrete environment for the parameters of the model: an in-memory API server with
  generated names, generations, deletion timestamps and finalizers; the helper packages;
  and a Helm store that keeps the revisions of every release. It shows that the contracts
  of \<open>Env\<close> can be met, it instantiates the parameters in the witnesses, and the system
  level theorems run the controllers on it. It models no code of the repository.
\<close>

section \<open>API server\<close>

record sim_kube =
  sk_hcps :: "HelmChartProxy list"
  sk_hrps :: "HelmReleaseProxy list"
  sk_clusters :: "Cluster list"
  sk_secrets :: "(nsname \<times> labels) list"
  sk_fresh :: nat

definition sim_empty :: sim_kube where
  "sim_empty = \<lparr>sk_hcps = [], sk_hrps = [], sk_clusters = [], sk_secrets = [], sk_fresh = 0\<rparr>"

definition sim_not_found :: go_error where
  "sim_not_found = ApiError NotFound ''not found''"

definition sim_find :: "('a \<Rightarrow> ObjectMeta) \<Rightarrow> nsname \<Rightarrow> 'a list \<Rightarrow> 'a res" where
  "sim_find meta key xs =
     (case find (\<lambda>x. meta_key (meta x) = key) xs of None \<Rightarrow> Inl sim_not_found | Some x \<Rightarrow> Inr x)"

definition sim_replace :: "('a \<Rightarrow> ObjectMeta) \<Rightarrow> 'a \<Rightarrow> 'a list \<Rightarrow> 'a list" where
  "sim_replace meta y xs = map (\<lambda>x. if meta_key (meta x) = meta_key (meta y) then y else x) xs"

definition sim_drop :: "('a \<Rightarrow> ObjectMeta) \<Rightarrow> nsname \<Rightarrow> 'a list \<Rightarrow> 'a list" where
  "sim_drop meta key xs = filter (\<lambda>x. meta_key (meta x) \<noteq> key) xs"

definition sim_secret :: "nsname \<Rightarrow> sim_kube \<Rightarrow> labels res" where
  "sim_secret key k =
     (case map_of (sk_secrets k) key of None \<Rightarrow> Inl sim_not_found | Some d \<Rightarrow> Inr d)"

definition sim_list :: "('a \<Rightarrow> ObjectMeta) \<Rightarrow> string \<Rightarrow> (labels \<Rightarrow> bool) \<Rightarrow> 'a list \<Rightarrow> 'a list res" where
  "sim_list meta ns sel xs = Inr (filter (\<lambda>x. m_Namespace (meta x) = ns \<and> sel (m_Labels (meta x))) xs)"

definition sim_create_hrp :: "HelmReleaseProxy \<Rightarrow> sim_kube \<Rightarrow> go_error option \<times> sim_kube" where
  "sim_create_hrp r k =
     (let m = hrp_Meta r;
          name = (if m_Name m = [] then m_GenerateName m @ replicate (sk_fresh k) CHR ''x'' else m_Name m);
          r' = r\<lparr>hrp_Meta := m\<lparr>m_Name := name, m_Generation := 1\<rparr>\<rparr>
      in if list_ex (\<lambda>x. meta_key (hrp_Meta x) = meta_key (hrp_Meta r')) (sk_hrps k)
         then (Some (ApiError AlreadyExists ''already exists''), k)
         else (None, k\<lparr>sk_hrps := sk_hrps k @ [r'], sk_fresh := Suc (sk_fresh k)\<rparr>))"

text \<open>A change of the spec raises the generation.\<close>

definition sim_bump_hrp :: "HelmReleaseProxy \<Rightarrow> HelmReleaseProxy \<Rightarrow> HelmReleaseProxy" where
  "sim_bump_hrp old new =
     new\<lparr>hrp_Meta := (hrp_Meta new)\<lparr>m_Generation :=
       (if hrp_Spec old = hrp_Spec new then m_Generation (hrp_Meta old)
        else m_Generation (hrp_Meta old) + 1)\<rparr>\<rparr>"

definition sim_update_hrp :: "HelmReleaseProxy \<Rightarrow> sim_kube \<Rightarrow> go_error option \<times> sim_kube" where
  "sim_update_hrp r k =
     (case sim_find hrp_Meta (meta_key (hrp_Meta r)) (sk_hrps k) of
        Inl e \<Rightarrow> (Some e, k)
      | Inr old \<Rightarrow> (None, k\<lparr>sk_hrps := sim_replace hrp_Meta (sim_bump_hrp old r) (sk_hrps k)\<rparr>))"

definition sim_delete_hrp :: "HelmReleaseProxy \<Rightarrow> sim_kube \<Rightarrow> go_error option \<times> sim_kube" where
  "sim_delete_hrp r k =
     (case sim_find hrp_Meta (meta_key (hrp_Meta r)) (sk_hrps k) of
        Inl e \<Rightarrow> (Some e, k)
      | Inr old \<Rightarrow>
          (if m_Finalizers (hrp_Meta old) = []
           then (None, k\<lparr>sk_hrps := sim_drop hrp_Meta (meta_key (hrp_Meta r)) (sk_hrps k)\<rparr>)
           else (None, k\<lparr>sk_hrps := sim_replace hrp_Meta
                   (old\<lparr>hrp_Meta := (hrp_Meta old)\<lparr>m_DeletionTimestamp := Some 1\<rparr>\<rparr>) (sk_hrps k)\<rparr>)))"

definition sim_patch_hrp ::
  "HelmReleaseProxy \<Rightarrow> HelmReleaseProxy \<Rightarrow> string list \<Rightarrow> sim_kube
     \<Rightarrow> go_error option \<times> HelmReleaseProxy \<times> sim_kube" where
  "sim_patch_hrp before obj owned k =
     (let obj' = obj\<lparr>hrp_Status := (hrp_Status obj)\<lparr>rt_ObservedGeneration := m_Generation (hrp_Meta obj)\<rparr>\<rparr>
      in case sim_find hrp_Meta (meta_key (hrp_Meta obj)) (sk_hrps k) of
           Inl e \<Rightarrow> (Some e, obj', k)
         | Inr old \<Rightarrow>
             (if m_DeletionTimestamp (hrp_Meta old) \<noteq> None \<and> m_Finalizers (hrp_Meta obj) = []
              then (None, obj', k\<lparr>sk_hrps := sim_drop hrp_Meta (meta_key (hrp_Meta obj)) (sk_hrps k)\<rparr>)
              else (None, obj', k\<lparr>sk_hrps := sim_replace hrp_Meta (sim_bump_hrp old obj') (sk_hrps k)\<rparr>)))"

definition sim_patch_hcp ::
  "HelmChartProxy \<Rightarrow> HelmChartProxy \<Rightarrow> string list \<Rightarrow> sim_kube
     \<Rightarrow> go_error option \<times> HelmChartProxy \<times> sim_kube" where
  "sim_patch_hcp before obj owned k =
     (let obj' = obj\<lparr>hcp_Status := (hcp_Status obj)\<lparr>ct_ObservedGeneration := m_Generation (hcp_Meta obj)\<rparr>\<rparr>
      in case sim_find hcp_Meta (meta_key (hcp_Meta obj)) (sk_hcps k) of
           Inl e \<Rightarrow> (Some e, obj', k)
         | Inr old \<Rightarrow>
             (if m_DeletionTimestamp (hcp_Meta old) \<noteq> None \<and> m_Finalizers (hcp_Meta obj) = []
              then (None, obj', k\<lparr>sk_hcps := sim_drop hcp_Meta (meta_key (hcp_Meta obj)) (sk_hcps k)\<rparr>)
              else (None, obj', k\<lparr>sk_hcps := sim_replace hcp_Meta obj' (sk_hcps k)\<rparr>)))"

definition sim_kube_ops :: "sim_kube kube" where
  "sim_kube_ops =
     \<lparr>k_get_hcp = (\<lambda>key k. sim_find hcp_Meta key (sk_hcps k)),
      k_get_hrp = (\<lambda>key k. sim_find hrp_Meta key (sk_hrps k)),
      k_get_cluster = (\<lambda>key k. sim_find cl_Meta key (sk_clusters k)),
      k_get_secret = sim_secret,
      k_list_clusters = (\<lambda>ns sel k. sim_list cl_Meta ns sel (sk_clusters k)),
      k_list_hrps = (\<lambda>ns ls k. sim_list hrp_Meta ns (\<lambda>l. ls \<subseteq>\<^sub>m l) (sk_hrps k)),
      k_list_hcps = (\<lambda>ns k. sim_list hcp_Meta ns (\<lambda>_. True) (sk_hcps k)),
      k_create_hrp = sim_create_hrp, k_update_hrp = sim_update_hrp, k_delete_hrp = sim_delete_hrp,
      k_new_helper_hcp = (\<lambda>_ _. None), k_new_helper_hrp = (\<lambda>_ _. None),
      k_patch_hcp = sim_patch_hcp, k_patch_hrp = sim_patch_hrp\<rparr>"

section \<open>Helper packages\<close>

fun sim_set :: "Condition list \<Rightarrow> Condition \<Rightarrow> Condition list" where
  "sim_set [] c = [c]"
| "sim_set (d # ds) c = (if c_Type d = c_Type c then c # ds else d # sim_set ds c)"

definition sim_is_true :: "Condition list \<Rightarrow> string \<Rightarrow> bool" where
  "sim_is_true cs t =
     (case get_condition cs t of None \<Rightarrow> False | Some c \<Rightarrow> c_Status c = ConditionTrue)"

definition sim_mk :: "string \<Rightarrow> bool \<Rightarrow> Condition" where
  "sim_mk t b = \<lparr>c_Type = t, c_Status = (if b then ConditionTrue else ConditionFalse),
     c_Reason = (if b then ''Ready'' else ''NotReady''), c_Message = []\<rparr>"

definition sim_requirement :: "LabelSelectorRequirement \<Rightarrow> (labels \<Rightarrow> bool) res" where
  "sim_requirement r =
     (if lr_Operator r = ''In'' then Inr (\<lambda>l. \<exists>v \<in> set (lr_Values r). l (lr_Key r) = Some v)
      else if lr_Operator r = ''NotIn'' then Inr (\<lambda>l. \<not> (\<exists>v \<in> set (lr_Values r). l (lr_Key r) = Some v))
      else if lr_Operator r = ''Exists'' then Inr (\<lambda>l. l (lr_Key r) \<noteq> None)
      else if lr_Operator r = ''DoesNotExist'' then Inr (\<lambda>l. l (lr_Key r) = None)
      else Inl (Errorf (lr_Operator r @ '' is not a valid label selector operator'')))"

fun sim_requirements :: "LabelSelectorRequirement list \<Rightarrow> (labels \<Rightarrow> bool) res" where
  "sim_requirements [] = Inr (\<lambda>_. True)"
| "sim_requirements (r # rs) =
     (case sim_requirement r of Inl e \<Rightarrow> Inl e
      | Inr p \<Rightarrow> (case sim_requirements rs of Inl e \<Rightarrow> Inl e | Inr q \<Rightarrow> Inr (\<lambda>l. p l \<and> q l)))"

definition sim_selector :: "LabelSelector \<Rightarrow> (labels \<Rightarrow> bool) res" where
  "sim_selector s =
     (case sim_requirements (ls_MatchExpressions s) of
        Inl e \<Rightarrow> Inl e
      | Inr p \<Rightarrow> Inr (\<lambda>l. ls_MatchLabels s \<subseteq>\<^sub>m l \<and> p l))"

definition sim_capi :: "sim_kube capi" where
  "sim_capi =
     \<lparr>p_set = sim_set,
      p_summary = (\<lambda>cs tgt ts. Inr (sim_set cs (sim_mk tgt (list_all (sim_is_true cs) ts)))),
      p_aggregate = (\<lambda>m gs cs src tgt.
        Inr (sim_set cs (sim_mk tgt (list_all (\<lambda>g. sim_is_true (hrp_GetConditions g) src) gs)))),
      p_default_merge = (\<lambda>op cs ts. (ConditionTrue, ''Ready'', [], None)),
      p_is_paused = (\<lambda>cl c. cl_Paused cl = Some True \<or>
        m_Annotations (hcp_Meta c) ''cluster.x-k8s.io/paused'' \<noteq> None),
      p_has_finalizer = (\<lambda>fs f. f \<in> set fs),
      p_add_finalizer = (\<lambda>fs f. if f \<in> set fs then fs else fs @ [f]),
      p_remove_finalizer = (\<lambda>fs f. removeAll f fs),
      p_ensure_owner = (\<lambda>os r. if r \<in> set os then os else os @ [r]),
      p_controller_ref = (\<lambda>c. \<lparr>or_APIVersion = ''addons.cluster.x-k8s.io/v1alpha1'',
        or_Kind = ''HelmChartProxy'', or_Name = hcp_Name c, or_UID = m_UID (hcp_Meta c),
        or_Controller = Some True, or_BlockOwnerDeletion = Some True\<rparr>),
      p_selector = sim_selector,
      p_kubeconfig = (\<lambda>key k.
        (case sim_secret (key\<lparr>nn_Name := nn_Name key @ ''-kubeconfig''\<rparr>) k of
           Inl e \<Rightarrow> Inl e
         | Inr d \<Rightarrow> (case d ''value'' of None \<Rightarrow> Inl (Errorf ''missing key value in secret data'')
                      | Some v \<Rightarrow> Inr v))),
      p_rest_config = (\<lambda>kc. Inr \<lparr>rc_Host = kc, rc_BearerToken = [], rc_UserAgent = [],
        rc_Timeout = 0, rc_Data = []\<rparr>),
      p_user_agent = (\<lambda>n. n),
      p_unstructured = (\<lambda>cl. Inr (cl_Namespace cl @ ''/'' @ cl_Name cl)),
      p_external = (\<lambda>ref ns k. Inr (cv_Kind ref @ ''/'' @ cv_Name ref))\<rparr>"

section \<open>Helm store\<close>

text \<open>Revisions of the releases, newest last; the charts by the path they are found at.\<close>

record sim_helm =
  sh_releases :: "string Release list"
  sh_charts :: "(string \<times> Chart) list"

definition sim_history :: "string \<Rightarrow> sim_helm \<Rightarrow> string Release list" where
  "sim_history name h = filter (\<lambda>r. rel_Name r = name) (sh_releases h)"

definition sim_get :: "string \<Rightarrow> sim_helm \<Rightarrow> string Release res" where
  "sim_get name h =
     (if sim_history name h = [] then Inl ErrReleaseNotFound else Inr (last (sim_history name h)))"

definition sim_store_update :: "string Release \<Rightarrow> sim_helm \<Rightarrow> go_error option \<times> sim_helm" where
  "sim_store_update r h =
     (None, h\<lparr>sh_releases := map (\<lambda>x. if rel_Name x = rel_Name r \<and> rel_Version x = rel_Version r
                                          then r else x) (sh_releases h)\<rparr>)"

definition sim_run_install ::
  "Install \<Rightarrow> Chart option \<Rightarrow> string \<Rightarrow> sim_helm \<Rightarrow> (string Release option \<times> go_error option) \<times> sim_helm" where
  "sim_run_install c ch vals h =
     (if sim_history (in_ReleaseName c) h \<noteq> []
      then ((None, Some (Errorf ''cannot re-use a name that is still in use'')), h)
      else let r = \<lparr>rel_Name = in_ReleaseName c, rel_Version = 1, rel_Status = StatusDeployed,
                    rel_Chart = ch, rel_Config = vals\<rparr>
           in ((Some r, None), h\<lparr>sh_releases := sh_releases h @ [r]\<rparr>))"

definition sim_run_upgrade ::
  "Upgrade \<Rightarrow> string \<Rightarrow> Chart \<Rightarrow> string \<Rightarrow> sim_helm \<Rightarrow> (string Release option \<times> go_error option) \<times> sim_helm" where
  "sim_run_upgrade c name ch vals h =
     (case sim_get name h of
        Inl e \<Rightarrow> ((None, Some e), h)
      | Inr old \<Rightarrow>
          let r = \<lparr>rel_Name = name, rel_Version = rel_Version old + 1, rel_Status = StatusDeployed,
                   rel_Chart = Some ch, rel_Config = vals\<rparr>
          in ((Some r, None), h\<lparr>sh_releases := sh_releases h @ [r]\<rparr>))"

definition sim_run_uninstall :: "Uninstall \<Rightarrow> string \<Rightarrow> sim_helm \<Rightarrow> string res \<times> sim_helm" where
  "sim_run_uninstall c name h =
     (if sim_history name h = [] then (Inl ErrReleaseNotFound, h)
      else (Inr [], h\<lparr>sh_releases := filter (\<lambda>r. rel_Name r \<noteq> name) (sh_releases h)\<rparr>))"

definition sim_new_install :: "Configuration \<Rightarrow> Install" where
  "sim_new_install cfg =
     \<lparr>in_Cfg = cfg, in_Registry = None, in_DisableHooks = False, in_Wait = False, in_WaitForJobs = False,
      in_DependencyUpdate = False, in_Timeout = 0, in_SkipCRDs = False, in_SubNotes = False,
      in_DisableOpenAPIValidation = False, in_Atomic = False, in_IncludeCRDs = False,
      in_CreateNamespace = False, in_TakeOwnership = False, in_RepoURL = [], in_Version = [],
      in_Namespace = [], in_ReleaseName = [], in_GenerateName = False\<rparr>"

definition sim_new_upgrade :: "Configuration \<Rightarrow> Upgrade" where
  "sim_new_upgrade cfg =
     \<lparr>up_Cfg = cfg, up_Registry = None, up_DisableHooks = False, up_Wait = False, up_WaitForJobs = False,
      up_Timeout = 0, up_SkipCRDs = False, up_SubNotes = False, up_DisableOpenAPIValidation = False,
      up_Atomic = False, up_Force = False, up_ResetValues = False, up_ReuseValues = False,
      up_ResetThenReuseValues = False, up_Recreate = False, up_MaxHistory = 0,
      up_CleanupOnFail = False, up_TakeOwnership = False, up_RepoURL = [], up_Version = [],
      up_Namespace = []\<rparr>"

definition sim_new_uninstall :: "Configuration \<Rightarrow> Uninstall" where
  "sim_new_uninstall cfg =
     \<lparr>un_Cfg = cfg, un_DisableHooks = False, un_Wait = False, un_Timeout = 0, un_KeepHistory = False,
      un_Description = []\<rparr>"

definition sim_helm_lib :: "(sim_helm, string) helm_lib" where
  "sim_helm_lib =
     \<lparr>h_new_settings = \<lparr>es_RegistryConfig = []\<rparr>,
      h_init = (\<lambda>_ _ _ _. None),
      h_get = (\<lambda>_. sim_get),
      h_list = (\<lambda>_ h. Inr (sh_releases h)),
      h_last = (\<lambda>_. sim_get),
      h_update = (\<lambda>_. sim_store_update),
      h_is_pending = (\<lambda>st. st \<in> {''pending-install'', ''pending-upgrade'', ''pending-rollback''}),
      h_is_oci = (\<lambda>u. HasPrefix u ''oci://''),
      h_certs_from_pem = (\<lambda>b. if b = [] then [] else [b]),
      h_new_registry = (\<lambda>_ _. None),
      h_new_install = sim_new_install, h_new_upgrade = sim_new_upgrade,
      h_new_uninstall = sim_new_uninstall,
      h_name_and_chart = (\<lambda>c args h. Inr (concat args @ ''-'' @ replicate (length (sh_releases h)) CHR ''x'')),
      h_locate_install = (\<lambda>c name se h. Inr name),
      h_locate_upgrade = (\<lambda>c name se h. Inr name),
      h_merge_values = (\<lambda>se fs files.
        (case fs of f # _ \<Rightarrow> (case files f of None \<Rightarrow> Inl ErrNotExist | Some d \<Rightarrow> Inr d) | [] \<Rightarrow> Inr [])),
      h_load = (\<lambda>cp h. (case map_of (sh_charts h) cp of
        None \<Rightarrow> Inl (Errorf ''chart not found'') | Some ch \<Rightarrow> Inr (Some ch))),
      h_yaml = Inr,
      h_run_install = sim_run_install, h_run_upgrade = sim_run_upgrade,
      h_run_uninstall = sim_run_uninstall,
      h_run_rollback = (\<lambda>_ _ h. (None, h))\<rparr>"

definition sim_os :: os_state where
  "sim_os = \<lparr>os_TempDir = ''/tmp'', os_files = Map.empty, os_random = (\<lambda>n. replicate n CHR ''r''),
     os_draws = 0, os_faults = (\<lambda>_. None), os_calls = 0\<rparr>"

section \<open>The contracts hold\<close>

lemma get_condition_sim_set:
  "get_condition (sim_set cs c) t = (if t = c_Type c then Some c else get_condition cs t)"
  by (induction cs) (auto simp: get_condition_def)

lemma sim_set_nonempty: "sim_set cs c \<noteq> []"
  by (cases cs) auto

lemma sim_mk_Type [simp]: "c_Type (sim_mk t b) = t"
  by (simp add: sim_mk_def)

interpretation sim: capi_laws sim_capi
  by unfold_locales
    (auto simp: sim_capi_def get_condition_sim_set sim_set_nonempty)

lemma sim_find_key: "sim_find meta key xs = Inr x \<Longrightarrow> meta_key (meta x) = key \<and> x \<in> set xs"
  by (auto simp: sim_find_def find_Some_iff split: option.splits)

lemma sim_list_set:
  "sim_list meta ns sel xs = Inr ys \<longleftrightarrow>
     ys = filter (\<lambda>x. m_Namespace (meta x) = ns \<and> sel (m_Labels (meta x))) xs"
  by (auto simp: sim_list_def)

lemma meta_stamp: "\<exists>v g. (m :: ObjectMeta) = m\<lparr>m_ResourceVersion := v, m_Generation := g\<rparr>"
  by (rule exI [of _ "m_ResourceVersion m"], rule exI [of _ "m_Generation m"]) simp

lemma sim_patch_hrp_frame:
  "sim_patch_hrp before obj owned k = (e, obj', k') \<Longrightarrow>
     hrp_Spec obj' = hrp_Spec obj \<and> hrp_GetConditions obj' = hrp_GetConditions obj \<and> hrp_Meta obj' = hrp_Meta obj"
  by (auto simp: sim_patch_hrp_def Let_def api_defs split: sum.splits if_splits)

lemma sim_patch_hcp_frame:
  "sim_patch_hcp before obj owned k = (e, obj', k') \<Longrightarrow>
     hcp_Spec obj' = hcp_Spec obj \<and> hcp_GetConditions obj' = hcp_GetConditions obj \<and> hcp_Meta obj' = hcp_Meta obj"
  by (auto simp: sim_patch_hcp_def Let_def api_defs split: sum.splits if_splits)

interpretation sim: kube_api sim_kube_ops
  by unfold_locales
    (auto simp: sim_kube_ops_def sim_list_set meta_stamp
      dest!: sim_find_key sim_patch_hrp_frame sim_patch_hcp_frame)

text \<open>A sample cluster.\<close>

definition ex_cluster :: "string \<Rightarrow> Cluster" where
  "ex_cluster name =
     \<lparr>cl_Kind = ''Cluster'', cl_APIVersion = ''cluster.x-k8s.io/v1beta2'',
      cl_Meta = zero_meta\<lparr>m_Name := name, m_Namespace := ''team''\<rparr>, cl_Paused = None,
      cl_ControlPlaneRef = \<lparr>cv_APIGroup = [], cv_Kind = ''KubeadmControlPlane'', cv_Name = name\<rparr>,
      cl_InfrastructureRef = \<lparr>cv_APIGroup = [], cv_Kind = [], cv_Name = []\<rparr>,
      cl_ControlPlaneInitialized = Some True\<rparr>"

section \<open>The store of release proxies\<close>

definition sim_valid :: "sim_kube \<Rightarrow> bool" where
  "sim_valid k = distinct (map hrp_key (sk_hrps k))"

definition sim_view :: "sim_kube \<Rightarrow> nsname \<rightharpoonup> labels" where
  "sim_view k = map_of (map (\<lambda>r. (hrp_key r, m_Labels (hrp_Meta r))) (sk_hrps k))"

abbreviation proxies_of :: "HelmReleaseProxy list \<Rightarrow> nsname \<rightharpoonup> labels" where
  "proxies_of rs \<equiv> map_of (map (\<lambda>r. (hrp_key r, m_Labels (hrp_Meta r))) rs)"

lemma view_mem: "distinct (map hrp_key rs) \<Longrightarrow>
    proxies_of rs key = Some l \<longleftrightarrow> (\<exists>r \<in> set rs. hrp_key r = key \<and> m_Labels (hrp_Meta r) = l)"
  by (induction rs) (auto, metis image_eqI)

lemma sim_replace_absent: "hrp_key y \<notin> hrp_key ` set rs \<Longrightarrow> sim_replace hrp_Meta y rs = rs"
  by (induction rs) (auto simp: sim_replace_def hrp_key_def)

lemma view_replace:
  "distinct (map hrp_key rs) \<Longrightarrow>
     (\<forall>l. proxies_of rs (hrp_key y) = Some l \<longrightarrow> l = m_Labels (hrp_Meta y)) \<Longrightarrow>
     proxies_of (sim_replace hrp_Meta y rs) = proxies_of rs"
proof (induction rs)
  case (Cons x xs)
  show ?case
  proof (cases "hrp_key x = hrp_key y")
    case True
    then have "sim_replace hrp_Meta y xs = xs"
      using Cons.prems(1) by (intro sim_replace_absent) simp
    with True Cons.prems show ?thesis by (simp add: sim_replace_def hrp_key_def)
  next
    case False
    with Cons show ?thesis by (simp add: sim_replace_def hrp_key_def)
  qed
qed (simp add: sim_replace_def)

lemma keys_replace: "map hrp_key (sim_replace hrp_Meta y rs) = map hrp_key rs"
  by (induction rs) (auto simp: sim_replace_def hrp_key_def)

lemma view_drop:
  assumes "distinct (map hrp_key rs)"
  shows "proxies_of (sim_drop hrp_Meta key rs) \<subseteq>\<^sub>m proxies_of rs"
proof -
  have "distinct (map hrp_key (sim_drop hrp_Meta key rs))"
    using assms by (simp add: sim_drop_def distinct_map_filter)
  then have "proxies_of (sim_drop hrp_Meta key rs) x = Some l \<Longrightarrow> proxies_of rs x = Some l" for x l
    using assms by (auto simp: view_mem sim_drop_def)
  then show ?thesis by (auto simp: map_le_def dom_def)
qed

lemma sim_find_hrp: "sim_find hrp_Meta key rs = Inr r \<Longrightarrow> hrp_key r = key \<and> r \<in> set rs"
  by (simp add: hrp_key_def sim_find_key)

lemma sim_view_find:
  "sim_valid k \<Longrightarrow> sim_find hrp_Meta key (sk_hrps k) = Inr r \<Longrightarrow>
     sim_view k key = Some (m_Labels (hrp_Meta r)) \<and> hrp_key r = key"
  by (auto simp: sim_valid_def sim_view_def view_mem dest!: sim_find_hrp)

lemma sim_bump_frame [simp]:
  "hrp_key (sim_bump_hrp ob r) = hrp_key r" "m_Labels (hrp_Meta (sim_bump_hrp ob r)) = m_Labels (hrp_Meta r)"
  "hrp_key (r\<lparr>hrp_Status := st\<rparr>) = hrp_key r"
  by (simp_all add: sim_bump_hrp_def hrp_key_def meta_key_def)

lemma view_append:
  "hrp_key y \<notin> hrp_key ` set rs \<Longrightarrow> proxies_of (rs @ [y]) = (proxies_of rs)(hrp_key y \<mapsto> m_Labels (hrp_Meta y))"
  by (induction rs) (auto simp: fun_upd_twist)

lemma view_absent: "key \<notin> hrp_key ` set rs \<Longrightarrow> proxies_of rs key = None"
  by (induction rs) auto

lemma sim_create_store:
  assumes "sim_valid k" and "sim_create_hrp r k = (e, k')"
  shows "sim_valid k' \<and> (sim_view k' = sim_view k \<or> (\<exists>key. sim_view k key = None \<and>
      nn_Namespace key = hrp_Namespace r \<and> sim_view k' = (sim_view k)(key \<mapsto> m_Labels (hrp_Meta r))))"
proof -
  define nm where "nm = (if m_Name (hrp_Meta r) = []
    then m_GenerateName (hrp_Meta r) @ replicate (sk_fresh k) CHR ''x'' else m_Name (hrp_Meta r))"
  let ?r = "r\<lparr>hrp_Meta := (hrp_Meta r)\<lparr>m_Name := nm, m_Generation := 1\<rparr>\<rparr>"
  have c: "(e, k') = (if list_ex (\<lambda>x. hrp_key x = hrp_key ?r) (sk_hrps k)
      then (Some (ApiError AlreadyExists ''already exists''), k)
      else (None, k\<lparr>sk_hrps := sk_hrps k @ [?r], sk_fresh := Suc (sk_fresh k)\<rparr>))"
    using assms(2) unfolding sim_create_hrp_def Let_def nm_def [symmetric] hrp_key_def by (rule sym)
  consider "k' = k" | "hrp_key ?r \<notin> hrp_key ` set (sk_hrps k)"
      "k' = k\<lparr>sk_hrps := sk_hrps k @ [?r], sk_fresh := Suc (sk_fresh k)\<rparr>"
  proof (cases "list_ex (\<lambda>x. hrp_key x = hrp_key ?r) (sk_hrps k)")
    case True
    with c that(1) show thesis by simp
  next
    case False
    then have "hrp_key ?r \<notin> hrp_key ` set (sk_hrps k)" by (auto simp: list_ex_iff)
    with c False that(2) show thesis by simp
  qed
  then show ?thesis
  proof cases
    case 2
    have "nn_Namespace (hrp_key ?r) = hrp_Namespace r" by (simp add: hrp_key_def meta_key_def)
    moreover have "sim_view k (hrp_key ?r) = None" using 2(1) by (simp add: sim_view_def view_absent)
    moreover have "sim_view k' = (sim_view k)(hrp_key ?r \<mapsto> m_Labels (hrp_Meta r))"
      using view_append [OF 2(1)] 2(2) by (simp add: sim_view_def)
    moreover have "sim_valid k'" using 2 assms(1) by (simp add: sim_valid_def)
    ultimately show ?thesis by blast
  qed (use assms in simp)
qed

lemma sim_replace_store:
  assumes "sim_valid k" and "\<forall>l. sim_view k (hrp_key y) = Some l \<longrightarrow> l = m_Labels (hrp_Meta y)"
  shows "sim_valid (k\<lparr>sk_hrps := sim_replace hrp_Meta y (sk_hrps k)\<rparr>) \<and>
    sim_view (k\<lparr>sk_hrps := sim_replace hrp_Meta y (sk_hrps k)\<rparr>) = sim_view k"
  using assms view_replace [of "sk_hrps k" y] by (simp add: sim_valid_def sim_view_def keys_replace)

lemma sim_drop_store:
  assumes "sim_valid k"
  shows "sim_valid (k\<lparr>sk_hrps := sim_drop hrp_Meta key (sk_hrps k)\<rparr>) \<and>
    sim_view (k\<lparr>sk_hrps := sim_drop hrp_Meta key (sk_hrps k)\<rparr>) \<subseteq>\<^sub>m sim_view k"
  using assms view_drop [of "sk_hrps k" key]
  by (simp add: sim_valid_def sim_view_def) (simp add: sim_drop_def distinct_map_filter)

interpretation sim_store: proxy_store sim_kube_ops sim_valid sim_view
proof unfold_locales
  fix k :: sim_kube and ns ls rs
  assume v: "sim_valid k" and l: "k_list_hrps sim_kube_ops ns ls k = Inr rs"
  have rs: "rs = filter (\<lambda>r. hrp_Namespace r = ns \<and> ls \<subseteq>\<^sub>m m_Labels (hrp_Meta r)) (sk_hrps k)"
    using l by (simp add: sim_kube_ops_def sim_list_def)
  show "distinct (map hrp_key rs) \<and> (\<forall>r \<in> set rs. sim_view k (hrp_key r) = Some (m_Labels (hrp_Meta r))) \<and>
      (\<forall>key l. sim_view k key = Some l \<and> nn_Namespace key = ns \<and> ls \<subseteq>\<^sub>m l \<longrightarrow> key \<in> hrp_key ` set rs)"
    using v unfolding rs
    by (auto simp: sim_valid_def sim_view_def view_mem distinct_map_filter)
      (auto simp: hrp_key_def meta_key_def image_iff)
next
  fix k :: sim_kube and key r
  assume "sim_valid k" "k_get_hrp sim_kube_ops key k = Inr r"
  then show "sim_view k key = Some (m_Labels (hrp_Meta r))"
    by (simp add: sim_kube_ops_def sim_view_find)
next
  fix k k' :: sim_kube and r e
  assume "sim_valid k" "k_create_hrp sim_kube_ops r k = (e, k')"
  then show "sim_valid k' \<and> (sim_view k' = sim_view k \<or> (\<exists>key. sim_view k key = None \<and>
      nn_Namespace key = hrp_Namespace r \<and> sim_view k' = (sim_view k)(key \<mapsto> m_Labels (hrp_Meta r))))"
    by (intro sim_create_store) (simp_all add: sim_kube_ops_def)
next
  fix k k' :: sim_kube and r e
  assume v: "sim_valid k" and u: "k_update_hrp sim_kube_ops r k = (e, k')"
    and a: "\<forall>l. sim_view k (hrp_key r) = Some l \<longrightarrow> l = m_Labels (hrp_Meta r)"
  then show "sim_valid k' \<and> sim_view k' \<subseteq>\<^sub>m sim_view k"
    using sim_replace_store [OF v, of "sim_bump_hrp _ r"]
    by (auto simp: sim_kube_ops_def sim_update_hrp_def split: sum.splits)
next
  fix k k' :: sim_kube and r e
  assume v: "sim_valid k" and d: "k_delete_hrp sim_kube_ops r k = (e, k')"
  have "sim_valid (k\<lparr>sk_hrps := sim_replace hrp_Meta (ob\<lparr>hrp_Meta := (hrp_Meta ob)\<lparr>m_DeletionTimestamp := Some 1\<rparr>\<rparr>) (sk_hrps k)\<rparr>) \<and>
      sim_view (k\<lparr>sk_hrps := sim_replace hrp_Meta (ob\<lparr>hrp_Meta := (hrp_Meta ob)\<lparr>m_DeletionTimestamp := Some 1\<rparr>\<rparr>) (sk_hrps k)\<rparr>) = sim_view k"
    if "sim_find hrp_Meta key (sk_hrps k) = Inr ob" for ob key
    by (rule sim_replace_store [OF v]) (use sim_view_find [OF v that] in \<open>simp add: hrp_key_def meta_key_def\<close>)
  then show "sim_valid k' \<and> sim_view k' \<subseteq>\<^sub>m sim_view k"
    using v d sim_drop_store [OF v]
    by (auto simp: sim_kube_ops_def sim_delete_hrp_def split: sum.splits if_splits)
next
  fix k k' :: sim_kube and before r owned e r'
  assume v: "sim_valid k" and u: "k_patch_hrp sim_kube_ops before r owned k = (e, r', k')"
    and a: "\<forall>l. sim_view k (hrp_key r) = Some l \<longrightarrow> l = m_Labels (hrp_Meta r)"
  let ?r = "r\<lparr>hrp_Status := (hrp_Status r)\<lparr>rt_ObservedGeneration := m_Generation (hrp_Meta r)\<rparr>\<rparr>"
  have "sim_valid (k\<lparr>sk_hrps := sim_replace hrp_Meta (sim_bump_hrp ob ?r) (sk_hrps k)\<rparr>) \<and>
      sim_view (k\<lparr>sk_hrps := sim_replace hrp_Meta (sim_bump_hrp ob ?r) (sk_hrps k)\<rparr>) = sim_view k" for ob
    by (rule sim_replace_store [OF v]) (use a in simp)
  then show "sim_valid k' \<and> sim_view k' \<subseteq>\<^sub>m sim_view k"
    using v u sim_drop_store [OF v]
    by (auto simp: sim_kube_ops_def sim_patch_hrp_def Let_def split: sum.splits if_splits)
next
  fix k k' :: sim_kube and before c owned e c'
  assume "sim_valid k" "k_patch_hcp sim_kube_ops before c owned k = (e, c', k')"
  then show "sim_valid k' \<and> sim_view k' = sim_view k"
    by (auto simp: sim_kube_ops_def sim_patch_hcp_def Let_def sim_valid_def sim_view_def split: sum.splits if_splits)
qed

end
