(* ===== verification/Go_Url.thy ===== *)
theory Go_Url
  imports Go_Std
begin

text \<open>
  The \<^verbatim>\<open>net/url\<close> package as far as the code uses it: \<^verbatim>\<open>url.Parse\<close>, \<^verbatim>\<open>url.ParseRequestURI\<close>,
  \<^verbatim>\<open>URL.Hostname\<close> and \<^verbatim>\<open>URL.String\<close>, with the scheme, authority, port, IP-literal and
  percent-escape rules of the library. Strings are byte strings. The texts of the
  library's own error messages are abbreviated; which inputs fail is not. The last section
  has the lemmas on plain URLs, those with nothing to escape: they parse to their parts, and
  joining a name to their path and printing them appends the name.
\<close>

section \<open>Bytes\<close>

abbreviation byte :: "char \<Rightarrow> nat" where
  "byte c \<equiv> of_char c"

definition is_digit :: "char \<Rightarrow> bool" where
  "is_digit c = (48 \<le> byte c \<and> byte c \<le> 57)"

definition is_lower :: "char \<Rightarrow> bool" where
  "is_lower c = (97 \<le> byte c \<and> byte c \<le> 122)"

definition is_upper :: "char \<Rightarrow> bool" where
  "is_upper c = (65 \<le> byte c \<and> byte c \<le> 90)"

definition is_alpha :: "char \<Rightarrow> bool" where
  "is_alpha c = (is_lower c \<or> is_upper c)"

definition is_hex :: "char \<Rightarrow> bool" where
  "is_hex c = (is_digit c \<or> (97 \<le> byte c \<and> byte c \<le> 102) \<or> (65 \<le> byte c \<and> byte c \<le> 70))"

definition unhex :: "char \<Rightarrow> nat" where
  "unhex c = (if is_digit c then byte c - 48 else if is_lower c then byte c - 87 else byte c - 55)"

definition upperhex :: "nat \<Rightarrow> char" where
  "upperhex n = (if n < 10 then char_of (n + 48) else char_of (n + 55))"

definition lower :: "char \<Rightarrow> char" where
  "lower c = (if is_upper c then char_of (byte c + 32) else c)"

definition ToLower :: "string \<Rightarrow> string" where
  "ToLower s = map lower s"

lemmas byte_defs =
  is_digit_def is_lower_def is_upper_def is_alpha_def is_hex_def unhex_def upperhex_def lower_def

section \<open>Escaping\<close>

datatype encoding = encodePath | encodeHost | encodeZone | encodeUserPassword | encodeFragment

definition shouldEscape :: "char \<Rightarrow> encoding \<Rightarrow> bool" where
  "shouldEscape c mode =
     (if is_alpha c \<or> is_digit c then False
      else if mode \<in> {encodeHost, encodeZone} \<and> c \<in> set ''!$&()*+,;=:[]<>'' \<union> {CHR 0x22, CHR 0x27}
      then False
      else if c \<in> set ''-_.~'' then False
      else if c \<in> set ''$&+,/:;=?@'' then
        (case mode of
           encodePath \<Rightarrow> c = CHR ''?''
         | encodeUserPassword \<Rightarrow> c \<in> set ''@/?:''
         | encodeFragment \<Rightarrow> False
         | _ \<Rightarrow> True)
      else if mode = encodeFragment \<and> c \<in> set ''!()*'' then False
      else True)"

fun unescape :: "encoding \<Rightarrow> string \<Rightarrow> string res" where
  "unescape mode [] = Inr []"
| "unescape mode (c # s) =
     (if c = CHR ''%'' then
        (case s of
           a # b # rest \<Rightarrow>
             (if \<not> is_hex a \<or> \<not> is_hex b then Inl (Errorf ''invalid URL escape'')
              else if mode = encodeHost \<and> unhex a < 8 \<and> [a, b] \<noteq> ''25''
              then Inl (Errorf ''invalid URL escape'')
              else if mode = encodeZone \<and> [a, b] \<noteq> ''25'' \<and> 16 * unhex a + unhex b \<noteq> 32 \<and>
                shouldEscape (char_of (16 * unhex a + unhex b)) encodeHost
              then Inl (Errorf ''invalid URL escape'')
              else map_sum id ((#) (char_of (16 * unhex a + unhex b))) (unescape mode rest))
         | _ \<Rightarrow> Inl (Errorf ''invalid URL escape''))
      else if mode \<in> {encodeHost, encodeZone} \<and> byte c < 128 \<and> shouldEscape c mode
      then Inl (Errorf ''invalid character in host name'')
      else map_sum id ((#) c) (unescape mode s))"

definition escape :: "encoding \<Rightarrow> string \<Rightarrow> string" where
  "escape mode s =
     concat (map (\<lambda>c. if shouldEscape c mode
                        then [CHR ''%'', upperhex (byte c div 16), upperhex (byte c mod 16)] else [c]) s)"

section \<open>Hosts\<close>

definition validOptionalPort :: "string \<Rightarrow> bool" where
  "validOptionalPort port =
     (case port of [] \<Rightarrow> True | c # ds \<Rightarrow> c = CHR '':'' \<and> list_all is_digit ds)"

text \<open>\<open>last_cut c s\<close> splits at the last occurrence of \<open>c\<close> (\<^verbatim>\<open>strings.LastIndex\<close>).\<close>

definition last_cut :: "char \<Rightarrow> string \<Rightarrow> (string \<times> string) option" where
  "last_cut c s = (case Cut (rev s) c of (b, a, f) \<Rightarrow> if f then Some (rev a, rev b) else None)"

definition first_cut :: "char \<Rightarrow> string \<Rightarrow> (string \<times> string) option" where
  "first_cut c s = (case Cut s c of (b, a, f) \<Rightarrow> if f then Some (b, a) else None)"

text \<open>\<^verbatim>\<open>netip.ParseAddr\<close> on the inside of an IP-literal: dotted quads, then the groups of an
  IPv6 address with at most one ellipsis, an embedded dotted quad and a zone.\<close>

fun dec_of :: "string \<Rightarrow> nat \<Rightarrow> nat" where
  "dec_of [] n = n"
| "dec_of (c # s) n = dec_of s (10 * n + (byte c - 48))"

definition ipv4_field :: "string \<Rightarrow> bool" where
  "ipv4_field f = (f \<noteq> [] \<and> list_all is_digit f \<and> dec_of f 0 \<le> 255 \<and> (length f > 1 \<longrightarrow> hd f \<noteq> CHR ''0''))"

definition ipv4_ok :: "string \<Rightarrow> bool" where
  "ipv4_ok s = (let fs = split_on CHR ''.'' s in length fs = 4 \<and> list_all ipv4_field fs)"

text \<open>\<open>ipv6_groups n ell s\<close>: \<open>n\<close> groups are still free, \<open>ell\<close> says an ellipsis was seen.\<close>

fun ipv6_groups :: "nat \<Rightarrow> bool \<Rightarrow> string \<Rightarrow> bool" where
  "ipv6_groups 0 ell s = (s = [] \<and> \<not> ell)"
| "ipv6_groups (Suc n) ell s =
     (let g = takeWhile is_hex s; t = dropWhile is_hex s
      in if g = [] \<or> length g > 4 then False
         else if t \<noteq> [] \<and> hd t = CHR ''.'' then
           (if n = 0 then False else if n \<noteq> 1 \<and> \<not> ell then False
            else if n = 1 \<and> ell then False else ipv4_ok s)
         else if t = [] then (if n = 0 then \<not> ell else ell)
         else if hd t \<noteq> CHR '':'' \<or> length t = 1 then False
         else if n = 0 then False
         else if hd (tl t) = CHR '':'' then
           (if ell then False else if length t = 2 then True else ipv6_groups n True (tl (tl t)))
         else ipv6_groups n ell (tl t))"

definition ipv6_ok :: "string \<Rightarrow> bool" where
  "ipv6_ok s =
     (case Cut s CHR ''%'' of
        (a, z, f) \<Rightarrow>
          (if f \<and> z = [] then False
           else if HasPrefix a ''::'' then a = ''::'' \<or> ipv6_groups 8 True (drop 2 a)
           else ipv6_groups 8 False a))"

definition parseHost :: "string \<Rightarrow> string \<Rightarrow> string res" where
  "parseHost scheme host =
     (case last_cut CHR ''['' host of
        Some (pre, _) \<Rightarrow>
          (if pre \<noteq> [] then Inl (Errorf ''invalid IP-literal'')
           else case last_cut CHR '']'' host of
             None \<Rightarrow> Inl (Errorf ''missing bracket in host'')
           | Some (inner, colonPort) \<Rightarrow>
               (if \<not> validOptionalPort colonPort then Inl (Errorf ''invalid port after host'')
                else case Cut (tl inner) CHR ''%'' of
                  (addr, zone, f) \<Rightarrow>
                    (if f \<and> \<not> HasPrefix zone ''25'' then Inl (Errorf ''invalid host'')
                     else case unescape encodeHost addr of
                       Inl e \<Rightarrow> Inl e
                     | Inr addr' \<Rightarrow>
                         (case (if f then unescape encodeZone (CHR ''%'' # zone) else Inr []) of
                            Inl e \<Rightarrow> Inl e
                          | Inr zone' \<Rightarrow>
                              (if ipv6_ok (addr' @ zone')
                               then Inr (''['' @ addr' @ zone' @ '']'' @ colonPort)
                               else Inl (Errorf ''invalid host''))))))
      | None \<Rightarrow>
          (let split = (if scheme = ''http'' \<or> scheme = ''https'' then first_cut else last_cut)
           in case split CHR '':'' host of
                Some (_, port) \<Rightarrow>
                  (if validOptionalPort (CHR '':'' # port) then unescape encodeHost host
                   else Inl (Errorf ''invalid port after host''))
              | None \<Rightarrow> unescape encodeHost host))"

definition validUserinfo :: "string \<Rightarrow> bool" where
  "validUserinfo s =
     list_all (\<lambda>c. is_alpha c \<or> is_digit c \<or> c \<in> set ''-._:~!$&()*+,;=%@'' \<or> c = CHR 0x27) s"

section \<open>URLs\<close>

record URL =
  u_Scheme :: string
  u_Opaque :: string
  u_User :: "(string \<times> string option) option"
  u_Host :: string
  u_Path :: string
  u_RawPath :: string
  u_OmitHost :: bool
  u_ForceQuery :: bool
  u_RawQuery :: string
  u_Fragment :: string
  u_RawFragment :: string

definition zero_url :: URL where
  "zero_url = \<lparr>u_Scheme = [], u_Opaque = [], u_User = None, u_Host = [], u_Path = [],
     u_RawPath = [], u_OmitHost = False, u_ForceQuery = False, u_RawQuery = [], u_Fragment = [],
     u_RawFragment = []\<rparr>"

text \<open>\<^verbatim>\<open>getScheme\<close>: \<open>acc\<close> holds the scheme read so far, reversed; \<open>raw\<close> the whole input.\<close>

fun getScheme :: "string \<Rightarrow> string \<Rightarrow> string \<Rightarrow> (string \<times> string) res" where
  "getScheme raw acc [] = Inr ([], raw)"
| "getScheme raw acc (c # s) =
     (if is_alpha c then getScheme raw (c # acc) s
      else if is_digit c \<or> c \<in> set ''+-.'' then
        (if acc = [] then Inr ([], raw) else getScheme raw (c # acc) s)
      else if c = CHR '':'' then
        (if acc = [] then Inl (Errorf ''missing protocol scheme'') else Inr (rev acc, s))
      else Inr ([], raw))"

definition parseAuthority :: "string \<Rightarrow> string \<Rightarrow> ((string \<times> string option) option \<times> string) res" where
  "parseAuthority scheme authority =
     (case last_cut CHR ''@'' authority of
        None \<Rightarrow> map_sum id (\<lambda>h. (None, h)) (parseHost scheme authority)
      | Some (userinfo, h) \<Rightarrow>
          (case parseHost scheme h of
             Inl e \<Rightarrow> Inl e
           | Inr host \<Rightarrow>
               (if \<not> validUserinfo userinfo then Inl (Errorf ''net/url: invalid userinfo'')
                else case Cut userinfo CHR '':'' of
                  (name, pw, f) \<Rightarrow>
                    (case unescape encodeUserPassword name of
                       Inl e \<Rightarrow> Inl e
                     | Inr name' \<Rightarrow>
                         (if \<not> f then Inr (Some (name', None), host)
                          else case unescape encodeUserPassword pw of
                            Inl e \<Rightarrow> Inl e
                          | Inr pw' \<Rightarrow> Inr (Some (name', Some pw'), host))))))"

definition setPath :: "URL \<Rightarrow> string \<Rightarrow> URL res" where
  "setPath u p =
     (case unescape encodePath p of
        Inl e \<Rightarrow> Inl e
      | Inr path \<Rightarrow>
          Inr (u\<lparr>u_Path := path, u_RawPath := (if p = escape encodePath path then [] else p)\<rparr>))"

definition setFragment :: "URL \<Rightarrow> string \<Rightarrow> URL res" where
  "setFragment u f =
     (case unescape encodeFragment f of
        Inl e \<Rightarrow> Inl e
      | Inr frag \<Rightarrow>
          Inr (u\<lparr>u_Fragment := frag, u_RawFragment := (if f = escape encodeFragment frag then [] else f)\<rparr>))"

definition containsCTLByte :: "string \<Rightarrow> bool" where
  "containsCTLByte s = list_ex (\<lambda>c. byte c < 32 \<or> byte c = 127) s"

text \<open>The part of \<^verbatim>\<open>parse\<close> after the scheme and the query are cut off.\<close>

definition parse_rest :: "bool \<Rightarrow> URL \<Rightarrow> string \<Rightarrow> URL res" where
  "parse_rest viaRequest u rest =
     (if \<not> HasPrefix rest ''/'' \<and> u_Scheme u \<noteq> [] then Inr (u\<lparr>u_Opaque := rest\<rparr>)
      else if \<not> HasPrefix rest ''/'' \<and> viaRequest then Inl (Errorf ''invalid URI for request'')
      else if \<not> HasPrefix rest ''/'' \<and> CHR '':'' \<in> set (fst (Cut rest CHR ''/''))
      then Inl (Errorf ''first path segment in URL cannot contain colon'')
      else if (u_Scheme u \<noteq> [] \<or> \<not> viaRequest \<and> \<not> HasPrefix rest ''///'') \<and> HasPrefix rest ''//'' then
        (case Cut (drop 2 rest) CHR ''/'' of
           (authority, r, f) \<Rightarrow>
             (case parseAuthority (u_Scheme u) authority of
                Inl e \<Rightarrow> Inl e
              | Inr (user, host) \<Rightarrow>
                  setPath (u\<lparr>u_User := user, u_Host := host\<rparr>) (if f then CHR ''/'' # r else [])))
      else setPath (u\<lparr>u_OmitHost := (u_Scheme u \<noteq> [] \<and> HasPrefix rest ''/'')\<rparr>) rest)"

definition parse_url :: "string \<Rightarrow> bool \<Rightarrow> URL res" where
  "parse_url rawURL viaRequest =
     (if containsCTLByte rawURL then Inl (Errorf ''net/url: invalid control character in URL'')
      else if rawURL = [] \<and> viaRequest then Inl (Errorf ''empty url'')
      else if rawURL = ''*'' then Inr (zero_url\<lparr>u_Path := ''*''\<rparr>)
      else case getScheme rawURL [] rawURL of
        Inl e \<Rightarrow> Inl e
      | Inr (scheme, rest) \<Rightarrow>
          (case Cut rest CHR ''?'' of
             (r, q, f) \<Rightarrow>
               parse_rest viaRequest
                 (zero_url\<lparr>u_Scheme := ToLower scheme, u_ForceQuery := (f \<and> q = []), u_RawQuery := q\<rparr>) r))"

definition ParseRequestURI :: "string \<Rightarrow> URL res" where
  "ParseRequestURI rawURL =
     map_sum (\<lambda>e. Wrapf e (''parse '' @ rawURL)) id (parse_url rawURL True)"

definition Parse :: "string \<Rightarrow> URL res" where
  "Parse rawURL =
     (case Cut rawURL CHR ''#'' of
        (u, frag, _) \<Rightarrow>
          (case parse_url u False of
             Inl e \<Rightarrow> Inl (Wrapf e (''parse '' @ u))
           | Inr url \<Rightarrow>
               (if frag = [] then Inr url
                else map_sum (\<lambda>e. Wrapf e (''parse '' @ rawURL)) id (setFragment url frag))))"

definition Hostname :: "URL \<Rightarrow> string" where
  "Hostname u =
     (let host = (case last_cut CHR '':'' (u_Host u) of
                    Some (h, port) \<Rightarrow> if validOptionalPort (CHR '':'' # port) then h else u_Host u
                  | None \<Rightarrow> u_Host u)
      in if HasPrefix host ''['' \<and> host \<noteq> [] \<and> last host = CHR '']'' \<and> length host > 1
         then butlast (tl host) else host)"

definition validEncoded :: "encoding \<Rightarrow> string \<Rightarrow> bool" where
  "validEncoded mode s =
     list_all (\<lambda>c. c \<in> set ''!$&()*+,;=:@[]%'' \<or> c = CHR 0x27 \<or> \<not> shouldEscape c mode) s"

definition EscapedPath :: "URL \<Rightarrow> string" where
  "EscapedPath u =
     (if u_RawPath u \<noteq> [] \<and> validEncoded encodePath (u_RawPath u) \<and>
         unescape encodePath (u_RawPath u) = Inr (u_Path u)
      then u_RawPath u
      else if u_Path u = ''*'' then ''*''
      else escape encodePath (u_Path u))"

definition EscapedFragment :: "URL \<Rightarrow> string" where
  "EscapedFragment u =
     (if u_RawFragment u \<noteq> [] \<and> validEncoded encodeFragment (u_RawFragment u) \<and>
         unescape encodeFragment (u_RawFragment u) = Inr (u_Fragment u)
      then u_RawFragment u
      else escape encodeFragment (u_Fragment u))"

definition user_String :: "(string \<times> string option) option \<Rightarrow> string" where
  "user_String u =
     (case u of None \<Rightarrow> []
      | Some (name, None) \<Rightarrow> escape encodeUserPassword name @ ''@''
      | Some (name, Some pw) \<Rightarrow>
          escape encodeUserPassword name @ '':'' @ escape encodeUserPassword pw @ ''@'')"

definition url_String :: "URL \<Rightarrow> string" where
  "url_String u =
     (let scheme = (if u_Scheme u = [] then [] else u_Scheme u @ '':'');
          hier =
            (if u_Opaque u \<noteq> [] then u_Opaque u
             else
               let auth =
                     (if (u_Scheme u \<noteq> [] \<or> u_Host u \<noteq> [] \<or> u_User u \<noteq> None) \<and>
                         \<not> (u_OmitHost u \<and> u_Host u = [] \<and> u_User u = None)
                      then (if u_Host u \<noteq> [] \<or> u_Path u \<noteq> [] \<or> u_User u \<noteq> None then ''//'' else []) @
                           user_String (u_User u) @ escape encodeHost (u_Host u)
                      else []);
                   path = EscapedPath u;
                   slash = (if path \<noteq> [] \<and> hd path \<noteq> CHR ''/'' \<and> u_Host u \<noteq> [] then ''/'' else []);
                   dot = (if scheme @ auth @ slash = [] \<and> CHR '':'' \<in> set (fst (Cut path CHR ''/''))
                          then ''./'' else [])
               in auth @ slash @ dot @ path)
      in scheme @ hier @
         (if u_ForceQuery u \<or> u_RawQuery u \<noteq> [] then ''?'' @ u_RawQuery u else []) @
         (if u_Fragment u \<noteq> [] then ''#'' @ EscapedFragment u else []))"

section \<open>Plain URLs\<close>

text \<open>Bytes that no component of a URL ever escapes, the bytes of plain hosts and chart names.\<close>

definition plain :: "char \<Rightarrow> bool" where
  "plain c = (is_alpha c \<or> is_digit c \<or> c \<in> set ''-_.~'')"

definition plain_name :: "string \<Rightarrow> bool" where
  "plain_name s = (s \<noteq> [] \<and> list_all plain s \<and> s \<noteq> ''.'' \<and> s \<noteq> ''..'')"

text \<open>The absolute path with the given segments.\<close>

definition abs_path :: "string list \<Rightarrow> string" where
  "abs_path segs = concat (map (\<lambda>s. CHR ''/'' # s) segs)"

lemma not_plain [simp]:
  "\<not> plain CHR ''%''" "\<not> plain CHR ''/''" "\<not> plain CHR ''?''" "\<not> plain CHR ''#''"
  "\<not> plain CHR '':''" "\<not> plain CHR ''@''" "\<not> plain CHR ''[''" "\<not> plain CHR ''*''"
  by (simp_all add: plain_def byte_defs)

lemma plain_not_ctl: "plain c \<Longrightarrow> 32 \<le> byte c \<and> byte c \<noteq> 127"
  by (auto simp: plain_def byte_defs)

lemma plain_not_escaped [simp]: "plain c \<Longrightarrow> \<not> shouldEscape c mode"
  unfolding plain_def shouldEscape_def by (simp only: if_True if_False simp_thms split: if_split) blast

lemma slash_not_escaped [simp]: "\<not> shouldEscape CHR ''/'' encodePath"
  by (simp add: shouldEscape_def byte_defs)

lemma escape_id: "(\<And>c. c \<in> set s \<Longrightarrow> \<not> shouldEscape c mode) \<Longrightarrow> escape mode s = s"
  by (induction s) (auto simp: escape_def)

lemma unescape_id:
  "(\<And>c. c \<in> set s \<Longrightarrow> c \<noteq> CHR ''%'' \<and> \<not> shouldEscape c mode) \<Longrightarrow> unescape mode s = Inr s"
  by (induction s) auto

lemma plain_in_set: "list_all plain s \<Longrightarrow> c \<in> set s \<Longrightarrow> plain c"
  by (simp add: list_all_iff)

lemma plain_absent:
  assumes "list_all plain s"
  shows "CHR ''%'' \<notin> set s" "CHR ''/'' \<notin> set s" "CHR ''?'' \<notin> set s" "CHR ''#'' \<notin> set s"
    "CHR '':'' \<notin> set s" "CHR ''@'' \<notin> set s" "CHR ''['' \<notin> set s"
  using assms not_plain by (auto simp only: list_all_iff)

lemma plain_unescape: "list_all plain s \<Longrightarrow> unescape mode s = Inr s"
  by (rule unescape_id) (use not_plain(1) in \<open>auto simp: list_all_iff\<close>)

lemma plain_escape: "list_all plain s \<Longrightarrow> escape mode s = s"
  by (rule escape_id) (auto simp: list_all_iff)

lemma last_cut_absent: "c \<notin> set s \<Longrightarrow> last_cut c s = None"
  by (simp add: last_cut_def Cut_no_sep)

lemma parseHost_plain: "list_all plain h \<Longrightarrow> parseHost sch h = Inr h"
  by (simp add: parseHost_def last_cut_absent plain_absent first_cut_def Cut_no_sep plain_unescape)

lemma parseAuthority_plain: "list_all plain h \<Longrightarrow> parseAuthority sch h = Inr (None, h)"
  by (simp add: parseAuthority_def last_cut_absent plain_absent parseHost_plain)

lemma Hostname_plain: "list_all plain (u_Host u) \<Longrightarrow> Hostname u = u_Host u"
  using plain_absent(7) [of "u_Host u"] last_cut_absent [OF plain_absent(5) [of "u_Host u"]]
  by (cases "u_Host u") (auto simp: Hostname_def HasPrefix_def Let_def)

lemma abs_path_chars:
  "\<forall>s \<in> set segs. list_all plain s \<Longrightarrow> c \<in> set (abs_path segs) \<Longrightarrow> plain c \<or> c = CHR ''/''"
  by (induction segs) (auto simp: abs_path_def list_all_iff)

lemma abs_path_absent:
  assumes "\<forall>s \<in> set segs. list_all plain s"
  shows "CHR ''?'' \<notin> set (abs_path segs)" "CHR ''#'' \<notin> set (abs_path segs)"
  using abs_path_chars [OF assms] not_plain(3,4) by fastforce+

lemma abs_path_escape:
  assumes "\<forall>s \<in> set segs. list_all plain s"
  shows "escape encodePath (abs_path segs) = abs_path segs"
    "unescape encodePath (abs_path segs) = Inr (abs_path segs)"
proof -
  have "c \<noteq> CHR ''%'' \<and> \<not> shouldEscape c encodePath" if "c \<in> set (abs_path segs)" for c
    using abs_path_chars [OF assms that] not_plain(1) by auto
  then show "escape encodePath (abs_path segs) = abs_path segs"
    "unescape encodePath (abs_path segs) = Inr (abs_path segs)"
    by (auto intro: escape_id unescape_id)
qed

lemma abs_path_append: "abs_path (segs @ [s]) = abs_path segs @ CHR ''/'' # s"
  by (simp add: abs_path_def)

lemma abs_path_cut:
  assumes "list_all plain h"
  shows "Cut (h @ abs_path segs) CHR ''/'' =
    (h, drop 1 (abs_path segs), segs \<noteq> [])"
  using assms plain_absent(2) by (cases segs) (auto simp: abs_path_def Cut_no_sep Cut_sep)

definition plain_url :: "string \<Rightarrow> string \<Rightarrow> string list \<Rightarrow> string" where
  "plain_url sch host segs = sch @ ''://'' @ host @ abs_path segs"

lemma getScheme_sch:
  "getScheme raw [] (''https:'' @ r) = Inr (''https'', r)"
  "getScheme raw [] (''oci:'' @ r) = Inr (''oci'', r)"
  by (simp_all add: byte_defs)

lemma plain_no_ctl:
  assumes "\<forall>s \<in> set segs. list_all plain s" and "list_all plain h"
  shows "\<not> containsCTLByte (h @ abs_path segs)"
proof -
  have "plain c \<or> c = CHR ''/''" if "c \<in> set (h @ abs_path segs)" for c
    using that assms(2) abs_path_chars [OF assms(1)] by (auto simp: list_all_iff)
  then have "\<not> (byte c < 32 \<or> byte c = 127)" if "c \<in> set (h @ abs_path segs)" for c
    using that plain_not_ctl by fastforce
  then show ?thesis unfolding containsCTLByte_def list_ex_iff by blast
qed

text \<open>Parsing a plain URL gives its parts back, in both modes of the parser.\<close>

lemma parse_plain_url:
  assumes sch: "sch = ''https'' \<or> sch = ''oci''" and h: "list_all plain h" "h \<noteq> []"
    and segs: "\<forall>s \<in> set segs. list_all plain s"
  shows "parse_url (plain_url sch h segs) v =
    Inr (zero_url\<lparr>u_Scheme := sch, u_Host := h, u_Path := abs_path segs\<rparr>)"
proof -
  let ?r = "''//'' @ h @ abs_path segs"
  have g: "getScheme (plain_url sch h segs) [] (plain_url sch h segs) = Inr (sch, ?r)"
  proof -
    have "plain_url sch h segs = sch @ '':'' @ ?r" by (simp add: plain_url_def)
    then show ?thesis
      using sch getScheme_sch [of "plain_url sch h segs" ?r] by (elim disjE) (simp_all only: append.simps)
  qed
  have lo: "ToLower sch = sch" using sch by (auto simp: ToLower_def byte_defs)
  have q: "Cut ?r CHR ''?'' = (?r, [], False)"
    by (rule Cut_no_sep) (use h segs abs_path_absent plain_absent(3) in auto)
  have ctl: "\<not> containsCTLByte (plain_url sch h segs)"
    using sch plain_no_ctl [OF segs h(1)] by (auto simp: plain_url_def containsCTLByte_def)
  have ne: "plain_url sch h segs \<noteq> []" "plain_url sch h segs \<noteq> ''*''"
    using sch by (auto simp: plain_url_def)
  have d: "\<not> HasPrefix ?r ''///''"
    using h plain_absent(2) [OF h(1)] by (cases h) (auto simp: HasPrefix_def)
  have path: "(if segs \<noteq> [] then CHR ''/'' # drop (Suc 0) (abs_path segs) else []) = abs_path segs"
    by (cases segs) (auto simp: abs_path_def)
  have "parse_rest v (zero_url\<lparr>u_Scheme := sch, u_ForceQuery := False, u_RawQuery := []\<rparr>) ?r =
    Inr (zero_url\<lparr>u_Scheme := sch, u_Host := h, u_Path := abs_path segs\<rparr>)"
  proof -
    have pre: "HasPrefix ?r ''/''" "HasPrefix ?r ''//''" "drop 2 ?r = h @ abs_path segs" "sch \<noteq> []"
      using sch by (auto simp: HasPrefix_def)
    show ?thesis
      unfolding parse_rest_def pre(3)
      using pre abs_path_escape [OF segs]
      by (simp add: abs_path_cut [OF h(1)] parseAuthority_plain [OF h(1)] path
          del: append.simps split del: if_split)
        (simp add: setPath_def zero_url_def)
  qed
  then show ?thesis
    using ctl ne g q lo by (simp add: parse_url_def)
qed

text \<open>\<^verbatim>\<open>path.Join\<close> appends a plain name to a clean absolute path.\<close>

lemma split_on_no_sep: "c \<notin> set s \<Longrightarrow> split_on c s = [s]"
  by (induction s) auto

lemma split_on_sep: "c \<notin> set s \<Longrightarrow> split_on c (s @ c # t) = s # split_on c t"
  by (induction s) auto

lemma plain_name_no_slash: "plain_name s \<Longrightarrow> CHR ''/'' \<notin> set s"
  by (simp add: plain_name_def plain_absent)

lemma split_abs_path:
  "\<forall>s \<in> set segs. CHR ''/'' \<notin> set s \<Longrightarrow> split_on CHR ''/'' (abs_path segs) = [] # segs"
proof (induction segs)
  case Nil
  then show ?case by (simp add: abs_path_def)
next
  case (Cons s segs)
  then show ?case
    by (cases segs) (auto simp: abs_path_def split_on_no_sep split_on_sep)
qed

lemma clean_step_plain: "plain_name s \<Longrightarrow> clean_step b out s = out @ [s]"
  by (simp add: clean_step_def plain_name_def)

lemma clean_segs: "\<forall>s \<in> set segs. plain_name s \<Longrightarrow> foldl (clean_step b) out segs = out @ segs"
  by (induction segs arbitrary: out) (auto simp: clean_step_plain)

lemma Join_abs_path: "segs \<noteq> [] \<Longrightarrow> CHR ''/'' # Join segs ''/'' = abs_path segs"
proof (induction segs)
  case (Cons s segs)
  then show ?case by (cases segs) (auto simp: abs_path_def)
qed simp

lemma Clean_abs_path:
  assumes "\<forall>s \<in> set segs. plain_name s" and "segs \<noteq> []"
  shows "Clean (abs_path segs) = abs_path segs"
proof -
  have "split_on CHR ''/'' (abs_path segs) = [] # segs"
    by (rule split_abs_path) (use assms plain_name_no_slash in auto)
  moreover have "abs_path segs \<noteq> []" "hd (abs_path segs) = CHR ''/''"
    using assms(2) by (cases segs; simp add: abs_path_def)+
  moreover have "foldl (clean_step True) [] ([] # segs) = segs"
    using clean_segs [OF assms(1)] by (simp add: clean_step_def)
  ultimately show ?thesis using Join_abs_path [OF assms(2)] by (simp add: Clean_def)
qed

lemma Clean_plain_name: "plain_name s \<Longrightarrow> Clean s = s"
  using plain_name_no_slash [of s]
  by (cases s) (auto simp: Clean_def split_on_no_sep clean_step_plain Let_def plain_name_def clean_step_def)

lemma path_Join_plain:
  assumes "\<forall>s \<in> set segs. plain_name s" and "plain_name s"
  shows "path_Join [abs_path segs, s] = (if segs = [] then s else abs_path (segs @ [s]))"
proof (cases "segs = []")
  case True
  then show ?thesis using assms(2) Clean_plain_name by (simp add: path_Join_def abs_path_def plain_name_def)
next
  case False
  then have ne: "abs_path segs \<noteq> []" by (cases segs) (auto simp: abs_path_def)
  have "s \<noteq> []" using assms(2) by (simp add: plain_name_def)
  then show ?thesis
    using False ne Clean_abs_path [of "segs @ [s]"] assms
    by (simp add: path_Join_def abs_path_append)
qed

lemma url_String_plain:
  assumes "sch \<noteq> []" "list_all plain h" "h \<noteq> []" "escape encodePath p = p" "p \<noteq> []" "p \<noteq> ''*''"
  shows "url_String (zero_url\<lparr>u_Scheme := sch, u_Host := h, u_Path := p\<rparr>) =
    sch @ ''://'' @ h @ (if hd p = CHR ''/'' then p else CHR ''/'' # p)"
  using assms plain_escape [OF assms(2)]
  by (simp add: url_String_def zero_url_def EscapedPath_def user_String_def Let_def)

end
