(* ===== verification/Helm_Client.thy ===== *)
theory Helm_Client
  imports Sim_Env Go_Url
begin

text \<open>
  \<^verbatim>\<open>internal/helm_client.go\<close>: the \<^verbatim>\<open>HelmClient\<close> that installs, upgrades, reads and uninstalls
  releases through the Helm SDK. State is the pair of the SDK's state (\<open>'h\<close>) and the
  operating system, on which the client writes and removes its values file. A call that
  returns \<^verbatim>\<open>(*Release, error)\<close> gives both as options, since the SDK may return both.
\<close>

type_synonym 'v rel_ret = "'v Release option \<times> go_error option"

abbreviation bail :: "go_error \<Rightarrow> 's \<Rightarrow> 'v rel_ret \<times> 's" where
  "bail e st \<equiv> ((None, Some e), st)"

section \<open>Action configuration\<close>

definition GetActionConfig ::
  "('h, 'v) helm_lib \<Rightarrow> string \<Rightarrow> rest_config \<Rightarrow> 'h \<Rightarrow> Configuration res" where
  "GetActionConfig H namespace config h =
     (let cliConfig = \<lparr>cf_APIServer = rc_Host config, cf_BearerToken = rc_BearerToken config,
                        cf_Namespace = namespace, cf_Insecure = True, cf_Wrap = (\<lambda>_. config)\<rparr>
      in case h_init H cliConfig namespace ''secret'' h of
           Some err \<Rightarrow> Inl err
         | None \<Rightarrow> Inr \<lparr>ac_Flags = cliConfig, ac_Namespace = namespace, ac_Driver = ''secret'',
                         ac_RegistryClient = None\<rparr>)"

definition HelmInit ::
  "('h, 'v) helm_lib \<Rightarrow> string \<Rightarrow> rest_config \<Rightarrow> 'h \<Rightarrow> (EnvSettings \<times> Configuration) res" where
  "HelmInit H namespace restConfig h =
     (case GetActionConfig H namespace restConfig h of
        Inl err \<Rightarrow> Inl err
      | Inr actionConfig \<Rightarrow> Inr (h_new_settings H, actionConfig))"

section \<open>Clients configured from the chart proxy's options\<close>

definition generateHelmInstallConfig ::
  "('h, 'v) helm_lib \<Rightarrow> Configuration \<Rightarrow> HelmOptions option \<Rightarrow> Install" where
  "generateHelmInstallConfig H actionConfig helmOptions =
     (let c0 = (h_new_install H actionConfig)\<lparr>in_CreateNamespace := True\<rparr>;
          c1 = (case ac_RegistryClient actionConfig of
                  None \<Rightarrow> c0 | Some rc \<Rightarrow> c0\<lparr>in_Registry := Some rc\<rparr>)
      in case helmOptions of
           None \<Rightarrow> c1
         | Some o' \<Rightarrow>
             c1\<lparr>in_DisableHooks := o_DisableHooks o',
                in_Wait := o_Wait o',
                in_WaitForJobs := o_WaitForJobs o',
                in_Timeout := (case o_Timeout o' of None \<Rightarrow> in_Timeout c1 | Some t \<Rightarrow> t),
                in_SkipCRDs := o_SkipCRDs o',
                in_SubNotes := o_SubNotes o',
                in_DisableOpenAPIValidation := o_DisableOpenAPIValidation o',
                in_Atomic := o_Atomic o',
                in_IncludeCRDs := io_IncludeCRDs (o_Install o'),
                in_CreateNamespace := io_CreateNamespace (o_Install o'),
                in_TakeOwnership := o_TakeOwnership o'\<rparr>)"

definition generateHelmUpgradeConfig ::
  "('h, 'v) helm_lib \<Rightarrow> Configuration \<Rightarrow> HelmOptions option \<Rightarrow> Upgrade" where
  "generateHelmUpgradeConfig H actionConfig helmOptions =
     (let c0 = h_new_upgrade H actionConfig;
          c1 = (case ac_RegistryClient actionConfig of
                  None \<Rightarrow> c0 | Some rc \<Rightarrow> c0\<lparr>up_Registry := Some rc\<rparr>)
      in case helmOptions of
           None \<Rightarrow> c1
         | Some o' \<Rightarrow>
             c1\<lparr>up_DisableHooks := o_DisableHooks o',
                up_Wait := o_Wait o',
                up_WaitForJobs := o_WaitForJobs o',
                up_Timeout := (case o_Timeout o' of None \<Rightarrow> up_Timeout c1 | Some t \<Rightarrow> t),
                up_SkipCRDs := o_SkipCRDs o',
                up_SubNotes := o_SubNotes o',
                up_DisableOpenAPIValidation := o_DisableOpenAPIValidation o',
                up_Atomic := o_Atomic o',
                up_Force := uo_Force (o_Upgrade o'),
                up_ResetValues := uo_ResetValues (o_Upgrade o'),
                up_ReuseValues := uo_ReuseValues (o_Upgrade o'),
                up_ResetThenReuseValues := uo_ResetThenReuseValues (o_Upgrade o'),
                up_MaxHistory := uo_MaxHistory (o_Upgrade o'),
                up_CleanupOnFail := uo_CleanupOnFail (o_Upgrade o'),
                up_TakeOwnership := o_TakeOwnership o'\<rparr>)"

definition generateHelmUninstallConfig ::
  "('h, 'v) helm_lib \<Rightarrow> Configuration \<Rightarrow> HelmOptions option \<Rightarrow> Uninstall" where
  "generateHelmUninstallConfig H actionConfig helmOptions =
     (let c0 = h_new_uninstall H actionConfig
      in case helmOptions of
           None \<Rightarrow> c0
         | Some o' \<Rightarrow>
             (let c1 = c0\<lparr>un_DisableHooks := o_DisableHooks o', un_Wait := o_Wait o',
                          un_Timeout := (case o_Timeout o' of None \<Rightarrow> un_Timeout c0 | Some t \<Rightarrow> t)\<rparr>
              in case o_Uninstall o' of
                   None \<Rightarrow> c1
                 | Some u \<Rightarrow> c1\<lparr>un_KeepHistory := no_KeepHistory u, un_Description := no_Description u\<rparr>))"

section \<open>Registry client\<close>

text \<open>\<^verbatim>\<open>certPoolFromFile\<close>: an unreadable file and a file without certificates are errors.\<close>

definition certPoolFromFile ::
  "('h, 'v) helm_lib \<Rightarrow> string \<Rightarrow> os_state \<Rightarrow> string list res \<times> os_state" where
  "certPoolFromFile H filename s =
     (case ReadFile filename s of
        (Inl err, s1) \<Rightarrow> (Inl (Wrapf err (''can'' @ [CHR 0x27] @ ''t read CA file: '' @ filename)), s1)
      | (Inr b, s1) \<Rightarrow>
          (if h_certs_from_pem H b = []
           then (Inl (Errorf (''failed to append certificates from file: '' @ filename)), s1)
           else (Inr (h_certs_from_pem H b), s1)))"

definition newClientTLS ::
  "('h, 'v) helm_lib \<Rightarrow> string \<Rightarrow> bool \<Rightarrow> os_state \<Rightarrow> tls_client_config res \<times> os_state" where
  "newClientTLS H caFile insecureSkipTLSverify s =
     (let config = \<lparr>tc_InsecureSkipVerify = insecureSkipTLSverify, tc_RootCAs = None\<rparr>
      in if caFile \<noteq> [] then
           (case certPoolFromFile H caFile s of
              (Inl err, s1) \<Rightarrow> (Inl err, s1)
            | (Inr cp, s1) \<Rightarrow> (Inr (config\<lparr>tc_RootCAs := Some cp\<rparr>), s1))
         else (Inr config, s))"

definition newDefaultRegistryClient ::
  "('h, 'v) helm_lib \<Rightarrow> string \<Rightarrow> bool \<Rightarrow> string \<Rightarrow> bool \<Rightarrow> 'h \<Rightarrow> os_state
     \<Rightarrow> registry_client res \<times> os_state" where
  "newDefaultRegistryClient H credentialsPath enableCache caFilePath insecureSkipTLSVerify h s =
     (let opts0 = [ClientOptDebug True, ClientOptEnableCache enableCache, ClientOptWriter ''stderr''];
          opts1 = opts0 @ (if credentialsPath \<noteq> [] then [ClientOptCredentialsFile credentialsPath] else []);
          finish = (\<lambda>opts s'. case h_new_registry H opts h of
                        Some err \<Rightarrow> (Inl err, s') | None \<Rightarrow> (Inr opts, s'))
      in if caFilePath \<noteq> [] \<or> insecureSkipTLSVerify then
           (case newClientTLS H caFilePath insecureSkipTLSVerify s of
              (Inl err, s1) \<Rightarrow> (Inl (Wrapf err (''can'' @ [CHR 0x27] @ ''t create TLS config for client'')), s1)
            | (Inr tlsConf, s1) \<Rightarrow>
                finish (opts1 @ [ClientOptHTTPClient
                  \<lparr>hc_TLSClientConfig = tlsConf, hc_IdleConnTimeout = 1000000000\<rparr>]) s1)
         else finish opts1 s)"

text \<open>\<^verbatim>\<open>ptr.Deref(spec.TLSConfig, TLSConfig{}).InsecureSkipTLSVerify\<close>.\<close>

definition spec_insecure :: "HelmReleaseProxySpec \<Rightarrow> bool" where
  "spec_insecure spec =
     (case rs_TLSConfig spec of None \<Rightarrow> False | Some t \<Rightarrow> tls_InsecureSkipTLSVerify t)"

section \<open>Charts and values\<close>

definition getHelmChartAndRepoName ::
  "('h, 'v) helm_lib \<Rightarrow> string \<Rightarrow> string \<Rightarrow> (string \<times> string) res" where
  "getHelmChartAndRepoName H chartName repoURL =
     (if h_is_oci H repoURL then
        (case Parse repoURL of
           Inl err \<Rightarrow> Inl err
         | Inr u \<Rightarrow> Inr (url_String (u\<lparr>u_Path := path_Join [u_Path u, chartName]\<rparr>), []))
      else Inr (chartName, repoURL))"

definition writeValuesToFile :: "HelmReleaseProxySpec \<Rightarrow> os_state \<Rightarrow> string res \<times> os_state" where
  "writeValuesToFile spec s =
     create_and_write (rs_ChartName spec @ ''-'' @ rs_ReleaseName spec @ ''-*.yaml'') (rs_Values spec) s"

text \<open>\<^verbatim>\<open>shouldUpgradeHelmRelease\<close>. A loaded chart without metadata is a nil dereference.\<close>

definition shouldUpgradeHelmRelease ::
  "('h, 'v) helm_lib \<Rightarrow> 'v Release \<Rightarrow> Chart \<Rightarrow> 'v \<Rightarrow> bool res" where
  "shouldUpgradeHelmRelease H existing chartRequested values =
     (case rel_Chart existing of
        None \<Rightarrow> Inl (Errorf ''Failed to resolve chart version of existing release'')
      | Some ch \<Rightarrow>
          (case ch_Metadata ch of
             None \<Rightarrow> Inl (Errorf ''Failed to resolve chart version of existing release'')
           | Some md \<Rightarrow>
               (case ch_Metadata chartRequested of
                  None \<Rightarrow> Inl (GoPanic ''nil pointer dereference'')
                | Some md' \<Rightarrow>
                    (if md_Version md \<noteq> md_Version md' then Inr True
                     else if rel_Status existing = StatusFailed then Inr True
                     else case h_yaml H (rel_Config existing) of
                       Inl err \<Rightarrow> Inl (Wrapf err ''failed to marshal existing release values'')
                     | Inr oldValues \<Rightarrow>
                         (case h_yaml H values of
                            Inl err \<Rightarrow> Inl (Wrapf err ''failed to new release values'')
                          | Inr newValues \<Rightarrow> Inr (oldValues \<noteq> newValues))))))"

text \<open>
  The bracket \<^verbatim>\<open>InstallHelmRelease\<close> and \<^verbatim>\<open>UpgradeHelmReleaseIfChanged\<close> share: write the values to
  a temporary file, run the rest of the function, and remove the file on every way out
  (\<^verbatim>\<open>defer os.Remove(filename)\<close>, whose error is only logged).
\<close>

definition with_values_file ::
  "HelmReleaseProxySpec \<Rightarrow> (string \<Rightarrow> 'h \<Rightarrow> os_state \<Rightarrow> 'v rel_ret \<times> 'h \<times> os_state) \<Rightarrow> 'h \<times> os_state
     \<Rightarrow> 'v rel_ret \<times> 'h \<times> os_state" where
  "with_values_file spec body st =
     (case st of (h, s) \<Rightarrow>
      case writeValuesToFile spec s of
        (Inl err, s1) \<Rightarrow> bail err (h, s1)
      | (Inr filename, s1) \<Rightarrow>
          case body filename h s1 of (ret, h', s2) \<Rightarrow> (ret, h', snd (Remove filename s2)))"

section \<open>Install\<close>

text \<open>The part of \<^verbatim>\<open>InstallHelmRelease\<close> that runs while the values file exists.\<close>

definition install_with_values ::
  "('h, 'v) helm_lib \<Rightarrow> EnvSettings \<Rightarrow> Install \<Rightarrow> string \<Rightarrow> string \<Rightarrow> 'h \<Rightarrow> os_state
     \<Rightarrow> 'v rel_ret \<times> 'h \<times> os_state" where
  "install_with_values H settings installClient cp filename h s =
     (case ReadFile filename s of
        (Inl err, s1) \<Rightarrow> bail err (h, s1)
      | (Inr content, s1) \<Rightarrow>
          (case h_merge_values H settings [filename] (os_files s1) of
             Inl err \<Rightarrow> bail err (h, s1)
           | Inr vals \<Rightarrow>
               (case h_load H cp h of
                  Inl err \<Rightarrow> bail err (h, s1)
                | Inr chartRequested \<Rightarrow>
                    (case h_run_install H installClient chartRequested vals h of
                       (ret, h') \<Rightarrow> (ret, h', s1)))))"

definition InstallHelmRelease ::
  "('h, 'v) helm_lib \<Rightarrow> rest_config \<Rightarrow> string \<Rightarrow> string \<Rightarrow> HelmReleaseProxySpec \<Rightarrow> 'h \<times> os_state
     \<Rightarrow> 'v rel_ret \<times> 'h \<times> os_state" where
  "InstallHelmRelease H restConfig credentialsPath caFilePath spec st =
     (case st of (h, s) \<Rightarrow>
      case HelmInit H (rs_ReleaseNamespace spec) restConfig h of
        Inl err \<Rightarrow> bail err (h, s)
      | Inr (settings0, actionConfig0) \<Rightarrow>
          let settings = settings0\<lparr>es_RegistryConfig := credentialsPath\<rparr> in
          case newDefaultRegistryClient H credentialsPath (o_EnableClientCache (rs_Options spec))
                 caFilePath (spec_insecure spec) h s of
            (Inl err, s1) \<Rightarrow> bail err (h, s1)
          | (Inr registryClient, s1) \<Rightarrow>
              let actionConfig = actionConfig0\<lparr>ac_RegistryClient := Some registryClient\<rparr> in
              case getHelmChartAndRepoName H (rs_ChartName spec) (rs_RepoURL spec) of
                Inl err \<Rightarrow> bail err (h, s1)
              | Inr (chartName, repoURL) \<Rightarrow>
                  let c0 = (generateHelmInstallConfig H actionConfig (Some (rs_Options spec)))
                        \<lparr>in_RepoURL := repoURL, in_Version := rs_Version spec,
                          in_Namespace := rs_ReleaseNamespace spec\<rparr>;
                      c1 = (if rs_ReleaseName spec = [] then c0\<lparr>in_GenerateName := True\<rparr> else c0)
                  in
                  case (if rs_ReleaseName spec = [] then h_name_and_chart H c1 [chartName] h
                        else Inr (rs_ReleaseName spec)) of
                    Inl err \<Rightarrow>
                      bail (Wrapf err (''failed to generate release name for chart '' @ rs_ChartName spec
                              @ '' on cluster '' @ ref_Name (rs_ClusterRef spec))) (h, s1)
                  | Inr releaseName \<Rightarrow>
                      let installClient = c1\<lparr>in_ReleaseName := releaseName\<rparr> in
                      case h_locate_install H installClient chartName settings h of
                        Inl err \<Rightarrow> bail err (h, s1)
                      | Inr cp \<Rightarrow>
                          with_values_file (spec\<lparr>rs_ReleaseName := releaseName\<rparr>)
                            (install_with_values H settings installClient cp) (h, s1))"

section \<open>Upgrade\<close>

text \<open>The part of \<^verbatim>\<open>UpgradeHelmReleaseIfChanged\<close> that runs while the values file exists.\<close>

definition upgrade_with_values ::
  "('h, 'v) helm_lib \<Rightarrow> EnvSettings \<Rightarrow> Upgrade \<Rightarrow> string \<Rightarrow> string \<Rightarrow> string \<Rightarrow> string \<Rightarrow> 'v Release
     \<Rightarrow> 'h \<Rightarrow> os_state \<Rightarrow> 'v rel_ret \<times> 'h \<times> os_state" where
  "upgrade_with_values H settings upgradeClient chartName releaseName cp filename existing h s =
     (case ReadFile filename s of
        (Inl err, s1) \<Rightarrow> bail err (h, s1)
      | (Inr content, s1) \<Rightarrow>
          (case h_merge_values H settings [filename] (os_files s1) of
             Inl err \<Rightarrow> bail err (h, s1)
           | Inr vals \<Rightarrow>
               (case h_load H cp h of
                  Inl err \<Rightarrow> bail err (h, s1)
                | Inr None \<Rightarrow> bail (Errorf (''failed to load request chart '' @ chartName)) (h, s1)
                | Inr (Some chartRequested) \<Rightarrow>
                    (case shouldUpgradeHelmRelease H existing chartRequested vals of
                       Inl err \<Rightarrow> bail err (h, s1)
                     | Inr shouldUpgrade \<Rightarrow>
                         (if \<not> shouldUpgrade then ((Some existing, None), h, s1)
                          else (case h_run_upgrade H upgradeClient releaseName chartRequested vals h of
                                  (ret, h') \<Rightarrow> (ret, h', s1)))))))"

definition UpgradeHelmReleaseIfChanged ::
  "('h, 'v) helm_lib \<Rightarrow> rest_config \<Rightarrow> string \<Rightarrow> string \<Rightarrow> HelmReleaseProxySpec \<Rightarrow> 'v Release
     \<Rightarrow> 'h \<times> os_state \<Rightarrow> 'v rel_ret \<times> 'h \<times> os_state" where
  "UpgradeHelmReleaseIfChanged H restConfig credentialsPath caFilePath spec existing st =
     (case st of (h, s) \<Rightarrow>
      case HelmInit H (rs_ReleaseNamespace spec) restConfig h of
        Inl err \<Rightarrow> bail err (h, s)
      | Inr (settings0, actionConfig0) \<Rightarrow>
          let settings = settings0\<lparr>es_RegistryConfig := credentialsPath\<rparr> in
          case newDefaultRegistryClient H credentialsPath (o_EnableClientCache (rs_Options spec))
                 caFilePath (spec_insecure spec) h s of
            (Inl err, s1) \<Rightarrow> bail err (h, s1)
          | (Inr registryClient, s1) \<Rightarrow>
              let actionConfig = actionConfig0\<lparr>ac_RegistryClient := Some registryClient\<rparr> in
              case getHelmChartAndRepoName H (rs_ChartName spec) (rs_RepoURL spec) of
                Inl err \<Rightarrow> bail err (h, s1)
              | Inr (chartName, repoURL) \<Rightarrow>
                  let upgradeClient = (generateHelmUpgradeConfig H actionConfig (Some (rs_Options spec)))
                        \<lparr>up_RepoURL := repoURL, up_Version := rs_Version spec,
                          up_Namespace := rs_ReleaseNamespace spec\<rparr>
                  in
                  case h_locate_upgrade H upgradeClient chartName settings h of
                    Inl err \<Rightarrow> bail err (h, s1)
                  | Inr cp \<Rightarrow>
                      with_values_file spec
                        (\<lambda>filename. upgrade_with_values H settings upgradeClient chartName
                           (rs_ReleaseName spec) cp filename existing) (h, s1))"

section \<open>Read, list, uninstall, roll back\<close>

definition GetHelmRelease ::
  "('h, 'v) helm_lib \<Rightarrow> rest_config \<Rightarrow> HelmReleaseProxySpec \<Rightarrow> 'h \<Rightarrow> 'v Release res" where
  "GetHelmRelease H restConfig spec h =
     (if rs_ReleaseName spec = [] then Inl ErrReleaseNotFound
      else case HelmInit H (rs_ReleaseNamespace spec) restConfig h of
        Inl err \<Rightarrow> Inl err
      | Inr (_, actionConfig) \<Rightarrow> h_get H actionConfig (rs_ReleaseName spec) h)"

definition ListHelmReleases ::
  "('h, 'v) helm_lib \<Rightarrow> rest_config \<Rightarrow> HelmReleaseProxySpec \<Rightarrow> 'h \<Rightarrow> 'v Release list res" where
  "ListHelmReleases H restConfig spec h =
     (case HelmInit H (rs_ReleaseNamespace spec) restConfig h of
        Inl err \<Rightarrow> Inl err
      | Inr (_, actionConfig) \<Rightarrow> h_list H actionConfig h)"

definition UninstallHelmRelease ::
  "('h, 'v) helm_lib \<Rightarrow> rest_config \<Rightarrow> HelmReleaseProxySpec \<Rightarrow> 'h \<Rightarrow> string res \<times> 'h" where
  "UninstallHelmRelease H restConfig spec h =
     (case HelmInit H (rs_ReleaseNamespace spec) restConfig h of
        Inl err \<Rightarrow> (Inl err, h)
      | Inr (_, actionConfig) \<Rightarrow>
          h_run_uninstall H (generateHelmUninstallConfig H actionConfig (Some (rs_Options spec)))
            (rs_ReleaseName spec) h)"

definition RollbackHelmRelease ::
  "('h, 'v) helm_lib \<Rightarrow> rest_config \<Rightarrow> HelmReleaseProxySpec \<Rightarrow> 'h \<Rightarrow> go_error option \<times> 'h" where
  "RollbackHelmRelease H restConfig spec h =
     (case HelmInit H (rs_ReleaseNamespace spec) restConfig h of
        Inl err \<Rightarrow> (Some err, h)
      | Inr (_, actionConfig) \<Rightarrow> h_run_rollback H actionConfig (rs_ReleaseName spec) h)"

definition updateLastReleaseStatus ::
  "('h, 'v) helm_lib \<Rightarrow> rest_config \<Rightarrow> string \<Rightarrow> string \<Rightarrow> string \<Rightarrow> 'h \<Rightarrow> go_error option \<times> 'h" where
  "updateLastReleaseStatus H restConfig namespace name status h =
     (case HelmInit H namespace restConfig h of
        Inl err \<Rightarrow> (Some err, h)
      | Inr (_, actionConfig) \<Rightarrow>
          (case h_last H actionConfig name h of
             Inl err \<Rightarrow> (Some err, h)
           | Inr last' \<Rightarrow> h_update H actionConfig (last'\<lparr>rel_Status := status\<rparr>) h))"

definition InstallOrUpgradeHelmRelease ::
  "('h, 'v) helm_lib \<Rightarrow> rest_config \<Rightarrow> string \<Rightarrow> string \<Rightarrow> HelmReleaseProxySpec \<Rightarrow> 'h \<times> os_state
     \<Rightarrow> 'v rel_ret \<times> 'h \<times> os_state" where
  "InstallOrUpgradeHelmRelease H restConfig credentialsPath caFilePath spec st =
     (case st of (h, s) \<Rightarrow>
      case GetHelmRelease H restConfig spec h of
        Inl err \<Rightarrow>
          (if IsReleaseNotFound err
           then InstallHelmRelease H restConfig credentialsPath caFilePath spec (h, s)
           else bail err (h, s))
      | Inr existingRelease \<Rightarrow>
          (if h_is_pending H (rel_Status existingRelease) then
             (case updateLastReleaseStatus H restConfig (rs_ReleaseNamespace spec)
                     (rs_ReleaseName spec) StatusFailed h of
                (Some err, h1) \<Rightarrow> bail (Wrapf err ''failed to overwrite status of last release'') (h1, s)
              | (None, h1) \<Rightarrow>
                  UpgradeHelmReleaseIfChanged H restConfig credentialsPath caFilePath spec
                    existingRelease (h1, s))
           else UpgradeHelmReleaseIfChanged H restConfig credentialsPath caFilePath spec
                  existingRelease (h, s)))"

section \<open>The interface \<open>internal.Client\<close>\<close>

text \<open>The three methods of the Go interface, as the release controller is handed them, and the
  implementation \<^verbatim>\<open>HelmClient\<close>.\<close>

record ('h, 'v) hclient =
  hc_InstallOrUpgradeHelmRelease ::
    "rest_config \<Rightarrow> string \<Rightarrow> string \<Rightarrow> HelmReleaseProxySpec \<Rightarrow> 'h \<times> os_state
       \<Rightarrow> 'v rel_ret \<times> 'h \<times> os_state"
  hc_GetHelmRelease :: "rest_config \<Rightarrow> HelmReleaseProxySpec \<Rightarrow> 'h \<Rightarrow> 'v Release res"
  hc_UninstallHelmRelease :: "rest_config \<Rightarrow> HelmReleaseProxySpec \<Rightarrow> 'h \<Rightarrow> string res \<times> 'h"

definition HelmClient :: "('h, 'v) helm_lib \<Rightarrow> ('h, 'v) hclient" where
  "HelmClient H =
     \<lparr>hc_InstallOrUpgradeHelmRelease = InstallOrUpgradeHelmRelease H,
      hc_GetHelmRelease = GetHelmRelease H,
      hc_UninstallHelmRelease = UninstallHelmRelease H\<rparr>"

text \<open>
  What the release controller relies on: a call leaves no temporary file behind when the
  operating system does not fail, it never touches the fault oracle, and a proxy whose
  release has no name yet has no release.
\<close>

locale helm_client =
  fixes C :: "('h, 'v) hclient"
  assumes install_files: "hc_InstallOrUpgradeHelmRelease C rc cred ca spec (h, s) = (ret, h', s') \<Longrightarrow>
      no_faults s \<Longrightarrow> os_files s' = os_files s"
    and install_faults: "hc_InstallOrUpgradeHelmRelease C rc cred ca spec (h, s) = (ret, h', s') \<Longrightarrow>
      os_faults s' = os_faults s"
    and get_unnamed: "rs_ReleaseName spec = [] \<Longrightarrow> hc_GetHelmRelease C rc spec h = Inl ErrReleaseNotFound"

section \<open>Lemmas\<close>

text \<open>What every path through the client does to the operating system: the fault oracle stays,
  and without faults so do the files. A preorder, so paths compose.\<close>

definition os_kept :: "os_state \<Rightarrow> os_state \<Rightarrow> bool" where
  "os_kept s s' = (os_faults s' = os_faults s \<and> (no_faults s \<longrightarrow> os_files s' = os_files s))"

lemma os_kept_refl [simp]: "os_kept s s"
  by (simp add: os_kept_def)

lemma os_kept_trans: "os_kept s t \<Longrightarrow> os_kept t u \<Longrightarrow> os_kept s u"
  by (auto simp: os_kept_def no_faults_def)

lemma os_kept_tick [simp]: "os_kept s (sys_tick s)"
  by (simp add: os_kept_def)

lemma ReadFile_kept: "os_kept s (snd (ReadFile f s))"
  by (auto simp: ReadFile_def split: option.splits)

lemma certPoolFromFile_kept: "os_kept s (snd (certPoolFromFile H f s))"
  using ReadFile_kept [of s f] by (auto simp: certPoolFromFile_def split: prod.splits sum.splits)

lemma newClientTLS_kept: "os_kept s (snd (newClientTLS H f b s))"
  using certPoolFromFile_kept [of s H f]
  by (auto simp: newClientTLS_def Let_def split: prod.splits sum.splits)

lemma newDefaultRegistryClient_kept:
  "os_kept s (snd (newDefaultRegistryClient H c e f b h s))"
  using newClientTLS_kept [of s H f b]
  by (auto simp: newDefaultRegistryClient_def Let_def split: prod.splits sum.splits option.splits)

lemma install_with_values_kept:
  "os_files (snd (snd (install_with_values H se c cp f h s))) = os_files s"
  "os_faults (snd (snd (install_with_values H se c cp f h s))) = os_faults s"
  by (auto simp: install_with_values_def ReadFile_def split: option.split prod.split sum.split)

lemma upgrade_with_values_kept:
  "os_files (snd (snd (upgrade_with_values H se c cn rn cp f ex h s))) = os_files s"
  "os_faults (snd (snd (upgrade_with_values H se c cn rn cp f ex h s))) = os_faults s"
  by (auto simp: upgrade_with_values_def ReadFile_def split: option.split prod.split sum.split)

text \<open>The bracket restores the files, provided its body leaves them alone.\<close>

lemma Remove_faults [simp]: "os_faults (snd (Remove f s)) = os_faults s"
  by (auto simp: Remove_def split: option.splits)

lemma with_values_file_kept:
  assumes body: "\<And>f h s. os_files (snd (snd (body f h s))) = os_files s"
    "\<And>f h s. os_faults (snd (snd (body f h s))) = os_faults s"
  shows "os_kept s (snd (snd (with_values_file spec body (h, s))))"
proof (cases "writeValuesToFile spec s")
  case (Pair r s1)
  note w = Pair [unfolded writeValuesToFile_def]
  show ?thesis
  proof (cases r)
    case (Inl e)
    with Pair w show ?thesis
      by (auto simp: with_values_file_def os_kept_def
          intro: create_and_write_faults create_and_write_no_faults_err)
  next
    case (Inr f)
    obtain ret h' s2 where b: "body f h s1 = (ret, h', s2)" by (cases "body f h s1") auto
    with body [of f h s1] have s2: "os_files s2 = os_files s1" "os_faults s2 = os_faults s1"
      by simp_all
    with w have "os_faults s2 = os_faults s" by (simp add: create_and_write_faults)
    moreover from this have "no_faults s \<Longrightarrow> no_faults s2" by (simp add: no_faults_def)
    ultimately show ?thesis
      using Pair w b s2 Inr
      by (auto simp: with_values_file_def os_kept_def intro: create_write_remove_restores)
  qed
qed

lemma InstallHelmRelease_kept: "os_kept s (snd (snd (InstallHelmRelease H rc cred ca spec (h, s))))"
proof -
  let ?r = "newDefaultRegistryClient H cred (o_EnableClientCache (rs_Options spec)) ca (spec_insecure spec) h s"
  have r: "os_kept s (snd ?r)" by (rule newDefaultRegistryClient_kept)
  have w: "os_kept s (snd (snd (with_values_file sp (install_with_values H se c cp) (h, snd ?r))))"
    for sp se c cp
    by (rule os_kept_trans [OF r with_values_file_kept]) (rule install_with_values_kept)+
  show ?thesis
    using r w by (cases ?r) (auto simp: InstallHelmRelease_def Let_def split: sum.split prod.split)
qed

lemma UpgradeHelmReleaseIfChanged_kept:
  "os_kept s (snd (snd (UpgradeHelmReleaseIfChanged H rc cred ca spec ex (h, s))))"
proof -
  let ?r = "newDefaultRegistryClient H cred (o_EnableClientCache (rs_Options spec)) ca (spec_insecure spec) h s"
  have r: "os_kept s (snd ?r)" by (rule newDefaultRegistryClient_kept)
  have w: "os_kept s (snd (snd (with_values_file spec
      (\<lambda>f. upgrade_with_values H se c cn rn cp f ex) (h, snd ?r))))" for se c cn rn cp
    by (rule os_kept_trans [OF r with_values_file_kept]) (rule upgrade_with_values_kept)+
  show ?thesis
    using r w
    by (cases ?r) (auto simp: UpgradeHelmReleaseIfChanged_def Let_def split: sum.split prod.split)
qed

lemma InstallOrUpgradeHelmRelease_kept:
  "os_kept s (snd (snd (InstallOrUpgradeHelmRelease H rc cred ca spec (h, s))))"
  by (auto simp: InstallOrUpgradeHelmRelease_def InstallHelmRelease_kept
      UpgradeHelmReleaseIfChanged_kept split: sum.split prod.split option.split)

lemma GetHelmRelease_unnamed: "rs_ReleaseName spec = [] \<Longrightarrow> GetHelmRelease H rc spec h = Inl ErrReleaseNotFound"
  by (simp add: GetHelmRelease_def)

text \<open>The implementation meets the interface's contract, whatever the SDK does.\<close>

interpretation hc: helm_client "HelmClient H" for H :: "('h, 'v) helm_lib"
proof unfold_locales
  fix rc cred ca spec and h :: 'h and s and ret :: "'v rel_ret" and h' s'
  assume r: "hc_InstallOrUpgradeHelmRelease (HelmClient H) rc cred ca spec (h, s) = (ret, h', s')"
  then have k: "os_kept s s'"
    using InstallOrUpgradeHelmRelease_kept [of s H rc cred ca spec h] by (simp add: HelmClient_def)
  then show "os_faults s' = os_faults s" by (simp add: os_kept_def)
  from k show "no_faults s \<Longrightarrow> os_files s' = os_files s" by (simp add: os_kept_def)
next
  fix rc :: rest_config and spec :: HelmReleaseProxySpec and h :: 'h
  assume "rs_ReleaseName spec = []"
  then show "hc_GetHelmRelease (HelmClient H) rc spec h = Inl ErrReleaseNotFound"
    by (simp add: HelmClient_def GetHelmRelease_unnamed)
qed

section \<open>Upgrade decision\<close>





text \<open>A chart name with a path separator makes \<^verbatim>\<open>os.CreateTemp\<close> refuse the values file.\<close>

lemma writeValuesToFile_separator:
  "CHR ''/'' \<in> set (rs_ChartName spec) \<Longrightarrow> writeValuesToFile spec s = (Inl errPatternHasSeparator, s)"
  by (simp add: writeValuesToFile_def create_and_write_def CreateTemp_separator)

section \<open>Sample inputs\<close>

text \<open>A spec, a release and a store on which the witnesses evaluate the client.\<close>

definition ex_spec :: "string \<Rightarrow> HelmReleaseProxySpec" where
  "ex_spec chart = (hrp_Spec zero_hrp)\<lparr>rs_ChartName := chart, rs_RepoURL := ''https://charts.example.com'',
     rs_ReleaseName := ''web'', rs_ReleaseNamespace := ''default'', rs_Version := ''1.0'',
     rs_Values := ''a: 1''\<rparr>"

definition ex_rest :: rest_config where
  "ex_rest = \<lparr>rc_Host = ''h'', rc_BearerToken = [], rc_UserAgent = [], rc_Timeout = 0, rc_Data = []\<rparr>"

definition ex_chart :: Chart where
  "ex_chart = \<lparr>ch_Metadata = Some \<lparr>md_Version = ''1.0''\<rparr>\<rparr>"

definition ex_release :: "string \<Rightarrow> string Release" where
  "ex_release st = \<lparr>rel_Name = ''web'', rel_Version = 1, rel_Status = st, rel_Chart = Some ex_chart,
     rel_Config = ''a: 1''\<rparr>"

definition ex_helm :: "string Release list \<Rightarrow> sim_helm" where
  "ex_helm rs = \<lparr>sh_releases = rs, sh_charts = [(''nginx'', ex_chart)]\<rparr>"

lemmas ex_defs = ex_spec_def ex_rest_def ex_chart_def ex_release_def ex_helm_def zero_hrp_def
  zero_options_def

lemmas helm_run_defs =
  InstallOrUpgradeHelmRelease_def GetHelmRelease_def HelmInit_def GetActionConfig_def
  InstallHelmRelease_def UpgradeHelmReleaseIfChanged_def with_values_file_def writeValuesToFile_def
  create_and_write_def CreateTemp_def prefixAndSuffix_def createTemp_loop.simps Write_def ReadFile_def
  Remove_def sys_fault_def sys_tick_def install_with_values_def upgrade_with_values_def
  newDefaultRegistryClient_def newClientTLS_def spec_insecure_def getHelmChartAndRepoName_def
  updateLastReleaseStatus_def shouldUpgradeHelmRelease_def generateHelmInstallConfig_def
  generateHelmUpgradeConfig_def Let_def

lemmas sim_helm_defs =
  sim_helm_lib_def sim_get_def sim_history_def sim_store_update_def sim_run_install_def
  sim_run_upgrade_def sim_run_uninstall_def sim_new_install_def sim_new_upgrade_def
  sim_new_uninstall_def sim_os_def HasPrefix_def StatusDeployed_def StatusFailed_def

section \<open>Properties\<close>





text \<open>C33: a chart name with a path separator can never be installed: every call of
  \<^verbatim>\<open>InstallHelmRelease\<close> for it returns an error and no release, and leaves the workload cluster
  alone, because the values file cannot be created.\<close>

theorem helm_chart_separator_fails:
  assumes "CHR ''/'' \<in> set (rs_ChartName spec)"
    and "InstallHelmRelease H rc cred ca spec (h, s) = (ret, h', s')"
  shows "fst ret = None \<and> snd ret \<noteq> None \<and> h' = h"
  using assms
  by (auto simp: InstallHelmRelease_def with_values_file_def writeValuesToFile_separator Let_def
      split: sum.splits prod.splits)

theorem helm_chart_separator_fails_witness:
  "fst (InstallHelmRelease sim_helm_lib ex_rest [] [] (ex_spec ''charts/nginx'') (ex_helm [], sim_os))
     = (None, Some errPatternHasSeparator)"
proof -
  let ?R = "InstallHelmRelease sim_helm_lib ex_rest [] [] (ex_spec ''charts/nginx'') (ex_helm [], sim_os)"
  have "fst (fst ?R) = None \<and> snd (fst ?R) \<noteq> None \<and> fst (snd ?R) = ex_helm []"
    by (rule helm_chart_separator_fails [where spec = "ex_spec ''charts/nginx''" and s' = "snd (snd ?R)"])
      (simp_all add: ex_spec_def)
  moreover have "snd (fst ?R) = Some errPatternHasSeparator"
    by (simp add: helm_run_defs sim_helm_defs ex_defs)
  ultimately show ?thesis by (metis prod.collapse)
qed





text \<open>C40: two documented options never reach Helm: neither \<^verbatim>\<open>dependencyUpdate\<close> nor
  \<^verbatim>\<open>upgrade.recreate\<close> has any influence on the install, upgrade or uninstall client.\<close>

theorem helm_options_without_effect:
  "let opts' = opts\<lparr>o_DependencyUpdate := b, o_Upgrade := (o_Upgrade opts)\<lparr>uo_Recreate := d\<rparr>\<rparr>
   in generateHelmInstallConfig H cfg (Some opts') = generateHelmInstallConfig H cfg (Some opts) \<and>
      generateHelmUpgradeConfig H cfg (Some opts') = generateHelmUpgradeConfig H cfg (Some opts) \<and>
      generateHelmUninstallConfig H cfg (Some opts') = generateHelmUninstallConfig H cfg (Some opts)"
  by (simp add: generateHelmInstallConfig_def generateHelmUpgradeConfig_def
      generateHelmUninstallConfig_def Let_def split: option.split)

end
