(* ===== verification/Webhooks.thy ===== *)
theory Webhooks
  imports Helm_Client
begin

text \<open>
  The admission webhooks of the two kinds, \<^verbatim>\<open>api/v1alpha1/helmchartproxy_webhook.go\<close> and
  \<^verbatim>\<open>helmreleaseproxy_webhook.go\<close>: defaulting, and validation on create, update and delete. A
  validator answers \<open>None\<close> when it admits the object. The lemmas say which repository URLs and
  Secret references are admitted, and what holds of every object the webhooks have seen
  through its whole life.
\<close>

section \<open>Errors of the webhooks\<close>

text \<open>\<^verbatim>\<open>field.Invalid(path, value, detail)\<close>.\<close>

record field_error =
  fe_Path :: string
  fe_Value :: string
  fe_Detail :: string

text \<open>What a validator returns: a plain error, or \<^verbatim>\<open>apierrors.NewInvalid(kind, name, errs)\<close>.\<close>

datatype admission_error =
    PlainError go_error
  | InvalidObject string string "field_error list"

abbreviation field_Invalid :: "string \<Rightarrow> string \<Rightarrow> string \<Rightarrow> field_error" where
  "field_Invalid p v d \<equiv> \<lparr>fe_Path = p, fe_Value = v, fe_Detail = d\<rparr>"

section \<open>Repository URLs\<close>

definition quoted :: "string \<Rightarrow> string" where
  "quoted s = [CHR 0x22] @ s @ [CHR 0x22]"

definition isUrlValid :: "string \<Rightarrow> go_error option" where
  "isUrlValid repoURL =
     (case ParseRequestURI repoURL of
        Inl err \<Rightarrow> Some (Wrapf err (''specified repoURL '' @ repoURL @ '' is not valid''))
      | Inr parsedURL \<Rightarrow>
          (let scheme = ToLower (u_Scheme parsedURL) in
           if scheme \<noteq> ''https'' \<and> scheme \<noteq> ''oci'' then
             Some (Errorf (''specified repoURL '' @ repoURL @ '' uses unsupported scheme ''
               @ quoted (u_Scheme parsedURL) @ ''; supported schemes are https and oci''))
           else if scheme = ''oci'' \<and> \<not> HasPrefix repoURL ''oci://'' then
             Some (Errorf (''specified repoURL '' @ repoURL @ '' must use the lowercase oci scheme''))
           else if Hostname parsedURL = [] then
             Some (Errorf (''specified repoURL '' @ repoURL @ '' must include a host''))
           else None))"

section \<open>Secret references\<close>

definition validateSecretReferences ::
  "HelmChartProxy option \<Rightarrow> HelmChartProxy \<Rightarrow> field_error list" where
  "validateSecretReferences oldObj newObj =
     (let oldCredentials = (case oldObj of None \<Rightarrow> None | Some ob \<Rightarrow> cs_Credentials (hcp_Spec ob));
          oldTLSConfig = (case oldObj of None \<Rightarrow> None | Some ob \<Rightarrow> cs_TLSConfig (hcp_Spec ob));
          errs1 =
            (case cs_Credentials (hcp_Spec newObj) of
               None \<Rightarrow> []
             | Some credentials \<Rightarrow>
                 (if sr_Namespace (cr_Secret credentials) \<noteq> [] \<and>
                     sr_Namespace (cr_Secret credentials) \<noteq> hcp_Namespace newObj \<and>
                     (case oldCredentials of None \<Rightarrow> True | Some c \<Rightarrow> cr_Secret credentials \<noteq> cr_Secret c)
                  then [field_Invalid ''spec.credentials.secret.namespace''
                          (sr_Namespace (cr_Secret credentials)) ''must be empty or match metadata.namespace'']
                  else []));
          errs2 =
            (case cs_TLSConfig (hcp_Spec newObj) of
               None \<Rightarrow> []
             | Some tlsConfig \<Rightarrow>
                 (case tls_CASecretRef tlsConfig of
                    None \<Rightarrow> []
                  | Some ref \<Rightarrow>
                      (if sr_Namespace ref \<noteq> [] \<and> sr_Namespace ref \<noteq> hcp_Namespace newObj \<and>
                          (case oldTLSConfig of None \<Rightarrow> True
                           | Some t \<Rightarrow> (case tls_CASecretRef t of None \<Rightarrow> True | Some r \<Rightarrow> ref \<noteq> r))
                       then [field_Invalid ''spec.tlsConfig.caSecret.namespace'' (sr_Namespace ref)
                               ''must be empty or match metadata.namespace'']
                       else [])))
      in errs1 @ errs2)"

section \<open>\<open>HelmChartProxy\<close>\<close>

text \<open>Ten minutes, in nanoseconds.\<close>

definition helmTimeout :: int where
  "helmTimeout = 600000000000"

definition hcp_Default :: "HelmChartProxy \<Rightarrow> HelmChartProxy" where
  "hcp_Default newObj =
     (let s0 = hcp_Spec newObj;
          s1 = (if cs_ReleaseNamespace s0 = [] then s0\<lparr>cs_ReleaseNamespace := ''default''\<rparr> else s0);
          s2 = (if o_Atomic (cs_Options s1) then s1\<lparr>cs_Options := (cs_Options s1)\<lparr>o_Wait := True\<rparr>\<rparr> else s1);
          s3 = (if o_Timeout (cs_Options s2) = None
                then s2\<lparr>cs_Options := (cs_Options s2)\<lparr>o_Timeout := Some helmTimeout\<rparr>\<rparr> else s2)
      in newObj\<lparr>hcp_Spec := s3\<rparr>)"

definition hcp_ValidateCreate :: "HelmChartProxy \<Rightarrow> admission_error option" where
  "hcp_ValidateCreate newObj =
     (case isUrlValid (cs_RepoURL (hcp_Spec newObj)) of
        Some err \<Rightarrow> Some (PlainError err)
      | None \<Rightarrow>
          (let allErrs = validateSecretReferences None newObj
           in if allErrs \<noteq> [] then Some (InvalidObject ''HelmChartProxy'' (hcp_Name newObj) allErrs)
              else None))"

text \<open>The value reported with an invalid URL is the release namespace, as in the code.\<close>

definition hcp_ValidateUpdate :: "HelmChartProxy \<Rightarrow> HelmChartProxy \<Rightarrow> admission_error option" where
  "hcp_ValidateUpdate oldObj newObj =
     (let e1 = (case isUrlValid (cs_RepoURL (hcp_Spec newObj)) of
                  None \<Rightarrow> []
                | Some err \<Rightarrow> [field_Invalid ''spec.RepoURL'' (cs_ReleaseNamespace (hcp_Spec newObj)) (Error err)]);
          e2 = validateSecretReferences (Some oldObj) newObj;
          e3 = (if cs_ReconcileStrategy (hcp_Spec newObj) \<noteq> cs_ReconcileStrategy (hcp_Spec oldObj)
                then [field_Invalid ''spec.ReconcileStrategy'' (cs_ReconcileStrategy (hcp_Spec newObj))
                        ''field is immutable'']
                else []);
          allErrs = e1 @ e2 @ e3
      in if allErrs \<noteq> [] then Some (InvalidObject ''HelmChartProxy'' (hcp_Name newObj) allErrs) else None)"

definition hcp_ValidateDelete :: "HelmChartProxy \<Rightarrow> admission_error option" where
  "hcp_ValidateDelete obj = None"

section \<open>\<open>HelmReleaseProxy\<close>\<close>

definition hrp_Default :: "HelmReleaseProxy \<Rightarrow> HelmReleaseProxy" where
  "hrp_Default obj =
     (if rs_ReleaseNamespace (hrp_Spec obj) = []
      then obj\<lparr>hrp_Spec := (hrp_Spec obj)\<lparr>rs_ReleaseNamespace := ''default''\<rparr>\<rparr> else obj)"

definition hrp_ValidateCreate :: "HelmReleaseProxy \<Rightarrow> admission_error option" where
  "hrp_ValidateCreate newObj =
     (case isUrlValid (rs_RepoURL (hrp_Spec newObj)) of
        Some err \<Rightarrow> Some (PlainError err) | None \<Rightarrow> None)"

definition hrp_ValidateUpdate :: "HelmReleaseProxy \<Rightarrow> HelmReleaseProxy \<Rightarrow> admission_error option" where
  "hrp_ValidateUpdate oldObj newObj =
     (let immutable = (\<lambda>path get. if get (hrp_Spec newObj) \<noteq> get (hrp_Spec oldObj)
                          then [field_Invalid path (get (hrp_Spec newObj)) ''field is immutable''] else []);
          allErrs = immutable ''spec.RepoURL'' rs_RepoURL @ immutable ''spec.ChartName'' rs_ChartName @
                    immutable ''spec.ReleaseNamespace'' rs_ReleaseNamespace @
                    immutable ''spec.ReconcileStrategy'' rs_ReconcileStrategy
      in if allErrs \<noteq> [] then Some (InvalidObject ''HelmReleaseProxy'' (hrp_Name newObj) allErrs) else None)"

definition hrp_ValidateDelete :: "HelmReleaseProxy \<Rightarrow> admission_error option" where
  "hrp_ValidateDelete obj = None"

section \<open>Histories\<close>

text \<open>
  The objects a \<^verbatim>\<open>HelmChartProxy\<close> goes through when every write passes the webhooks: the
  first argument is the object as it was created, the second the current one. Defaulting
  runs before validation, and the key of an object never changes.
\<close>

inductive hcp_history :: "HelmChartProxy \<Rightarrow> HelmChartProxy \<Rightarrow> bool" where
  created: "hcp_ValidateCreate (hcp_Default ob) = None \<Longrightarrow> hcp_history (hcp_Default ob) (hcp_Default ob)"
| updated: "hcp_history c ob \<Longrightarrow> meta_key (hcp_Meta new) = meta_key (hcp_Meta ob) \<Longrightarrow>
    hcp_ValidateUpdate ob (hcp_Default new) = None \<Longrightarrow> hcp_history c (hcp_Default new)"

text \<open>A Secret reference that names no namespace or the proxy's own.\<close>

definition local_ref :: "string \<Rightarrow> SecretReference \<Rightarrow> bool" where
  "local_ref ns ref = (sr_Namespace ref = [] \<or> sr_Namespace ref = ns)"

definition ca_ref :: "TLSConfig option \<Rightarrow> SecretReference option" where
  "ca_ref t = (case t of None \<Rightarrow> None | Some c \<Rightarrow> tls_CASecretRef c)"

definition secrets_local :: "HelmChartProxy \<Rightarrow> bool" where
  "secrets_local c =
     (pred_option (local_ref (hcp_Namespace c) \<circ> cr_Secret) (cs_Credentials (hcp_Spec c)) \<and>
      pred_option (local_ref (hcp_Namespace c)) (ca_ref (cs_TLSConfig (hcp_Spec c))))"

text \<open>What defaulting establishes.\<close>

definition defaulted :: "HelmChartProxy \<Rightarrow> bool" where
  "defaulted c =
     (cs_ReleaseNamespace (hcp_Spec c) \<noteq> [] \<and> o_Timeout (cs_Options (hcp_Spec c)) \<noteq> None \<and>
      (o_Atomic (cs_Options (hcp_Spec c)) \<longrightarrow> o_Wait (cs_Options (hcp_Spec c))))"

section \<open>Lemmas on URLs\<close>

lemma getScheme_split:
  "getScheme raw acc s = Inr (sch, rest) \<Longrightarrow> sch = [] \<or> rev acc @ s = sch @ CHR '':'' # rest"
  by (induction raw acc s rule: getScheme.induct) (auto split: if_splits)

lemma parseAuthority_empty: "parseAuthority sch [] = Inr (None, [])"
  by (simp add: parseAuthority_def parseHost_def last_cut_def first_cut_def)

lemma setPath_frame:
  "setPath u p = Inr u' \<Longrightarrow> u_Host u' = u_Host u \<and> u_Scheme u' = u_Scheme u"
  by (auto simp: setPath_def split: sum.splits)

text \<open>Only an authority after two slashes gives a URL its host.\<close>

lemma parse_rest_host:
  assumes "parse_rest v u rest = Inr u'" and "u_Host u = []" and "u_Host u' \<noteq> []"
  shows "\<exists>c t. rest = ''//'' @ c # t \<and> c \<noteq> CHR ''/''"
proof -
  have pre: "HasPrefix rest ''//''" and auth: "fst (Cut (drop 2 rest) CHR ''/'') \<noteq> []"
    using assms
    by (auto simp: parse_rest_def parseAuthority_empty dest!: setPath_frame
        split: if_splits prod.splits sum.splits)
  from pre obtain r where r: "rest = ''//'' @ r" by (auto simp: HasPrefix_iff)
  with auth show ?thesis by (cases r) (auto split: if_splits)
qed

lemma parse_rest_scheme: "parse_rest v u rest = Inr u' \<Longrightarrow> u_Scheme u' = u_Scheme u"
  by (auto simp: parse_rest_def dest!: setPath_frame split: if_splits prod.splits sum.splits)

lemma Cut_prefix: "Cut s c = (b, a, f) \<Longrightarrow> \<exists>t. s = b @ t \<and> c \<notin> set b"
  by (cases f) (auto dest: Cut_found Cut_not_found)

lemma parse_url_host:
  assumes "parse_url raw v = Inr u" and "u_Host u \<noteq> []" and "u_Scheme u \<noteq> []"
  shows "\<exists>sch c t. raw = sch @ ''://'' @ c # t \<and> c \<noteq> CHR ''/'' \<and> c \<noteq> CHR ''?'' \<and> ToLower sch = u_Scheme u"
proof -
  obtain sch rest r q f where sch: "getScheme raw [] raw = Inr (sch, rest)"
    and r: "Cut rest CHR ''?'' = (r, q, f)"
    and p: "parse_rest v (zero_url\<lparr>u_Scheme := ToLower sch, u_ForceQuery := (f \<and> q = []), u_RawQuery := q\<rparr>) r
              = Inr u"
    using assms by (auto simp: parse_url_def zero_url_def split: if_splits sum.splits prod.splits)
  have s: "u_Scheme u = ToLower sch" using parse_rest_scheme [OF p] by simp
  with assms(3) have "sch \<noteq> []" by (auto simp: ToLower_def)
  with getScheme_split [OF sch] have raw: "raw = sch @ CHR '':'' # rest" by simp
  obtain c t where c: "r = ''//'' @ c # t" "c \<noteq> CHR ''/''"
    using parse_rest_host [OF p _ assms(2)] by (auto simp: zero_url_def)
  from Cut_prefix [OF r] obtain t' where "rest = r @ t'" "CHR ''?'' \<notin> set r" by blast
  with c raw s show ?thesis by auto
qed

lemma Hostname_no_host: "u_Host u = [] \<Longrightarrow> Hostname u = []"
  by (simp add: Hostname_def last_cut_def HasPrefix_def)

lemma lower_idem [simp]: "lower (lower c) = lower c"
proof -
  have "\<not> is_upper (char_of (byte c + 32) :: char)" if "is_upper c"
    using that by (simp add: byte_defs)
  then show ?thesis by (simp add: lower_def)
qed

lemma ToLower_idem [simp]: "ToLower (ToLower s) = ToLower s"
  by (simp add: ToLower_def)

lemma isUrlValid_form:
  assumes "isUrlValid url = None"
  shows "\<exists>sch c t. url = sch @ ''://'' @ c # t \<and> c \<noteq> CHR ''/'' \<and> c \<noteq> CHR ''?'' \<and>
    (ToLower sch = ''https'' \<or> sch = ''oci'')"
proof -
  obtain u where p: "parse_url url True = Inr u"
    and sch: "ToLower (u_Scheme u) = ''https'' \<or> HasPrefix url ''oci://'' \<and> ToLower (u_Scheme u) = ''oci''"
    and h: "Hostname u \<noteq> []"
    using assms
    by (cases "parse_url url True")
      (auto simp: isUrlValid_def ParseRequestURI_def Let_def split: if_splits)
  have "u_Scheme u \<noteq> []" using sch by (auto simp: ToLower_def)
  moreover have "u_Host u \<noteq> []" using h Hostname_no_host by blast
  ultimately obtain s c t where u: "url = s @ ''://'' @ c # t" "c \<noteq> CHR ''/''" "c \<noteq> CHR ''?''"
    "ToLower s = u_Scheme u" using parse_url_host [OF p] by blast
  from sch show ?thesis
  proof
    assume "ToLower (u_Scheme u) = ''https''"
    then have "ToLower s = ''https''" using u(4) ToLower_idem [of s] by metis
    with u show ?thesis by blast
  next
    assume o: "HasPrefix url ''oci://'' \<and> ToLower (u_Scheme u) = ''oci''"
    then have "length s = 3" using u(4) by (metis ToLower_def ToLower_idem length_map length_Cons list.size(3) numeral_3_eq_3)
    moreover obtain r where "url = ''oci://'' @ r" using o by (auto simp: HasPrefix_iff)
    ultimately have "s = ''oci''" using u(1) by (auto simp: numeral_3_eq_3 length_Suc_conv)
    with u show ?thesis by blast
  qed
qed

section \<open>Lemmas on the validators\<close>

lemma validateSecretReferences_iff:
  "validateSecretReferences old new = [] \<longleftrightarrow>
     (\<forall>c. cs_Credentials (hcp_Spec new) = Some c \<longrightarrow> local_ref (hcp_Namespace new) (cr_Secret c) \<or>
        (\<exists>ob d. old = Some ob \<and> cs_Credentials (hcp_Spec ob) = Some d \<and> cr_Secret d = cr_Secret c)) \<and>
     (\<forall>r. ca_ref (cs_TLSConfig (hcp_Spec new)) = Some r \<longrightarrow> local_ref (hcp_Namespace new) r \<or>
        (\<exists>ob. old = Some ob \<and> ca_ref (cs_TLSConfig (hcp_Spec ob)) = Some r))"
  by (auto simp: validateSecretReferences_def local_ref_def ca_ref_def Let_def split: option.splits)

lemma hcp_Default_frame [simp]:
  "hcp_Meta (hcp_Default c) = hcp_Meta c"
  "cs_Credentials (hcp_Spec (hcp_Default c)) = cs_Credentials (hcp_Spec c)"
  "cs_TLSConfig (hcp_Spec (hcp_Default c)) = cs_TLSConfig (hcp_Spec c)"
  "cs_RepoURL (hcp_Spec (hcp_Default c)) = cs_RepoURL (hcp_Spec c)"
  "cs_ReconcileStrategy (hcp_Spec (hcp_Default c)) = cs_ReconcileStrategy (hcp_Spec c)"
  by (simp_all add: hcp_Default_def Let_def)

lemma hcp_Default_defaulted: "defaulted (hcp_Default c)"
  by (simp add: defaulted_def hcp_Default_def Let_def)

lemma hcp_Default_id: "defaulted c \<Longrightarrow> hcp_Default c = c"
  by (auto simp: defaulted_def hcp_Default_def Let_def)

lemma hcp_ValidateCreate_None_iff:
  "hcp_ValidateCreate c = None \<longleftrightarrow>
     isUrlValid (cs_RepoURL (hcp_Spec c)) = None \<and> secrets_local c"
  by (auto simp: hcp_ValidateCreate_def secrets_local_def pred_option_def option.pred_set
      validateSecretReferences_iff Let_def split: option.splits)

lemma hcp_ValidateUpdate_None_iff:
  "hcp_ValidateUpdate ob c = None \<longleftrightarrow>
     isUrlValid (cs_RepoURL (hcp_Spec c)) = None \<and> validateSecretReferences (Some ob) c = [] \<and>
     cs_ReconcileStrategy (hcp_Spec c) = cs_ReconcileStrategy (hcp_Spec ob)"
  by (auto simp: hcp_ValidateUpdate_def Let_def split: option.splits)

text \<open>Local references stay local across an admitted update in the same namespace.\<close>

lemma secrets_local_update:
  assumes "secrets_local ob" and "hcp_Namespace c = hcp_Namespace ob"
    and "validateSecretReferences (Some ob) c = []"
  shows "secrets_local c"
  using assms by (fastforce simp: secrets_local_def option.pred_set validateSecretReferences_iff)

text \<open>What a history keeps, by rule induction on it.\<close>

lemma hcp_history_invariant:
  "hcp_history c ob \<Longrightarrow> secrets_local ob \<and> defaulted ob \<and> isUrlValid (cs_RepoURL (hcp_Spec ob)) = None \<and>
     cs_ReconcileStrategy (hcp_Spec ob) = cs_ReconcileStrategy (hcp_Spec c) \<and>
     meta_key (hcp_Meta ob) = meta_key (hcp_Meta c)"
proof (induction rule: hcp_history.induct)
  case (created ob)
  then show ?case by (simp add: hcp_ValidateCreate_None_iff hcp_Default_defaulted)
next
  case (updated c ob new)
  then have "secrets_local (hcp_Default new)"
    using secrets_local_update [of ob "hcp_Default new"]
    by (simp add: hcp_ValidateUpdate_None_iff meta_key_def)
  with updated show ?case by (simp add: hcp_ValidateUpdate_None_iff hcp_Default_defaulted)
qed

text \<open>Defaulting is idempotent, leaves an object that has its defaults alone, and never
  touches the metadata, the chart, the Secret references or the strategy.\<close>

lemma webhook_default_idempotent:
  "hcp_Default (hcp_Default c) = hcp_Default c \<and> hrp_Default (hrp_Default r) = hrp_Default r \<and>
   (defaulted c \<longrightarrow> hcp_Default c = c) \<and>
   hcp_Meta (hcp_Default c) = hcp_Meta c \<and> hcp_Status (hcp_Default c) = hcp_Status c \<and>
   (hcp_Spec (hcp_Default c))\<lparr>cs_ReleaseNamespace := n, cs_Options := opts\<rparr> =
     (hcp_Spec c)\<lparr>cs_ReleaseNamespace := n, cs_Options := opts\<rparr>"
proof -
  have "hcp_Default (hcp_Default c) = hcp_Default c" by (rule hcp_Default_id [OF hcp_Default_defaulted])
  moreover have "hrp_Default (hrp_Default r) = hrp_Default r" by (simp add: hrp_Default_def)
  moreover have "hcp_Status (hcp_Default c) = hcp_Status c" by (simp add: hcp_Default_def Let_def)
  moreover have "(hcp_Spec (hcp_Default c))\<lparr>cs_ReleaseNamespace := n, cs_Options := opts\<rparr> =
     (hcp_Spec c)\<lparr>cs_ReleaseNamespace := n, cs_Options := opts\<rparr>"
    by (simp add: hcp_Default_def Let_def)
  ultimately show ?thesis by (simp add: hcp_Default_id)
qed

section \<open>Sample inputs\<close>

definition ex_hcp :: "string \<Rightarrow> HelmChartProxy" where
  "ex_hcp url =
     \<lparr>hcp_Meta = zero_meta\<lparr>m_Name := ''web'', m_Namespace := ''team''\<rparr>,
      hcp_Spec = \<lparr>cs_ClusterSelector = \<lparr>ls_MatchLabels = Map.empty, ls_MatchExpressions = []\<rparr>,
        cs_ChartName = ''nginx'', cs_RepoURL = url, cs_ReleaseName = ''web'', cs_ReleaseNamespace = [],
        cs_Version = ''1.0'', cs_ValuesTemplate = ''a: 1'', cs_ReconcileStrategy = [],
        cs_Options = zero_options, cs_Credentials = None, cs_TLSConfig = None\<rparr>,
      hcp_Status = \<lparr>ct_Conditions = [], ct_MatchingClusters = [], ct_ObservedGeneration = 0\<rparr>\<rparr>"

definition ex_cred :: "string \<Rightarrow> Credentials" where
  "ex_cred ns = \<lparr>cr_Secret = \<lparr>sr_Name = ''registry'', sr_Namespace = ns\<rparr>, cr_Key = []\<rparr>"

lemmas ex_hcp_defs = ex_hcp_def ex_cred_def zero_meta_def zero_options_def

lemma isUrlValid_plain:
  assumes "sch = ''https'' \<or> sch = ''oci''" and "list_all plain host" "host \<noteq> []"
    and "\<forall>s \<in> set segs. list_all plain s"
  shows "isUrlValid (plain_url sch host segs) = None"
proof -
  have pre: "sch = ''oci'' \<Longrightarrow> HasPrefix (plain_url sch host segs) ''oci://''"
    by (simp add: plain_url_def HasPrefix_def)
  have "ToLower sch = sch" using assms(1) by (auto simp: ToLower_def byte_defs)
  then show ?thesis
    using assms pre Hostname_plain [of "zero_url\<lparr>u_Scheme := sch, u_Host := host, u_Path := abs_path segs\<rparr>"]
    by (auto simp: isUrlValid_def ParseRequestURI_def parse_plain_url)
qed

lemma ex_url_valid: "isUrlValid ''https://charts.example.com'' = None"
  using isUrlValid_plain [of "''https''" "''charts.example.com''" "[]"]
  by (simp add: plain_url_def abs_path_def plain_def byte_defs)

lemma ex_url_invalid: "isUrlValid ''http://charts.example.com'' \<noteq> None"
proof
  assume "isUrlValid ''http://charts.example.com'' = None"
  from isUrlValid_form [OF this] obtain sch r where
    u: "''http://charts.example.com'' = sch @ '':'' @ r" and s: "ToLower sch = ''https'' \<or> sch = ''oci''"
    by auto
  from s have "sch \<noteq> ''http''" "CHR '':'' \<notin> set sch"
    by (auto simp: ToLower_def byte_defs)
  moreover have "Cut ''http://charts.example.com'' CHR '':'' = (''http'', ''//charts.example.com'', True)"
    by simp
  ultimately show False using Cut_sep [of "CHR '':''" sch r] u by simp
qed

section \<open>Properties\<close>



text \<open>C6: what holds of a chart proxy through its whole life, when every create and update
  passes the webhooks: its Secret references stay in its own namespace, its repository URL is
  valid, the defaults are in place (a release namespace, a timeout, waiting when atomic), its
  reconcile strategy is the one it was created with, and so is its key.\<close>

theorem webhook_history_invariant:
  "hcp_history c ob \<Longrightarrow> secrets_local ob \<and> defaulted ob \<and> isUrlValid (cs_RepoURL (hcp_Spec ob)) = None \<and>
     cs_ReconcileStrategy (hcp_Spec ob) = cs_ReconcileStrategy (hcp_Spec c) \<and>
     meta_key (hcp_Meta ob) = meta_key (hcp_Meta c)"
  by (rule hcp_history_invariant)

theorem webhook_history_invariant_witness:
  "hcp_history (hcp_Default (ex_hcp ''https://charts.example.com''))
     (hcp_Default (ex_hcp ''https://charts.example.com'')) \<and>
   defaulted (hcp_Default (ex_hcp ''https://charts.example.com''))"
proof -
  have "hcp_ValidateCreate (hcp_Default (ex_hcp ''https://charts.example.com'')) = None"
    using ex_url_valid by (simp add: hcp_ValidateCreate_None_iff secrets_local_def ca_ref_def ex_hcp_def)
  then have h: "hcp_history (hcp_Default (ex_hcp ''https://charts.example.com''))
     (hcp_Default (ex_hcp ''https://charts.example.com''))" by (rule hcp_history.created)
  then show ?thesis using webhook_history_invariant [OF h] by blast
qed

text \<open>C26: an update of a chart proxy is admitted exactly when its URL is valid, its reconcile
  strategy is unchanged, and each Secret reference is local or the one it had before; so a
  reference to another namespace can be kept, never introduced or changed.\<close>

theorem webhook_update_admitted_iff:
  "hcp_ValidateUpdate ob c = None \<longleftrightarrow>
     isUrlValid (cs_RepoURL (hcp_Spec c)) = None \<and>
     cs_ReconcileStrategy (hcp_Spec c) = cs_ReconcileStrategy (hcp_Spec ob) \<and>
     (\<forall>cr. cs_Credentials (hcp_Spec c) = Some cr \<longrightarrow> local_ref (hcp_Namespace c) (cr_Secret cr) \<or>
        map_option cr_Secret (cs_Credentials (hcp_Spec ob)) = Some (cr_Secret cr)) \<and>
     (\<forall>r. ca_ref (cs_TLSConfig (hcp_Spec c)) = Some r \<longrightarrow> local_ref (hcp_Namespace c) r \<or>
        ca_ref (cs_TLSConfig (hcp_Spec ob)) = Some r)"
  by (auto simp: hcp_ValidateUpdate_None_iff validateSecretReferences_iff)

theorem webhook_update_admitted_iff_witness:
  "let legacy = (ex_hcp ''https://charts.example.com'')
         \<lparr>hcp_Spec := (hcp_Spec (ex_hcp ''https://charts.example.com''))
           \<lparr>cs_Credentials := Some (ex_cred ''caaph-system'')\<rparr>\<rparr>
   in hcp_ValidateUpdate legacy legacy = None \<and>
      hcp_ValidateUpdate (ex_hcp ''https://charts.example.com'') legacy \<noteq> None"
  using ex_url_valid by (simp add: webhook_update_admitted_iff Let_def ca_ref_def local_ref_def ex_hcp_defs)

text \<open>C38: the exemption for unchanged legacy references has no counterpart for URLs. A chart
  proxy stored with a URL the webhook no longer admits can not be updated at all while it
  keeps that URL, not even to remove its finalizer, so its deletion never completes; a release
  proxy in the same position is admitted.\<close>

theorem webhook_legacy_url_blocks_updates:
  assumes "isUrlValid (cs_RepoURL (hcp_Spec ob)) \<noteq> None"
    and "cs_RepoURL (hcp_Spec c) = cs_RepoURL (hcp_Spec ob)"
  shows "hcp_ValidateUpdate ob c \<noteq> None \<and>
    hcp_ValidateUpdate ob (ob\<lparr>hcp_Meta := (hcp_Meta ob)\<lparr>m_Finalizers := []\<rparr>\<rparr>) \<noteq> None \<and>
    hrp_ValidateUpdate r (r\<lparr>hrp_Meta := (hrp_Meta r)\<lparr>m_Finalizers := []\<rparr>\<rparr>) = None"
  using assms by (auto simp: hcp_ValidateUpdate_None_iff hrp_ValidateUpdate_def)

theorem webhook_legacy_url_blocks_updates_witness:
  "hcp_ValidateUpdate (ex_hcp ''http://charts.example.com'') (ex_hcp ''http://charts.example.com'') \<noteq> None"
  using webhook_legacy_url_blocks_updates [of "ex_hcp ''http://charts.example.com''"
      "ex_hcp ''http://charts.example.com''"] ex_url_invalid
  by (simp add: ex_hcp_def)

end
