(* ===== verification/Values.thy ===== *)
theory Values
  imports Sim_Env
begin

text \<open>
  \<^verbatim>\<open>internal/value_substitutions.go\<close>: rendering a chart proxy's values template for one cluster.
  The template engine, the Sprig function map and the conversion of objects are parameters;
  the lookup table, the error wrapping and the removal of unsafe functions are the code's.
\<close>

definition unsafeTemplateFuncs :: "string list" where
  "unsafeTemplateFuncs = [''env'', ''expandenv'', ''getHostByName'']"

text \<open>\<^verbatim>\<open>delete(funcMap, name)\<close> for each unsafe name.\<close>

definition secureTxtFuncMap :: "'f tmpl \<Rightarrow> string \<rightharpoonup> 'f" where
  "secureTxtFuncMap T = foldl (\<lambda>funcMap name. funcMap(name := None)) (t_sprig T) unsafeTemplateFuncs"

definition ref_set :: "ContractVersionedObjectReference \<Rightarrow> bool" where
  "ref_set ref = (cv_Name ref \<noteq> [] \<and> cv_Kind ref \<noteq> [])"

definition initializeBuiltins ::
  "'k capi \<Rightarrow> Cluster \<Rightarrow> 'k \<Rightarrow> (string \<rightharpoonup> unstructured) res" where
  "initializeBuiltins P cluster k =
     (case p_unstructured P cluster of
        Inl err \<Rightarrow> Inl (Wrapf err (''error converting cluster '' @ [CHR 0x27] @ cl_Name cluster
                     @ [CHR 0x27] @ '' to unstructured''))
      | Inr clusterUnstructured \<Rightarrow>
          (let valueLookUp = [''Cluster'' \<mapsto> clusterUnstructured]
           in case (if ref_set (cl_ControlPlaneRef cluster)
                    then map_sum id (\<lambda>obj. valueLookUp(''ControlPlane'' \<mapsto> obj))
                           (p_external P (cl_ControlPlaneRef cluster) (cl_Namespace cluster) k)
                    else Inr valueLookUp) of
                Inl err \<Rightarrow> Inl (Wrapf err (''error getting ControlPlane object for cluster '' @ [CHR 0x27]
                             @ cl_Name cluster @ [CHR 0x27]))
              | Inr valueLookUp1 \<Rightarrow>
                  (case (if ref_set (cl_InfrastructureRef cluster)
                         then map_sum id (\<lambda>obj. valueLookUp1(''InfraCluster'' \<mapsto> obj))
                                (p_external P (cl_InfrastructureRef cluster) (cl_Namespace cluster) k)
                         else Inr valueLookUp1) of
                     Inl err \<Rightarrow> Inl (Wrapf err (''error getting Infrastructure object for cluster '' @ [CHR 0x27]
                                  @ cl_Name cluster @ [CHR 0x27]))
                   | Inr valueLookUp2 \<Rightarrow> Inr valueLookUp2)))"

definition ParseValues ::
  "'f tmpl \<Rightarrow> 'k capi \<Rightarrow> HelmChartProxySpec \<Rightarrow> Cluster \<Rightarrow> 'k \<Rightarrow> string res" where
  "ParseValues T P spec cluster k =
     (case initializeBuiltins P cluster k of
        Inl err \<Rightarrow> Inl (Wrapf err (''error initializing built-in templating objects for cluster '' @ [CHR 0x27]
                     @ cl_Name cluster @ [CHR 0x27]))
      | Inr valueLookUp \<Rightarrow>
          (let name = cs_ChartName spec @ ''-'' @ cl_Name cluster
           in case t_parse T name (secureTxtFuncMap T) (cs_ValuesTemplate spec) of
                Some err \<Rightarrow> Inl err
              | None \<Rightarrow>
                  (case t_execute T name (secureTxtFuncMap T) (cs_ValuesTemplate spec) valueLookUp of
                     Inl err \<Rightarrow> Inl (Wrapf err (''error executing template string '' @ [CHR 0x27]
                                  @ cs_ValuesTemplate spec @ [CHR 0x27] @ '' on cluster '' @ [CHR 0x27]
                                  @ cl_Name cluster @ [CHR 0x27]))
                   | Inr expandedTemplate \<Rightarrow> Inr expandedTemplate)))"

section \<open>Lemmas\<close>

lemma secureTxtFuncMap_apply:
  "secureTxtFuncMap T name = (if name \<in> set unsafeTemplateFuncs then None else t_sprig T name)"
  by (simp add: secureTxtFuncMap_def unsafeTemplateFuncs_def)

text \<open>Two engines that differ only in the unsafe functions render every template alike.\<close>

lemma secureTxtFuncMap_cong:
  "(\<And>n. n \<notin> set unsafeTemplateFuncs \<Longrightarrow> t_sprig T n = t_sprig T' n) \<Longrightarrow>
     secureTxtFuncMap T = secureTxtFuncMap T'"
  by (rule ext) (simp add: secureTxtFuncMap_apply)

lemma initializeBuiltins_dom:
  assumes "initializeBuiltins P cluster k = Inr lookup"
  shows "dom lookup = {''Cluster''} \<union> (if ref_set (cl_ControlPlaneRef cluster) then {''ControlPlane''} else {})
     \<union> (if ref_set (cl_InfrastructureRef cluster) then {''InfraCluster''} else {})"
  using assms
  by (cases "p_external P (cl_ControlPlaneRef cluster) (cl_Namespace cluster) k";
      cases "p_external P (cl_InfrastructureRef cluster) (cl_Namespace cluster) k")
    (auto simp: initializeBuiltins_def Let_def split: sum.splits if_splits)

section \<open>Sample inputs\<close>

text \<open>An engine with one unsafe and one harmless function; a template that calls a function the
  map lacks does not parse.\<close>

definition ex_tmpl :: "unit tmpl" where
  "ex_tmpl = \<lparr>t_sprig = [''env'' \<mapsto> (), ''upper'' \<mapsto> ()],
     t_parse = (\<lambda>_ fm s. if s = ''{{ env }}'' \<and> fm ''env'' = None
                  then Some (Errorf ''function env not defined'') else None),
     t_execute = (\<lambda>_ _ s _. Inr s)\<rparr>"

section \<open>Properties\<close>

text \<open>C27: values templates can not reach the controller's environment. The functions a template
  is parsed and executed with are those of Sprig without \<^verbatim>\<open>env\<close>, \<^verbatim>\<open>expandenv\<close> and
  \<^verbatim>\<open>getHostByName\<close>, and nothing else is lost; so the rendered values do not depend on what
  those three functions are.\<close>

theorem values_no_unsafe_functions:
  "dom (secureTxtFuncMap T) = dom (t_sprig T) - {''env'', ''expandenv'', ''getHostByName''} \<and>
   secureTxtFuncMap T \<subseteq>\<^sub>m t_sprig T \<and>
   ((\<forall>n. n \<notin> {''env'', ''expandenv'', ''getHostByName''} \<longrightarrow> t_sprig T n = f n) \<longrightarrow>
      ParseValues (T\<lparr>t_sprig := f\<rparr>) P spec cluster k = ParseValues T P spec cluster k)"
proof -
  have u: "set unsafeTemplateFuncs = {''env'', ''expandenv'', ''getHostByName''}"
    by (simp add: unsafeTemplateFuncs_def)
  have d: "dom (secureTxtFuncMap T) = dom (t_sprig T) - set unsafeTemplateFuncs"
    by (auto simp: dom_def secureTxtFuncMap_apply)
  moreover have "secureTxtFuncMap T \<subseteq>\<^sub>m t_sprig T"
    by (auto simp: map_le_def secureTxtFuncMap_apply dom_def)
  moreover have "ParseValues (T\<lparr>t_sprig := f\<rparr>) P spec cluster k = ParseValues T P spec cluster k"
    if "\<forall>n. n \<notin> set unsafeTemplateFuncs \<longrightarrow> t_sprig T n = f n"
  proof -
    have "secureTxtFuncMap (T\<lparr>t_sprig := f\<rparr>) = secureTxtFuncMap T"
      by (rule secureTxtFuncMap_cong) (use that in simp)
    then show ?thesis by (simp add: ParseValues_def cong: sum.case_cong option.case_cong)
  qed
  ultimately show ?thesis unfolding u by blast
qed

theorem values_no_unsafe_functions_witness:
  "\<forall>spec. ParseValues (ex_tmpl\<lparr>t_sprig := [''upper'' \<mapsto> ()]\<rparr>) sim_capi spec (ex_cluster ''c1'') sim_empty =
     ParseValues ex_tmpl sim_capi spec (ex_cluster ''c1'') sim_empty"
  using values_no_unsafe_functions [of ex_tmpl "[''upper'' \<mapsto> ()]" sim_capi _ "ex_cluster ''c1''" sim_empty]
  by (auto simp: ex_tmpl_def)

text \<open>The objects a template can name are the cluster, and the control plane and the
  infrastructure cluster exactly when the cluster's references to them have a name and a kind;
  when one of the three can not be read, rendering fails before the template is looked at.\<close>

lemma values_lookup_objects:
  "(initializeBuiltins P cluster k = Inr lookup \<longrightarrow>
      dom lookup = {''Cluster''} \<union> (if ref_set (cl_ControlPlaneRef cluster) then {''ControlPlane''} else {})
        \<union> (if ref_set (cl_InfrastructureRef cluster) then {''InfraCluster''} else {})) \<and>
   (initializeBuiltins P cluster k = Inl err \<longrightarrow> (\<exists>msg. ParseValues T P spec cluster k = Inl (Wrapf err msg)))"
  using initializeBuiltins_dom [of P cluster k lookup] by (auto simp: ParseValues_def)

end
