(* ===== verification/Chart_Phases.thy ===== *)
theory Chart_Phases
  imports Webhooks Values
begin

text \<open>
  \<^verbatim>\<open>controllers/helmchartproxy/helmchartproxy_controller_phases.go\<close>: what the chart controller
  does for one selected cluster (find, build, create, update or replace its release proxy) and
  with the release proxies of clusters that are no longer selected. The chart proxy the code
  mutates is passed along and returned; \<open>K\<close> is the API client, \<open>P\<close> the helper packages, \<open>T\<close>
  the template engine.
\<close>

section \<open>Conditions and deletion\<close>

text \<open>\<^verbatim>\<open>conditions.Set(helmChartProxy, metav1.Condition{...})\<close>.\<close>

definition hcp_cond ::
  "'k capi \<Rightarrow> HelmChartProxy \<Rightarrow> string \<Rightarrow> ConditionStatus \<Rightarrow> string \<Rightarrow> string \<Rightarrow> HelmChartProxy" where
  "hcp_cond P c t st reason msg =
     hcp_SetConditions c (p_set P (hcp_GetConditions c)
       \<lparr>c_Type = t, c_Status = st, c_Reason = reason, c_Message = msg\<rparr>)"

text \<open>A proxy that is already gone counts as deleted.\<close>

definition deleteHelmReleaseProxy :: "'k kube \<Rightarrow> HelmReleaseProxy \<Rightarrow> 'k \<Rightarrow> go_error option \<times> 'k" where
  "deleteHelmReleaseProxy K helmReleaseProxy k =
     (case k_delete_hrp K helmReleaseProxy k of
        (None, k') \<Rightarrow> (None, k')
      | (Some err, k') \<Rightarrow>
          (if IsNotFound err then (None, k')
           else (Some (Wrapf err (''failed to delete helmReleaseProxy: '' @ hrp_Name helmReleaseProxy)), k')))"

section \<open>Orphans\<close>

definition cluster_map_key :: "string \<Rightarrow> string \<Rightarrow> string" where
  "cluster_map_key namespace name = namespace @ ''/'' @ name"

definition getOrphanedHelmReleaseProxies ::
  "Cluster list \<Rightarrow> HelmReleaseProxy list \<Rightarrow> HelmReleaseProxy list" where
  "getOrphanedHelmReleaseProxies clusters helmReleaseProxies =
     (let selectedClusters = set (map (\<lambda>c. cluster_map_key (cl_Namespace c) (cl_Name c)) clusters)
      in filter (\<lambda>r. cluster_map_key (ref_Namespace (rs_ClusterRef (hrp_Spec r)))
                       (ref_Name (rs_ClusterRef (hrp_Spec r))) \<notin> selectedClusters) helmReleaseProxies)"

definition delete_or_mark ::
  "'k kube \<Rightarrow> 'k capi \<Rightarrow> HelmReleaseProxy \<Rightarrow> HelmChartProxy \<times> 'k
     \<Rightarrow> go_error option \<times> HelmChartProxy \<times> 'k" where
  "delete_or_mark K P release st =
     (case st of (c, k) \<Rightarrow>
      case deleteHelmReleaseProxy K release k of
        (Some err, k') \<Rightarrow>
          (Some err, hcp_cond P c HelmReleaseProxySpecsUpToDateCondition ConditionFalse
                       HelmReleaseProxyDeletionFailedReason (Error err), k')
      | (None, k') \<Rightarrow> (None, c, k'))"

definition deleteOrphanedHelmReleaseProxies ::
  "'k kube \<Rightarrow> 'k capi \<Rightarrow> HelmChartProxy \<Rightarrow> Cluster list \<Rightarrow> HelmReleaseProxy list \<Rightarrow> 'k
     \<Rightarrow> go_error option \<times> HelmChartProxy \<times> 'k" where
  "deleteOrphanedHelmReleaseProxies K P helmChartProxy clusters helmReleaseProxies k =
     for_each (delete_or_mark K P) (getOrphanedHelmReleaseProxies clusters helmReleaseProxies)
       (helmChartProxy, k)"

section \<open>The release proxy of a cluster\<close>

definition getExistingHelmReleaseProxy ::
  "'k kube \<Rightarrow> HelmChartProxy \<Rightarrow> Cluster \<Rightarrow> 'k \<Rightarrow> HelmReleaseProxy option res" where
  "getExistingHelmReleaseProxy K helmChartProxy cluster k =
     (case k_list_hrps K (hcp_Namespace helmChartProxy)
             [ClusterNameLabel \<mapsto> cl_Name cluster, HelmChartProxyLabelName \<mapsto> hcp_Name helmChartProxy] k of
        Inl err \<Rightarrow> Inl err
      | Inr [] \<Rightarrow> Inr None
      | Inr [r] \<Rightarrow> Inr (Some r)
      | Inr _ \<Rightarrow> Inl (Errorf ''multiple HelmReleaseProxies found matching the cluster and HelmChartProxy''))"

text \<open>The metadata and the immutable fields of a new proxy.\<close>

definition new_release_proxy :: "'k capi \<Rightarrow> HelmChartProxy \<Rightarrow> Cluster \<Rightarrow> HelmReleaseProxy" where
  "new_release_proxy P helmChartProxy cluster =
     zero_hrp\<lparr>hrp_Meta := zero_meta
        \<lparr>m_GenerateName := cs_ChartName (hcp_Spec helmChartProxy) @ ''-'' @ cl_Name cluster @ ''-'',
         m_Namespace := hcp_Namespace helmChartProxy,
         m_OwnerReferences := p_ensure_owner P [] (p_controller_ref P helmChartProxy),
         m_Labels := [ClusterNameLabel \<mapsto> cl_Name cluster, HelmChartProxyLabelName \<mapsto> hcp_Name helmChartProxy]\<rparr>,
       hrp_Spec := (hrp_Spec zero_hrp)
        \<lparr>rs_ClusterRef := \<lparr>ref_Kind = cl_Kind cluster, ref_APIVersion = cl_APIVersion cluster,
                            ref_Name = cl_Name cluster, ref_Namespace = cl_Namespace cluster\<rparr>,
         rs_ReleaseName := cs_ReleaseName (hcp_Spec helmChartProxy),
         rs_ChartName := cs_ChartName (hcp_Spec helmChartProxy),
         rs_RepoURL := cs_RepoURL (hcp_Spec helmChartProxy),
         rs_ReleaseNamespace := cs_ReleaseNamespace (hcp_Spec helmChartProxy)\<rparr>\<rparr>"

text \<open>When an existing proxy is rewritten.\<close>

definition release_proxy_changed :: "HelmReleaseProxy \<Rightarrow> HelmChartProxy \<Rightarrow> string \<Rightarrow> bool" where
  "release_proxy_changed existing helmChartProxy parsedValues =
     (rs_Version (hrp_Spec existing) \<noteq> cs_Version (hcp_Spec helmChartProxy) \<or>
      rs_Values (hrp_Spec existing) \<noteq> parsedValues \<or>
      (case rs_Credentials (hrp_Spec existing) of None \<Rightarrow> False
       | Some cr \<Rightarrow> sr_Namespace (cr_Secret cr) \<noteq> hcp_Namespace helmChartProxy) \<or>
      (case rs_TLSConfig (hrp_Spec existing) of None \<Rightarrow> False
       | Some t \<Rightarrow> (case tls_CASecretRef t of None \<Rightarrow> False
                    | Some ref \<Rightarrow> sr_Namespace ref \<noteq> hcp_Namespace helmChartProxy)))"

text \<open>The mutable fields, with the Secret references moved to the chart proxy's namespace.\<close>

definition local_credentials :: "HelmChartProxy \<Rightarrow> Credentials option" where
  "local_credentials helmChartProxy =
     map_option (\<lambda>cr. cr\<lparr>cr_Secret := (cr_Secret cr)\<lparr>sr_Namespace := hcp_Namespace helmChartProxy\<rparr>,
                          cr_Key := (if cr_Key cr = [] then DefaultOCIKey else cr_Key cr)\<rparr>)
       (cs_Credentials (hcp_Spec helmChartProxy))"

definition local_tls :: "HelmChartProxy \<Rightarrow> TLSConfig option" where
  "local_tls helmChartProxy =
     map_option (\<lambda>t. t\<lparr>tls_CASecretRef :=
         map_option (\<lambda>ref. ref\<lparr>sr_Namespace := hcp_Namespace helmChartProxy\<rparr>) (tls_CASecretRef t)\<rparr>)
       (cs_TLSConfig (hcp_Spec helmChartProxy))"

definition constructHelmReleaseProxy ::
  "'k capi \<Rightarrow> HelmReleaseProxy option \<Rightarrow> HelmChartProxy \<Rightarrow> string \<Rightarrow> Cluster \<Rightarrow> HelmReleaseProxy option" where
  "constructHelmReleaseProxy P existing helmChartProxy parsedValues cluster =
     (case (case existing of
              None \<Rightarrow> Some (new_release_proxy P helmChartProxy cluster)
            | Some r \<Rightarrow> (if release_proxy_changed r helmChartProxy parsedValues then Some r else None)) of
        None \<Rightarrow> None
      | Some helmReleaseProxy \<Rightarrow>
          Some (helmReleaseProxy\<lparr>hrp_Spec := (hrp_Spec helmReleaseProxy)
            \<lparr>rs_ReconcileStrategy := cs_ReconcileStrategy (hcp_Spec helmChartProxy),
             rs_Version := cs_Version (hcp_Spec helmChartProxy),
             rs_Values := parsedValues,
             rs_Options := cs_Options (hcp_Spec helmChartProxy),
             rs_Credentials := local_credentials helmChartProxy,
             rs_TLSConfig := local_tls helmChartProxy\<rparr>\<rparr>))"

definition createOrUpdateHelmReleaseProxy ::
  "'k kube \<Rightarrow> 'k capi \<Rightarrow> HelmReleaseProxy option \<Rightarrow> HelmChartProxy \<Rightarrow> Cluster \<Rightarrow> string \<Rightarrow> 'k
     \<Rightarrow> go_error option \<times> 'k" where
  "createOrUpdateHelmReleaseProxy K P existing helmChartProxy cluster parsedValues k =
     (case constructHelmReleaseProxy P existing helmChartProxy parsedValues cluster of
        None \<Rightarrow> (None, k)
      | Some helmReleaseProxy \<Rightarrow>
          (case existing of
             None \<Rightarrow>
               (case k_create_hrp K helmReleaseProxy k of
                  (Some err, k') \<Rightarrow>
                    (Some (Wrapf err (''failed to create HelmReleaseProxy '' @ [CHR 0x27]
                       @ hrp_Name helmReleaseProxy @ [CHR 0x27] @ '' for cluster: ''
                       @ cl_Namespace cluster @ ''/'' @ cl_Name cluster)), k')
                | (None, k') \<Rightarrow> (None, k'))
           | Some _ \<Rightarrow>
               (case k_update_hrp K helmReleaseProxy k of
                  (Some err, k') \<Rightarrow>
                    (Some (Wrapf err (''failed to update HelmReleaseProxy '' @ [CHR 0x27]
                       @ hrp_Name helmReleaseProxy @ [CHR 0x27] @ '' for cluster: ''
                       @ cl_Namespace cluster @ ''/'' @ cl_Name cluster)), k')
                | (None, k') \<Rightarrow> (None, k'))))"

definition shouldReinstallHelmRelease :: "HelmReleaseProxy \<Rightarrow> HelmChartProxy \<Rightarrow> bool" where
  "shouldReinstallHelmRelease existing helmChartProxy =
     (let isReleaseNameGenerated =
            (hrp_GetAnnotations existing IsReleaseNameGeneratedAnnotation = Some ''true'');
          e = hrp_Spec existing; s = hcp_Spec helmChartProxy
      in if rs_ChartName e \<noteq> cs_ChartName s then True
         else if rs_RepoURL e \<noteq> cs_RepoURL s then True
         else if isReleaseNameGenerated \<and> cs_ReleaseName s \<noteq> [] then True
         else if \<not> isReleaseNameGenerated \<and> rs_ReleaseName e \<noteq> cs_ReleaseName s then True
         else if rs_ReleaseNamespace e \<noteq> cs_ReleaseNamespace s then True
         else False)"

section \<open>\<open>reconcileForCluster\<close>\<close>

text \<open>The tail of the function: render the values, then create or update.\<close>

definition render_and_apply ::
  "'f tmpl \<Rightarrow> 'k kube \<Rightarrow> 'k capi \<Rightarrow> HelmReleaseProxy option \<Rightarrow> HelmChartProxy \<Rightarrow> Cluster \<Rightarrow> 'k
     \<Rightarrow> go_error option \<times> HelmChartProxy \<times> 'k" where
  "render_and_apply T K P existing c cluster k =
     (case ParseValues T P (hcp_Spec c) cluster k of
        Inl err \<Rightarrow>
          (Some (Wrapf err (''failed to parse values on cluster '' @ cl_Name cluster)),
           hcp_cond P c HelmReleaseProxySpecsUpToDateCondition ConditionFalse
             ValueParsingFailedReason (Error err), k)
      | Inr values \<Rightarrow>
          (if m_DeletionTimestamp (cl_Meta cluster) = None then
             (case createOrUpdateHelmReleaseProxy K P existing c cluster values k of
                (Some err, k') \<Rightarrow>
                  (Some (Wrapf err (''failed to create or update HelmReleaseProxy on cluster '' @ cl_Name cluster)),
                   hcp_cond P c HelmReleaseProxySpecsUpToDateCondition ConditionFalse
                     HelmReleaseProxyCreationFailedReason (Error err), k')
              | (None, k') \<Rightarrow> (None, c, k'))
           else (None, c, k)))"

text \<open>Reinstalling deletes the proxy and returns; the new one is made by a later reconcile.\<close>

definition delete_for_reinstall ::
  "'k kube \<Rightarrow> 'k capi \<Rightarrow> HelmReleaseProxy \<Rightarrow> HelmChartProxy \<Rightarrow> Cluster \<Rightarrow> 'k
     \<Rightarrow> go_error option \<times> HelmChartProxy \<times> 'k" where
  "delete_for_reinstall K P existing c cluster k =
     (case deleteHelmReleaseProxy K existing k of
        (Some err, k') \<Rightarrow>
          (Some err, hcp_cond P c HelmReleaseProxySpecsUpToDateCondition ConditionFalse
                       HelmReleaseProxyDeletionFailedReason (Error err), k')
      | (None, k') \<Rightarrow>
          (None, hcp_cond P c HelmReleaseProxySpecsUpToDateCondition ConditionFalse
                   HelmReleaseProxyReinstallingReason
                   (''HelmReleaseProxy on cluster '' @ [CHR 0x27] @ cl_Name cluster @ [CHR 0x27]
                     @ '' successfully deleted, preparing to reinstall''), k'))"

definition reconcileForCluster ::
  "'f tmpl \<Rightarrow> 'k kube \<Rightarrow> 'k capi \<Rightarrow> HelmChartProxy \<Rightarrow> Cluster \<Rightarrow> 'k
     \<Rightarrow> go_error option \<times> HelmChartProxy \<times> 'k" where
  "reconcileForCluster T K P c cluster k =
     (if p_is_paused P cluster c then (None, c, k)
      else case getExistingHelmReleaseProxy K c cluster k of
        Inl err \<Rightarrow> (Some (Wrapf err (''failed to get HelmReleaseProxy for cluster '' @ cl_Name cluster)), c, k)
      | Inr existing \<Rightarrow>
          (if cs_ReconcileStrategy (hcp_Spec c) = ReconcileStrategyInstallOnce then
             (if HasHelmReleaseBeenSuccessfullyInstalled existing then (None, c, k)
              else render_and_apply T K P existing c cluster k)
           else case existing of
             Some r \<Rightarrow>
               (if shouldReinstallHelmRelease r c then delete_for_reinstall K P r c cluster k
                else render_and_apply T K P existing c cluster k)
           | None \<Rightarrow> render_and_apply T K P existing c cluster k))"

section \<open>Lemmas\<close>

lemma hcp_cond_frame [simp]:
  "hcp_Spec (hcp_cond P c t st reason msg) = hcp_Spec c"
  "hcp_Meta (hcp_cond P c t st reason msg) = hcp_Meta c"
  by (simp_all add: hcp_cond_def)

text \<open>The string keys of the orphan search identify namespace and name, since a namespace has no
  slash.\<close>

lemma cluster_map_key_inject:
  "CHR ''/'' \<notin> set ns \<Longrightarrow> CHR ''/'' \<notin> set ns' \<Longrightarrow>
     cluster_map_key ns n = cluster_map_key ns' n' \<longleftrightarrow> ns = ns' \<and> n = n'"
  by (simp add: cluster_map_key_def sep_key_inject)

lemma getOrphaned_iff:
  "r \<in> set (getOrphanedHelmReleaseProxies clusters rs) \<longleftrightarrow>
     r \<in> set rs \<and> cluster_map_key (ref_Namespace (rs_ClusterRef (hrp_Spec r)))
        (ref_Name (rs_ClusterRef (hrp_Spec r))) \<notin> (\<lambda>c. cluster_map_key (cl_Namespace c) (cl_Name c)) ` set clusters"
  by (simp add: getOrphanedHelmReleaseProxies_def)

lemma shouldReinstall_iff:
  "shouldReinstallHelmRelease r c \<longleftrightarrow>
     \<not> (rs_ChartName (hrp_Spec r) = cs_ChartName (hcp_Spec c) \<and> rs_RepoURL (hrp_Spec r) = cs_RepoURL (hcp_Spec c) \<and>
        rs_ReleaseNamespace (hrp_Spec r) = cs_ReleaseNamespace (hcp_Spec c) \<and>
        (if hrp_GetAnnotations r IsReleaseNameGeneratedAnnotation = Some ''true''
         then cs_ReleaseName (hcp_Spec c) = [] else rs_ReleaseName (hrp_Spec r) = cs_ReleaseName (hcp_Spec c)))"
  by (auto simp: shouldReinstallHelmRelease_def Let_def)

text \<open>What a constructed proxy looks like, whether new or rewritten.\<close>

lemma construct_SomeE:
  assumes "constructHelmReleaseProxy P existing c v cluster = Some r"
  obtains r0 where "r0 = (case existing of None \<Rightarrow> new_release_proxy P c cluster | Some r \<Rightarrow> r)"
    "r = r0\<lparr>hrp_Spec := (hrp_Spec r0)
            \<lparr>rs_ReconcileStrategy := cs_ReconcileStrategy (hcp_Spec c), rs_Version := cs_Version (hcp_Spec c),
             rs_Values := v, rs_Options := cs_Options (hcp_Spec c), rs_Credentials := local_credentials c,
             rs_TLSConfig := local_tls c\<rparr>\<rparr>"
  using assms by (auto simp: constructHelmReleaseProxy_def split: option.splits if_splits)

lemma local_credentials_ref:
  assumes "local_credentials c = Some cr"
  shows "sr_Namespace (cr_Secret cr) = hcp_Namespace c \<and> cr_Key cr \<noteq> []"
proof -
  obtain z where "cr = z\<lparr>cr_Secret := (cr_Secret z)\<lparr>sr_Namespace := hcp_Namespace c\<rparr>,
      cr_Key := (if cr_Key z = [] then DefaultOCIKey else cr_Key z)\<rparr>"
    using assms by (auto simp: local_credentials_def)
  then show ?thesis by (simp add: DefaultOCIKey_def)
qed

lemma local_tls_ref: "ca_ref (local_tls c) = Some ref \<Longrightarrow> sr_Namespace ref = hcp_Namespace c"
  by (auto simp: local_tls_def ca_ref_def split: option.splits)

lemmas local_refs = local_credentials_ref local_tls_ref

lemma release_proxy_changed_iff:
  "release_proxy_changed r c v \<longleftrightarrow>
     rs_Version (hrp_Spec r) \<noteq> cs_Version (hcp_Spec c) \<or> rs_Values (hrp_Spec r) \<noteq> v \<or>
     (\<exists>cr. rs_Credentials (hrp_Spec r) = Some cr \<and> sr_Namespace (cr_Secret cr) \<noteq> hcp_Namespace c) \<or>
     (\<exists>ref. ca_ref (rs_TLSConfig (hrp_Spec r)) = Some ref \<and> sr_Namespace ref \<noteq> hcp_Namespace c)"
  by (auto simp: release_proxy_changed_def ca_ref_def split: option.splits)

lemma construct_frame:
  assumes "constructHelmReleaseProxy P existing c v cluster = Some r"
  shows "rs_Version (hrp_Spec r) = cs_Version (hcp_Spec c)" "rs_Values (hrp_Spec r) = v"
    "rs_ReconcileStrategy (hrp_Spec r) = cs_ReconcileStrategy (hcp_Spec c)"
    "rs_Options (hrp_Spec r) = cs_Options (hcp_Spec c)"
    "rs_Credentials (hrp_Spec r) = local_credentials c" "rs_TLSConfig (hrp_Spec r) = local_tls c"
    "existing = Some r0 \<Longrightarrow> hrp_Meta r = hrp_Meta r0 \<and> hrp_Status r = hrp_Status r0 \<and>
       rs_ChartName (hrp_Spec r) = rs_ChartName (hrp_Spec r0) \<and> rs_RepoURL (hrp_Spec r) = rs_RepoURL (hrp_Spec r0) \<and>
       rs_ReleaseName (hrp_Spec r) = rs_ReleaseName (hrp_Spec r0) \<and>
       rs_ReleaseNamespace (hrp_Spec r) = rs_ReleaseNamespace (hrp_Spec r0) \<and>
       rs_ClusterRef (hrp_Spec r) = rs_ClusterRef (hrp_Spec r0)"
  using assms by (auto elim!: construct_SomeE)

lemma construct_unchanged:
  assumes "rs_Version (hrp_Spec r) = cs_Version (hcp_Spec c)" "rs_Values (hrp_Spec r) = v"
    and "rs_Credentials (hrp_Spec r) = local_credentials c" "rs_TLSConfig (hrp_Spec r) = local_tls c"
  shows "constructHelmReleaseProxy P (Some r) c v cluster = None"
  using assms local_refs
  by (auto simp: constructHelmReleaseProxy_def release_proxy_changed_iff)

lemma getExisting_Some:
  assumes "getExistingHelmReleaseProxy K c cluster k = Inr (Some r)"
  shows "k_list_hrps K (hcp_Namespace c)
    [ClusterNameLabel \<mapsto> cl_Name cluster, HelmChartProxyLabelName \<mapsto> hcp_Name c] k = Inr [r]"
  using assms by (auto simp: getExistingHelmReleaseProxy_def split: sum.splits list.splits)

text \<open>The writes one cluster can cause.\<close>

lemma deleteHelmReleaseProxy_state: "snd (deleteHelmReleaseProxy K r k) = snd (k_delete_hrp K r k)"
  by (auto simp: deleteHelmReleaseProxy_def split: prod.splits option.splits)

lemma createOrUpdate_write:
  assumes "createOrUpdateHelmReleaseProxy K P existing c cluster v k = (e, k')"
  shows "k' = k \<or> (\<exists>r. constructHelmReleaseProxy P existing c v cluster = Some r \<and>
    k' = (case existing of None \<Rightarrow> snd (k_create_hrp K r k) | Some _ \<Rightarrow> snd (k_update_hrp K r k)))"
  using assms
  by (auto simp: createOrUpdateHelmReleaseProxy_def split: option.splits prod.splits)

lemma render_and_apply_write:
  assumes "render_and_apply T K P existing c cluster k = (e, c', k')"
  shows "k' = k \<or> (\<exists>v r. constructHelmReleaseProxy P existing c v cluster = Some r \<and>
    k' = (case existing of None \<Rightarrow> snd (k_create_hrp K r k) | Some _ \<Rightarrow> snd (k_update_hrp K r k)))"
proof -
  consider "k' = k" | v e' where "createOrUpdateHelmReleaseProxy K P existing c cluster v k = (e', k')"
    using assms by (auto simp: render_and_apply_def split: sum.splits if_splits prod.splits option.splits)
  then show ?thesis by cases (auto dest: createOrUpdate_write)
qed

lemma delete_for_reinstall_state: "snd (snd (delete_for_reinstall K P r c cluster k)) = snd (k_delete_hrp K r k)"
  using deleteHelmReleaseProxy_state [of K r k]
  by (auto simp: delete_for_reinstall_def split: prod.splits option.splits)

text \<open>The three kinds of write of one cluster's reconcile.\<close>

definition cluster_write ::
  "'k kube \<Rightarrow> 'k capi \<Rightarrow> HelmChartProxy \<Rightarrow> Cluster \<Rightarrow> 'k \<Rightarrow> 'k \<Rightarrow> bool" where
  "cluster_write K P c cluster k k' =
     ((\<exists>r. getExistingHelmReleaseProxy K c cluster k = Inr (Some r) \<and> k' = snd (k_delete_hrp K r k) \<and>
         shouldReinstallHelmRelease r c \<and> cs_ReconcileStrategy (hcp_Spec c) \<noteq> ReconcileStrategyInstallOnce) \<or>
      (\<exists>v r. getExistingHelmReleaseProxy K c cluster k = Inr None \<and>
         constructHelmReleaseProxy P None c v cluster = Some r \<and> k' = snd (k_create_hrp K r k)) \<or>
      (\<exists>v r0 r. getExistingHelmReleaseProxy K c cluster k = Inr (Some r0) \<and>
         constructHelmReleaseProxy P (Some r0) c v cluster = Some r \<and> k' = snd (k_update_hrp K r k)))"

text \<open>Reconciling one cluster makes at most one write to the API server, and only to the cluster's
  own release proxy.\<close>

lemma reconcileForCluster_write:
  assumes "reconcileForCluster T K P c cluster k = (e, c', k')"
  shows "k' = k \<or> cluster_write K P c cluster k k'"
proof -
  consider "k' = k" | existing where "getExistingHelmReleaseProxy K c cluster k = Inr existing"
      "render_and_apply T K P existing c cluster k = (e, c', k')"
    | r where "getExistingHelmReleaseProxy K c cluster k = Inr (Some r)" "shouldReinstallHelmRelease r c"
      "cs_ReconcileStrategy (hcp_Spec c) \<noteq> ReconcileStrategyInstallOnce"
      "delete_for_reinstall K P r c cluster k = (e, c', k')"
    using assms by (auto simp: reconcileForCluster_def split: if_splits sum.splits option.splits)
  then show ?thesis
  proof cases
    case (2 existing)
    then show ?thesis
      using render_and_apply_write [OF 2(2)] by (cases existing) (auto simp: cluster_write_def)
  next
    case (3 r)
    then show ?thesis
      using delete_for_reinstall_state [of K P r c cluster k] by (auto simp: cluster_write_def)
  qed simp
qed

lemma reconcileForCluster_frame:
  "reconcileForCluster T K P c cluster k = (e, c', k') \<Longrightarrow> hcp_Spec c' = hcp_Spec c \<and> hcp_Meta c' = hcp_Meta c"
  by (auto simp: reconcileForCluster_def render_and_apply_def delete_for_reinstall_def
      split: if_splits sum.splits option.splits prod.splits)

section \<open>Sample inputs\<close>

definition ex_rp :: "string \<Rightarrow> HelmReleaseProxy" where
  "ex_rp name = zero_hrp\<lparr>hrp_Spec := (hrp_Spec zero_hrp)
     \<lparr>rs_ClusterRef := \<lparr>ref_Kind = [], ref_APIVersion = [], ref_Name = name, ref_Namespace = ''team''\<rparr>\<rparr>\<rparr>"

lemma ex_construct:
  obtains r where "constructHelmReleaseProxy P None c v cluster = Some r"
  by (simp add: constructHelmReleaseProxy_def)

lemmas ex_cluster_run_defs = reconcileForCluster_def getExistingHelmReleaseProxy_def render_and_apply_def
  ParseValues_def initializeBuiltins_def ref_set_def createOrUpdateHelmReleaseProxy_def
  constructHelmReleaseProxy_def new_release_proxy_def sim_kube_ops_def sim_list_def sim_empty_def sim_capi_def
  sim_create_hrp_def ex_tmpl_def ex_cluster_def ex_hcp_defs const_defs Let_def

section \<open>Properties\<close>

text \<open>C24: the orphans of a chart proxy are exactly the listed release proxies whose cluster
  reference, namespace and name together, is not among the selected clusters; they are
  returned in the order they were listed. Namespaces contain no slash.\<close>

theorem chart_orphans_exact:
  assumes "\<forall>c \<in> set clusters. CHR ''/'' \<notin> set (cl_Namespace c)"
    and "\<forall>r \<in> set rs. CHR ''/'' \<notin> set (ref_Namespace (rs_ClusterRef (hrp_Spec r)))"
  shows "getOrphanedHelmReleaseProxies clusters rs =
    filter (\<lambda>r. \<forall>c \<in> set clusters. (cl_Namespace c, cl_Name c) \<noteq>
      (ref_Namespace (rs_ClusterRef (hrp_Spec r)), ref_Name (rs_ClusterRef (hrp_Spec r)))) rs"
proof -
  have "cluster_map_key (ref_Namespace (rs_ClusterRef (hrp_Spec r))) (ref_Name (rs_ClusterRef (hrp_Spec r)))
      \<notin> (\<lambda>c. cluster_map_key (cl_Namespace c) (cl_Name c)) ` set clusters \<longleftrightarrow>
    (\<forall>c \<in> set clusters. (cl_Namespace c, cl_Name c) \<noteq>
      (ref_Namespace (rs_ClusterRef (hrp_Spec r)), ref_Name (rs_ClusterRef (hrp_Spec r))))" if "r \<in> set rs" for r
    using that assms by (auto simp: cluster_map_key_inject image_iff)
  then show ?thesis by (auto simp: getOrphanedHelmReleaseProxies_def intro!: filter_cong)
qed

theorem chart_orphans_exact_witness:
  "getOrphanedHelmReleaseProxies [ex_cluster ''c1''] [ex_rp ''c1'', ex_rp ''c2''] = [ex_rp ''c2'']"
  using chart_orphans_exact [of "[ex_cluster ''c1'']" "[ex_rp ''c1'', ex_rp ''c2'']"]
  by (simp add: ex_rp_def ex_cluster_def zero_meta_def)

text \<open>C18: building the release proxy is idempotent. What was created or updated needs no further
  update as long as the chart proxy and the rendered values stay as they are, also after the
  release controller has filled in a generated name, the annotations and the status; so the
  controller does not rewrite its proxies forever.\<close>

theorem chart_construct_idempotent:
  assumes "constructHelmReleaseProxy P existing c v cluster = Some r"
    and "hrp_Spec r' = (hrp_Spec r)\<lparr>rs_ReleaseName := name\<rparr>"
  shows "constructHelmReleaseProxy P (Some r') c v cluster = None \<and>
    createOrUpdateHelmReleaseProxy K P (Some r') c cluster v k = (None, k)"
proof -
  have "constructHelmReleaseProxy P (Some r') c v cluster = None"
    using construct_frame(1,2,5,6) [OF assms(1)] assms(2) by (intro construct_unchanged) simp_all
  then show ?thesis by (simp add: createOrUpdateHelmReleaseProxy_def)
qed

theorem chart_construct_idempotent_witness:
  "\<exists>r. constructHelmReleaseProxy sim_capi None (ex_hcp ''https://charts.example.com'') ''a: 1'' (ex_cluster ''c1'') = Some r \<and>
     constructHelmReleaseProxy sim_capi (Some (r\<lparr>hrp_Spec := (hrp_Spec r)\<lparr>rs_ReleaseName := ''web-1''\<rparr>\<rparr>))
       (ex_hcp ''https://charts.example.com'') ''a: 1'' (ex_cluster ''c1'') = None"
proof -
  obtain r where r: "constructHelmReleaseProxy sim_capi None (ex_hcp ''https://charts.example.com'') ''a: 1''
      (ex_cluster ''c1'') = Some r" by (rule ex_construct)
  then show ?thesis
    using chart_construct_idempotent [OF r, of "r\<lparr>hrp_Spec := (hrp_Spec r)\<lparr>rs_ReleaseName := ''web-1''\<rparr>\<rparr>" "''web-1''"]
    by simp
qed

text \<open>The Secret references of a constructed proxy are in the chart proxy's namespace, which is
  the only one the release controller reads Secrets from, and its credentials have a key.\<close>

lemma chart_construct_local_secrets:
  assumes "constructHelmReleaseProxy P existing c v cluster = Some r"
  shows "(\<forall>cr. rs_Credentials (hrp_Spec r) = Some cr \<longrightarrow>
      sr_Namespace (cr_Secret cr) = hcp_Namespace c \<and> cr_Key cr \<noteq> []) \<and>
    (\<forall>ref. ca_ref (rs_TLSConfig (hrp_Spec r)) = Some ref \<longrightarrow> sr_Namespace ref = hcp_Namespace c) \<and>
    (existing = None \<longrightarrow> hrp_Namespace r = hcp_Namespace c)"
  using construct_frame(5,6) [OF assms] local_refs assms
  by (auto simp: constructHelmReleaseProxy_def new_release_proxy_def)

text \<open>C34: a change of only the options, the credentials or the TLS configuration of a chart proxy
  never reaches an existing release proxy: if the proxy needed no update before the change, it
  needs none after it.\<close>

theorem chart_option_changes_ignored:
  assumes "constructHelmReleaseProxy P (Some r) c v cluster = None"
  shows "constructHelmReleaseProxy P (Some r)
    (c\<lparr>hcp_Spec := (hcp_Spec c)\<lparr>cs_Options := opts, cs_Credentials := cr, cs_TLSConfig := tls\<rparr>\<rparr>) v cluster = None"
  using assms by (simp add: constructHelmReleaseProxy_def release_proxy_changed_iff split: if_splits)

theorem chart_option_changes_ignored_witness:
  "\<exists>r. constructHelmReleaseProxy sim_capi (Some r)
     ((ex_hcp ''https://charts.example.com'')\<lparr>hcp_Spec := (hcp_Spec (ex_hcp ''https://charts.example.com''))
       \<lparr>cs_Options := zero_options\<lparr>o_Wait := True\<rparr>, cs_Credentials := Some (ex_cred []), cs_TLSConfig := None\<rparr>\<rparr>)
     ''a: 1'' (ex_cluster ''c1'') = None"
proof -
  obtain r where r: "constructHelmReleaseProxy sim_capi None (ex_hcp ''https://charts.example.com'') ''a: 1''
      (ex_cluster ''c1'') = Some r" by (rule ex_construct)
  have "constructHelmReleaseProxy sim_capi (Some r) (ex_hcp ''https://charts.example.com'') ''a: 1'' (ex_cluster ''c1'') = None"
    by (rule construct_unchanged) (use construct_frame [OF r] in simp_all)
  from chart_option_changes_ignored [OF this] show ?thesis by blast
qed

text \<open>C25: the webhooks admit what the chart controller writes. A new proxy made from a chart proxy
  that passed the webhooks is admitted after defaulting, which changes nothing in it; an
  update is admitted as long as the stored proxy has the chart proxy's strategy, which neither
  webhook lets change.\<close>

theorem chart_writes_admitted:
  assumes "hcp_history c0 c"
  shows "(constructHelmReleaseProxy P None c v cluster = Some r \<longrightarrow>
      hrp_Default r = r \<and> hrp_ValidateCreate r = None) \<and>
    (constructHelmReleaseProxy P (Some r0) c v cluster = Some r \<longrightarrow>
      rs_ReconcileStrategy (hrp_Spec r0) = cs_ReconcileStrategy (hcp_Spec c) \<longrightarrow> hrp_ValidateUpdate r0 r = None)"
proof -
  note h = hcp_history_invariant [OF assms]
  have "hrp_Default r = r \<and> hrp_ValidateCreate r = None" if "constructHelmReleaseProxy P None c v cluster = Some r"
    using that h by (auto simp: constructHelmReleaseProxy_def new_release_proxy_def hrp_Default_def
        hrp_ValidateCreate_def defaulted_def)
  moreover have "hrp_ValidateUpdate r0 r = None" if "constructHelmReleaseProxy P (Some r0) c v cluster = Some r"
      and "rs_ReconcileStrategy (hrp_Spec r0) = cs_ReconcileStrategy (hcp_Spec c)"
    using construct_frame(3,7) [OF that(1)] that(2) by (simp add: hrp_ValidateUpdate_def)
  ultimately show ?thesis by blast
qed

theorem chart_writes_admitted_witness:
  "\<exists>r. constructHelmReleaseProxy sim_capi None (hcp_Default (ex_hcp ''https://charts.example.com'')) ''a: 1''
     (ex_cluster ''c1'') = Some r \<and> hrp_ValidateCreate r = None"
proof -
  have "hcp_ValidateCreate (hcp_Default (ex_hcp ''https://charts.example.com'')) = None"
    using ex_url_valid by (simp add: hcp_ValidateCreate_None_iff secrets_local_def ca_ref_def ex_hcp_def)
  note h = hcp_history.created [OF this]
  obtain r where r: "constructHelmReleaseProxy sim_capi None (hcp_Default (ex_hcp ''https://charts.example.com''))
      ''a: 1'' (ex_cluster ''c1'') = Some r" by (simp add: constructHelmReleaseProxy_def)
  then show ?thesis using chart_writes_admitted [OF h] by blast
qed

end
