(* ===== verification/Release_Controller.thy ===== *)
theory Release_Controller
  imports Helm_Client
begin

text \<open>
  \<^verbatim>\<open>controllers/helmreleaseproxy/helmreleaseproxy_controller.go\<close>: the controller that makes one
  Helm release match one \<^verbatim>\<open>HelmReleaseProxy\<close>. It is written against the interface
  \<^verbatim>\<open>internal.Client\<close> (the record \<open>C\<close>), the API server (\<open>K\<close>) and the helper packages (\<open>P\<close>);
  \<open>pend\<close> is Helm's \<^verbatim>\<open>Status.IsPending\<close>. The mutated proxy is passed along explicitly, and so
  are the API server, the Helm state and the operating system.

  The lemmas are proved in the locale \<open>release_env\<close>, the three interfaces with their
  contracts, and read off for the repository's own client over any Helm SDK.
\<close>

record Result =
  RequeueAfter :: int

definition Result0 :: Result where
  "Result0 = \<lparr>RequeueAfter = 0\<rparr>"

section \<open>Conditions and patching\<close>

text \<open>\<^verbatim>\<open>conditions.Set(helmReleaseProxy, metav1.Condition{...})\<close>.\<close>

definition hrp_cond ::
  "'k capi \<Rightarrow> HelmReleaseProxy \<Rightarrow> string \<Rightarrow> ConditionStatus \<Rightarrow> string \<Rightarrow> string \<Rightarrow> HelmReleaseProxy" where
  "hrp_cond P r t st reason msg =
     hrp_SetConditions r (p_set P (hrp_GetConditions r)
       \<lparr>c_Type = t, c_Status = st, c_Reason = reason, c_Message = msg\<rparr>)"

definition patchHelmReleaseProxy ::
  "'k kube \<Rightarrow> 'k capi \<Rightarrow> HelmReleaseProxy \<Rightarrow> HelmReleaseProxy \<Rightarrow> 'k
     \<Rightarrow> go_error option \<times> HelmReleaseProxy \<times> 'k" where
  "patchHelmReleaseProxy K P before helmReleaseProxy k =
     (case p_summary P (hrp_GetConditions helmReleaseProxy) ReadyCondition
             [ClusterAvailableCondition, HelmReleaseReadyCondition] of
        Inl err \<Rightarrow> (Some (Wrapf err ''failed to set summary condition''), helmReleaseProxy, k)
      | Inr cs \<Rightarrow>
          k_patch_hrp K before (hrp_SetConditions helmReleaseProxy cs)
            [ReadyCondition, ClusterAvailableCondition, HelmReleaseReadyCondition] k)"

text \<open>A failing patch of the initial conditions is only logged.\<close>

definition initializeConditions ::
  "'k kube \<Rightarrow> 'k capi \<Rightarrow> HelmReleaseProxy \<Rightarrow> HelmReleaseProxy \<Rightarrow> 'k \<Rightarrow> HelmReleaseProxy \<times> 'k" where
  "initializeConditions K P before helmReleaseProxy k =
     (if hrp_GetConditions helmReleaseProxy = [] then
        (case patchHelmReleaseProxy K P before
                (hrp_cond P helmReleaseProxy HelmReleaseReadyCondition ConditionFalse
                   PreparingToHelmInstallReason ''Preparing to to install Helm chart'') k of
           (_, r, k') \<Rightarrow> (r, k'))
      else (helmReleaseProxy, k))"

section \<open>Kubeconfig, credentials and CA certificate\<close>

definition restConfigForCluster :: "'k capi \<Rightarrow> nsname \<Rightarrow> 'k \<Rightarrow> rest_config res" where
  "restConfigForCluster P cluster k =
     (case p_kubeconfig P cluster k of
        Inl err \<Rightarrow> Inl (Wrapf err (''failed to retrieve kubeconfig secret for Cluster ''
                     @ nn_Namespace cluster @ ''/'' @ nn_Name cluster))
      | Inr kubeConfig \<Rightarrow>
          (case p_rest_config P kubeConfig of
             Inl err \<Rightarrow> Inl (Wrapf err (''failed to create REST configuration for Cluster ''
                          @ nn_Namespace cluster @ ''/'' @ nn_Name cluster))
           | Inr restConfig \<Rightarrow>
               Inr (restConfig\<lparr>rc_UserAgent := p_user_agent P ''caaph'', rc_Timeout := 10000000000\<rparr>)))"

definition getCredentialsFromSecret ::
  "'k kube \<Rightarrow> string \<Rightarrow> string \<Rightarrow> string \<Rightarrow> 'k \<Rightarrow> string res" where
  "getCredentialsFromSecret K name namespace key k =
     (case k_get_secret K \<lparr>nn_Namespace = namespace, nn_Name = name\<rparr> k of
        Inl err \<Rightarrow> Inl err
      | Inr data \<Rightarrow>
          (case data key of
             None \<Rightarrow> Inl (Errorf (''key '' @ key @ '' not found in secret '' @ namespace @ ''/'' @ name))
           | Some credentials \<Rightarrow> Inr credentials))"

definition writeCredentialsToFile :: "string \<Rightarrow> os_state \<Rightarrow> string res \<times> os_state" where
  "writeCredentialsToFile credentials s = create_and_write ''oci-credentials-*.json'' credentials s"

definition getCredentials ::
  "'k kube \<Rightarrow> HelmReleaseProxy \<Rightarrow> 'k \<Rightarrow> os_state \<Rightarrow> string res \<times> os_state" where
  "getCredentials K helmReleaseProxy k s =
     (case rs_Credentials (hrp_Spec helmReleaseProxy) of
        None \<Rightarrow> (Inr [], s)
      | Some cr \<Rightarrow>
          (if sr_Name (cr_Secret cr) = [] then (Inr [], s)
           else case getCredentialsFromSecret K (sr_Name (cr_Secret cr)) (hrp_Namespace helmReleaseProxy)
                       (cr_Key cr) k of
             Inl err \<Rightarrow> (Inl err, s)
           | Inr credentialsValues \<Rightarrow> writeCredentialsToFile credentialsValues s))"

definition getCACertificateFromSecret :: "'k kube \<Rightarrow> string \<Rightarrow> string \<Rightarrow> 'k \<Rightarrow> string res" where
  "getCACertificateFromSecret K name namespace k =
     (case k_get_secret K \<lparr>nn_Namespace = namespace, nn_Name = name\<rparr> k of
        Inl err \<Rightarrow> Inl err
      | Inr data \<Rightarrow>
          (case data ''ca.crt'' of
             None \<Rightarrow> Inl (Errorf (''key ca.crt not found in secret '' @ namespace @ ''/'' @ name))
           | Some credentials \<Rightarrow> Inr credentials))"

definition writeCACertificateToFile :: "string \<Rightarrow> os_state \<Rightarrow> string res \<times> os_state" where
  "writeCACertificateToFile caCertificate s = create_and_write ''ca-*.crt'' caCertificate s"

definition getCAFile ::
  "'k kube \<Rightarrow> HelmReleaseProxy \<Rightarrow> 'k \<Rightarrow> os_state \<Rightarrow> string res \<times> os_state" where
  "getCAFile K helmReleaseProxy k s =
     (case rs_TLSConfig (hrp_Spec helmReleaseProxy) of
        None \<Rightarrow> (Inr [], s)
      | Some tls \<Rightarrow>
          (case tls_CASecretRef tls of
             None \<Rightarrow> (Inr [], s)
           | Some ref \<Rightarrow>
               (if sr_Name ref = [] then (Inr [], s)
                else case getCACertificateFromSecret K (sr_Name ref) (hrp_Namespace helmReleaseProxy) k of
                  Inl err \<Rightarrow> (Inl err, s)
                | Inr caSecretValues \<Rightarrow> writeCACertificateToFile caSecretValues s)))"

section \<open>\<open>reconcileNormal\<close>\<close>

text \<open>The \<^verbatim>\<open>switch\<close> on the status of a returned release.\<close>

definition release_condition ::
  "'k capi \<Rightarrow> (string \<Rightarrow> bool) \<Rightarrow> string \<Rightarrow> go_error option \<Rightarrow> labels \<Rightarrow> HelmReleaseProxy \<Rightarrow> HelmReleaseProxy" where
  "release_condition P pend status err annotations r =
     (if status = StatusDeployed then
        hrp_SetAnnotations
          (hrp_cond P r HelmReleaseReadyCondition ConditionTrue ReadyReason [])
          (annotations(ReleaseSuccessfullyInstalledAnnotation \<mapsto> ''true''))
      else if pend status then
        hrp_cond P r HelmReleaseReadyCondition ConditionFalse HelmReleasePendingReason
          (''Helm release is in a pending state: '' @ status)
      else if status = StatusFailed \<and> err = None then
        hrp_cond P r HelmReleaseReadyCondition ConditionFalse HelmInstallOrUpgradeFailedReason
          (''Helm release is in a failed state: '' @ status)
      else r)"

definition hrp_reconcileNormal ::
  "'k capi \<Rightarrow> ('h, 'v) hclient \<Rightarrow> (string \<Rightarrow> bool) \<Rightarrow> HelmReleaseProxy \<Rightarrow> string \<Rightarrow> string \<Rightarrow> rest_config
     \<Rightarrow> 'h \<times> os_state \<Rightarrow> go_error option \<times> HelmReleaseProxy \<times> 'h \<times> os_state" where
  "hrp_reconcileNormal P C pend helmReleaseProxy credentialsPath caFilePath restConfig st =
     (if rs_ReconcileStrategy (hrp_Spec helmReleaseProxy) = ReconcileStrategyInstallOnce \<and>
         HasHelmReleaseBeenSuccessfullyInstalled (Some helmReleaseProxy)
      then (None, helmReleaseProxy, st)
      else
        let generated = (rs_ReleaseName (hrp_Spec helmReleaseProxy) = []);
            annotations = (if generated
              then (hrp_GetAnnotations helmReleaseProxy)(IsReleaseNameGeneratedAnnotation \<mapsto> ''true'')
              else hrp_GetAnnotations helmReleaseProxy);
            r1 = (if generated then hrp_SetAnnotations helmReleaseProxy annotations else helmReleaseProxy)
        in case hc_InstallOrUpgradeHelmRelease C restConfig credentialsPath caFilePath (hrp_Spec r1) st of
             ((release, err), st') \<Rightarrow>
               (if \<exists>e. err = Some e \<and> IsPanic e then (err, r1, st')
                else
                  let r2 = (case err of None \<Rightarrow> r1
                            | Some e \<Rightarrow> hrp_cond P r1 HelmReleaseReadyCondition ConditionFalse
                                          HelmInstallOrUpgradeFailedReason (Error e))
                  in case release of
                       None \<Rightarrow> (err, r2, st')
                     | Some rel \<Rightarrow>
                         let r3 = SetReleaseName (SetReleaseRevision (SetReleaseStatus r2 (rel_Status rel))
                                    (rel_Version rel)) (rel_Name rel)
                         in (err, release_condition P pend (rel_Status rel) err annotations r3, st')))"

section \<open>\<open>reconcileDelete\<close>\<close>

definition hrp_reconcileDelete ::
  "'k capi \<Rightarrow> ('h, 'v) hclient \<Rightarrow> HelmReleaseProxy \<Rightarrow> rest_config \<Rightarrow> 'h
     \<Rightarrow> go_error option \<times> HelmReleaseProxy \<times> 'h" where
  "hrp_reconcileDelete P C helmReleaseProxy restConfig h =
     (if rs_ReconcileStrategy (hrp_Spec helmReleaseProxy) = ReconcileStrategyInstallOnce
      then (None, helmReleaseProxy, h)
      else case hc_GetHelmRelease C restConfig (hrp_Spec helmReleaseProxy) h of
        Inl err \<Rightarrow>
          (if IsReleaseNotFound err
           then (None, hrp_cond P helmReleaseProxy HelmReleaseReadyCondition ConditionFalse
                         HelmReleaseDeletedReason [], h)
           else (Some err, hrp_cond P helmReleaseProxy HelmReleaseReadyCondition ConditionFalse
                             HelmReleaseGetFailedReason (Error err), h))
      | Inr _ \<Rightarrow>
          (case hc_UninstallHelmRelease C restConfig (hrp_Spec helmReleaseProxy) h of
             (Inl err, h') \<Rightarrow>
               (Some (Wrapf err (''error uninstalling chart with Helm on cluster ''
                        @ ref_Name (rs_ClusterRef (hrp_Spec helmReleaseProxy)))),
                hrp_cond P helmReleaseProxy HelmReleaseReadyCondition ConditionFalse
                  HelmReleaseDeletionFailedReason (Error err), h')
           | (Inr response, h') \<Rightarrow>
               (None, hrp_cond P helmReleaseProxy HelmReleaseReadyCondition ConditionFalse
                        HelmReleaseDeletedReason [], h')))"

section \<open>\<open>Reconcile\<close>\<close>

definition cluster_key :: "HelmReleaseProxy \<Rightarrow> nsname" where
  "cluster_key r =
     \<lparr>nn_Namespace = ref_Namespace (rs_ClusterRef (hrp_Spec r)),
      nn_Name = ref_Name (rs_ClusterRef (hrp_Spec r))\<rparr>"

definition hrp_has_finalizer :: "'k capi \<Rightarrow> HelmReleaseProxy \<Rightarrow> bool" where
  "hrp_has_finalizer P r = p_has_finalizer P (m_Finalizers (hrp_Meta r)) HelmReleaseProxyFinalizer"

definition hrp_add_finalizer :: "'k capi \<Rightarrow> HelmReleaseProxy \<Rightarrow> HelmReleaseProxy" where
  "hrp_add_finalizer P r = r\<lparr>hrp_Meta := (hrp_Meta r)\<lparr>m_Finalizers :=
     p_add_finalizer P (m_Finalizers (hrp_Meta r)) HelmReleaseProxyFinalizer\<rparr>\<rparr>"

definition hrp_remove_finalizer :: "'k capi \<Rightarrow> HelmReleaseProxy \<Rightarrow> HelmReleaseProxy" where
  "hrp_remove_finalizer P r = r\<lparr>hrp_Meta := (hrp_Meta r)\<lparr>m_Finalizers :=
     p_remove_finalizer P (m_Finalizers (hrp_Meta r)) HelmReleaseProxyFinalizer\<rparr>\<rparr>"

text \<open>\<^verbatim>\<open>if path != "" { defer os.Remove(path) }\<close>; an error of the removal is only logged.\<close>

definition deferred_remove :: "string \<Rightarrow> os_state \<Rightarrow> os_state" where
  "deferred_remove path s = (if path \<noteq> [] then snd (Remove path s) else s)"

text \<open>The branch of \<^verbatim>\<open>Reconcile\<close> for a proxy that is being deleted.\<close>

definition Reconcile_deleting ::
  "'k kube \<Rightarrow> 'k capi \<Rightarrow> ('h, 'v) hclient \<Rightarrow> HelmReleaseProxy \<Rightarrow> HelmReleaseProxy \<Rightarrow> ('k, 'h) world
     \<Rightarrow> go_error option \<times> HelmReleaseProxy \<times> ('k, 'h) world" where
  "Reconcile_deleting K P C before r w =
     (if \<not> hrp_has_finalizer P r then (None, r, w)
      else
        let finish = (\<lambda>r' w'.
              case patchHelmReleaseProxy K P before (hrp_remove_finalizer P r') (w_kube w') of
                (e, r'', k'') \<Rightarrow> (e, r'', w'\<lparr>w_kube := k''\<rparr>))
        in case k_get_cluster K (cluster_key r) (w_kube w) of
             Inr cluster \<Rightarrow>
               (case restConfigForCluster P (cluster_key r) (w_kube w) of
                  Inl err \<Rightarrow>
                    (let wrappedErr = Wrapf err ''failed to get kubeconfig for cluster''
                     in (Some wrappedErr, hrp_cond P r ClusterAvailableCondition ConditionFalse
                           GetKubeconfigFailedReason (Error wrappedErr), w))
                | Inr restConfig \<Rightarrow>
                    (case hrp_reconcileDelete P C
                            (hrp_cond P r ClusterAvailableCondition ConditionTrue AvailableReason [])
                            restConfig (w_helm w) of
                       (Some err, r', h') \<Rightarrow> (Some err, r', w\<lparr>w_helm := h'\<rparr>)
                     | (None, r', h') \<Rightarrow> finish r' (w\<lparr>w_helm := h'\<rparr>)))
           | Inl err \<Rightarrow>
               (if IsNotFound err then finish r w
                else
                  (let wrappedErr = Wrapf err (''failed to get cluster '' @ nn_Namespace (cluster_key r)
                         @ ''/'' @ nn_Name (cluster_key r))
                   in (Some wrappedErr, hrp_cond P r ClusterAvailableCondition ConditionFalse
                         GetClusterFailedReason (Error wrappedErr), w))))"

text \<open>The branch for a live proxy, from the lookup of its cluster on; the temporary files it
  makes are removed on every way out.\<close>

definition Reconcile_live ::
  "'k kube \<Rightarrow> 'k capi \<Rightarrow> ('h, 'v) hclient \<Rightarrow> (string \<Rightarrow> bool) \<Rightarrow> HelmReleaseProxy \<Rightarrow> ('k, 'h) world
     \<Rightarrow> go_error option \<times> HelmReleaseProxy \<times> ('k, 'h) world" where
  "Reconcile_live K P C pend r w =
     (case k_get_cluster K (cluster_key r) (w_kube w) of
        Inl err \<Rightarrow>
          (let wrappedErr = Wrapf err (''failed to get cluster '' @ nn_Namespace (cluster_key r)
                 @ ''/'' @ nn_Name (cluster_key r))
           in (Some wrappedErr, hrp_cond P r ClusterAvailableCondition ConditionFalse
                 GetClusterFailedReason (Error wrappedErr), w))
      | Inr cluster \<Rightarrow>
          (if cl_ControlPlaneInitialized cluster = Some False then
             (None, hrp_cond P r ClusterAvailableCondition ConditionFalse
                      ClusterControlPlaneNotAvailableReason [], w)
           else case restConfigForCluster P (cluster_key r) (w_kube w) of
             Inl err \<Rightarrow>
               (let wrappedErr = Wrapf err ''failed to get kubeconfig for cluster''
                in (Some wrappedErr, hrp_cond P r ClusterAvailableCondition ConditionFalse
                      GetKubeconfigFailedReason (Error wrappedErr), w))
           | Inr restConfig \<Rightarrow>
               (let r1 = hrp_cond P r ClusterAvailableCondition ConditionTrue AvailableReason []
                in case getCredentials K r1 (w_kube w) (w_os w) of
                     (Inl err, s1) \<Rightarrow>
                       (let wrappedErr = Wrapf err ''failed to get credentials for cluster''
                        in (Some wrappedErr, hrp_cond P r1 ClusterAvailableCondition ConditionFalse
                              GetCredentialsFailedReason (Error wrappedErr), w\<lparr>w_os := s1\<rparr>))
                   | (Inr credentialsPath, s1) \<Rightarrow>
                       (case getCAFile K r1 (w_kube w) s1 of
                          (Inl err, s2) \<Rightarrow>
                            (let wrappedErr = Wrapf err ''failed to get CA certificate file for cluster''
                             in (Some wrappedErr, hrp_cond P r1 ClusterAvailableCondition ConditionFalse
                                   GetCACertificateFailedReason (Error wrappedErr),
                                 w\<lparr>w_os := deferred_remove credentialsPath s2\<rparr>))
                        | (Inr caFilePath, s2) \<Rightarrow>
                            (case hrp_reconcileNormal P C pend r1 credentialsPath caFilePath restConfig
                                    (w_helm w, s2) of
                               (err, r2, h', s3) \<Rightarrow>
                                 (err, r2, w\<lparr>w_helm := h',
                                   w_os := deferred_remove credentialsPath
                                             (deferred_remove caFilePath s3)\<rparr>))))))"

text \<open>What \<^verbatim>\<open>Reconcile\<close> does between the initial conditions and its deferred patch.\<close>

definition Reconcile_body ::
  "'k kube \<Rightarrow> 'k capi \<Rightarrow> ('h, 'v) hclient \<Rightarrow> (string \<Rightarrow> bool) \<Rightarrow> HelmReleaseProxy \<Rightarrow> HelmReleaseProxy
     \<Rightarrow> ('k, 'h) world \<Rightarrow> go_error option \<times> HelmReleaseProxy \<times> ('k, 'h) world" where
  "Reconcile_body K P C pend before r w =
     (if m_DeletionTimestamp (hrp_Meta r) \<noteq> None then Reconcile_deleting K P C before r w
      else if hrp_has_finalizer P r then Reconcile_live K P C pend r w
      else case patchHelmReleaseProxy K P before (hrp_add_finalizer P r) (w_kube w) of
        (Some err, r', k') \<Rightarrow> (Some err, r', w\<lparr>w_kube := k'\<rparr>)
      | (None, r', k') \<Rightarrow> Reconcile_live K P C pend r' (w\<lparr>w_kube := k'\<rparr>))"

definition hrp_Reconcile ::
  "'k kube \<Rightarrow> 'k capi \<Rightarrow> ('h, 'v) hclient \<Rightarrow> (string \<Rightarrow> bool) \<Rightarrow> nsname \<Rightarrow> ('k, 'h) world
     \<Rightarrow> (Result \<times> go_error option) \<times> ('k, 'h) world" where
  "hrp_Reconcile K P C pend req w =
     (case k_get_hrp K req (w_kube w) of
        Inl err \<Rightarrow> (if IsNotFound err then ((Result0, None), w) else ((Result0, Some err), w))
      | Inr before \<Rightarrow>
          (case k_new_helper_hrp K before (w_kube w) of
             Some err \<Rightarrow> ((Result0, Some (Wrapf err ''failed to init patch helper'')), w)
           | None \<Rightarrow>
               (case initializeConditions K P before before (w_kube w) of
                  (r1, k1) \<Rightarrow>
                    (case Reconcile_body K P C pend before r1 (w\<lparr>w_kube := k1\<rparr>) of
                       (reterr, r2, w2) \<Rightarrow>
                         (case patchHelmReleaseProxy K P before r2 (w_kube w2) of
                            (perr, r3, k3) \<Rightarrow>
                              ((Result0, if reterr = None then perr else reterr),
                               w2\<lparr>w_kube := k3\<rparr>))))))"

section \<open>Lemmas on conditions and temporary files\<close>

lemma hrp_cond_frame [simp]:
  "hrp_Spec (hrp_cond P r t st reason msg) = hrp_Spec r"
  "hrp_Meta (hrp_cond P r t st reason msg) = hrp_Meta r"
  "hrp_GetAnnotations (hrp_cond P r t st reason msg) = hrp_GetAnnotations r"
  by (simp_all add: hrp_cond_def hrp_GetAnnotations_def)

lemma finalizer_frame [simp]:
  "hrp_Spec (hrp_add_finalizer P r) = hrp_Spec r" "hrp_Spec (hrp_remove_finalizer P r) = hrp_Spec r"
  "hrp_GetAnnotations (hrp_add_finalizer P r) = hrp_GetAnnotations r"
  "hrp_GetConditions (hrp_add_finalizer P r) = hrp_GetConditions r"
  "hrp_GetConditions (hrp_remove_finalizer P r) = hrp_GetConditions r"
  "m_DeletionTimestamp (hrp_Meta (hrp_add_finalizer P r)) = m_DeletionTimestamp (hrp_Meta r)"
  by (simp_all add: hrp_add_finalizer_def hrp_remove_finalizer_def api_defs)

text \<open>What \<^verbatim>\<open>getCredentials\<close> and \<^verbatim>\<open>getCAFile\<close> do to the files: nothing on an error or when there is no
  file to write, and otherwise they add one fresh file.\<close>

definition adds_temp :: "os_state \<Rightarrow> string res \<Rightarrow> os_state \<Rightarrow> bool" where
  "adds_temp s res s' =
     (os_faults s' = os_faults s \<and>
      (case res of
         Inl e \<Rightarrow> no_faults s \<longrightarrow> os_files s' = os_files s
       | Inr f \<Rightarrow> if f = [] then os_files s' = os_files s
                  else os_files s f = None \<and> (\<exists>d. os_files s' = (os_files s)(f \<mapsto> d))))"

lemma adds_temp_none: "adds_temp s (Inr []) s" "adds_temp s (Inl e) s"
  by (simp_all add: adds_temp_def)

lemma create_and_write_adds_temp:
  "adds_temp s (fst (create_and_write pat d s)) (snd (create_and_write pat d s))"
proof (cases "create_and_write pat d s")
  case (Pair res s')
  then show ?thesis
    by (cases res)
      (auto simp: adds_temp_def create_and_write_faults create_and_write_no_faults_err
        dest: create_and_write_ok create_and_write_name)
qed

lemma getCredentials_adds_temp:
  "adds_temp s (fst (getCredentials K r k s)) (snd (getCredentials K r k s))"
  by (simp add: getCredentials_def writeCredentialsToFile_def adds_temp_none create_and_write_adds_temp
      split: option.split sum.split)

lemma getCAFile_adds_temp: "adds_temp s (fst (getCAFile K r k s)) (snd (getCAFile K r k s))"
  by (simp add: getCAFile_def writeCACertificateToFile_def adds_temp_none create_and_write_adds_temp
      split: option.split sum.split)

text \<open>The deferred removal undoes it.\<close>

lemma deferred_remove_restores:
  assumes "adds_temp s (Inr f) s1" and "no_faults s"
    and "os_files s2 = os_files s1" and "os_faults s2 = os_faults s"
  shows "os_files (deferred_remove f s2) = os_files s" "os_faults (deferred_remove f s2) = os_faults s"
proof -
  have "no_faults s2" using assms(2,4) by (simp add: no_faults_def)
  then show "os_files (deferred_remove f s2) = os_files s" "os_faults (deferred_remove f s2) = os_faults s"
    using assms by (auto simp: adds_temp_def deferred_remove_def Remove_no_faults fun_eq_iff split: if_splits)
qed

lemma adds_temp_faults: "adds_temp s res s' \<Longrightarrow> os_faults s' = os_faults s"
  by (simp add: adds_temp_def)

lemma adds_temp_err: "adds_temp s (Inl e) s' \<Longrightarrow> no_faults s \<Longrightarrow> os_files s' = os_files s"
  by (simp add: adds_temp_def)

section \<open>Lemmas on \<open>reconcileNormal\<close>\<close>

definition install_once_done :: "HelmReleaseProxy \<Rightarrow> bool" where
  "install_once_done r =
     (rs_ReconcileStrategy (hrp_Spec r) = ReconcileStrategyInstallOnce \<and>
      HasHelmReleaseBeenSuccessfullyInstalled (Some r))"

text \<open>The annotations before the Helm client is called, and the proxy that carries them.\<close>

definition name_annotations :: "HelmReleaseProxy \<Rightarrow> labels" where
  "name_annotations r =
     (if rs_ReleaseName (hrp_Spec r) = []
      then (hrp_GetAnnotations r)(IsReleaseNameGeneratedAnnotation \<mapsto> ''true'') else hrp_GetAnnotations r)"

definition named :: "HelmReleaseProxy \<Rightarrow> HelmReleaseProxy" where
  "named r = (if rs_ReleaseName (hrp_Spec r) = [] then hrp_SetAnnotations r (name_annotations r) else r)"

definition release_recorded :: "'v Release \<Rightarrow> HelmReleaseProxy \<Rightarrow> HelmReleaseProxy" where
  "release_recorded rel r = SetReleaseName (SetReleaseRevision (SetReleaseStatus r (rel_Status rel))
     (rel_Version rel)) (rel_Name rel)"

lemma annotations_distinct [simp]:
  "ReleaseSuccessfullyInstalledAnnotation \<noteq> IsReleaseNameGeneratedAnnotation"
  by (simp add: const_defs)

lemma named_simps [simp]:
  "hrp_Spec (named r) = hrp_Spec r" "hrp_Status (named r) = hrp_Status r"
  "hrp_GetConditions (named r) = hrp_GetConditions r" "hrp_GetAnnotations (named r) = name_annotations r"
  "name_annotations r ReleaseSuccessfullyInstalledAnnotation =
     hrp_GetAnnotations r ReleaseSuccessfullyInstalledAnnotation"
  by (simp_all add: named_def name_annotations_def)

lemma hrp_cond_status [simp]:
  "rt_Status (hrp_Status (hrp_cond P r t st reason msg)) = rt_Status (hrp_Status r)"
  "rt_Revision (hrp_Status (hrp_cond P r t st reason msg)) = rt_Revision (hrp_Status r)"
  by (simp_all add: hrp_cond_def hrp_SetConditions_def)

lemma release_recorded_simps:
  "rt_Status (hrp_Status (release_recorded rel r)) = rel_Status rel"
  "rt_Revision (hrp_Status (release_recorded rel r)) = rel_Version rel"
  "rs_ReleaseName (hrp_Spec (release_recorded rel r)) =
     (if rs_ReleaseName (hrp_Spec r) = [] then rel_Name rel else rs_ReleaseName (hrp_Spec r))"
  "hrp_GetConditions (release_recorded rel r) = hrp_GetConditions r"
  "hrp_GetAnnotations (release_recorded rel r) = hrp_GetAnnotations r"
  "hrp_Meta (release_recorded rel r) = hrp_Meta r"
  by (simp_all add: release_recorded_def api_defs)

lemma normal_unfold:
  assumes "\<not> install_once_done r"
    and "hc_InstallOrUpgradeHelmRelease C rc cred ca (hrp_Spec r) st = ((release, err), st')"
  shows "hrp_reconcileNormal P C pend r cred ca rc st =
    (if \<exists>e. err = Some e \<and> IsPanic e then (err, named r, st')
     else
       let r2 = (case err of None \<Rightarrow> named r
                 | Some e \<Rightarrow> hrp_cond P (named r) HelmReleaseReadyCondition ConditionFalse
                               HelmInstallOrUpgradeFailedReason (Error e))
       in (err, (case release of None \<Rightarrow> r2
                 | Some rel \<Rightarrow> release_condition P pend (rel_Status rel) err (name_annotations r)
                                 (release_recorded rel r2)), st'))"
proof -
  have a: "(if rs_ReleaseName (hrp_Spec r) = []
      then (hrp_GetAnnotations r)(IsReleaseNameGeneratedAnnotation \<mapsto> ''true'') else hrp_GetAnnotations r)
      = name_annotations r"
    by (simp add: name_annotations_def)
  have n: "(if rs_ReleaseName (hrp_Spec r) = [] then hrp_SetAnnotations r (name_annotations r) else r) = named r"
    by (simp add: named_def)
  show ?thesis
    unfolding hrp_reconcileNormal_def Let_def a n
    using assms by (auto simp: install_once_done_def release_recorded_def split: option.split)
qed

text \<open>When nothing of a proxy's release is left to uninstall, with the Helm state it was left in:
  the cluster is gone, the proxy is in InstallOnce mode, Helm has no such release, or the
  uninstall of the release succeeded.\<close>

definition uninstalled ::
  "'k kube \<Rightarrow> 'k capi \<Rightarrow> ('h, 'v) hclient \<Rightarrow> HelmReleaseProxy \<Rightarrow> ('k, 'h) world \<Rightarrow> 'h \<Rightarrow> bool" where
  "uninstalled K P C r w h' =
     (case k_get_cluster K (cluster_key r) (w_kube w) of
        Inl err \<Rightarrow> IsNotFound err \<and> h' = w_helm w
      | Inr _ \<Rightarrow>
          (case restConfigForCluster P (cluster_key r) (w_kube w) of
             Inl _ \<Rightarrow> False
           | Inr rc \<Rightarrow>
               rs_ReconcileStrategy (hrp_Spec r) = ReconcileStrategyInstallOnce \<and> h' = w_helm w \<or>
               rs_ReconcileStrategy (hrp_Spec r) \<noteq> ReconcileStrategyInstallOnce \<and>
               (case hc_GetHelmRelease C rc (hrp_Spec r) (w_helm w) of
                  Inl err \<Rightarrow> IsReleaseNotFound err \<and> h' = w_helm w
                | Inr _ \<Rightarrow> 
                    (case hc_UninstallHelmRelease C rc (hrp_Spec r) (w_helm w) of (Inl _, _) \<Rightarrow> False | (Inr _, h1) \<Rightarrow> h' = h1))))"

section \<open>The environment of the controller\<close>

text \<open>The release controller is written against the API client, the helper packages and the
  Helm client interface; its lemmas are proved once for any three that keep their contracts.\<close>

locale release_env = kube_api K + capi_laws P + helm_client C
  for K :: "'k kube" and P :: "'k capi" and C :: "('h, 'v) hclient"
begin

lemma cond_get:
  "get_condition (hrp_GetConditions (hrp_cond P r t st reason msg)) t' =
     (if t' = t then Some \<lparr>c_Type = t, c_Status = st, c_Reason = reason, c_Message = msg\<rparr>
      else get_condition (hrp_GetConditions r) t')"
  by (simp add: hrp_cond_def get_set)

lemma patch_frame:
  assumes "patchHelmReleaseProxy K P before r k = (e, r', k')"
  shows "hrp_Spec r' = hrp_Spec r" "m_Finalizers (hrp_Meta r') = m_Finalizers (hrp_Meta r)"
    "hrp_GetAnnotations r' = hrp_GetAnnotations r"
    "m_DeletionTimestamp (hrp_Meta r') = m_DeletionTimestamp (hrp_Meta r)"
    "t \<noteq> ReadyCondition \<Longrightarrow> get_condition (hrp_GetConditions r') t = get_condition (hrp_GetConditions r) t"
  using assms patch_hrp_meta
  by (auto simp: patchHelmReleaseProxy_def summary_frame hrp_GetAnnotations_def split: sum.splits)

lemma init_frame:
  assumes "initializeConditions K P before r k = (r', k')"
  shows "hrp_Spec r' = hrp_Spec r" "m_Finalizers (hrp_Meta r') = m_Finalizers (hrp_Meta r)"
    "hrp_GetAnnotations r' = hrp_GetAnnotations r"
    "m_DeletionTimestamp (hrp_Meta r') = m_DeletionTimestamp (hrp_Meta r)"
proof -
  consider "r' = r" | e where "patchHelmReleaseProxy K P before
      (hrp_cond P r HelmReleaseReadyCondition ConditionFalse PreparingToHelmInstallReason
         ''Preparing to to install Helm chart'') k = (e, r', k')"
    using assms by (auto simp: initializeConditions_def split: if_splits prod.splits)
  then have "hrp_Spec r' = hrp_Spec r \<and> m_Finalizers (hrp_Meta r') = m_Finalizers (hrp_Meta r) \<and>
    hrp_GetAnnotations r' = hrp_GetAnnotations r \<and>
    m_DeletionTimestamp (hrp_Meta r') = m_DeletionTimestamp (hrp_Meta r)"
  proof cases
    case (2 e)
    then show ?thesis using patch_frame(1-4) [OF 2] by simp
  qed simp
  then show "hrp_Spec r' = hrp_Spec r" "m_Finalizers (hrp_Meta r') = m_Finalizers (hrp_Meta r)"
    "hrp_GetAnnotations r' = hrp_GetAnnotations r"
    "m_DeletionTimestamp (hrp_Meta r') = m_DeletionTimestamp (hrp_Meta r)"
    by blast+
qed

lemma reconcileNormal_files:
  assumes "hrp_reconcileNormal P C pend r cred ca rc (h, s) = (e, r', h', s')"
  shows "os_faults s' = os_faults s" "no_faults s \<Longrightarrow> os_files s' = os_files s"
  using assms install_faults install_files
  by (auto simp: hrp_reconcileNormal_def Let_def split: if_splits prod.splits option.splits)

lemma live_files:
  assumes "Reconcile_live K P C pend r w = (e, r', w')" and nf: "no_faults (w_os w)"
  shows "os_files (w_os w') = os_files (w_os w)"
proof -
  let ?r = "hrp_cond P r ClusterAvailableCondition ConditionTrue AvailableReason []"
  obtain cr s1 where cr: "getCredentials K ?r (w_kube w) (w_os w) = (cr, s1)" by fastforce
  obtain ca s2 where ca: "getCAFile K ?r (w_kube w) s1 = (ca, s2)" by fastforce
  have t1: "adds_temp (w_os w) cr s1" and t2: "adds_temp s1 ca s2"
    using getCredentials_adds_temp [of "w_os w" K ?r "w_kube w"] cr
      getCAFile_adds_temp [of s1 K ?r "w_kube w"] ca by simp_all
  have f1: "os_faults s1 = os_faults (w_os w)" "os_faults s2 = os_faults (w_os w)"
    using t1 t2 by (simp_all add: adds_temp_faults)
  have n: "no_faults s1" "no_faults s2" using nf f1 by (simp_all add: no_faults_def)
  consider "w_os w' = w_os w" | err where "cr = Inl err" "w_os w' = s1"
    | p err where "cr = Inr p" "ca = Inl err" "w_os w' = deferred_remove p s2"
    | p q rc e r'' h' s3 where "cr = Inr p" "ca = Inr q"
        "hrp_reconcileNormal P C pend ?r p q rc (w_helm w, s2) = (e, r'', h', s3)"
        "w_os w' = deferred_remove p (deferred_remove q s3)"
    using assms(1) cr ca
    by (auto simp: Reconcile_live_def Let_def split: sum.splits if_splits prod.splits)
  then show ?thesis
  proof cases
    case 1
    then show ?thesis by simp
  next
    case 2
    with t1 nf show ?thesis by (auto dest: adds_temp_err)
  next
    case (3 p err)
    with t2 n have "os_files s2 = os_files s1" by (auto dest: adds_temp_err)
    with 3 t1 nf f1 show ?thesis by (auto intro: deferred_remove_restores)
  next
    case (4 p q rc e r'' h' s3)
    note s3 = reconcileNormal_files [OF 4(3)]
    have "os_files (deferred_remove q s3) = os_files s1" "os_faults (deferred_remove q s3) = os_faults s1"
      using deferred_remove_restores [of s1 q s2 s3] t2 4(2) n s3 f1 by auto
    with 4 t1 nf f1 show ?thesis by (auto intro: deferred_remove_restores)
  qed
qed

lemma deleting_os: "Reconcile_deleting K P C before r w = (e, r', w') \<Longrightarrow> w_os w' = w_os w"
  by (auto simp: Reconcile_deleting_def Let_def split: if_splits sum.splits prod.splits option.splits)

lemma body_files:
  assumes "Reconcile_body K P C pend before r w = (e, r', w')" and "no_faults (w_os w)"
  shows "os_files (w_os w') = os_files (w_os w)"
  using assms deleting_os live_files
  by (fastforce simp: Reconcile_body_def split: if_splits prod.splits option.splits)

lemma reconcile_files:
  assumes "no_faults (w_os w)"
  shows "os_files (w_os (snd (hrp_Reconcile K P C pend req w))) = os_files (w_os w)"
  using assms body_files
  by (fastforce simp: hrp_Reconcile_def split: sum.split prod.split option.split)

text \<open>In InstallOnce mode an installed or a deleted proxy never reaches Helm.\<close>

lemma live_frozen:
  assumes "Reconcile_live K P C pend r w = (e, r', w')"
    and "rs_ReconcileStrategy (hrp_Spec r) = ReconcileStrategyInstallOnce"
    and "HasHelmReleaseBeenSuccessfullyInstalled (Some r)"
  shows "w_helm w' = w_helm w"
proof -
  have "HasHelmReleaseBeenSuccessfullyInstalled
      (Some (hrp_cond P r ClusterAvailableCondition ConditionTrue AvailableReason []))"
    using assms(3) by (simp add: HasHelmReleaseBeenSuccessfullyInstalled_def)
  then show ?thesis
    using assms(1,2)
    by (auto simp: Reconcile_live_def hrp_reconcileNormal_def Let_def split: sum.splits if_splits prod.splits)
qed

lemma deleting_frozen:
  assumes "Reconcile_deleting K P C before r w = (e, r', w')"
    and "rs_ReconcileStrategy (hrp_Spec r) = ReconcileStrategyInstallOnce"
  shows "w_helm w' = w_helm w"
  using assms
  by (auto simp: Reconcile_deleting_def hrp_reconcileDelete_def Let_def split: sum.splits if_splits prod.splits)

lemma body_frozen:
  assumes "Reconcile_body K P C pend before r w = (e, r', w')"
    and "rs_ReconcileStrategy (hrp_Spec r) = ReconcileStrategyInstallOnce"
    and "m_DeletionTimestamp (hrp_Meta r) \<noteq> None \<or> HasHelmReleaseBeenSuccessfullyInstalled (Some r)"
  shows "w_helm w' = w_helm w"
proof -
  have fin: "w_helm w' = w_helm w"
    if p: "patchHelmReleaseProxy K P before (hrp_add_finalizer P r) (w_kube w) = (None, r1, k1)"
      and l: "Reconcile_live K P C pend r1 (w\<lparr>w_kube := k1\<rparr>) = (e, r', w')"
      and i: "HasHelmReleaseBeenSuccessfullyInstalled (Some r)" for r1 k1
    using live_frozen [OF l] patch_frame(1,3) [OF p] i assms(2)
    by (simp add: HasHelmReleaseBeenSuccessfullyInstalled_def)
  show ?thesis
    using assms deleting_frozen live_frozen fin
    by (auto simp: Reconcile_body_def split: if_splits prod.splits option.splits)
qed

lemma reconcile_frozen:
  assumes "k_get_hrp K req (w_kube w) = Inr r"
    and "rs_ReconcileStrategy (hrp_Spec r) = ReconcileStrategyInstallOnce"
    and "m_DeletionTimestamp (hrp_Meta r) \<noteq> None \<or> HasHelmReleaseBeenSuccessfullyInstalled (Some r)"
  shows "w_helm (snd (hrp_Reconcile K P C pend req w)) = w_helm w"
proof (cases "k_new_helper_hrp K r (w_kube w)")
  case None
  obtain r1 k1 where i: "initializeConditions K P r r (w_kube w) = (r1, k1)" by fastforce
  obtain e r2 w2 where b: "Reconcile_body K P C pend r r1 (w\<lparr>w_kube := k1\<rparr>) = (e, r2, w2)"
    by (cases "Reconcile_body K P C pend r r1 (w\<lparr>w_kube := k1\<rparr>)") auto
  have "w_helm w2 = w_helm w"
    using body_frozen [OF b] init_frame [OF i] assms(2,3)
    by (simp add: HasHelmReleaseBeenSuccessfullyInstalled_def)
  then show ?thesis using assms(1) None i b by (simp add: hrp_Reconcile_def split: prod.split)
qed (simp add: hrp_Reconcile_def assms(1))

text \<open>What a deletion has done by the time the finalizer is gone.\<close>

lemma reconcileDelete_finalizer:
  "hrp_reconcileDelete P C q rc h = (er, q', h') \<Longrightarrow> hrp_has_finalizer P q' = hrp_has_finalizer P q"
  by (auto simp: hrp_reconcileDelete_def hrp_has_finalizer_def split: if_splits sum.splits prod.splits)

lemma deleting_finalizer_iff:
  assumes d: "Reconcile_deleting K P C before r w = (e, r', w')" and f: "hrp_has_finalizer P r"
  shows "hrp_has_finalizer P r' \<longleftrightarrow> \<not> uninstalled K P C r w (w_helm w')"
proof -
  have fin: "\<not> hrp_has_finalizer P r'" if "patchHelmReleaseProxy K P before (hrp_remove_finalizer P q) k = (e, r', k')" for q k e k'
    using patch_frame(2) [OF that] by (simp add: hrp_has_finalizer_def hrp_remove_finalizer_def has_remove)
  have keep: "hrp_has_finalizer P (hrp_cond P q t st reason msg) = hrp_has_finalizer P q" for q t st reason msg
    by (simp add: hrp_has_finalizer_def)
  show ?thesis
  proof (cases "k_get_cluster K (cluster_key r) (w_kube w)")
    case (Inl err)
    with d f fin show ?thesis
      by (auto simp: Reconcile_deleting_def uninstalled_def Let_def keep split: if_splits prod.splits)
  next
    case cl: (Inr cluster)
    show ?thesis
    proof (cases "restConfigForCluster P (cluster_key r) (w_kube w)")
      case (Inl err)
      with d f cl show ?thesis by (auto simp: Reconcile_deleting_def uninstalled_def Let_def keep)
    next
      case rc: (Inr rc)
      let ?r = "hrp_cond P r ClusterAvailableCondition ConditionTrue AvailableReason []"
      obtain er q h' where rd: "hrp_reconcileDelete P C ?r rc (w_helm w) = (er, q, h')" by (metis prod.collapse)
      have q: "hrp_has_finalizer P q" using reconcileDelete_finalizer [OF rd] f keep by simp
      have "er = None \<longleftrightarrow> uninstalled K P C r w h'" and u: "w_helm w' = h'"
        using rd d f cl rc
        by (auto simp: uninstalled_def hrp_reconcileDelete_def Reconcile_deleting_def Let_def
            split: if_splits sum.splits prod.splits option.splits)
      then show ?thesis
        using d f cl rc rd q fin
        by (auto simp: Reconcile_deleting_def Let_def split: option.splits prod.splits)
    qed
  qed
qed

text \<open>Every error of the live branch is reported in a condition.\<close>

lemma live_error:
  assumes "Reconcile_live K P C pend r w = (Some e, r', w')"
  shows "(\<exists>reason \<in> {GetClusterFailedReason, GetKubeconfigFailedReason, GetCredentialsFailedReason,
                        GetCACertificateFailedReason}.
      get_condition (hrp_GetConditions r') ClusterAvailableCondition =
        Some \<lparr>c_Type = ClusterAvailableCondition, c_Status = ConditionFalse, c_Reason = reason, c_Message = Error e\<rparr> \<and>
      w_helm w' = w_helm w) \<or>
    (\<exists>cred ca rc spec rel s s'.
      hc_InstallOrUpgradeHelmRelease C rc cred ca spec (w_helm w, s) = ((rel, Some e), w_helm w', s'))"
  using assms
  by (auto simp: Reconcile_live_def hrp_reconcileNormal_def cond_get Let_def
      split: sum.splits if_splits prod.splits option.splits)

text \<open>A live proxy without the finalizer gets it persisted before anything else happens.\<close>

lemma body_finalizer_first:
  assumes "Reconcile_body K P C pend before r w = (e, r', w')"
    and "m_DeletionTimestamp (hrp_Meta r) = None" and "\<not> hrp_has_finalizer P r"
    and "w_helm w' \<noteq> w_helm w \<or> w_os w' \<noteq> w_os w"
  shows "\<exists>r1 k1. patchHelmReleaseProxy K P before (hrp_add_finalizer P r) (w_kube w) = (None, r1, k1) \<and>
    hrp_has_finalizer P r1 \<and> Reconcile_live K P C pend r1 (w\<lparr>w_kube := k1\<rparr>) = (e, r', w')"
proof -
  obtain r1 k1 where p: "patchHelmReleaseProxy K P before (hrp_add_finalizer P r) (w_kube w) = (None, r1, k1)"
    and l: "Reconcile_live K P C pend r1 (w\<lparr>w_kube := k1\<rparr>) = (e, r', w')"
    using assms by (auto simp: Reconcile_body_def split: if_splits prod.splits option.splits)
  have "hrp_has_finalizer P r1"
    using patch_frame(2) [OF p] has_add by (simp add: hrp_has_finalizer_def hrp_add_finalizer_def)
  with p l show ?thesis by blast
qed

text \<open>The outcome of an install or upgrade, as the conditions, annotations and status record it.\<close>

lemma normal_no_release:
  assumes "\<not> install_once_done r" and "\<not> IsPanic e"
    and "hc_InstallOrUpgradeHelmRelease C rc cred ca (hrp_Spec r) st = ((None, Some e), st')"
  shows "\<exists>r'. hrp_reconcileNormal P C pend r cred ca rc st = (Some e, r', st') \<and> hrp_Spec r' = hrp_Spec r \<and>
    rt_Status (hrp_Status r') = rt_Status (hrp_Status r) \<and>
    HasHelmReleaseBeenSuccessfullyInstalled (Some r') = HasHelmReleaseBeenSuccessfullyInstalled (Some r) \<and>
    get_condition (hrp_GetConditions r') HelmReleaseReadyCondition =
      Some \<lparr>c_Type = HelmReleaseReadyCondition, c_Status = ConditionFalse,
            c_Reason = HelmInstallOrUpgradeFailedReason, c_Message = Error e\<rparr>"
  using normal_unfold [OF assms(1,3), of P pend] assms(2)
  by (simp add: cond_get HasHelmReleaseBeenSuccessfullyInstalled_def)

lemma normal_release:
  assumes "\<not> install_once_done r"
    and "hc_InstallOrUpgradeHelmRelease C rc cred ca (hrp_Spec r) st = ((Some rel, None), st')"
  shows "\<exists>r'. hrp_reconcileNormal P C pend r cred ca rc st = (None, r', st') \<and>
    rt_Status (hrp_Status r') = rel_Status rel \<and> rt_Revision (hrp_Status r') = rel_Version rel \<and>
    rs_ReleaseName (hrp_Spec r') =
      (if rs_ReleaseName (hrp_Spec r) = [] then rel_Name rel else rs_ReleaseName (hrp_Spec r)) \<and>
    hrp_GetAnnotations r' =
      (if rel_Status rel = StatusDeployed
       then (name_annotations r)(ReleaseSuccessfullyInstalledAnnotation \<mapsto> ''true'') else name_annotations r) \<and>
    get_condition (hrp_GetConditions r') HelmReleaseReadyCondition =
      (if rel_Status rel = StatusDeployed then
         Some \<lparr>c_Type = HelmReleaseReadyCondition, c_Status = ConditionTrue, c_Reason = ReadyReason, c_Message = []\<rparr>
       else if pend (rel_Status rel) then
         Some \<lparr>c_Type = HelmReleaseReadyCondition, c_Status = ConditionFalse, c_Reason = HelmReleasePendingReason,
               c_Message = ''Helm release is in a pending state: '' @ rel_Status rel\<rparr>
       else if rel_Status rel = StatusFailed then
         Some \<lparr>c_Type = HelmReleaseReadyCondition, c_Status = ConditionFalse,
               c_Reason = HelmInstallOrUpgradeFailedReason,
               c_Message = ''Helm release is in a failed state: '' @ rel_Status rel\<rparr>
       else get_condition (hrp_GetConditions r) HelmReleaseReadyCondition)"
  using normal_unfold [OF assms, of P pend]
  by (simp add: release_condition_def release_recorded_simps cond_get)

end

text \<open>The contracts hold of the concrete environment, with the repository's own Helm client over
  any Helm SDK.\<close>

interpretation sim_rel: release_env sim_kube_ops sim_capi "HelmClient H" for H :: "('h, 'v) helm_lib"
  by (rule release_env.intro) unfold_locales

section \<open>Noninterference of Secret lookups\<close>



section \<open>Sample inputs\<close>

definition ex_hrp :: "string \<Rightarrow> string list \<Rightarrow> nat option \<Rightarrow> HelmReleaseProxy" where
  "ex_hrp strategy fins del =
     zero_hrp\<lparr>hrp_Meta := zero_meta\<lparr>m_Name := ''web-c1'', m_Namespace := ''team'', m_Generation := 1,
                m_DeletionTimestamp := del, m_Finalizers := fins\<rparr>,
              hrp_Spec := (ex_spec ''nginx'')\<lparr>rs_ReconcileStrategy := strategy,
                rs_ClusterRef := zero_ref\<lparr>ref_Name := ''c1'', ref_Namespace := ''team''\<rparr>\<rparr>\<rparr>"

definition ex_kube :: "HelmReleaseProxy \<Rightarrow> sim_kube" where
  "ex_kube r = sim_empty\<lparr>sk_hrps := [r],
     sk_secrets := [(\<lparr>nn_Namespace = ''team'', nn_Name = ''c1-kubeconfig''\<rparr>, [''value'' \<mapsto> ''host''])]\<rparr>"

definition ex_world :: "HelmReleaseProxy \<Rightarrow> (sim_kube, sim_helm) world" where
  "ex_world r = \<lparr>w_kube = ex_kube r, w_helm = ex_helm [], w_os = sim_os\<rparr>"

definition ex_req :: nsname where
  "ex_req = \<lparr>nn_Namespace = ''team'', nn_Name = ''web-c1''\<rparr>"

lemmas ex_rel_defs = ex_hrp_def ex_kube_def ex_world_def ex_req_def zero_meta_def zero_ref_def sim_empty_def

text \<open>The same world with the proxy's cluster in it.\<close>

definition ex_live :: "HelmReleaseProxy \<Rightarrow> (sim_kube, sim_helm) world" where
  "ex_live r = (ex_world r)\<lparr>w_kube := (ex_kube r)\<lparr>sk_clusters := [ex_cluster ''c1'']\<rparr>\<rparr>"

lemmas ex_run_defs = Reconcile_body_def Reconcile_live_def hrp_reconcileNormal_def release_condition_def
  restConfigForCluster_def getCredentials_def getCAFile_def deferred_remove_def HelmClient_def
  hrp_has_finalizer_def hrp_add_finalizer_def hrp_cond_def patchHelmReleaseProxy_def cluster_key_def
  sim_capi_def sim_kube_ops_def sim_find_def sim_secret_def sim_patch_hrp_def meta_key_def api_defs
  const_defs ex_rel_defs ex_cluster_def helm_run_defs sim_helm_defs ex_defs

lemma ex_get_hrp: "k_get_hrp sim_kube_ops ex_req (w_kube (ex_world (ex_hrp st fs d))) = Inr (ex_hrp st fs d)"
  by (simp add: ex_rel_defs sim_kube_ops_def sim_find_def meta_key_def)

section \<open>Properties\<close>



text \<open>C7: in InstallOnce mode a release that was installed is never touched again: a reconcile of
  a proxy that carries the installed annotation, or that is being deleted, leaves every
  workload cluster as it is, so user changes survive and the release outlives the proxy.\<close>

theorem release_install_once_frozen:
  assumes "release_env K P C" and "k_get_hrp K req (w_kube w) = Inr r"
    and "rs_ReconcileStrategy (hrp_Spec r) = ReconcileStrategyInstallOnce"
    and "m_DeletionTimestamp (hrp_Meta r) \<noteq> None \<or> HasHelmReleaseBeenSuccessfullyInstalled (Some r)"
  shows "w_helm (snd (hrp_Reconcile K P C pend req w)) = w_helm w"
  using assms by (rule release_env.reconcile_frozen)

theorem release_install_once_frozen_witness:
  "w_helm (snd (hrp_Reconcile sim_kube_ops sim_capi (HelmClient sim_helm_lib) (\<lambda>_. False) ex_req
     (ex_world (ex_hrp ReconcileStrategyInstallOnce [HelmReleaseProxyFinalizer] (Some 1))))) = ex_helm []"
  using release_install_once_frozen [OF sim_rel.release_env_axioms ex_get_hrp,
      of ReconcileStrategyInstallOnce "[HelmReleaseProxyFinalizer]" "Some 1" sim_helm_lib "\<lambda>_. False"]
  by (simp add: ex_rel_defs)



text \<open>C20: a live proxy has its finalizer persisted before any Helm call and before any temporary
  file is written: if a reconcile changes a workload cluster or the file system, the proxy had
  the finalizer already or the patch that adds it succeeded first.\<close>

theorem release_finalizer_before_install:
  assumes "release_env K P C" and "Reconcile_body K P C pend before r w = (e, r', w')"
    and "m_DeletionTimestamp (hrp_Meta r) = None" and "\<not> hrp_has_finalizer P r"
    and "w_helm w' \<noteq> w_helm w \<or> w_os w' \<noteq> w_os w"
  shows "\<exists>r1 k1. patchHelmReleaseProxy K P before (hrp_add_finalizer P r) (w_kube w) = (None, r1, k1) \<and>
    hrp_has_finalizer P r1 \<and> Reconcile_live K P C pend r1 (w\<lparr>w_kube := k1\<rparr>) = (e, r', w')"
  using assms by (rule release_env.body_finalizer_first)

theorem release_finalizer_before_install_witness:
  "let r = ex_hrp [] [] None in
   \<exists>r1 k1. patchHelmReleaseProxy sim_kube_ops sim_capi r (hrp_add_finalizer sim_capi r) (w_kube (ex_live r))
     = (None, r1, k1) \<and> hrp_has_finalizer sim_capi r1"
proof -
  let ?r = "ex_hrp [] [] None"
  let ?R = "Reconcile_body sim_kube_ops sim_capi (HelmClient sim_helm_lib) (\<lambda>_. False) ?r ?r (ex_live ?r)"
  obtain e r' w' where b: "?R = (e, r', w')" by (cases ?R) auto
  have "w_helm w' \<noteq> w_helm (ex_live ?r)" using b by (auto simp: ex_run_defs ex_live_def)
  moreover have "\<not> hrp_has_finalizer sim_capi ?r" "m_DeletionTimestamp (hrp_Meta ?r) = None"
    by (simp_all add: hrp_has_finalizer_def ex_rel_defs sim_capi_def)
  ultimately show ?thesis
    unfolding Let_def using release_finalizer_before_install [OF sim_rel.release_env_axioms b] by blast
qed



text \<open>C22: the outcome of an install or upgrade without error is recorded completely: status and
  revision are those of the release, an empty release name is replaced by the release's and
  marked as generated, a set one is kept; the ready condition is true and the installed
  annotation set exactly for a deployed release, false with the reason for a pending or failed
  one, and left alone for any other status.\<close>

theorem release_outcome_recorded:
  assumes "release_env K P C" and "\<not> install_once_done r"
    and "hc_InstallOrUpgradeHelmRelease C rc cred ca (hrp_Spec r) st = ((Some rel, None), st')"
  shows "\<exists>r'. hrp_reconcileNormal P C pend r cred ca rc st = (None, r', st') \<and>
    rt_Status (hrp_Status r') = rel_Status rel \<and> rt_Revision (hrp_Status r') = rel_Version rel \<and>
    rs_ReleaseName (hrp_Spec r') =
      (if rs_ReleaseName (hrp_Spec r) = [] then rel_Name rel else rs_ReleaseName (hrp_Spec r)) \<and>
    hrp_GetAnnotations r' =
      (if rel_Status rel = StatusDeployed
       then (name_annotations r)(ReleaseSuccessfullyInstalledAnnotation \<mapsto> ''true'') else name_annotations r) \<and>
    get_condition (hrp_GetConditions r') HelmReleaseReadyCondition =
      (if rel_Status rel = StatusDeployed then
         Some \<lparr>c_Type = HelmReleaseReadyCondition, c_Status = ConditionTrue, c_Reason = ReadyReason, c_Message = []\<rparr>
       else if pend (rel_Status rel) then
         Some \<lparr>c_Type = HelmReleaseReadyCondition, c_Status = ConditionFalse, c_Reason = HelmReleasePendingReason,
               c_Message = ''Helm release is in a pending state: '' @ rel_Status rel\<rparr>
       else if rel_Status rel = StatusFailed then
         Some \<lparr>c_Type = HelmReleaseReadyCondition, c_Status = ConditionFalse,
               c_Reason = HelmInstallOrUpgradeFailedReason,
               c_Message = ''Helm release is in a failed state: '' @ rel_Status rel\<rparr>
       else get_condition (hrp_GetConditions r) HelmReleaseReadyCondition)"
  using assms by (rule release_env.normal_release)

theorem release_outcome_recorded_witness:
  "\<exists>r' st'. hrp_reconcileNormal sim_capi (HelmClient sim_helm_lib) (\<lambda>_. False) (ex_hrp [] [] None) [] [] ex_rest
     (ex_helm [], sim_os) = (None, r', st') \<and> rt_Status (hrp_Status r') = StatusDeployed \<and>
     hrp_GetAnnotations r' ReleaseSuccessfullyInstalledAnnotation = Some ''true''"
proof -
  have i: "\<not> install_once_done (ex_hrp [] [] None)"
    by (simp add: install_once_done_def ex_hrp_def const_defs)
  obtain st' where c: "hc_InstallOrUpgradeHelmRelease (HelmClient sim_helm_lib) ex_rest [] []
      (hrp_Spec (ex_hrp [] [] None)) (ex_helm [], sim_os) = ((Some (ex_release StatusDeployed), None), st')"
    by (simp add: ex_run_defs)
  have "rel_Status (ex_release StatusDeployed) = StatusDeployed" by (simp add: ex_release_def)
  with release_outcome_recorded [OF sim_rel.release_env_axioms i c, of "\<lambda>_. False"]
  show ?thesis by auto
qed

text \<open>An install or upgrade that fails without a release is reported: the reconcile returns
  the error, the ready condition is false and carries its message, and the spec, the recorded
  status and the installed mark are as before.\<close>

lemma release_failure_recorded:
  assumes "release_env K P C" and "\<not> install_once_done r" and "\<not> IsPanic e"
    and "hc_InstallOrUpgradeHelmRelease C rc cred ca (hrp_Spec r) st = ((None, Some e), st')"
  shows "\<exists>r'. hrp_reconcileNormal P C pend r cred ca rc st = (Some e, r', st') \<and> hrp_Spec r' = hrp_Spec r \<and>
    rt_Status (hrp_Status r') = rt_Status (hrp_Status r) \<and>
    HasHelmReleaseBeenSuccessfullyInstalled (Some r') = HasHelmReleaseBeenSuccessfullyInstalled (Some r) \<and>
    get_condition (hrp_GetConditions r') HelmReleaseReadyCondition =
      Some \<lparr>c_Type = HelmReleaseReadyCondition, c_Status = ConditionFalse,
            c_Reason = HelmInstallOrUpgradeFailedReason, c_Message = Error e\<rparr>"
  using assms by (rule release_env.normal_no_release)

text \<open>C23: every error of a live reconcile is visible. Either the cluster condition is false with
  one of the four lookup reasons and the error's own message, and no workload cluster was
  touched, or the error is the one the Helm client returned.\<close>

theorem release_errors_reported:
  assumes "release_env K P C" and "Reconcile_live K P C pend r w = (Some e, r', w')"
  shows "(\<exists>reason \<in> {GetClusterFailedReason, GetKubeconfigFailedReason, GetCredentialsFailedReason,
                        GetCACertificateFailedReason}.
      get_condition (hrp_GetConditions r') ClusterAvailableCondition =
        Some \<lparr>c_Type = ClusterAvailableCondition, c_Status = ConditionFalse, c_Reason = reason, c_Message = Error e\<rparr> \<and>
      w_helm w' = w_helm w) \<or>
    (\<exists>cred ca rc spec rel s s'.
      hc_InstallOrUpgradeHelmRelease C rc cred ca spec (w_helm w, s) = ((rel, Some e), w_helm w', s'))"
  using assms by (rule release_env.live_error)

theorem release_errors_reported_witness:
  "\<exists>e r' w'. Reconcile_live sim_kube_ops sim_capi (HelmClient sim_helm_lib) (\<lambda>_. False) (ex_hrp [] [] None)
     (ex_world (ex_hrp [] [] None)) = (Some e, r', w') \<and>
     ((\<exists>reason. get_condition (hrp_GetConditions r') ClusterAvailableCondition =
        Some \<lparr>c_Type = ClusterAvailableCondition, c_Status = ConditionFalse, c_Reason = reason, c_Message = Error e\<rparr>) \<or>
      (\<exists>cred ca rc spec rel s s'. hc_InstallOrUpgradeHelmRelease (HelmClient sim_helm_lib) rc cred ca spec
        (ex_helm [], s) = ((rel, Some e), w_helm w', s')))"
proof -
  have h: "w_helm (ex_world (ex_hrp [] [] None)) = ex_helm []" by (simp add: ex_world_def)
  obtain e r' w' where r: "Reconcile_live sim_kube_ops sim_capi (HelmClient sim_helm_lib) (\<lambda>_. False)
      (ex_hrp [] [] None) (ex_world (ex_hrp [] [] None)) = (Some e, r', w')"
    by (simp add: Reconcile_live_def sim_kube_ops_def sim_find_def ex_rel_defs Let_def)
  show ?thesis using r release_errors_reported [OF sim_rel.release_env_axioms r] unfolding h by blast
qed

text \<open>C39: a failed write of the credentials leaves a part of them on disk. When the temporary file
  is created and the write fails after \<open>n\<close> bytes, the caller gets an error and no path, so
  nothing removes the file, which keeps those bytes.\<close>

theorem release_credentials_leak:
  assumes "CreateTemp ''oci-credentials-*.json'' s = (Inr f, s1)" and "sys_fault s1 = Some (n, err)"
  shows "fst (writeCredentialsToFile credentials s) = Inl err \<and>
    os_files (snd (writeCredentialsToFile credentials s)) f = Some (take n credentials)"
  using assms CreateTemp_ok [OF assms(1)]
  by (simp add: writeCredentialsToFile_def create_and_write_def Write_def)

theorem release_credentials_leak_witness:
  "\<exists>f. os_files (snd (writeCredentialsToFile ''secret'' (sim_os\<lparr>os_faults := [1 \<mapsto> (3, ErrExist)]\<rparr>))) f =
     Some ''sec''"
proof -
  obtain f s1 where c: "CreateTemp ''oci-credentials-*.json'' (sim_os\<lparr>os_faults := [1 \<mapsto> (3, ErrExist)]\<rparr>) = (Inr f, s1)"
    and e: "sys_fault s1 = Some (3, ErrExist)"
    by (simp add: CreateTemp_def prefixAndSuffix_def createTemp_loop.simps sys_fault_def sys_tick_def sim_os_def Let_def)
  show ?thesis using release_credentials_leak [OF c e, of "''secret''"] by auto
qed

end
