(* ===== verification/Chart_Controller.thy ===== *)
theory Chart_Controller
  imports Chart_Phases Release_Controller
begin

text \<open>
  \<^verbatim>\<open>controllers/helmchartproxy/helmchartproxy_controller.go\<close>: the controller that keeps one release
  proxy per selected cluster for a chart proxy, deletes them with it, and aggregates their
  conditions; and the two event mappers. The object a mapper is called with may be of any
  kind.
\<close>

section \<open>Patching and listing\<close>

definition patchHelmChartProxy ::
  "'k kube \<Rightarrow> 'k capi \<Rightarrow> HelmChartProxy \<Rightarrow> HelmChartProxy \<Rightarrow> 'k
     \<Rightarrow> go_error option \<times> HelmChartProxy \<times> 'k" where
  "patchHelmChartProxy K P before helmChartProxy k =
     (case p_summary P (hcp_GetConditions helmChartProxy) ReadyCondition
             [HelmReleaseProxySpecsUpToDateCondition, HelmReleaseProxiesReadyCondition] of
        Inl err \<Rightarrow> (Some (Wrapf err ''failed to set summary condition''), helmChartProxy, k)
      | Inr cs \<Rightarrow>
          k_patch_hcp K before (hcp_SetConditions helmChartProxy cs)
            [ReadyCondition, HelmReleaseProxySpecsUpToDateCondition, HelmReleaseProxiesReadyCondition] k)"

definition listClustersWithLabels ::
  "'k kube \<Rightarrow> 'k capi \<Rightarrow> string \<Rightarrow> LabelSelector \<Rightarrow> 'k \<Rightarrow> Cluster list res" where
  "listClustersWithLabels K P namespace selector k =
     (case p_selector P selector of
        Inl err \<Rightarrow> Inl err
      | Inr labelselector \<Rightarrow> k_list_clusters K namespace labelselector k)"

definition listInstalledReleases ::
  "'k kube \<Rightarrow> string \<Rightarrow> labels \<Rightarrow> 'k \<Rightarrow> HelmReleaseProxy list res" where
  "listInstalledReleases K namespace ls k = k_list_hrps K namespace ls k"

section \<open>Aggregation of conditions\<close>

text \<open>\<^verbatim>\<open>addSourceRef.Merge\<close>: the default strategy's answer, with the sources in the message.\<close>

definition addSourceRef_Merge :: "merge_strategy \<Rightarrow> merge_strategy" where
  "addSourceRef_Merge defaultStrategy op conds conditionTypes =
     (case defaultStrategy op conds conditionTypes of
        (status, reason, message, Some err) \<Rightarrow> (status, reason, message, Some err)
      | (status, reason, message, None) \<Rightarrow>
          (let refs = map (\<lambda>c. co_Kind c @ ''/'' @ co_Name c)
                        (filter (\<lambda>c. co_Kind c \<noteq> [] \<and> co_Name c \<noteq> []) conds)
           in (status, reason,
               if refs \<noteq> [] then message @ '' (sources: '' @ Join refs '', '' @ '')'' else message, None)))"

definition setAggregate ::
  "'k capi \<Rightarrow> HelmReleaseProxy list \<Rightarrow> HelmChartProxy \<Rightarrow> go_error option \<times> HelmChartProxy" where
  "setAggregate P getters c =
     (case p_aggregate P (addSourceRef_Merge (p_default_merge P)) getters (hcp_GetConditions c)
             ReadyCondition HelmReleaseProxiesReadyCondition of
        Inl err \<Rightarrow> (Some (Wrapf err (''failed to set aggregate condition on HelmChartProxy '' @ hcp_Name c)), c)
      | Inr cs \<Rightarrow> (None, hcp_SetConditions c cs))"

definition aggregateHelmReleaseProxyReadyCondition ::
  "'k kube \<Rightarrow> 'k capi \<Rightarrow> HelmChartProxy \<Rightarrow> 'k \<Rightarrow> go_error option \<times> HelmChartProxy" where
  "aggregateHelmReleaseProxyReadyCondition K P c k =
     (case listInstalledReleases K (hcp_Namespace c) [HelmChartProxyLabelName \<mapsto> hcp_Name c] k of
        Inl err \<Rightarrow> (Some err, c)
      | Inr releases \<Rightarrow>
          (if releases = [] then
             (None, hcp_cond P c HelmReleaseProxiesReadyCondition ConditionTrue ReadyReason [])
           else case find (\<lambda>r. m_Generation (hrp_Meta r) \<noteq> rt_ObservedGeneration (hrp_Status r)) releases of
             Some r \<Rightarrow>
               (None, hcp_cond P c HelmReleaseProxySpecsUpToDateCondition ConditionFalse
                        HelmReleaseProxySpecsUpdatingReason
                        (''Helm release proxy '' @ [CHR 0x27] @ hrp_Name r @ [CHR 0x27] @ '' is not updated yet''))
           | None \<Rightarrow> setAggregate P releases c))"

section \<open>\<open>reconcileNormal\<close> and \<open>reconcileDelete\<close>\<close>

definition hcp_reconcileNormal ::
  "'f tmpl \<Rightarrow> 'k kube \<Rightarrow> 'k capi \<Rightarrow> HelmChartProxy \<Rightarrow> Cluster list \<Rightarrow> HelmReleaseProxy list \<Rightarrow> 'k
     \<Rightarrow> go_error option \<times> HelmChartProxy \<times> 'k" where
  "hcp_reconcileNormal T K P c clusters helmReleaseProxies k =
     (case (if cs_ReconcileStrategy (hcp_Spec c) \<noteq> ReconcileStrategyInstallOnce
            then deleteOrphanedHelmReleaseProxies K P c clusters helmReleaseProxies k
            else (None, c, k)) of
        (Some err, c', k') \<Rightarrow> (Some err, c', k')
      | (None, c', k') \<Rightarrow>
          for_each (\<lambda>cluster st.
              if m_DeletionTimestamp (cl_Meta cluster) \<noteq> None then (None, st)
              else reconcileForCluster T K P (fst st) cluster (snd st))
            clusters (c', k'))"

text \<open>The loop of \<^verbatim>\<open>reconcileDelete\<close>: delete each proxy, read it back, collect those still there.\<close>

fun delete_releases ::
  "'k kube \<Rightarrow> HelmReleaseProxy list \<Rightarrow> 'k \<Rightarrow> (HelmReleaseProxy list) res \<times> 'k" where
  "delete_releases K [] k = (Inr [], k)"
| "delete_releases K (release # releases) k =
     (case deleteHelmReleaseProxy K release k of
        (Some err, k') \<Rightarrow>
          (Inl (Wrapf err (''failed to delete release '' @ hrp_Name release @ '' from cluster ''
                  @ ref_Name (rs_ClusterRef (hrp_Spec release)))), k')
      | (None, k') \<Rightarrow>
          (case k_get_hrp K (meta_key (hrp_Meta release)) k' of
             Inl err \<Rightarrow>
               (if IsNotFound err then delete_releases K releases k'
                else (Inl (Wrapf err (''failed to get HelmReleaseProxy '' @ hrp_Name release)), k'))
           | Inr release' \<Rightarrow>
               (case delete_releases K releases k' of
                  (Inl err, k'') \<Rightarrow> (Inl err, k'')
                | (Inr getters, k'') \<Rightarrow> (Inr (release' # getters), k''))))"

definition hcp_reconcileDelete ::
  "'k kube \<Rightarrow> 'k capi \<Rightarrow> HelmChartProxy \<Rightarrow> HelmReleaseProxy list \<Rightarrow> 'k
     \<Rightarrow> (Result \<times> go_error option) \<times> HelmChartProxy \<times> 'k" where
  "hcp_reconcileDelete K P c releases k =
     (case delete_releases K releases k of
        (Inl err, k') \<Rightarrow> ((Result0, Some err), c, k')
      | (Inr getters, k') \<Rightarrow>
          (if getters \<noteq> [] then
             (case setAggregate P getters c of
                (Some err, c') \<Rightarrow> ((Result0, Some err), c', k')
              | (None, c') \<Rightarrow> ((\<lparr>RequeueAfter = 1\<rparr>, None), c', k'))
           else ((Result0, None), c, k')))"

section \<open>\<open>Reconcile\<close>\<close>

definition hcp_has_finalizer :: "'k capi \<Rightarrow> HelmChartProxy \<Rightarrow> bool" where
  "hcp_has_finalizer P c = p_has_finalizer P (m_Finalizers (hcp_Meta c)) HelmChartProxyFinalizer"

definition hcp_add_finalizer :: "'k capi \<Rightarrow> HelmChartProxy \<Rightarrow> HelmChartProxy" where
  "hcp_add_finalizer P c = c\<lparr>hcp_Meta := (hcp_Meta c)\<lparr>m_Finalizers :=
     p_add_finalizer P (m_Finalizers (hcp_Meta c)) HelmChartProxyFinalizer\<rparr>\<rparr>"

definition hcp_remove_finalizer :: "'k capi \<Rightarrow> HelmChartProxy \<Rightarrow> HelmChartProxy" where
  "hcp_remove_finalizer P c = c\<lparr>hcp_Meta := (hcp_Meta c)\<lparr>m_Finalizers :=
     p_remove_finalizer P (m_Finalizers (hcp_Meta c)) HelmChartProxyFinalizer\<rparr>\<rparr>"

text \<open>The branch for a chart proxy that is being deleted. A result that asks for a requeue ends
  the branch, but the result itself is not passed on.\<close>

definition chart_deleting ::
  "'k kube \<Rightarrow> 'k capi \<Rightarrow> HelmChartProxy \<Rightarrow> HelmChartProxy \<Rightarrow> HelmReleaseProxy list \<Rightarrow> 'k
     \<Rightarrow> (Result \<times> go_error option) \<times> HelmChartProxy \<times> 'k" where
  "chart_deleting K P before c releases k =
     (if hcp_has_finalizer P c then
        (case hcp_reconcileDelete K P c releases k of
           ((result, err), c', k') \<Rightarrow>
             (if err \<noteq> None \<or> result \<noteq> Result0 then ((Result0, err), c', k')
              else case patchHelmChartProxy K P before (hcp_remove_finalizer P c') k' of
                (perr, c'', k'') \<Rightarrow> ((Result0, perr), c'', k'')))
      else ((Result0, None), c, k))"

text \<open>The end of the branch for a live chart proxy.\<close>

definition chart_live ::
  "'f tmpl \<Rightarrow> 'k kube \<Rightarrow> 'k capi \<Rightarrow> HelmChartProxy \<Rightarrow> Cluster list \<Rightarrow> HelmReleaseProxy list \<Rightarrow> 'k
     \<Rightarrow> (Result \<times> go_error option) \<times> HelmChartProxy \<times> 'k" where
  "chart_live T K P c clusters releases k =
     (case hcp_reconcileNormal T K P c clusters releases k of
        (Some err, c', k') \<Rightarrow> ((Result0, Some err), c', k')
      | (None, c', k') \<Rightarrow>
          (case aggregateHelmReleaseProxyReadyCondition K P
                  (hcp_cond P c' HelmReleaseProxySpecsUpToDateCondition ConditionTrue UpToDateReason []) k' of
             (err, c'') \<Rightarrow> ((Result0, err), c'', k')))"

definition chart_body ::
  "'f tmpl \<Rightarrow> 'k kube \<Rightarrow> 'k capi \<Rightarrow> HelmChartProxy \<Rightarrow> 'k
     \<Rightarrow> (Result \<times> go_error option) \<times> HelmChartProxy \<times> 'k" where
  "chart_body T K P before k =
     (case listClustersWithLabels K P (hcp_Namespace before) (cs_ClusterSelector (hcp_Spec before)) k of
        Inl err \<Rightarrow>
          ((Result0, Some err),
           hcp_cond P before HelmReleaseProxySpecsUpToDateCondition ConditionFalse
             ClusterSelectionFailedReason (Error err), k)
      | Inr clusters \<Rightarrow>
          (let c = SetMatchingClusters before clusters
           in case listInstalledReleases K (hcp_Namespace c) [HelmChartProxyLabelName \<mapsto> hcp_Name c] k of
                Inl err \<Rightarrow> ((Result0, Some err), c, k)
              | Inr releases \<Rightarrow>
                  (if m_DeletionTimestamp (hcp_Meta c) \<noteq> None then chart_deleting K P before c releases k
                   else if hcp_has_finalizer P c then chart_live T K P c clusters releases k
                   else case patchHelmChartProxy K P before (hcp_add_finalizer P c) k of
                     (Some err, c', k') \<Rightarrow> ((Result0, Some err), c', k')
                   | (None, c', k') \<Rightarrow> chart_live T K P c' clusters releases k')))"

definition hcp_Reconcile ::
  "'f tmpl \<Rightarrow> 'k kube \<Rightarrow> 'k capi \<Rightarrow> nsname \<Rightarrow> 'k \<Rightarrow> (Result \<times> go_error option) \<times> 'k" where
  "hcp_Reconcile T K P req k =
     (case k_get_hcp K req k of
        Inl err \<Rightarrow> (if IsNotFound err then ((Result0, None), k) else ((Result0, Some err), k))
      | Inr before \<Rightarrow>
          (case k_new_helper_hcp K before k of
             Some err \<Rightarrow> ((Result0, Some (Wrapf err ''failed to init patch helper'')), k)
           | None \<Rightarrow>
               (case chart_body T K P before k of
                  ((result, reterr), c, k') \<Rightarrow>
                    (case patchHelmChartProxy K P before c k' of
                       (perr, _, k'') \<Rightarrow> ((result, if reterr = None then perr else reterr), k'')))))"

section \<open>Event mappers\<close>

datatype client_object =
    ClusterObject Cluster | HelmChartProxyObject HelmChartProxy | HelmReleaseProxyObject HelmReleaseProxy | OtherObject

text \<open>An invalid selector ends the loop with no request at all.\<close>

fun map_chart_proxies ::
  "'k capi \<Rightarrow> Cluster \<Rightarrow> HelmChartProxy list \<Rightarrow> nsname list \<Rightarrow> nsname list" where
  "map_chart_proxies P cluster [] results = results"
| "map_chart_proxies P cluster (c # cs) results =
     (case p_selector P (cs_ClusterSelector (hcp_Spec c)) of
        Inl err \<Rightarrow> []
      | Inr selector \<Rightarrow>
          map_chart_proxies P cluster cs
            (if selector (m_Labels (cl_Meta cluster))
             then results @ [\<lparr>nn_Namespace = hcp_Namespace c, nn_Name = hcp_Name c\<rparr>] else results))"

definition ClusterToHelmChartProxiesMapper ::
  "'k kube \<Rightarrow> 'k capi \<Rightarrow> client_object \<Rightarrow> 'k \<Rightarrow> nsname list" where
  "ClusterToHelmChartProxiesMapper K P obj k =
     (case obj of
        ClusterObject cluster \<Rightarrow>
          (case k_list_hcps K (cl_Namespace cluster) k of
             Inl err \<Rightarrow> []
           | Inr helmChartProxies \<Rightarrow> map_chart_proxies P cluster helmChartProxies [])
      | _ \<Rightarrow> [])"

definition HelmReleaseProxyToHelmChartProxyMapper :: "client_object \<Rightarrow> nsname list" where
  "HelmReleaseProxyToHelmChartProxyMapper obj =
     (case obj of
        HelmReleaseProxyObject r \<Rightarrow>
          (case find (\<lambda>ref. or_Controller ref = Some True) (m_OwnerReferences (hrp_Meta r)) of
             Some ref \<Rightarrow> [\<lparr>nn_Namespace = hrp_Namespace r, nn_Name = or_Name ref\<rparr>]
           | None \<Rightarrow> [])
      | _ \<Rightarrow> [])"

section \<open>Lemmas\<close>

lemma hcp_finalizer_frame [simp]:
  "hcp_Spec (hcp_add_finalizer P c) = hcp_Spec c" "hcp_Spec (hcp_remove_finalizer P c) = hcp_Spec c"
  "hcp_GetConditions (hcp_add_finalizer P c) = hcp_GetConditions c"
  "m_DeletionTimestamp (hcp_Meta (hcp_add_finalizer P c)) = m_DeletionTimestamp (hcp_Meta c)"
  by (simp_all add: hcp_add_finalizer_def hcp_remove_finalizer_def api_defs)

text \<open>The client with another delete operation; the helper functions that do not delete do not see
  the difference.\<close>

lemma no_delete_congs [simp]:
  "getExistingHelmReleaseProxy (K\<lparr>k_delete_hrp := d\<rparr>) c cluster k = getExistingHelmReleaseProxy K c cluster k"
  "createOrUpdateHelmReleaseProxy (K\<lparr>k_delete_hrp := d\<rparr>) P ex c cluster v k =
     createOrUpdateHelmReleaseProxy K P ex c cluster v k"
  by (simp_all add: getExistingHelmReleaseProxy_def createOrUpdateHelmReleaseProxy_def
      cong: sum.case_cong option.case_cong)

lemma render_no_delete [simp]:
  "render_and_apply T (K\<lparr>k_delete_hrp := d\<rparr>) P ex c cluster k = render_and_apply T K P ex c cluster k"
  by (auto simp: render_and_apply_def split: sum.split)


text \<open>The loop over the clusters, with its invariant.\<close>

definition cluster_step ::
  "'f tmpl \<Rightarrow> 'k kube \<Rightarrow> 'k capi \<Rightarrow> Cluster \<Rightarrow> HelmChartProxy \<times> 'k \<Rightarrow> go_error option \<times> HelmChartProxy \<times> 'k" where
  "cluster_step T K P cluster st =
     (if m_DeletionTimestamp (cl_Meta cluster) \<noteq> None then (None, st)
      else reconcileForCluster T K P (fst st) cluster (snd st))"


lemma reconcileNormal_install_once:
  assumes "cs_ReconcileStrategy (hcp_Spec c) = ReconcileStrategyInstallOnce"
  shows "hcp_reconcileNormal T K P c clusters rs k = for_each (cluster_step T K P) clusters (c, k)"
  using assms by (simp add: hcp_reconcileNormal_def cluster_step_def [abs_def])


text \<open>A deletion without leftover: every proxy, in turn, was deleted and then read back as not found.\<close>

fun all_gone :: "'k kube \<Rightarrow> HelmReleaseProxy list \<Rightarrow> 'k \<Rightarrow> bool" where
  "all_gone K [] k = True"
| "all_gone K (r # rs) k =
     (case deleteHelmReleaseProxy K r k of
        (None, k1) \<Rightarrow> (case k_get_hrp K (meta_key (hrp_Meta r)) k1 of Inl err \<Rightarrow> IsNotFound err \<and> all_gone K rs k1 | Inr _ \<Rightarrow> False)
      | _ \<Rightarrow> False)"

lemma all_gone_iff: "all_gone K rs k \<longleftrightarrow> (\<exists>k'. delete_releases K rs k = (Inr [], k'))"
  by (induction K rs k rule: all_gone.induct) (auto split: prod.splits option.splits sum.splits)

lemma hcp_reconcileDelete_done:
  "hcp_reconcileDelete K P c releases k = ((Result0, None), c', k') \<longleftrightarrow> delete_releases K releases k = (Inr [], k') \<and> c' = c"
  by (auto simp: hcp_reconcileDelete_def Result0_def split: prod.splits sum.splits option.splits if_splits)

lemma reconcileDelete_meta:
  "hcp_reconcileDelete K P c releases k = (ret, c', k') \<Longrightarrow> hcp_Meta c' = hcp_Meta c"
  by (auto simp: hcp_reconcileDelete_def setAggregate_def split: prod.splits sum.splits option.splits if_splits)

section \<open>The environment of the controller\<close>

locale chart_env = kube_api K + capi_laws P
  for K :: "'k kube" and P :: "'k capi"
begin

lemma hcp_cond_get:
  "get_condition (hcp_GetConditions (hcp_cond P c t st reason msg)) t' =
     (if t' = t then Some \<lparr>c_Type = t, c_Status = st, c_Reason = reason, c_Message = msg\<rparr>
      else get_condition (hcp_GetConditions c) t')"
  by (simp add: hcp_cond_def get_set)

lemma patch_chart_frame:
  assumes "patchHelmChartProxy K P before c k = (e, c', k')"
  shows "hcp_Spec c' = hcp_Spec c" "m_Finalizers (hcp_Meta c') = m_Finalizers (hcp_Meta c)"
    "hcp_Name c' = hcp_Name c" "hcp_Namespace c' = hcp_Namespace c"
    "t \<noteq> ReadyCondition \<Longrightarrow> get_condition (hcp_GetConditions c') t = get_condition (hcp_GetConditions c) t"
  using assms patch_hcp_meta
  by (auto simp: patchHelmChartProxy_def summary_frame split: sum.splits)

lemma setAggregate_frame:
  "setAggregate P getters c = (e, c') \<Longrightarrow> t \<noteq> HelmReleaseProxiesReadyCondition \<Longrightarrow>
     get_condition (hcp_GetConditions c') t = get_condition (hcp_GetConditions c) t"
  by (auto simp: setAggregate_def aggregate_frame split: sum.splits)

text \<open>The finalizer is dropped exactly when every listed proxy was read back as gone.\<close>

lemma deleting_finalizer_iff:
  assumes d: "chart_deleting K P before c releases k = (ret, c', k')" and f: "hcp_has_finalizer P c"
  shows "hcp_has_finalizer P c' \<longleftrightarrow> \<not> all_gone K releases k"
proof -
  obtain result err c1 k1 where rd: "hcp_reconcileDelete K P c releases k = ((result, err), c1, k1)"
    by (metis prod.collapse)
  have m: "hcp_has_finalizer P c1" using reconcileDelete_meta [OF rd] f by (simp add: hcp_has_finalizer_def)
  show ?thesis
  proof (cases "err = None \<and> result = Result0")
    case True
    then have "all_gone K releases k" using rd hcp_reconcileDelete_done by (metis all_gone_iff)
    moreover obtain e where "patchHelmChartProxy K P before (hcp_remove_finalizer P c1) k1 = (e, c', k')"
      using d f rd True by (auto simp: chart_deleting_def split: prod.splits)
    ultimately show ?thesis
      using patch_chart_frame(2) by (simp add: hcp_has_finalizer_def hcp_remove_finalizer_def has_remove)
  next
    case False
    then have "c' = c1" using d f rd by (auto simp: chart_deleting_def split: if_splits)
    moreover have "\<not> all_gone K releases k"
    proof
      assume "all_gone K releases k"
      then obtain k2 where "delete_releases K releases k = (Inr [], k2)" by (auto simp: all_gone_iff)
      then have "hcp_reconcileDelete K P c releases k = ((Result0, None), c, k2)" by (simp add: hcp_reconcileDelete_done)
      with rd False show False by simp
    qed
    ultimately show ?thesis using m by simp
  qed
qed

text \<open>The up-to-date condition after a live reconcile without error.\<close>

lemma live_up_to_date:
  assumes "chart_live T K P c clusters releases k = ((res, None), c', k')"
  shows "get_condition (hcp_GetConditions c') HelmReleaseProxySpecsUpToDateCondition =
      Some \<lparr>c_Type = HelmReleaseProxySpecsUpToDateCondition, c_Status = ConditionTrue,
            c_Reason = UpToDateReason, c_Message = []\<rparr> \<or>
    (\<exists>msg. get_condition (hcp_GetConditions c') HelmReleaseProxySpecsUpToDateCondition =
      Some \<lparr>c_Type = HelmReleaseProxySpecsUpToDateCondition, c_Status = ConditionFalse,
            c_Reason = HelmReleaseProxySpecsUpdatingReason, c_Message = msg\<rparr>)"
proof -
  have ne: "HelmReleaseProxySpecsUpToDateCondition \<noteq> HelmReleaseProxiesReadyCondition"
    by (simp add: const_defs)
  obtain c1 where a: "aggregateHelmReleaseProxyReadyCondition K P
      (hcp_cond P c1 HelmReleaseProxySpecsUpToDateCondition ConditionTrue UpToDateReason []) k' = (None, c')"
    using assms by (auto simp: chart_live_def split: prod.splits option.splits)
  show ?thesis
    using a setAggregate_frame [OF _ ne] ne
    by (auto simp: aggregateHelmReleaseProxyReadyCondition_def hcp_cond_get
        split: sum.splits if_splits option.splits)
qed

lemma aggregate_cases:
  assumes "k_list_hrps K (hcp_Namespace c) [HelmChartProxyLabelName \<mapsto> hcp_Name c] k = Inr releases"
    and "aggregateHelmReleaseProxyReadyCondition K P c k = (None, c')"
  shows "(releases = [] \<longrightarrow> get_condition (hcp_GetConditions c') HelmReleaseProxiesReadyCondition =
      Some \<lparr>c_Type = HelmReleaseProxiesReadyCondition, c_Status = ConditionTrue, c_Reason = ReadyReason, c_Message = []\<rparr>) \<and>
    (\<forall>r. find (\<lambda>r. m_Generation (hrp_Meta r) \<noteq> rt_ObservedGeneration (hrp_Status r)) releases = Some r \<longrightarrow>
      get_condition (hcp_GetConditions c') HelmReleaseProxySpecsUpToDateCondition =
        Some \<lparr>c_Type = HelmReleaseProxySpecsUpToDateCondition, c_Status = ConditionFalse,
              c_Reason = HelmReleaseProxySpecsUpdatingReason,
              c_Message = ''Helm release proxy '' @ [CHR 0x27] @ hrp_Name r @ [CHR 0x27] @ '' is not updated yet''\<rparr> \<and>
      get_condition (hcp_GetConditions c') HelmReleaseProxiesReadyCondition =
        get_condition (hcp_GetConditions c) HelmReleaseProxiesReadyCondition) \<and>
    ((\<forall>r \<in> set releases. m_Generation (hrp_Meta r) = rt_ObservedGeneration (hrp_Status r)) \<longrightarrow>
      get_condition (hcp_GetConditions c') HelmReleaseProxySpecsUpToDateCondition =
        get_condition (hcp_GetConditions c) HelmReleaseProxySpecsUpToDateCondition) \<and>
    (\<forall>t. t \<noteq> HelmReleaseProxiesReadyCondition \<and> t \<noteq> HelmReleaseProxySpecsUpToDateCondition \<longrightarrow>
      get_condition (hcp_GetConditions c') t = get_condition (hcp_GetConditions c) t)"
proof -
  let ?stale = "\<lambda>r. m_Generation (hrp_Meta r) \<noteq> rt_ObservedGeneration (hrp_Status r)"
  have ne: "HelmReleaseProxySpecsUpToDateCondition \<noteq> HelmReleaseProxiesReadyCondition"
    by (simp add: const_defs)
  consider "releases = []" "c' = hcp_cond P c HelmReleaseProxiesReadyCondition ConditionTrue ReadyReason []"
    | r where "releases \<noteq> []" "find ?stale releases = Some r" "c' = hcp_cond P c HelmReleaseProxySpecsUpToDateCondition
        ConditionFalse HelmReleaseProxySpecsUpdatingReason
        (''Helm release proxy '' @ [CHR 0x27] @ hrp_Name r @ [CHR 0x27] @ '' is not updated yet'')"
    | "releases \<noteq> []" "find ?stale releases = None" "setAggregate P releases c = (None, c')"
    using assms
    by (auto simp: aggregateHelmReleaseProxyReadyCondition_def listInstalledReleases_def
        split: if_splits option.splits)
  then show ?thesis
  proof cases
    case 1
    then show ?thesis using ne by (simp add: hcp_cond_get)
  next
    case (2 r)
    then have "\<exists>x \<in> set releases. m_Generation (hrp_Meta x) \<noteq> rt_ObservedGeneration (hrp_Status x)"
      by (auto simp: find_Some_iff intro: nth_mem)
    then show ?thesis using 2 ne by (auto simp: hcp_cond_get)
  next
    case 3
    then show ?thesis using setAggregate_frame [OF 3(3)] ne by simp
  qed
qed

end

interpretation sim_chart: chart_env sim_kube_ops sim_capi
  by unfold_locales

section \<open>Loops\<close>

lemma cluster_step_filter:
  "for_each (cluster_step T K P) clusters st =
     for_each (\<lambda>cl st. reconcileForCluster T K P (fst st) cl (snd st))
       (filter (\<lambda>cl. m_DeletionTimestamp (cl_Meta cl) = None) clusters) st"
proof -
  have "cluster_step T K P = (\<lambda>cl st. if m_DeletionTimestamp (cl_Meta cl) = None
      then reconcileForCluster T K P (fst st) cl (snd st) else (None, st))"
    by (auto simp: fun_eq_iff cluster_step_def)
  then show ?thesis by (simp only: for_each_filter)
qed

lemma map_chart_proxies_ok:
  "\<forall>c \<in> set cs. \<exists>p. p_selector P (cs_ClusterSelector (hcp_Spec c)) = Inr p \<Longrightarrow>
     map_chart_proxies P cluster cs acc = acc @ map (meta_key \<circ> hcp_Meta)
       (filter (\<lambda>c. \<exists>p. p_selector P (cs_ClusterSelector (hcp_Spec c)) = Inr p \<and> p (m_Labels (cl_Meta cluster))) cs)"
  by (induction cs arbitrary: acc) (auto simp: meta_key_def)

lemma map_chart_proxies_err:
  "\<exists>c \<in> set cs. \<exists>e. p_selector P (cs_ClusterSelector (hcp_Spec c)) = Inl e \<Longrightarrow>
     map_chart_proxies P cluster cs acc = []"
  by (induction cs arbitrary: acc) (auto split: sum.split)







text \<open>The custom merge strategy only adds to the message: status, reason and error are those of
  the default strategy, an error passes through untouched, and otherwise the default message
  is a prefix, alone exactly when no condition has an owner with a kind and a name.\<close>

lemma chart_merge_adds_sources:
  assumes "d op conds types = (status, reason, message, err)"
  shows "\<exists>extra. addSourceRef_Merge d op conds types = (status, reason, message @ extra, err) \<and>
    (extra = [] \<longleftrightarrow> err \<noteq> None \<or> (\<forall>c \<in> set conds. co_Kind c = [] \<or> co_Name c = []))"
  using assms
  by (cases err) (auto simp: addSourceRef_Merge_def Let_def filter_empty_conv)

section \<open>Sample inputs\<close>

lemmas ex_deleting_defs = chart_deleting_def hcp_reconcileDelete_def deleteHelmReleaseProxy_def
  patchHelmChartProxy_def hcp_has_finalizer_def hcp_remove_finalizer_def sim_kube_ops_def sim_capi_def
  sim_delete_hrp_def sim_find_def sim_drop_def sim_not_found_def sim_patch_hcp_def sim_empty_def ex_rp_def
  zero_hrp_def zero_meta_def ex_hcp_def meta_key_def api_defs Result0_def

text \<open>A release proxy that was made for another chart, so that it has to be reinstalled.\<close>

definition ex_old_chart :: sim_kube where
  "ex_old_chart = sim_empty\<lparr>sk_hrps :=
     [(ex_rp ''c1'')\<lparr>hrp_Meta := zero_meta\<lparr>m_Name := ''old'', m_Namespace := ''team'',
        m_Labels := [ClusterNameLabel \<mapsto> ''c1'', HelmChartProxyLabelName \<mapsto> ''web'']\<rparr>\<rparr>]\<rparr>"

lemmas ex_live_chart_defs = chart_live_def hcp_reconcileNormal_def deleteOrphanedHelmReleaseProxies_def
  getOrphanedHelmReleaseProxies_def delete_for_reinstall_def shouldReinstallHelmRelease_def
  aggregateHelmReleaseProxyReadyCondition_def listInstalledReleases_def ex_old_chart_def ex_cluster_run_defs
  ex_deleting_defs

section \<open>Properties\<close>





text \<open>C8: a chart proxy under deletion gives its finalizer up exactly when its release proxies are
  gone: every listed release proxy, in turn, was deleted without error and then read back as
  not found. If one delete fails, one read fails otherwise, or one proxy is still there, the
  finalizer stays.\<close>

theorem chart_finalizer_until_proxies_gone:
  assumes "chart_env K P" and "chart_deleting K P before c releases k = (ret, c', k')"
    and "hcp_has_finalizer P c"
  shows "hcp_has_finalizer P c' \<longleftrightarrow> \<not> all_gone K releases k"
  using assms by (rule chart_env.deleting_finalizer_iff)

theorem chart_finalizer_until_proxies_gone_witness:
  "let c = (ex_hcp [])\<lparr>hcp_Meta := (hcp_Meta (ex_hcp []))\<lparr>m_Finalizers := [HelmChartProxyFinalizer],
      m_DeletionTimestamp := Some 1\<rparr>\<rparr>;
     k = sim_empty\<lparr>sk_hcps := [c], sk_hrps := [ex_rp ''c1'']\<rparr>
   in all_gone sim_kube_ops [ex_rp ''c1''] k \<and>
      \<not> hcp_has_finalizer sim_capi (fst (snd (chart_deleting sim_kube_ops sim_capi c c [ex_rp ''c1''] k)))"
proof -
  let ?c = "(ex_hcp [])\<lparr>hcp_Meta := (hcp_Meta (ex_hcp []))\<lparr>m_Finalizers := [HelmChartProxyFinalizer],
      m_DeletionTimestamp := Some 1\<rparr>\<rparr>"
  let ?k = "sim_empty\<lparr>sk_hcps := [?c], sk_hrps := [ex_rp ''c1'']\<rparr>"
  obtain ret c' k' where d: "chart_deleting sim_kube_ops sim_capi ?c ?c [ex_rp ''c1''] ?k = (ret, c', k')"
    by (metis prod.collapse)
  have g: "all_gone sim_kube_ops [ex_rp ''c1''] ?k" by (simp add: ex_deleting_defs)
  have "hcp_has_finalizer sim_capi ?c" by (simp add: hcp_has_finalizer_def sim_capi_def)
  from chart_finalizer_until_proxies_gone [OF sim_chart.chart_env_axioms d this] g d
  show ?thesis by (simp add: Let_def)
qed

text \<open>C36: the requeue that a deletion asks for is lost. When release proxies remain,
  \<^verbatim>\<open>reconcileDelete\<close> returns a result with a requeue time, but every path of \<^verbatim>\<open>Reconcile\<close> returns
  the zero result, so the chart proxy is only looked at again when an event arrives.\<close>

theorem chart_requeue_dropped:
  "fst (fst (hcp_Reconcile T K P req k)) = Result0 \<and>
   (delete_releases K releases k = (Inr getters, k') \<and> getters \<noteq> [] \<and> setAggregate P getters c = (None, c') \<longrightarrow>
      hcp_reconcileDelete K P c releases k = ((\<lparr>RequeueAfter = 1\<rparr>, None), c', k'))"
proof -
  have "fst (fst (chart_body T K P before k)) = Result0" for before
    by (auto simp: chart_body_def chart_deleting_def chart_live_def Let_def
        split: sum.split prod.split option.split)
  then show ?thesis
    by (auto simp: hcp_Reconcile_def hcp_reconcileDelete_def split: sum.split prod.split option.split)
      (metis fst_conv)+
qed

theorem chart_requeue_dropped_witness:
  "let r = (ex_rp ''c1'')\<lparr>hrp_Meta := zero_meta\<lparr>m_Finalizers := [HelmReleaseProxyFinalizer]\<rparr>\<rparr>;
       k = sim_empty\<lparr>sk_hrps := [r]\<rparr>
   in fst (hcp_reconcileDelete sim_kube_ops sim_capi (ex_hcp []) [r] k) = (\<lparr>RequeueAfter = 1\<rparr>, None)"
proof -
  let ?r = "(ex_rp ''c1'')\<lparr>hrp_Meta := zero_meta\<lparr>m_Finalizers := [HelmReleaseProxyFinalizer]\<rparr>\<rparr>"
  let ?k = "sim_empty\<lparr>sk_hrps := [?r]\<rparr>"
  obtain gs k' where d: "delete_releases sim_kube_ops [?r] ?k = (Inr gs, k')" and g: "gs \<noteq> []"
    by (simp add: ex_deleting_defs sim_replace_def)
  obtain c' where a: "setAggregate sim_capi gs (ex_hcp []) = (None, c')"
    by (simp add: setAggregate_def sim_capi_def)
  have "hcp_reconcileDelete sim_kube_ops sim_capi (ex_hcp []) [?r] ?k = ((\<lparr>RequeueAfter = 1\<rparr>, None), c', k')"
    using conjunct2 [OF chart_requeue_dropped [of ex_tmpl sim_kube_ops sim_capi ex_req ?k "[?r]" gs k' "ex_hcp []" c']]
      d g a by blast
  then show ?thesis unfolding Let_def by (simp only: fst_conv)
qed

text \<open>C35: a live reconcile that returns no error ends with the up-to-date condition true, or false
  because a release proxy has not been observed yet. The condition that announces a
  reinstallation on some cluster never survives: it is overwritten in the same reconcile,
  although the release proxy was only deleted and nothing is up to date.\<close>

theorem chart_reinstall_condition_overwritten:
  assumes "chart_env K P" and "chart_live T K P c clusters releases k = ((res, None), c', k')"
  shows "get_condition (hcp_GetConditions c') HelmReleaseProxySpecsUpToDateCondition =
      Some \<lparr>c_Type = HelmReleaseProxySpecsUpToDateCondition, c_Status = ConditionTrue,
            c_Reason = UpToDateReason, c_Message = []\<rparr> \<or>
    (\<exists>msg. get_condition (hcp_GetConditions c') HelmReleaseProxySpecsUpToDateCondition =
      Some \<lparr>c_Type = HelmReleaseProxySpecsUpToDateCondition, c_Status = ConditionFalse,
            c_Reason = HelmReleaseProxySpecsUpdatingReason, c_Message = msg\<rparr>)"
  using assms by (rule chart_env.live_up_to_date)

theorem chart_reinstall_condition_overwritten_witness:
  "\<exists>res c' k'. chart_live ex_tmpl sim_kube_ops sim_capi (ex_hcp []) [ex_cluster ''c1''] [] ex_old_chart = ((res, None), c', k') \<and>
     sk_hrps k' = [] \<and>
     (\<exists>con. get_condition (hcp_GetConditions c') HelmReleaseProxySpecsUpToDateCondition = Some con \<and>
       c_Reason con \<noteq> HelmReleaseProxyReinstallingReason)"
proof -
  obtain res c' k' where l: "chart_live ex_tmpl sim_kube_ops sim_capi (ex_hcp []) [ex_cluster ''c1''] []
      ex_old_chart = ((res, None), c', k')" and k: "sk_hrps k' = []"
    by (simp add: ex_live_chart_defs)
  have "UpToDateReason \<noteq> HelmReleaseProxyReinstallingReason"
    "HelmReleaseProxySpecsUpdatingReason \<noteq> HelmReleaseProxyReinstallingReason" by (simp_all add: const_defs)
  then show ?thesis
    using l k chart_reinstall_condition_overwritten [OF sim_chart.chart_env_axioms l] by fastforce
qed



text \<open>A live reconcile works on the selected clusters that are not being deleted, in their
  order and stopping at the first error: the clusters after a failing one are not looked at,
  whichever they are. A cluster whose values can not be rendered thus keeps all later ones
  from being reconciled.\<close>

lemma chart_clusters_in_order:
  assumes "cs_ReconcileStrategy (hcp_Spec c) = ReconcileStrategyInstallOnce"
  shows "hcp_reconcileNormal T K P c clusters releases k =
      for_each (\<lambda>cl st. reconcileForCluster T K P (fst st) cl (snd st))
        (filter (\<lambda>cl. m_DeletionTimestamp (cl_Meta cl) = None) clusters) (c, k) \<and>
    (hcp_reconcileNormal T K P c clusters releases k = (Some e, c', k') \<longrightarrow>
      hcp_reconcileNormal T K P c (clusters @ later) releases k = (Some e, c', k'))"
  using assms by (simp add: reconcileNormal_install_once cluster_step_filter for_each_append)

text \<open>C31: a cluster event enqueues exactly the chart proxies of its namespace whose selector matches
  the cluster's labels, in the order they are listed, provided every selector listed is valid;
  a single invalid selector suppresses the requests for all of them.\<close>

theorem chart_mapper_selects:
  assumes "k_list_hcps K (cl_Namespace cluster) k = Inr cs"
  shows "((\<forall>c \<in> set cs. \<exists>p. p_selector P (cs_ClusterSelector (hcp_Spec c)) = Inr p) \<longrightarrow>
      ClusterToHelmChartProxiesMapper K P (ClusterObject cluster) k = map (meta_key \<circ> hcp_Meta)
        (filter (\<lambda>c. \<exists>p. p_selector P (cs_ClusterSelector (hcp_Spec c)) = Inr p \<and> p (m_Labels (cl_Meta cluster))) cs)) \<and>
    ((\<exists>c \<in> set cs. \<exists>e. p_selector P (cs_ClusterSelector (hcp_Spec c)) = Inl e) \<longrightarrow>
      ClusterToHelmChartProxiesMapper K P (ClusterObject cluster) k = [])"
  using assms
  by (simp add: ClusterToHelmChartProxiesMapper_def map_chart_proxies_ok map_chart_proxies_err)

theorem chart_mapper_selects_witness:
  "ClusterToHelmChartProxiesMapper sim_kube_ops sim_capi (ClusterObject (ex_cluster ''c1''))
     (sim_empty\<lparr>sk_hcps := [ex_hcp []]\<rparr>) = [\<lparr>nn_Namespace = ''team'', nn_Name = ''web''\<rparr>]"
proof -
  have "k_list_hcps sim_kube_ops (cl_Namespace (ex_cluster ''c1'')) (sim_empty\<lparr>sk_hcps := [ex_hcp []]\<rparr>) =
      Inr [ex_hcp []]"
    by (simp add: sim_kube_ops_def sim_list_def ex_hcp_def ex_cluster_def zero_meta_def)
  from conjunct1 [OF chart_mapper_selects [OF this, of sim_capi]] show ?thesis
    by (simp add: sim_capi_def sim_selector_def ex_hcp_def zero_meta_def meta_key_def)
qed

end
