(* ===== verification/System.thy ===== *)
theory System
  imports Chart_Controller
begin

text \<open>
  The two controllers together, on one API server. A run interleaves reconciles of chart
  proxies, reconciles of release proxies, and arbitrary actions of others that create no
  release proxy; each reconcile is one step. The invariant is that a chart proxy never has two
  release proxies for one cluster, for every API server that keeps the contract of a store.
\<close>

section \<open>The invariant\<close>

text \<open>No two stored proxies of a namespace carry the same cluster and chart proxy labels.\<close>

definition one_proxy :: "(nsname \<rightharpoonup> labels) \<Rightarrow> bool" where
  "one_proxy v =
     (\<forall>key key' l l' cl c. v key = Some l \<and> v key' = Some l' \<and> nn_Namespace key = nn_Namespace key' \<and>
        l ClusterNameLabel = Some cl \<and> l' ClusterNameLabel = Some cl \<and>
        l HelmChartProxyLabelName = Some c \<and> l' HelmChartProxyLabelName = Some c \<longrightarrow> key = key')"

lemma one_proxy_mono: "one_proxy v \<Longrightarrow> v' \<subseteq>\<^sub>m v \<Longrightarrow> one_proxy v'"
proof -
  assume o: "one_proxy v" and le: "v' \<subseteq>\<^sub>m v"
  have "v' key = Some l \<Longrightarrow> v key = Some l" for key l
    using le by (auto simp: map_le_def dom_def)
  then show "one_proxy v'" using o unfolding one_proxy_def by blast
qed

lemma label_names_distinct [simp]: "ClusterNameLabel \<noteq> HelmChartProxyLabelName"
  by (simp add: const_defs)

lemma one_proxy_add:
  assumes "one_proxy v"
    and "\<And>key' l'. v key' = Some l' \<Longrightarrow> nn_Namespace key' = nn_Namespace key \<Longrightarrow>
      [ClusterNameLabel \<mapsto> cl, HelmChartProxyLabelName \<mapsto> c] \<subseteq>\<^sub>m l' \<Longrightarrow> False"
  shows "one_proxy (v(key \<mapsto> [ClusterNameLabel \<mapsto> cl, HelmChartProxyLabelName \<mapsto> c]))"
proof -
  have sub: "l' ClusterNameLabel = Some cl \<Longrightarrow> l' HelmChartProxyLabelName = Some c \<Longrightarrow>
      [ClusterNameLabel \<mapsto> cl, HelmChartProxyLabelName \<mapsto> c] \<subseteq>\<^sub>m l'" for l' :: labels
    by (auto simp: map_le_def)
  show ?thesis
    using assms sub unfolding one_proxy_def
    by (auto split: if_splits) (metis label_names_distinct)+
qed

section \<open>Steps\<close>

inductive sys_run ::
  "'f tmpl \<Rightarrow> 'k kube \<Rightarrow> 'k capi \<Rightarrow> ('h, 'v) hclient \<Rightarrow> (string \<Rightarrow> bool) \<Rightarrow> ('k \<Rightarrow> bool) \<Rightarrow> ('k \<Rightarrow> nsname \<rightharpoonup> labels)
     \<Rightarrow> ('k, 'h) world \<Rightarrow> ('k, 'h) world \<Rightarrow> bool"
  for T K P C pend valid view w0 where
  run_start: "sys_run T K P C pend valid view w0 w0"
| run_chart: "sys_run T K P C pend valid view w0 w \<Longrightarrow>
    sys_run T K P C pend valid view w0 (w\<lparr>w_kube := snd (hcp_Reconcile T K P req (w_kube w))\<rparr>)"
| run_release: "sys_run T K P C pend valid view w0 w \<Longrightarrow>
    sys_run T K P C pend valid view w0 (snd (hrp_Reconcile K P C pend req w))"
| run_other: "sys_run T K P C pend valid view w0 w \<Longrightarrow> valid (w_kube w') \<Longrightarrow>
    view (w_kube w') \<subseteq>\<^sub>m view (w_kube w) \<Longrightarrow> sys_run T K P C pend valid view w0 w'"

section \<open>The release controller adds no proxy\<close>

lemma hrp_key_cond [simp]: "hrp_key (hrp_cond P r t st reason msg) = hrp_key r"
  by (simp add: hrp_key_def)

text \<open>What identifies a proxy in the store: its key and its labels.\<close>

definition same_sig :: "HelmReleaseProxy \<Rightarrow> HelmReleaseProxy \<Rightarrow> bool" where
  "same_sig r r' = (hrp_key r' = hrp_key r \<and> m_Labels (hrp_Meta r') = m_Labels (hrp_Meta r))"

lemma same_sig_refl [simp]: "same_sig r r"
  by (simp add: same_sig_def)

lemma same_sig_trans: "same_sig a b \<Longrightarrow> same_sig b c \<Longrightarrow> same_sig a c"
  by (simp add: same_sig_def)

lemma same_sig_updates [simp]:
  "same_sig r (hrp_cond P r' t st reason msg) = same_sig r r'"
  "same_sig r (hrp_add_finalizer P r') = same_sig r r'"
  "same_sig r (hrp_remove_finalizer P r') = same_sig r r'"
  "same_sig r (hrp_SetAnnotations r' a) = same_sig r r'"
  "same_sig r (hrp_SetConditions r' cs) = same_sig r r'"
  "same_sig r (release_recorded rel r') = same_sig r r'"
  "same_sig r (named r') = same_sig r r'"
  "same_sig (hrp_cond P r t st reason msg) r' = same_sig r r'"
  "same_sig (hrp_add_finalizer P r) r' = same_sig r r'"
  "same_sig (hrp_remove_finalizer P r) r' = same_sig r r'"
  by (simp_all add: same_sig_def hrp_key_def meta_key_def hrp_add_finalizer_def hrp_remove_finalizer_def
      hrp_SetAnnotations_def release_recorded_simps named_def)

lemma reconcileNormal_sig:
  assumes "hrp_reconcileNormal P C pend r cred ca rc st = (e, r', st')"
  shows "same_sig r r'"
proof (cases "install_once_done r")
  case True
  with assms show ?thesis by (simp add: hrp_reconcileNormal_def install_once_done_def)
next
  case False
  obtain release err st1 where c: "hc_InstallOrUpgradeHelmRelease C rc cred ca (hrp_Spec r) st = ((release, err), st1)"
    by (metis prod.collapse)
  show ?thesis
    using assms normal_unfold [OF False c, of P pend]
    by (auto simp: Let_def release_condition_def split: if_splits option.splits)
qed

lemma reconcileDelete_sig:
  "hrp_reconcileDelete P C r rc h = (e, r', h') \<Longrightarrow> same_sig r r'"
  by (auto simp: hrp_reconcileDelete_def split: if_splits sum.splits prod.splits)

lemma live_sig: "Reconcile_live K P C pend r w = (e, r', w') \<Longrightarrow> same_sig r r' \<and> w_kube w' = w_kube w"
  by (auto simp: Reconcile_live_def Let_def split: sum.splits if_splits prod.splits dest!: reconcileNormal_sig)

text \<open>The two controllers on a store, with the helper packages.\<close>

locale system_env = proxy_store K valid view + capi_laws P
  for K :: "'k kube" and valid :: "'k \<Rightarrow> bool" and view :: "'k \<Rightarrow> nsname \<rightharpoonup> labels" and P :: "'k capi"
begin

text \<open>A stored proxy, if it is there, has the labels of the object at hand.\<close>

definition agrees :: "'k \<Rightarrow> HelmReleaseProxy \<Rightarrow> bool" where
  "agrees k r = (\<forall>l. view k (hrp_key r) = Some l \<longrightarrow> l = m_Labels (hrp_Meta r))"

definition shrinks :: "'k \<Rightarrow> 'k \<Rightarrow> bool" where
  "shrinks k k' = (valid k' \<and> view k' \<subseteq>\<^sub>m view k)"

lemma shrinks_refl: "valid k \<Longrightarrow> shrinks k k"
  by (simp add: shrinks_def)

lemma shrinks_trans: "shrinks k1 k2 \<Longrightarrow> shrinks k2 k3 \<Longrightarrow> shrinks k1 k3"
  by (auto simp: shrinks_def intro: map_le_trans)

lemma agrees_shrinks: "agrees k r \<Longrightarrow> shrinks k k' \<Longrightarrow> agrees k' r"
  by (auto simp: agrees_def shrinks_def map_le_def dom_def)

lemma agrees_sig: "same_sig r r' \<Longrightarrow> agrees k r = agrees k r'"
  by (simp add: agrees_def same_sig_def)

lemma patch_store:
  assumes "patchHelmReleaseProxy K P before r k = (e, r', k')" and "valid k" and "agrees k r"
  shows "shrinks k k'" "same_sig r r'" "agrees k' r'"
proof -
  have "shrinks k k' \<and> same_sig r r'"
  proof (cases "p_summary P (hrp_GetConditions r) ReadyCondition
      [ClusterAvailableCondition, HelmReleaseReadyCondition]")
    case (Inl err)
    with assms show ?thesis by (auto simp: patchHelmReleaseProxy_def shrinks_refl)
  next
    case (Inr cs)
    let ?r = "hrp_SetConditions r cs"
    have p: "k_patch_hrp K before ?r [ReadyCondition, ClusterAvailableCondition, HelmReleaseReadyCondition] k = (e, r', k')"
      using assms(1) Inr by (simp add: patchHelmReleaseProxy_def)
    have "\<forall>l. view k (hrp_key ?r) = Some l \<longrightarrow> l = m_Labels (hrp_Meta ?r)"
      using assms(3) by (simp add: agrees_def hrp_key_def)
    with store_patch_hrp [OF assms(2) p] have "shrinks k k'" by (simp add: shrinks_def)
    moreover have "same_sig r r'" using patch_hrp [OF p] by (auto simp: same_sig_def hrp_key_def meta_key_def)
    ultimately show ?thesis ..
  qed
  then show "shrinks k k'" "same_sig r r'" by simp_all
  then show "agrees k' r'" using assms(3) agrees_shrinks agrees_sig by blast
qed

lemma init_store:
  assumes "initializeConditions K P before r k = (r', k')" and "valid k" and "agrees k r"
  shows "shrinks k k' \<and> same_sig r r'"
  using assms patch_store [of before "hrp_cond P r HelmReleaseReadyCondition ConditionFalse
      PreparingToHelmInstallReason ''Preparing to to install Helm chart''" k]
    agrees_sig [of r "hrp_cond P r HelmReleaseReadyCondition ConditionFalse
      PreparingToHelmInstallReason ''Preparing to to install Helm chart''" k]
  by (auto simp: initializeConditions_def shrinks_refl split: if_splits prod.splits)

lemma deleting_store:
  assumes "Reconcile_deleting K P C before r w = (e, r', w')" and "valid (w_kube w)" and "agrees (w_kube w) r"
  shows "shrinks (w_kube w) (w_kube w') \<and> same_sig r r'"
proof -
  consider "w_kube w' = w_kube w" "same_sig r r'"
    | r1 e k' where "same_sig r r1" "patchHelmReleaseProxy K P before (hrp_remove_finalizer P r1) (w_kube w) = (e, r', k')"
      "w_kube w' = k'"
    using assms(1)
    by (auto simp: Reconcile_deleting_def Let_def split: if_splits sum.splits prod.splits option.splits
        dest!: reconcileDelete_sig) (metis same_sig_refl)
  then show ?thesis
  proof cases
    case 1
    then show ?thesis using assms(2) by (simp add: shrinks_refl)
  next
    case (2 r1 e k')
    then have "same_sig r (hrp_remove_finalizer P r1)" by simp
    then have "agrees (w_kube w) (hrp_remove_finalizer P r1)" using assms(3) agrees_sig by blast
    from patch_store [OF 2(2) assms(2) this] 2 show ?thesis by (auto intro: same_sig_trans)
  qed
qed

lemma body_store:
  assumes "Reconcile_body K P C pend before r w = (e, r', w')" and "valid (w_kube w)" and "agrees (w_kube w) r"
  shows "shrinks (w_kube w) (w_kube w') \<and> same_sig r r'"
proof -
  have a: "agrees (w_kube w) (hrp_add_finalizer P r)" using assms(3) agrees_sig [of r "hrp_add_finalizer P r"] by simp
  consider "Reconcile_deleting K P C before r w = (e, r', w')" | "Reconcile_live K P C pend r w = (e, r', w')"
    | er r1 k1 where "patchHelmReleaseProxy K P before (hrp_add_finalizer P r) (w_kube w) = (er, r1, k1)"
      "r' = r1 \<and> w_kube w' = k1 \<or> Reconcile_live K P C pend r1 (w\<lparr>w_kube := k1\<rparr>) = (e, r', w')"
    using assms(1) by (auto simp: Reconcile_body_def split: if_splits prod.splits option.splits)
  then show ?thesis
  proof cases
    case 1
    then show ?thesis using deleting_store assms(2,3) by blast
  next
    case 2
    then show ?thesis using live_sig [OF 2] assms(2) by (simp add: shrinks_refl)
  next
    case (3 er r1 k1)
    note p = patch_store [OF 3(1) assms(2) a]
    from 3(2) show ?thesis
    proof
      assume "Reconcile_live K P C pend r1 (w\<lparr>w_kube := k1\<rparr>) = (e, r', w')"
      from live_sig [OF this] p show ?thesis by (auto intro: same_sig_trans)
    qed (use p in auto)
  qed
qed

lemma release_store:
  assumes "valid (w_kube w)"
  shows "shrinks (w_kube w) (w_kube (snd (hrp_Reconcile K P C pend req w)))"
proof (cases "k_get_hrp K req (w_kube w)")
  case (Inr r)
  show ?thesis
  proof (cases "k_new_helper_hrp K r (w_kube w)")
    case None
    have key: "hrp_key r = req" using get_hrp [OF Inr] by (simp add: hrp_key_def)
    then have ag: "agrees (w_kube w) r" using store_get [OF assms Inr] by (simp add: agrees_def)
    obtain r1 k1 where i: "initializeConditions K P r r (w_kube w) = (r1, k1)" by fastforce
    note s1 = init_store [OF i assms ag]
    then have ag1: "agrees k1 r1" "valid k1" using ag agrees_shrinks agrees_sig by (auto simp: shrinks_def)
    obtain e r2 w2 where b: "Reconcile_body K P C pend r r1 (w\<lparr>w_kube := k1\<rparr>) = (e, r2, w2)"
      by (cases "Reconcile_body K P C pend r r1 (w\<lparr>w_kube := k1\<rparr>)") auto
    have s2: "shrinks k1 (w_kube w2) \<and> same_sig r1 r2" using body_store [OF b] ag1 by simp
    then have ag2: "agrees (w_kube w2) r2" "valid (w_kube w2)"
      using ag1 agrees_shrinks agrees_sig by (auto simp: shrinks_def)
    obtain pe r3 k3 where p: "patchHelmReleaseProxy K P r r2 (w_kube w2) = (pe, r3, k3)"
      by (cases "patchHelmReleaseProxy K P r r2 (w_kube w2)") auto
    have "shrinks (w_kube w2) k3" using patch_store(1) [OF p ag2(2,1)] .
    then have "shrinks (w_kube w) k3" using s1 s2 shrinks_trans by blast
    then show ?thesis using Inr None i b p by (simp add: hrp_Reconcile_def)
  qed (simp add: hrp_Reconcile_def Inr shrinks_refl assms)
qed (simp add: hrp_Reconcile_def shrinks_refl assms)

text \<open>The chart controller adds a proxy only where there is none.\<close>

definition store_inv :: "'k \<Rightarrow> bool" where
  "store_inv k = (valid k \<and> one_proxy (view k))"

lemma store_inv_shrinks: "store_inv k \<Longrightarrow> shrinks k k' \<Longrightarrow> store_inv k'"
  by (auto simp: store_inv_def shrinks_def intro: one_proxy_mono)

lemma existing_none:
  assumes "getExistingHelmReleaseProxy K c cluster k = Inr None" and "valid k"
    and "view k key = Some l" and "nn_Namespace key = hcp_Namespace c"
    and "[ClusterNameLabel \<mapsto> cl_Name cluster, HelmChartProxyLabelName \<mapsto> hcp_Name c] \<subseteq>\<^sub>m l"
  shows False
proof -
  have "k_list_hrps K (hcp_Namespace c)
      [ClusterNameLabel \<mapsto> cl_Name cluster, HelmChartProxyLabelName \<mapsto> hcp_Name c] k = Inr []"
    using assms(1) by (auto simp: getExistingHelmReleaseProxy_def split: sum.splits list.splits)
  from store_list [OF assms(2) this] assms(3-5) show False by fastforce
qed

lemma cluster_write_inv:
  assumes "store_inv k" and "cluster_write K P c cluster k k'"
  shows "store_inv k'"
proof -
  have v: "valid k" and o: "one_proxy (view k)" using assms(1) by (simp_all add: store_inv_def)
  consider (del) r where "k' = snd (k_delete_hrp K r k)"
    | (new) v r where "getExistingHelmReleaseProxy K c cluster k = Inr None"
        "constructHelmReleaseProxy P None c v cluster = Some r" "k' = snd (k_create_hrp K r k)"
    | (upd) v r0 r where "getExistingHelmReleaseProxy K c cluster k = Inr (Some r0)"
        "constructHelmReleaseProxy P (Some r0) c v cluster = Some r" "k' = snd (k_update_hrp K r k)"
    using assms(2) by (auto simp: cluster_write_def)
  then show ?thesis
  proof cases
    case (del r)
    then have "shrinks k k'" using store_delete [OF v, of r] by (simp add: shrinks_def prod_eq_iff)
    with assms(1) show ?thesis by (rule store_inv_shrinks)
  next
    case (new v' r)
    have m: "hrp_Namespace r = hcp_Namespace c"
      "m_Labels (hrp_Meta r) = [ClusterNameLabel \<mapsto> cl_Name cluster, HelmChartProxyLabelName \<mapsto> hcp_Name c]"
      using new(2) by (auto simp: constructHelmReleaseProxy_def new_release_proxy_def)
    have "valid k' \<and> (view k' = view k \<or> (\<exists>key. view k key = None \<and> nn_Namespace key = hcp_Namespace c \<and>
        view k' = (view k)(key \<mapsto> [ClusterNameLabel \<mapsto> cl_Name cluster, HelmChartProxyLabelName \<mapsto> hcp_Name c])))"
      using store_create [OF v, of r "fst (k_create_hrp K r k)" k'] new(3) m by simp
    then show ?thesis
      unfolding store_inv_def using o one_proxy_add [OF o] existing_none [OF new(1) v] by metis
  next
    case (upd v' r0 r)
    note l = getExisting_Some [OF upd(1)]
    have "view k (hrp_key r0) = Some (m_Labels (hrp_Meta r0))" using store_list [OF v l] by simp
    moreover have "hrp_Meta r = hrp_Meta r0" using construct_frame(7) [OF upd(2)] by simp
    ultimately have "\<forall>l. view k (hrp_key r) = Some l \<longrightarrow> l = m_Labels (hrp_Meta r)" by (simp add: hrp_key_def)
    then have "shrinks k k'"
      using store_update [OF v, of r "fst (k_update_hrp K r k)" k'] upd(3) by (simp add: shrinks_def)
    with assms(1) show ?thesis by (rule store_inv_shrinks)
  qed
qed

lemma orphans_inv:
  assumes "store_inv k" and "deleteOrphanedHelmReleaseProxies K P c clusters rs k = (e, c', k')"
  shows "store_inv k'"
proof -
  have "store_inv (snd (c', k'))"
  proof (rule for_each_invariant [where I = "\<lambda>st. store_inv (snd st)" and f = "delete_or_mark K P"])
    show "for_each (delete_or_mark K P) (getOrphanedHelmReleaseProxies clusters rs) (c, k) = (e, c', k')"
      using assms(2) by (simp add: deleteOrphanedHelmReleaseProxies_def)
    show "store_inv (snd (c, k))" using assms(1) by simp
    fix r u e u'
    assume "store_inv (snd u)" and d: "delete_or_mark K P r u = (e, u')"
    moreover have "snd u' = snd (k_delete_hrp K r (snd u))"
      using d deleteHelmReleaseProxy_state [of K r "snd u"]
      by (auto simp: delete_or_mark_def split: prod.splits option.splits)
    ultimately show "store_inv (snd u')"
      using store_delete [of "snd u" r] by (auto simp: store_inv_def prod_eq_iff intro: one_proxy_mono)
  qed
  then show ?thesis by simp
qed

lemma normal_inv:
  assumes "store_inv k" and "hcp_reconcileNormal T K P c clusters rs k = (e, c', k')"
  shows "store_inv k'"
proof -
  obtain e1 c1 k1 where d: "(if cs_ReconcileStrategy (hcp_Spec c) \<noteq> ReconcileStrategyInstallOnce
      then deleteOrphanedHelmReleaseProxies K P c clusters rs k else (None, c, k)) = (e1, c1, k1)"
    by (metis prod.collapse)
  then have i1: "store_inv k1" using assms(1) orphans_inv by (auto split: if_splits)
  show ?thesis
  proof (cases e1)
    case (Some err)
    with assms(2) d i1 show ?thesis by (simp add: hcp_reconcileNormal_def)
  next
    case None
    then have l: "for_each (cluster_step T K P) clusters (c1, k1) = (e, c', k')"
      using assms(2) d by (simp add: hcp_reconcileNormal_def cluster_step_def [abs_def])
    have "store_inv (snd u')" if "store_inv (snd u)" and "cluster_step T K P cl u = (e, u')" for cl u e u'
      using that cluster_write_inv [of "snd u"]
      by (cases u') (auto simp: cluster_step_def split: if_splits dest!: reconcileForCluster_write)
    then have "store_inv (snd (c', k'))"
      by (rule for_each_invariant [where I = "\<lambda>st. store_inv (snd st)", OF _ _ l]) (use i1 in auto)
    then show ?thesis by simp
  qed
qed

lemma delete_releases_inv:
  "store_inv k \<Longrightarrow> delete_releases K rs k = (res, k') \<Longrightarrow> store_inv k'"
proof (induction rs arbitrary: k res)
  case (Cons r rs)
  have "store_inv (snd (deleteHelmReleaseProxy K r k))"
    using Cons.prems(1) store_delete [of k r]
    by (auto simp: deleteHelmReleaseProxy_state store_inv_def prod_eq_iff intro: one_proxy_mono)
  with Cons show ?case
    by (auto split: prod.splits option.splits sum.splits if_splits)
qed simp

lemma patch_chart_inv:
  "store_inv k \<Longrightarrow> patchHelmChartProxy K P before c k = (e, c', k') \<Longrightarrow> store_inv k'"
  using store_patch_hcp
  by (fastforce simp: patchHelmChartProxy_def store_inv_def split: sum.splits)

lemma reconcileDelete_inv:
  "store_inv k \<Longrightarrow> hcp_reconcileDelete K P c rs k = (ret, c', k') \<Longrightarrow> store_inv k'"
  using delete_releases_inv [of k rs]
  by (auto simp: hcp_reconcileDelete_def split: sum.splits prod.splits option.splits if_splits)

lemma deleting_inv:
  assumes "store_inv k" and "chart_deleting K P before c rs k = (ret, c', k')"
  shows "store_inv k'"
proof (cases "hcp_has_finalizer P c")
  case True
  obtain result err c1 k1 where r: "hcp_reconcileDelete K P c rs k = ((result, err), c1, k1)"
    by (metis prod.collapse)
  with True assms reconcileDelete_inv [OF assms(1) r] patch_chart_inv [of k1] show ?thesis
    by (auto simp: chart_deleting_def split: if_splits prod.splits)
qed (use assms in \<open>simp add: chart_deleting_def\<close>)

lemma live_inv:
  "store_inv k \<Longrightarrow> chart_live T K P c clusters rs k = (ret, c', k') \<Longrightarrow> store_inv k'"
  using normal_inv [of k T c clusters rs]
  by (auto simp: chart_live_def split: prod.splits option.splits)

lemma chart_body_inv:
  assumes "store_inv k" and "chart_body T K P before k = (ret, c', k')"
  shows "store_inv k'"
proof -
  have p: "store_inv k'" if "patchHelmChartProxy K P before c k = (None, c1, k1)"
      and "chart_live T K P c1 cls rs k1 = (ret, c', k')" for c c1 k1 cls rs
    using live_inv [OF patch_chart_inv [OF assms(1) that(1)] that(2)] .
  show ?thesis
    using assms deleting_inv [OF assms(1)] live_inv [OF assms(1)] patch_chart_inv [OF assms(1)] p
    by (cases ret) (auto simp: chart_body_def Let_def split: sum.splits prod.splits option.splits if_splits)
qed

lemma chart_inv:
  assumes "store_inv k"
  shows "store_inv (snd (hcp_Reconcile T K P req k))"
proof (cases "k_get_hcp K req k")
  case (Inr before)
  obtain ret c k1 where b: "chart_body T K P before k = (ret, c, k1)"
    by (cases "chart_body T K P before k") auto
  then have i: "store_inv k1" using assms chart_body_inv by blast
  show ?thesis
    using Inr b assms patch_chart_inv [OF i]
    by (cases ret) (auto simp: hcp_Reconcile_def split: option.split prod.split)
qed (simp add: hcp_Reconcile_def assms)

lemma release_inv:
  "store_inv (w_kube w) \<Longrightarrow> store_inv (w_kube (snd (hrp_Reconcile K P C pend req w)))"
  by (rule store_inv_shrinks [OF _ release_store]) (simp_all add: store_inv_def)

lemma run_inv:
  assumes "sys_run T K P C pend valid view w0 w" and "store_inv (w_kube w0)"
  shows "store_inv (w_kube w)"
  using assms
proof (induction rule: sys_run.induct)
  case (run_other w w')
  then show ?case by (auto simp: store_inv_def intro: one_proxy_mono)
qed (simp_all add: chart_inv release_inv)

lemma existing_unique:
  assumes "store_inv k" and l: "k_list_hrps K (hcp_Namespace c)
      [ClusterNameLabel \<mapsto> cl_Name cluster, HelmChartProxyLabelName \<mapsto> hcp_Name c] k = Inr rs"
  shows "getExistingHelmReleaseProxy K c cluster k = Inr (case rs of [] \<Rightarrow> None | r # _ \<Rightarrow> Some r)"
proof (cases rs)
  case (Cons a rs')
  show ?thesis
  proof (cases rs')
    case (Cons b rs'')
    note ab = \<open>rs = a # rs'\<close> Cons
    have s: "distinct (map hrp_key rs)" "view k (hrp_key a) = Some (m_Labels (hrp_Meta a))"
      "view k (hrp_key b) = Some (m_Labels (hrp_Meta b))"
      using store_list [OF _ l] assms(1) ab by (simp_all add: store_inv_def)
    have m: "hrp_Namespace x = hcp_Namespace c \<and> m_Labels (hrp_Meta x) ClusterNameLabel = Some (cl_Name cluster) \<and>
        m_Labels (hrp_Meta x) HelmChartProxyLabelName = Some (hcp_Name c)" if "x \<in> {a, b}" for x
      using list_hrps [OF l, of x] that ab by (auto simp: map_le_def)
    have "one_proxy (view k)" using assms(1) by (simp add: store_inv_def)
    moreover have "nn_Namespace (hrp_key a) = nn_Namespace (hrp_key b)"
      using m [of a] m [of b] by (simp add: hrp_key_def meta_key_def)
    ultimately have "hrp_key a = hrp_key b"
      unfolding one_proxy_def using s(2,3) m [of a] m [of b] by blast
    with s(1) ab show ?thesis by simp
  qed (use l Cons in \<open>simp add: getExistingHelmReleaseProxy_def\<close>)
qed (use l in \<open>simp add: getExistingHelmReleaseProxy_def\<close>)

end


section \<open>Fields the release controller leaves alone\<close>

lemma release_recorded_spec:
  "rs_ChartName (hrp_Spec (release_recorded rel r)) = rs_ChartName (hrp_Spec r)"
  "rs_RepoURL (hrp_Spec (release_recorded rel r)) = rs_RepoURL (hrp_Spec r)"
  "rs_ReleaseNamespace (hrp_Spec (release_recorded rel r)) = rs_ReleaseNamespace (hrp_Spec r)"
  by (simp_all add: release_recorded_def api_defs)

lemma reconcileNormal_names:
  assumes "hrp_reconcileNormal P C pend r cred ca rc st = (e, r', st')"
  shows "rs_ChartName (hrp_Spec r') = rs_ChartName (hrp_Spec r) \<and> rs_RepoURL (hrp_Spec r') = rs_RepoURL (hrp_Spec r) \<and>
    rs_ReleaseNamespace (hrp_Spec r') = rs_ReleaseNamespace (hrp_Spec r) \<and>
    (rs_ReleaseName (hrp_Spec r) \<noteq> [] \<longrightarrow> rs_ReleaseName (hrp_Spec r') = rs_ReleaseName (hrp_Spec r)) \<and>
    hrp_GetAnnotations r' IsReleaseNameGeneratedAnnotation \<in>
      {hrp_GetAnnotations r IsReleaseNameGeneratedAnnotation, name_annotations r IsReleaseNameGeneratedAnnotation} \<and>
    (hrp_GetAnnotations r' IsReleaseNameGeneratedAnnotation = name_annotations r IsReleaseNameGeneratedAnnotation \<or>
     rs_ReleaseName (hrp_Spec r') = rs_ReleaseName (hrp_Spec r))"
proof (cases "install_once_done r")
  case True
  with assms show ?thesis by (simp add: hrp_reconcileNormal_def install_once_done_def)
next
  case False
  obtain release err st1 where c: "hc_InstallOrUpgradeHelmRelease C rc cred ca (hrp_Spec r) st = ((release, err), st1)"
    by (metis prod.collapse)
  have d: "IsReleaseNameGeneratedAnnotation \<noteq> ReleaseSuccessfullyInstalledAnnotation" by (simp add: const_defs)
  show ?thesis
    using assms normal_unfold [OF False c, of P pend] d
    by (auto simp: Let_def release_condition_def release_recorded_spec release_recorded_simps split: if_splits option.splits)
qed

section \<open>Properties\<close>



text \<open>In such a run the chart controller always finds the release proxy of a cluster: once the
  list call succeeds, it returns the one proxy there is, or none, and never gives up with the
  error that several match.\<close>

lemma system_existing_proxy_found:
  assumes "system_env K valid view P" and "sys_run T K P C pend valid view w0 w"
    and "valid (w_kube w0)" and "one_proxy (view (w_kube w0))"
    and "k_list_hrps K (hcp_Namespace c)
      [ClusterNameLabel \<mapsto> cl_Name cluster, HelmChartProxyLabelName \<mapsto> hcp_Name c] (w_kube w) = Inr rs"
  shows "getExistingHelmReleaseProxy K c cluster (w_kube w) = Inr (case rs of [] \<Rightarrow> None | r # _ \<Rightarrow> Some r)"
  using system_env.run_inv [OF assms(1,2)] assms(3,4) system_env.store_inv_def [OF assms(1)]
    system_env.existing_unique [OF assms(1) _ assms(5)] by simp

text \<open>C11: no spurious reinstallation. The proxy the chart controller creates does not ask to be
  reinstalled for the same chart proxy; neither does it after an update by the chart
  controller, nor after the release controller has worked on it and perhaps filled in a
  generated release name. So a proxy is only replaced after the chart proxy changed.\<close>

theorem system_no_spurious_reinstall:
  "(constructHelmReleaseProxy P None c v cluster = Some r \<longrightarrow> \<not> shouldReinstallHelmRelease r c) \<and>
   (constructHelmReleaseProxy P (Some r0) c v cluster = Some r \<longrightarrow>
      shouldReinstallHelmRelease r c = shouldReinstallHelmRelease r0 c) \<and>
   (hrp_reconcileNormal P C pend r0 cred ca rc st = (e, r', st') \<longrightarrow>
      \<not> shouldReinstallHelmRelease r0 c \<longrightarrow> \<not> shouldReinstallHelmRelease r' c)"
proof -
  have "\<not> shouldReinstallHelmRelease r c" if "constructHelmReleaseProxy P None c v cluster = Some r"
    using that by (auto simp: constructHelmReleaseProxy_def new_release_proxy_def shouldReinstall_iff
        hrp_GetAnnotations_def zero_hrp_def zero_meta_def)
  moreover have "shouldReinstallHelmRelease r c = shouldReinstallHelmRelease r0 c"
    if "constructHelmReleaseProxy P (Some r0) c v cluster = Some r"
    using construct_frame(7) [OF that refl] by (simp add: shouldReinstall_iff hrp_GetAnnotations_def)
  moreover have "\<not> shouldReinstallHelmRelease r' c"
    if "hrp_reconcileNormal P C pend r0 cred ca rc st = (e, r', st')" and "\<not> shouldReinstallHelmRelease r0 c"
    using reconcileNormal_names [OF that(1)] that(2)
    by (auto simp: shouldReinstall_iff name_annotations_def split: if_splits)
  ultimately show ?thesis by blast
qed

theorem system_no_spurious_reinstall_witness:
  "\<exists>r. constructHelmReleaseProxy sim_capi None (ex_hcp []) ''a: 1'' (ex_cluster ''c1'') = Some r \<and>
     \<not> shouldReinstallHelmRelease r (ex_hcp [])"
proof -
  obtain r where r: "constructHelmReleaseProxy sim_capi None (ex_hcp []) ''a: 1'' (ex_cluster ''c1'') = Some r"
    by (rule ex_construct)
  then show ?thesis using system_no_spurious_reinstall by blast
qed

end
