(* ===== verification/Convergence.thy ===== *)
theory Convergence
  imports System
begin








section \<open>A store that keeps what is written\<close>



section \<open>The simulated store keeps what is written\<close>











section \<open>Properties\<close>













end
