(* ===== verification/Deep_Copy.thy ===== *)
theory Deep_Copy
  imports Chart_Phases "HOL-Library.Sublist"
begin

text \<open>
  Pointers: \<^verbatim>\<open>api/v1alpha1/zz_generated.deepcopy.go\<close> and the one place where the controllers depend on
  it, \<^verbatim>\<open>constructHelmReleaseProxy\<close>. Everywhere else the development passes objects as values; here
  their pointer and slice fields are addresses into an explicit heap, so that two objects can
  share a cell. The deep copies are shown to make independent copies, and the code that builds
  a release proxy from a chart proxy, which overwrites fields behind pointers, is shown to
  implement the value version and to leave the chart proxy alone.
\<close>

section \<open>Heap\<close>

text \<open>
  One memory per type of cell; an address is an index into it, \<^verbatim>\<open>new\<close> appends a cell. A pointer is
  \<open>None\<close> for nil, a slice is a pointer to its backing array. Go has no dangling pointer, which
  the predicates \<open>wf\<close> below state. Metadata and label selectors, whose deep copies are
  apimachinery's, are values.
\<close>

type_synonym ptr = "nat option"

record tls_h =
  th_CASecretRef :: ptr
  th_InsecureSkipTLSVerify :: bool

record heap =
  hp_creds :: "Credentials list"
  hp_tls :: "tls_h list"
  hp_refs :: "SecretReference list"
  hp_durations :: "int list"
  hp_uninstalls :: "HelmUninstallOptions list"
  hp_conditions :: "Condition list list"
  hp_objrefs :: "ObjectReference list list"

text \<open>The structs as they lie in memory. \<open>Fields\<close> holds the fields that are no pointers; the value
  it has in a pointer field is not looked at.\<close>

record options_h =
  oh_Fields :: HelmOptions
  oh_Timeout :: ptr
  oh_Uninstall :: ptr

record chart_spec_h =
  csh_Fields :: HelmChartProxySpec
  csh_Options :: options_h
  csh_Credentials :: ptr
  csh_TLSConfig :: ptr

record chart_status_h =
  cth_Conditions :: ptr
  cth_MatchingClusters :: ptr
  cth_ObservedGeneration :: int

record chart_h =
  chh_Meta :: ObjectMeta
  chh_Spec :: chart_spec_h
  chh_Status :: chart_status_h

record release_spec_h =
  rsh_Fields :: HelmReleaseProxySpec
  rsh_Options :: options_h
  rsh_Credentials :: ptr
  rsh_TLSConfig :: ptr

record release_status_h =
  rth_Conditions :: ptr
  rth_Status :: string
  rth_Revision :: int
  rth_ObservedGeneration :: int

record release_h =
  rlh_Meta :: ObjectMeta
  rlh_Spec :: release_spec_h
  rlh_Status :: release_status_h

text \<open>\<^verbatim>\<open>new(T)\<close> followed by \<^verbatim>\<open>**out = **in\<close>, and \<^verbatim>\<open>make\<close> followed by the copy of the elements.\<close>

definition new_cred :: "Credentials \<Rightarrow> heap \<Rightarrow> ptr \<times> heap" where
  "new_cred x h = (Some (length (hp_creds h)), h\<lparr>hp_creds := hp_creds h @ [x]\<rparr>)"

definition new_tls :: "tls_h \<Rightarrow> heap \<Rightarrow> ptr \<times> heap" where
  "new_tls x h = (Some (length (hp_tls h)), h\<lparr>hp_tls := hp_tls h @ [x]\<rparr>)"

definition new_ref :: "SecretReference \<Rightarrow> heap \<Rightarrow> ptr \<times> heap" where
  "new_ref x h = (Some (length (hp_refs h)), h\<lparr>hp_refs := hp_refs h @ [x]\<rparr>)"

definition new_duration :: "int \<Rightarrow> heap \<Rightarrow> ptr \<times> heap" where
  "new_duration x h = (Some (length (hp_durations h)), h\<lparr>hp_durations := hp_durations h @ [x]\<rparr>)"

definition new_uninstall :: "HelmUninstallOptions \<Rightarrow> heap \<Rightarrow> ptr \<times> heap" where
  "new_uninstall x h = (Some (length (hp_uninstalls h)), h\<lparr>hp_uninstalls := hp_uninstalls h @ [x]\<rparr>)"

definition new_conditions :: "Condition list \<Rightarrow> heap \<Rightarrow> ptr \<times> heap" where
  "new_conditions x h = (Some (length (hp_conditions h)), h\<lparr>hp_conditions := hp_conditions h @ [x]\<rparr>)"

definition new_objrefs :: "ObjectReference list \<Rightarrow> heap \<Rightarrow> ptr \<times> heap" where
  "new_objrefs x h = (Some (length (hp_objrefs h)), h\<lparr>hp_objrefs := hp_objrefs h @ [x]\<rparr>)"

lemmas new_defs = new_cred_def new_tls_def new_ref_def new_duration_def new_uninstall_def
  new_conditions_def new_objrefs_def

section \<open>Deep copies\<close>

text \<open>\<^verbatim>\<open>DeepCopyInto(out)\<close> overwrites \<^verbatim>\<open>out\<close>; here it returns what \<^verbatim>\<open>out\<close> becomes. A nil pointer is
  copied as it is by \<^verbatim>\<open>*out = *in\<close>.\<close>

definition copy_ptr :: "(nat \<Rightarrow> heap \<Rightarrow> ptr \<times> heap) \<Rightarrow> ptr \<Rightarrow> heap \<Rightarrow> ptr \<times> heap" where
  "copy_ptr f p h = (case p of None \<Rightarrow> (None, h) | Some a \<Rightarrow> f a h)"

definition Credentials_DeepCopy :: "ptr \<Rightarrow> heap \<Rightarrow> ptr \<times> heap" where
  "Credentials_DeepCopy p h = copy_ptr (\<lambda>a h. new_cred (hp_creds h ! a) h) p h"

definition TLSConfig_DeepCopyInto :: "tls_h \<Rightarrow> heap \<Rightarrow> tls_h \<times> heap" where
  "TLSConfig_DeepCopyInto t h =
     (case copy_ptr (\<lambda>a h. new_ref (hp_refs h ! a) h) (th_CASecretRef t) h of
        (p, h') \<Rightarrow> (t\<lparr>th_CASecretRef := p\<rparr>, h'))"

definition TLSConfig_DeepCopy :: "ptr \<Rightarrow> heap \<Rightarrow> ptr \<times> heap" where
  "TLSConfig_DeepCopy p h =
     copy_ptr (\<lambda>a h. case TLSConfig_DeepCopyInto (hp_tls h ! a) h of (t, h') \<Rightarrow> new_tls t h') p h"

definition HelmOptions_DeepCopyInto :: "options_h \<Rightarrow> heap \<Rightarrow> options_h \<times> heap" where
  "HelmOptions_DeepCopyInto op h =
     (case copy_ptr (\<lambda>a h. new_duration (hp_durations h ! a) h) (oh_Timeout op) h of
        (t, h1) \<Rightarrow>
          (case copy_ptr (\<lambda>a h. new_uninstall (hp_uninstalls h ! a) h) (oh_Uninstall op) h1 of
             (u, h2) \<Rightarrow> (op\<lparr>oh_Timeout := t, oh_Uninstall := u\<rparr>, h2)))"

definition HelmChartProxySpec_DeepCopyInto :: "chart_spec_h \<Rightarrow> heap \<Rightarrow> chart_spec_h \<times> heap" where
  "HelmChartProxySpec_DeepCopyInto s h =
     (case HelmOptions_DeepCopyInto (csh_Options s) h of
        (op, h1) \<Rightarrow>
          (case Credentials_DeepCopy (csh_Credentials s) h1 of
             (cr, h2) \<Rightarrow>
               (case TLSConfig_DeepCopy (csh_TLSConfig s) h2 of
                  (t, h3) \<Rightarrow> (s\<lparr>csh_Options := op, csh_Credentials := cr, csh_TLSConfig := t\<rparr>, h3))))"

definition HelmChartProxyStatus_DeepCopyInto :: "chart_status_h \<Rightarrow> heap \<Rightarrow> chart_status_h \<times> heap" where
  "HelmChartProxyStatus_DeepCopyInto s h =
     (case copy_ptr (\<lambda>a h. new_conditions (hp_conditions h ! a) h) (cth_Conditions s) h of
        (cs, h1) \<Rightarrow>
          (case copy_ptr (\<lambda>a h. new_objrefs (hp_objrefs h ! a) h) (cth_MatchingClusters s) h1 of
             (ms, h2) \<Rightarrow> (s\<lparr>cth_Conditions := cs, cth_MatchingClusters := ms\<rparr>, h2)))"

definition HelmChartProxy_DeepCopyInto :: "chart_h \<Rightarrow> heap \<Rightarrow> chart_h \<times> heap" where
  "HelmChartProxy_DeepCopyInto c h =
     (case HelmChartProxySpec_DeepCopyInto (chh_Spec c) h of
        (s, h1) \<Rightarrow>
          (case HelmChartProxyStatus_DeepCopyInto (chh_Status c) h1 of
             (t, h2) \<Rightarrow> (c\<lparr>chh_Spec := s, chh_Status := t\<rparr>, h2)))"

definition HelmReleaseProxySpec_DeepCopyInto :: "release_spec_h \<Rightarrow> heap \<Rightarrow> release_spec_h \<times> heap" where
  "HelmReleaseProxySpec_DeepCopyInto s h =
     (case HelmOptions_DeepCopyInto (rsh_Options s) h of
        (op, h1) \<Rightarrow>
          (case Credentials_DeepCopy (rsh_Credentials s) h1 of
             (cr, h2) \<Rightarrow>
               (case TLSConfig_DeepCopy (rsh_TLSConfig s) h2 of
                  (t, h3) \<Rightarrow> (s\<lparr>rsh_Options := op, rsh_Credentials := cr, rsh_TLSConfig := t\<rparr>, h3))))"

definition HelmReleaseProxyStatus_DeepCopyInto :: "release_status_h \<Rightarrow> heap \<Rightarrow> release_status_h \<times> heap" where
  "HelmReleaseProxyStatus_DeepCopyInto s h =
     (case copy_ptr (\<lambda>a h. new_conditions (hp_conditions h ! a) h) (rth_Conditions s) h of
        (cs, h1) \<Rightarrow> (s\<lparr>rth_Conditions := cs\<rparr>, h1))"

definition HelmReleaseProxy_DeepCopyInto :: "release_h \<Rightarrow> heap \<Rightarrow> release_h \<times> heap" where
  "HelmReleaseProxy_DeepCopyInto r h =
     (case HelmReleaseProxySpec_DeepCopyInto (rlh_Spec r) h of
        (s, h1) \<Rightarrow>
          (case HelmReleaseProxyStatus_DeepCopyInto (rlh_Status r) h1 of
             (t, h2) \<Rightarrow> (r\<lparr>rlh_Spec := s, rlh_Status := t\<rparr>, h2)))"

text \<open>The loop over \<^verbatim>\<open>Items\<close> of the list kinds, and \<^verbatim>\<open>DeepCopy\<close> of a pointer to a struct.\<close>

fun copy_items :: "('a \<Rightarrow> heap \<Rightarrow> 'a \<times> heap) \<Rightarrow> 'a list \<Rightarrow> heap \<Rightarrow> 'a list \<times> heap" where
  "copy_items f [] h = ([], h)"
| "copy_items f (x # xs) h =
     (case f x h of (y, h1) \<Rightarrow> (case copy_items f xs h1 of (ys, h2) \<Rightarrow> (y # ys, h2)))"

definition deep_copy :: "('a \<Rightarrow> heap \<Rightarrow> 'a \<times> heap) \<Rightarrow> 'a option \<Rightarrow> heap \<Rightarrow> 'a option \<times> heap" where
  "deep_copy f x h = (case x of None \<Rightarrow> (None, h) | Some y \<Rightarrow> (case f y h of (z, h') \<Rightarrow> (Some z, h')))"

definition HelmChartProxy_DeepCopy :: "chart_h option \<Rightarrow> heap \<Rightarrow> chart_h option \<times> heap" where
  "HelmChartProxy_DeepCopy = deep_copy HelmChartProxy_DeepCopyInto"

definition HelmReleaseProxy_DeepCopy :: "release_h option \<Rightarrow> heap \<Rightarrow> release_h option \<times> heap" where
  "HelmReleaseProxy_DeepCopy = deep_copy HelmReleaseProxy_DeepCopyInto"

definition HelmChartProxyList_DeepCopyInto ::
  "chart_h list option \<Rightarrow> heap \<Rightarrow> chart_h list option \<times> heap" where
  "HelmChartProxyList_DeepCopyInto = deep_copy (copy_items HelmChartProxy_DeepCopyInto)"

definition HelmReleaseProxyList_DeepCopyInto ::
  "release_h list option \<Rightarrow> heap \<Rightarrow> release_h list option \<times> heap" where
  "HelmReleaseProxyList_DeepCopyInto = deep_copy (copy_items HelmReleaseProxy_DeepCopyInto)"

text \<open>The other structs: options without pointers are copied by the assignment alone, and every
  \<^verbatim>\<open>DeepCopy\<close> of a struct is \<^verbatim>\<open>DeepCopyInto\<close> on a new one.\<close>

definition HelmInstallOptions_DeepCopyInto :: "HelmInstallOptions \<Rightarrow> heap \<Rightarrow> HelmInstallOptions \<times> heap" where
  "HelmInstallOptions_DeepCopyInto op h = (op, h)"

definition HelmInstallOptions_DeepCopy :: "HelmInstallOptions option \<Rightarrow> heap \<Rightarrow> HelmInstallOptions option \<times> heap" where
  "HelmInstallOptions_DeepCopy = deep_copy HelmInstallOptions_DeepCopyInto"

definition HelmUninstallOptions_DeepCopyInto :: "HelmUninstallOptions \<Rightarrow> heap \<Rightarrow> HelmUninstallOptions \<times> heap" where
  "HelmUninstallOptions_DeepCopyInto op h = (op, h)"

definition HelmUninstallOptions_DeepCopy :: "HelmUninstallOptions option \<Rightarrow> heap \<Rightarrow> HelmUninstallOptions option \<times> heap" where
  "HelmUninstallOptions_DeepCopy = deep_copy HelmUninstallOptions_DeepCopyInto"

definition HelmUpgradeOptions_DeepCopyInto :: "HelmUpgradeOptions \<Rightarrow> heap \<Rightarrow> HelmUpgradeOptions \<times> heap" where
  "HelmUpgradeOptions_DeepCopyInto op h = (op, h)"

definition HelmUpgradeOptions_DeepCopy :: "HelmUpgradeOptions option \<Rightarrow> heap \<Rightarrow> HelmUpgradeOptions option \<times> heap" where
  "HelmUpgradeOptions_DeepCopy = deep_copy HelmUpgradeOptions_DeepCopyInto"

definition HelmOptions_DeepCopy :: "options_h option \<Rightarrow> heap \<Rightarrow> options_h option \<times> heap" where
  "HelmOptions_DeepCopy = deep_copy HelmOptions_DeepCopyInto"

definition HelmChartProxySpec_DeepCopy :: "chart_spec_h option \<Rightarrow> heap \<Rightarrow> chart_spec_h option \<times> heap" where
  "HelmChartProxySpec_DeepCopy = deep_copy HelmChartProxySpec_DeepCopyInto"

definition HelmChartProxyStatus_DeepCopy :: "chart_status_h option \<Rightarrow> heap \<Rightarrow> chart_status_h option \<times> heap" where
  "HelmChartProxyStatus_DeepCopy = deep_copy HelmChartProxyStatus_DeepCopyInto"

definition HelmReleaseProxySpec_DeepCopy :: "release_spec_h option \<Rightarrow> heap \<Rightarrow> release_spec_h option \<times> heap" where
  "HelmReleaseProxySpec_DeepCopy = deep_copy HelmReleaseProxySpec_DeepCopyInto"

definition HelmReleaseProxyStatus_DeepCopy :: "release_status_h option \<Rightarrow> heap \<Rightarrow> release_status_h option \<times> heap" where
  "HelmReleaseProxyStatus_DeepCopy = deep_copy HelmReleaseProxyStatus_DeepCopyInto"

text \<open>A list object is its \<^verbatim>\<open>Items\<close>, a slice that may be nil. \<^verbatim>\<open>DeepCopyObject\<close> returns a
  \<^verbatim>\<open>runtime.Object\<close>, an interface value: nil, or one of the kinds.\<close>

definition HelmChartProxyList_DeepCopy ::
  "chart_h list option option \<Rightarrow> heap \<Rightarrow> chart_h list option option \<times> heap" where
  "HelmChartProxyList_DeepCopy = deep_copy HelmChartProxyList_DeepCopyInto"

definition HelmReleaseProxyList_DeepCopy ::
  "release_h list option option \<Rightarrow> heap \<Rightarrow> release_h list option option \<times> heap" where
  "HelmReleaseProxyList_DeepCopy = deep_copy HelmReleaseProxyList_DeepCopyInto"

datatype runtime_Object =
    ChartObject chart_h | ChartListObject "chart_h list option"
  | ReleaseObject release_h | ReleaseListObject "release_h list option"

definition as_object :: "('a \<Rightarrow> runtime_Object) \<Rightarrow> 'a option \<times> heap \<Rightarrow> runtime_Object option \<times> heap" where
  "as_object C r = (case r of (Some c, h) \<Rightarrow> (Some (C c), h) | (None, h) \<Rightarrow> (None, h))"

definition HelmChartProxy_DeepCopyObject :: "chart_h option \<Rightarrow> heap \<Rightarrow> runtime_Object option \<times> heap" where
  "HelmChartProxy_DeepCopyObject x h = as_object ChartObject (HelmChartProxy_DeepCopy x h)"

definition HelmChartProxyList_DeepCopyObject :: "chart_h list option option \<Rightarrow> heap \<Rightarrow> runtime_Object option \<times> heap" where
  "HelmChartProxyList_DeepCopyObject x h = as_object ChartListObject (HelmChartProxyList_DeepCopy x h)"

definition HelmReleaseProxy_DeepCopyObject :: "release_h option \<Rightarrow> heap \<Rightarrow> runtime_Object option \<times> heap" where
  "HelmReleaseProxy_DeepCopyObject x h = as_object ReleaseObject (HelmReleaseProxy_DeepCopy x h)"

definition HelmReleaseProxyList_DeepCopyObject :: "release_h list option option \<Rightarrow> heap \<Rightarrow> runtime_Object option \<times> heap" where
  "HelmReleaseProxyList_DeepCopyObject x h = as_object ReleaseListObject (HelmReleaseProxyList_DeepCopy x h)"

lemmas deep_copy_object_defs = as_object_def deep_copy_def HelmChartProxy_DeepCopyObject_def
  HelmChartProxy_DeepCopy_def HelmChartProxyList_DeepCopyObject_def HelmChartProxyList_DeepCopy_def
  HelmReleaseProxy_DeepCopyObject_def HelmReleaseProxy_DeepCopy_def HelmReleaseProxyList_DeepCopyObject_def
  HelmReleaseProxyList_DeepCopy_def

section \<open>Abstraction\<close>

text \<open>The value a struct denotes in a heap.\<close>

definition abs_tls :: "heap \<Rightarrow> tls_h \<Rightarrow> TLSConfig" where
  "abs_tls h t = \<lparr>tls_CASecretRef = map_option (\<lambda>a. hp_refs h ! a) (th_CASecretRef t),
     tls_InsecureSkipTLSVerify = th_InsecureSkipTLSVerify t\<rparr>"

definition abs_cred_ptr :: "heap \<Rightarrow> ptr \<Rightarrow> Credentials option" where
  "abs_cred_ptr h p = map_option (\<lambda>a. hp_creds h ! a) p"

definition abs_tls_ptr :: "heap \<Rightarrow> ptr \<Rightarrow> TLSConfig option" where
  "abs_tls_ptr h p = map_option (\<lambda>a. abs_tls h (hp_tls h ! a)) p"

definition abs_options :: "heap \<Rightarrow> options_h \<Rightarrow> HelmOptions" where
  "abs_options h op = (oh_Fields op)\<lparr>o_Timeout := map_option (\<lambda>a. hp_durations h ! a) (oh_Timeout op),
     o_Uninstall := map_option (\<lambda>a. hp_uninstalls h ! a) (oh_Uninstall op)\<rparr>"

definition abs_chart_spec :: "heap \<Rightarrow> chart_spec_h \<Rightarrow> HelmChartProxySpec" where
  "abs_chart_spec h s = (csh_Fields s)\<lparr>cs_Options := abs_options h (csh_Options s),
     cs_Credentials := abs_cred_ptr h (csh_Credentials s), cs_TLSConfig := abs_tls_ptr h (csh_TLSConfig s)\<rparr>"

definition slice :: "'a list list \<Rightarrow> ptr \<Rightarrow> 'a list" where
  "slice m p = (case p of None \<Rightarrow> [] | Some a \<Rightarrow> m ! a)"

definition abs_chart_status :: "heap \<Rightarrow> chart_status_h \<Rightarrow> HelmChartProxyStatus" where
  "abs_chart_status h s = \<lparr>ct_Conditions = slice (hp_conditions h) (cth_Conditions s),
     ct_MatchingClusters = slice (hp_objrefs h) (cth_MatchingClusters s), ct_ObservedGeneration = cth_ObservedGeneration s\<rparr>"

definition abs_chart :: "heap \<Rightarrow> chart_h \<Rightarrow> HelmChartProxy" where
  "abs_chart h c = \<lparr>hcp_Meta = chh_Meta c, hcp_Spec = abs_chart_spec h (chh_Spec c),
     hcp_Status = abs_chart_status h (chh_Status c)\<rparr>"

definition abs_release_spec :: "heap \<Rightarrow> release_spec_h \<Rightarrow> HelmReleaseProxySpec" where
  "abs_release_spec h s = (rsh_Fields s)\<lparr>rs_Options := abs_options h (rsh_Options s),
     rs_Credentials := abs_cred_ptr h (rsh_Credentials s), rs_TLSConfig := abs_tls_ptr h (rsh_TLSConfig s)\<rparr>"

definition abs_release_status :: "heap \<Rightarrow> release_status_h \<Rightarrow> HelmReleaseProxyStatus" where
  "abs_release_status h s = \<lparr>rt_Conditions = slice (hp_conditions h) (rth_Conditions s), rt_Status = rth_Status s,
     rt_Revision = rth_Revision s, rt_ObservedGeneration = rth_ObservedGeneration s\<rparr>"

definition abs_release :: "heap \<Rightarrow> release_h \<Rightarrow> HelmReleaseProxy" where
  "abs_release h r = \<lparr>hrp_Meta = rlh_Meta r, hrp_Spec = abs_release_spec h (rlh_Spec r),
     hrp_Status = abs_release_status h (rlh_Status r)\<rparr>"

section \<open>Building a release proxy on the heap\<close>

text \<open>
  \<^verbatim>\<open>constructHelmReleaseProxy\<close> again, statement by statement: an existing proxy is modified in place,
  the options are assigned and so share their cells with the chart proxy, credentials and TLS
  configuration are deep copies, and the Secret references are overwritten through the copies'
  pointers.
\<close>

definition new_release_h :: "'k capi \<Rightarrow> HelmChartProxy \<Rightarrow> Cluster \<Rightarrow> release_h" where
  "new_release_h P c cluster =
     \<lparr>rlh_Meta = hrp_Meta (new_release_proxy P c cluster),
      rlh_Spec = \<lparr>rsh_Fields = hrp_Spec (new_release_proxy P c cluster),
        rsh_Options = \<lparr>oh_Fields = zero_options, oh_Timeout = None, oh_Uninstall = None\<rparr>,
        rsh_Credentials = None, rsh_TLSConfig = None\<rparr>,
      rlh_Status = \<lparr>rth_Conditions = None, rth_Status = [], rth_Revision = 0, rth_ObservedGeneration = 0\<rparr>\<rparr>"

definition localize_credentials :: "string \<Rightarrow> ptr \<Rightarrow> heap \<Rightarrow> heap" where
  "localize_credentials namespace p h =
     (case p of None \<Rightarrow> h
      | Some a \<Rightarrow>
          (let h1 = h\<lparr>hp_creds := (hp_creds h)[a := (hp_creds h ! a)
                 \<lparr>cr_Secret := (cr_Secret (hp_creds h ! a))\<lparr>sr_Namespace := namespace\<rparr>\<rparr>]\<rparr>
           in if cr_Key (hp_creds h1 ! a) = []
              then h1\<lparr>hp_creds := (hp_creds h1)[a := (hp_creds h1 ! a)\<lparr>cr_Key := DefaultOCIKey\<rparr>]\<rparr> else h1))"

definition localize_tls :: "string \<Rightarrow> ptr \<Rightarrow> heap \<Rightarrow> heap" where
  "localize_tls namespace p h =
     (case p of None \<Rightarrow> h
      | Some a \<Rightarrow>
          (case th_CASecretRef (hp_tls h ! a) of None \<Rightarrow> h
           | Some b \<Rightarrow> h\<lparr>hp_refs := (hp_refs h)[b := (hp_refs h ! b)\<lparr>sr_Namespace := namespace\<rparr>]\<rparr>))"

definition construct_h ::
  "'k capi \<Rightarrow> release_h option \<Rightarrow> chart_h \<Rightarrow> string \<Rightarrow> Cluster \<Rightarrow> heap \<Rightarrow> release_h option \<times> heap" where
  "construct_h P existing c parsedValues cluster h =
     (case (case existing of
              None \<Rightarrow> Some (new_release_h P (abs_chart h c) cluster)
            | Some r \<Rightarrow>
                (if release_proxy_changed (abs_release h r) (abs_chart h c) parsedValues then Some r else None)) of
        None \<Rightarrow> (None, h)
      | Some r \<Rightarrow>
          (let fields = (rsh_Fields (rlh_Spec r))
                 \<lparr>rs_ReconcileStrategy := cs_ReconcileStrategy (csh_Fields (chh_Spec c)),
                  rs_Version := cs_Version (csh_Fields (chh_Spec c)), rs_Values := parsedValues\<rparr>;
               (cr, h1) = Credentials_DeepCopy (csh_Credentials (chh_Spec c)) h;
               h2 = localize_credentials (m_Namespace (chh_Meta c)) cr h1;
               (t, h3) = TLSConfig_DeepCopy (csh_TLSConfig (chh_Spec c)) h2;
               h4 = localize_tls (m_Namespace (chh_Meta c)) t h3
           in (Some (r\<lparr>rlh_Spec := \<lparr>rsh_Fields = fields, rsh_Options = csh_Options (chh_Spec c),
                 rsh_Credentials = cr, rsh_TLSConfig = t\<rparr>\<rparr>), h4)))"

section \<open>Heap extension\<close>

text \<open>\<open>ext h h'\<close>: every cell of \<open>h\<close> is in \<open>h'\<close> with the same contents; \<open>h'\<close> may have more cells.\<close>

definition ext :: "heap \<Rightarrow> heap \<Rightarrow> bool" where
  "ext h h' = (prefix (hp_creds h) (hp_creds h') \<and> prefix (hp_tls h) (hp_tls h') \<and> prefix (hp_refs h) (hp_refs h') \<and>
     prefix (hp_durations h) (hp_durations h') \<and> prefix (hp_uninstalls h) (hp_uninstalls h') \<and>
     prefix (hp_conditions h) (hp_conditions h') \<and> prefix (hp_objrefs h) (hp_objrefs h'))"

lemma ext_refl [simp]: "ext h h"
  by (simp add: ext_def)

lemma ext_trans: "ext h1 h2 \<Longrightarrow> ext h2 h3 \<Longrightarrow> ext h1 h3"
  by (auto simp: ext_def intro: prefix_order.trans)

lemma ext_new [simp]:
  "ext h (snd (new_cred c h))" "ext h (snd (new_tls t h))" "ext h (snd (new_ref r h))"
  "ext h (snd (new_duration d h))" "ext h (snd (new_uninstall u h))" "ext h (snd (new_conditions cs h))"
  "ext h (snd (new_objrefs os h))"
  by (simp_all add: ext_def new_defs)

lemma prefix_nth: "prefix xs ys \<Longrightarrow> i < length xs \<Longrightarrow> ys ! i = xs ! i"
  by (auto simp: prefix_def nth_append)

lemma ext_nth:
  assumes "ext h h'"
  shows "a < length (hp_creds h) \<Longrightarrow> hp_creds h' ! a = hp_creds h ! a"
    "a < length (hp_tls h) \<Longrightarrow> hp_tls h' ! a = hp_tls h ! a"
    "a < length (hp_refs h) \<Longrightarrow> hp_refs h' ! a = hp_refs h ! a"
    "a < length (hp_durations h) \<Longrightarrow> hp_durations h' ! a = hp_durations h ! a"
    "a < length (hp_uninstalls h) \<Longrightarrow> hp_uninstalls h' ! a = hp_uninstalls h ! a"
    "a < length (hp_conditions h) \<Longrightarrow> hp_conditions h' ! a = hp_conditions h ! a"
    "a < length (hp_objrefs h) \<Longrightarrow> hp_objrefs h' ! a = hp_objrefs h ! a"
  using assms by (auto simp: ext_def prefix_nth)

lemma ext_length:
  assumes "ext h h'"
  shows "length (hp_creds h) \<le> length (hp_creds h')" "length (hp_tls h) \<le> length (hp_tls h')"
    "length (hp_refs h) \<le> length (hp_refs h')" "length (hp_durations h) \<le> length (hp_durations h')"
    "length (hp_uninstalls h) \<le> length (hp_uninstalls h')" "length (hp_conditions h) \<le> length (hp_conditions h')"
    "length (hp_objrefs h) \<le> length (hp_objrefs h')"
  using assms by (auto simp: ext_def prefix_length_le)

text \<open>A write at an address that the older heap does not have.\<close>

lemma prefix_write: "prefix xs ys \<Longrightarrow> length xs \<le> a \<Longrightarrow> prefix xs (ys[a := v])"
  by (auto simp: prefix_def list_update_append split: if_splits)

lemma ext_write:
  assumes "ext h h'"
  shows "length (hp_creds h) \<le> a \<Longrightarrow> ext h (h'\<lparr>hp_creds := (hp_creds h')[a := c]\<rparr>)"
    "length (hp_refs h) \<le> a \<Longrightarrow> ext h (h'\<lparr>hp_refs := (hp_refs h')[a := r]\<rparr>)"
  using assms by (auto simp: ext_def prefix_write)

section \<open>Pointers in range and fresh pointers\<close>

definition in_range :: "'a list \<Rightarrow> ptr \<Rightarrow> bool" where
  "in_range m p = (case p of None \<Rightarrow> True | Some a \<Rightarrow> a < length m)"

definition beyond :: "'a list \<Rightarrow> ptr \<Rightarrow> bool" where
  "beyond m p = (case p of None \<Rightarrow> True | Some a \<Rightarrow> length m \<le> a)"

definition wf_tls_ptr :: "heap \<Rightarrow> ptr \<Rightarrow> bool" where
  "wf_tls_ptr h p = (in_range (hp_tls h) p \<and>
     (case p of None \<Rightarrow> True | Some a \<Rightarrow> in_range (hp_refs h) (th_CASecretRef (hp_tls h ! a))))"

definition fresh_tls_ptr :: "heap \<Rightarrow> heap \<Rightarrow> ptr \<Rightarrow> bool" where
  "fresh_tls_ptr h h' p = (beyond (hp_tls h) p \<and>
     (case p of None \<Rightarrow> True | Some a \<Rightarrow> beyond (hp_refs h) (th_CASecretRef (hp_tls h' ! a))))"

definition wf_options :: "heap \<Rightarrow> options_h \<Rightarrow> bool" where
  "wf_options h op = (in_range (hp_durations h) (oh_Timeout op) \<and> in_range (hp_uninstalls h) (oh_Uninstall op))"

definition fresh_options :: "heap \<Rightarrow> heap \<Rightarrow> options_h \<Rightarrow> bool" where
  "fresh_options h h' op = (beyond (hp_durations h) (oh_Timeout op) \<and> beyond (hp_uninstalls h) (oh_Uninstall op))"

definition wf_chart :: "heap \<Rightarrow> chart_h \<Rightarrow> bool" where
  "wf_chart h c = (wf_options h (csh_Options (chh_Spec c)) \<and> in_range (hp_creds h) (csh_Credentials (chh_Spec c)) \<and>
     wf_tls_ptr h (csh_TLSConfig (chh_Spec c)) \<and> in_range (hp_conditions h) (cth_Conditions (chh_Status c)) \<and>
     in_range (hp_objrefs h) (cth_MatchingClusters (chh_Status c)))"

definition fresh_chart :: "heap \<Rightarrow> heap \<Rightarrow> chart_h \<Rightarrow> bool" where
  "fresh_chart h h' c = (fresh_options h h' (csh_Options (chh_Spec c)) \<and> beyond (hp_creds h) (csh_Credentials (chh_Spec c)) \<and>
     fresh_tls_ptr h h' (csh_TLSConfig (chh_Spec c)) \<and> beyond (hp_conditions h) (cth_Conditions (chh_Status c)) \<and>
     beyond (hp_objrefs h) (cth_MatchingClusters (chh_Status c)))"

definition wf_release :: "heap \<Rightarrow> release_h \<Rightarrow> bool" where
  "wf_release h r = (wf_options h (rsh_Options (rlh_Spec r)) \<and> in_range (hp_creds h) (rsh_Credentials (rlh_Spec r)) \<and>
     wf_tls_ptr h (rsh_TLSConfig (rlh_Spec r)) \<and> in_range (hp_conditions h) (rth_Conditions (rlh_Status r)))"

definition fresh_release :: "heap \<Rightarrow> heap \<Rightarrow> release_h \<Rightarrow> bool" where
  "fresh_release h h' r = (fresh_options h h' (rsh_Options (rlh_Spec r)) \<and> beyond (hp_creds h) (rsh_Credentials (rlh_Spec r)) \<and>
     fresh_tls_ptr h h' (rsh_TLSConfig (rlh_Spec r)) \<and> beyond (hp_conditions h) (rth_Conditions (rlh_Status r)))"

section \<open>The contract of a deep copy\<close>

text \<open>
  A deep copy of a struct with pointers in range only adds cells, denotes the same value, and
  has no pointer into the old heap. What an old struct denotes does not depend on the cells
  added since. The contract extends to optional structs and to slices of structs.
\<close>

locale deep_copier =
  fixes into :: "'a \<Rightarrow> heap \<Rightarrow> 'a \<times> heap" and wf :: "heap \<Rightarrow> 'a \<Rightarrow> bool"
    and fresh :: "heap \<Rightarrow> heap \<Rightarrow> 'a \<Rightarrow> bool" and abs :: "heap \<Rightarrow> 'a \<Rightarrow> 'b"
  assumes copy: "wf h x \<Longrightarrow> into x h = (y, h') \<Longrightarrow> ext h h' \<and> wf h' y \<and> fresh h h' y \<and> abs h' y = abs h x"
    and stable: "wf h x \<Longrightarrow> ext h h' \<Longrightarrow> wf h' x \<and> abs h' x = abs h x"
    and fresh_ext: "wf h' y \<Longrightarrow> fresh h h' y \<Longrightarrow> ext h' h'' \<Longrightarrow> fresh h h'' y"
    and fresh_old: "ext h h1 \<Longrightarrow> fresh h1 h' y \<Longrightarrow> fresh h h' y"
begin

lemma copy_items_ok:
  "list_all (wf h) xs \<Longrightarrow> copy_items into xs h = (ys, h') \<Longrightarrow>
     ext h h' \<and> list_all (wf h') ys \<and> list_all (fresh h h') ys \<and> map (abs h') ys = map (abs h) xs"
proof (induction xs arbitrary: h ys)
  case (Cons x xs)
  obtain y h1 zs where y: "into x h = (y, h1)" and zs: "copy_items into xs h1 = (zs, h')" and ys: "ys = y # zs"
    using Cons.prems(2) by (auto split: prod.splits)
  have 1: "ext h h1" "wf h1 y" "fresh h h1 y" "abs h1 y = abs h x" using copy [OF _ y] Cons.prems(1) by simp_all
  have st: "wf h1 z \<and> abs h1 z = abs h z" if "z \<in> set xs" for z
    using stable [OF _ 1(1)] Cons.prems(1) that by (simp add: list_all_iff)
  then have "list_all (wf h1) xs" "map (abs h1) xs = map (abs h) xs" by (simp_all add: list_all_iff)
  with Cons.IH [OF _ zs] have 2: "ext h1 h'" "list_all (wf h') zs" "list_all (fresh h1 h') zs" "map (abs h') zs = map (abs h) xs"
    by simp_all
  show ?case
    using 1 2 ys stable [OF 1(2) 2(1)] fresh_ext [OF 1(2,3) 2(1)] fresh_old [OF 1(1)]
    by (auto simp: list_all_iff intro: ext_trans)
qed simp

lemma deep_copy_ok:
  assumes "pred_option (wf h) x" and "deep_copy into x h = (y, h')"
  shows "ext h h' \<and> pred_option (wf h') y \<and> pred_option (fresh h h') y \<and> map_option (abs h') y = map_option (abs h) x"
  using assms copy by (auto simp: deep_copy_def split: option.splits prod.splits)

end

text \<open>One copy after the other is a deep copy of the pair.\<close>

definition seq_copy ::
  "('a \<Rightarrow> heap \<Rightarrow> 'a \<times> heap) \<Rightarrow> ('b \<Rightarrow> heap \<Rightarrow> 'b \<times> heap) \<Rightarrow> 'a \<times> 'b \<Rightarrow> heap \<Rightarrow> ('a \<times> 'b) \<times> heap" where
  "seq_copy f g xy h = (case f (fst xy) h of (x', h1) \<Rightarrow> (case g (snd xy) h1 of (y', h2) \<Rightarrow> ((x', y'), h2)))"

definition wf_both :: "(heap \<Rightarrow> 'a \<Rightarrow> bool) \<Rightarrow> (heap \<Rightarrow> 'b \<Rightarrow> bool) \<Rightarrow> heap \<Rightarrow> 'a \<times> 'b \<Rightarrow> bool" where
  "wf_both p q h xy = (p h (fst xy) \<and> q h (snd xy))"

definition fresh_both ::
  "(heap \<Rightarrow> heap \<Rightarrow> 'a \<Rightarrow> bool) \<Rightarrow> (heap \<Rightarrow> heap \<Rightarrow> 'b \<Rightarrow> bool) \<Rightarrow> heap \<Rightarrow> heap \<Rightarrow> 'a \<times> 'b \<Rightarrow> bool" where
  "fresh_both p q h h' xy = (p h h' (fst xy) \<and> q h h' (snd xy))"

definition abs_both :: "(heap \<Rightarrow> 'a \<Rightarrow> 'c) \<Rightarrow> (heap \<Rightarrow> 'b \<Rightarrow> 'd) \<Rightarrow> heap \<Rightarrow> 'a \<times> 'b \<Rightarrow> 'c \<times> 'd" where
  "abs_both f g h xy = (f h (fst xy), g h (snd xy))"

lemmas both_defs = seq_copy_def wf_both_def fresh_both_def abs_both_def

lemma seq_copier:
  assumes f: "deep_copier f wf\<^sub>1 fresh\<^sub>1 abs\<^sub>1" and g: "deep_copier g wf\<^sub>2 fresh\<^sub>2 abs\<^sub>2"
  shows "deep_copier (seq_copy f g) (wf_both wf\<^sub>1 wf\<^sub>2) (fresh_both fresh\<^sub>1 fresh\<^sub>2) (abs_both abs\<^sub>1 abs\<^sub>2)"
proof
  fix h h' and xy :: "'a \<times> 'c" and zw
  assume w: "wf_both wf\<^sub>1 wf\<^sub>2 h xy" and c: "seq_copy f g xy h = (zw, h')"
  obtain x' y' h1 where x': "f (fst xy) h = (x', h1)" and y': "g (snd xy) h1 = (y', h')" and zw: "zw = (x', y')"
    using c by (auto simp: seq_copy_def split: prod.splits)
  have 1: "ext h h1 \<and> wf\<^sub>1 h1 x' \<and> fresh\<^sub>1 h h1 x' \<and> abs\<^sub>1 h1 x' = abs\<^sub>1 h (fst xy)"
    using deep_copier.copy [OF f _ x'] w by (simp add: wf_both_def)
  have "wf\<^sub>2 h1 (snd xy) \<and> abs\<^sub>2 h1 (snd xy) = abs\<^sub>2 h (snd xy)"
    using deep_copier.stable [OF g, of h "snd xy" h1] 1 w by (simp add: wf_both_def)
  with deep_copier.copy [OF g _ y']
  have 2: "ext h1 h' \<and> wf\<^sub>2 h' y' \<and> fresh\<^sub>2 h1 h' y' \<and> abs\<^sub>2 h' y' = abs\<^sub>2 h (snd xy)" by simp
  have "wf\<^sub>1 h' x' \<and> abs\<^sub>1 h' x' = abs\<^sub>1 h1 x'" "fresh\<^sub>1 h h' x'" "fresh\<^sub>2 h h' y'"
    using deep_copier.stable [OF f, of h1 x' h'] deep_copier.fresh_ext [OF f, of h1 x' h h']
      deep_copier.fresh_old [OF g, of h h1 h' y'] 1 2 by simp_all
  with 1 2 show "ext h h' \<and> wf_both wf\<^sub>1 wf\<^sub>2 h' zw \<and> fresh_both fresh\<^sub>1 fresh\<^sub>2 h h' zw \<and>
      abs_both abs\<^sub>1 abs\<^sub>2 h' zw = abs_both abs\<^sub>1 abs\<^sub>2 h xy"
    using zw by (auto simp: both_defs intro: ext_trans)
qed (use deep_copier.stable [OF f] deep_copier.stable [OF g] deep_copier.fresh_ext [OF f] deep_copier.fresh_ext [OF g]
      deep_copier.fresh_old [OF f] deep_copier.fresh_old [OF g] in \<open>auto simp: both_defs\<close>)

section \<open>The deep copies meet the contract\<close>

lemma in_range_ext:
  assumes "ext h h'"
  shows "in_range (hp_creds h) p \<Longrightarrow> in_range (hp_creds h') p" "in_range (hp_tls h) p \<Longrightarrow> in_range (hp_tls h') p"
    "in_range (hp_refs h) p \<Longrightarrow> in_range (hp_refs h') p" "in_range (hp_durations h) p \<Longrightarrow> in_range (hp_durations h') p"
    "in_range (hp_uninstalls h) p \<Longrightarrow> in_range (hp_uninstalls h') p"
    "in_range (hp_conditions h) p \<Longrightarrow> in_range (hp_conditions h') p"
    "in_range (hp_objrefs h) p \<Longrightarrow> in_range (hp_objrefs h') p"
  using ext_length [OF assms] by (auto simp: in_range_def split: option.splits)

lemma beyond_ext:
  assumes "ext h h'"
  shows "beyond (hp_creds h') p \<Longrightarrow> beyond (hp_creds h) p" "beyond (hp_tls h') p \<Longrightarrow> beyond (hp_tls h) p"
    "beyond (hp_refs h') p \<Longrightarrow> beyond (hp_refs h) p" "beyond (hp_durations h') p \<Longrightarrow> beyond (hp_durations h) p"
    "beyond (hp_uninstalls h') p \<Longrightarrow> beyond (hp_uninstalls h) p" "beyond (hp_conditions h') p \<Longrightarrow> beyond (hp_conditions h) p"
    "beyond (hp_objrefs h') p \<Longrightarrow> beyond (hp_objrefs h) p"
  using ext_length [OF assms] by (auto simp: beyond_def split: option.splits)

lemmas ptr_defs = copy_ptr_def in_range_def beyond_def new_defs ext_def

interpretation creds: deep_copier Credentials_DeepCopy "\<lambda>h. in_range (hp_creds h)" "\<lambda>h h'. beyond (hp_creds h)" abs_cred_ptr
proof unfold_locales
  fix h h' and p q :: ptr
  show "ext h h' \<and> in_range (hp_creds h') q \<and> beyond (hp_creds h) q \<and> abs_cred_ptr h' q = abs_cred_ptr h p"
    if "in_range (hp_creds h) p" "Credentials_DeepCopy p h = (q, h')"
    using that by (auto simp: Credentials_DeepCopy_def abs_cred_ptr_def ptr_defs split: option.splits)
  show "in_range (hp_creds h') p \<and> abs_cred_ptr h' p = abs_cred_ptr h p" if "in_range (hp_creds h) p" "ext h h'"
    using that in_range_ext(1) [OF that(2)] ext_nth(1) [OF that(2)]
    by (auto simp: abs_cred_ptr_def in_range_def split: option.splits)
qed (auto intro: beyond_ext)

interpretation tlss: deep_copier TLSConfig_DeepCopy wf_tls_ptr fresh_tls_ptr abs_tls_ptr
proof unfold_locales
  fix h h' h'' h1 and p q :: ptr
  show "ext h h' \<and> wf_tls_ptr h' q \<and> fresh_tls_ptr h h' q \<and> abs_tls_ptr h' q = abs_tls_ptr h p"
    if "wf_tls_ptr h p" "TLSConfig_DeepCopy p h = (q, h')"
    using that by (auto simp: TLSConfig_DeepCopy_def TLSConfig_DeepCopyInto_def wf_tls_ptr_def fresh_tls_ptr_def
        abs_tls_ptr_def abs_tls_def ptr_defs split: option.splits)
  show "wf_tls_ptr h' p \<and> abs_tls_ptr h' p = abs_tls_ptr h p" if "wf_tls_ptr h p" "ext h h'"
    using that in_range_ext(2,3) [OF that(2)] ext_nth(2,3) [OF that(2)] ext_length(3) [OF that(2)]
    by (auto simp: wf_tls_ptr_def abs_tls_ptr_def abs_tls_def in_range_def split: option.splits)
  show "fresh_tls_ptr h h'' q" if "wf_tls_ptr h' q" "fresh_tls_ptr h h' q" "ext h' h''"
    using that ext_nth(2) [OF that(3)] by (auto simp: wf_tls_ptr_def fresh_tls_ptr_def in_range_def split: option.splits)
  show "fresh_tls_ptr h h' q" if "ext h h1" "fresh_tls_ptr h1 h' q"
    using that beyond_ext(2,3) [OF that(1)] by (auto simp: fresh_tls_ptr_def split: option.splits)
qed

interpretation opts: deep_copier HelmOptions_DeepCopyInto wf_options fresh_options abs_options
proof unfold_locales
  fix h h' h'' h1 and x y :: options_h
  show "ext h h' \<and> wf_options h' y \<and> fresh_options h h' y \<and> abs_options h' y = abs_options h x"
    if "wf_options h x" "HelmOptions_DeepCopyInto x h = (y, h')"
    using that by (auto simp: HelmOptions_DeepCopyInto_def wf_options_def fresh_options_def
        abs_options_def ptr_defs split: option.splits)
  show "wf_options h' x \<and> abs_options h' x = abs_options h x" if "wf_options h x" "ext h h'"
    using that in_range_ext(4,5) [OF that(2)] ext_nth(4,5) [OF that(2)]
    by (auto simp: wf_options_def abs_options_def in_range_def split: option.splits)
qed (auto simp: fresh_options_def intro: beyond_ext)

text \<open>The two slices of the status structs.\<close>

abbreviation copy_conditions :: "ptr \<Rightarrow> heap \<Rightarrow> ptr \<times> heap" where
  "copy_conditions \<equiv> copy_ptr (\<lambda>a h. new_conditions (hp_conditions h ! a) h)"

abbreviation copy_objrefs :: "ptr \<Rightarrow> heap \<Rightarrow> ptr \<times> heap" where
  "copy_objrefs \<equiv> copy_ptr (\<lambda>a h. new_objrefs (hp_objrefs h ! a) h)"

interpretation conds: deep_copier copy_conditions "\<lambda>h. in_range (hp_conditions h)"
    "\<lambda>h h'. beyond (hp_conditions h)" "\<lambda>h. slice (hp_conditions h)"
proof unfold_locales
  fix h h' and p q :: ptr
  show "ext h h' \<and> in_range (hp_conditions h') q \<and> beyond (hp_conditions h) q \<and>
      slice (hp_conditions h') q = slice (hp_conditions h) p"
    if "in_range (hp_conditions h) p" "copy_conditions p h = (q, h')"
    using that by (auto simp: slice_def ptr_defs split: option.splits)
  show "in_range (hp_conditions h') p \<and> slice (hp_conditions h') p = slice (hp_conditions h) p"
    if "in_range (hp_conditions h) p" "ext h h'"
    using that in_range_ext(6) [OF that(2)] ext_nth(6) [OF that(2)]
    by (auto simp: slice_def in_range_def split: option.splits)
qed (auto intro: beyond_ext)

interpretation orefs: deep_copier copy_objrefs "\<lambda>h. in_range (hp_objrefs h)"
    "\<lambda>h h'. beyond (hp_objrefs h)" "\<lambda>h. slice (hp_objrefs h)"
proof unfold_locales
  fix h h' and p q :: ptr
  show "ext h h' \<and> in_range (hp_objrefs h') q \<and> beyond (hp_objrefs h) q \<and>
      slice (hp_objrefs h') q = slice (hp_objrefs h) p"
    if "in_range (hp_objrefs h) p" "copy_objrefs p h = (q, h')"
    using that by (auto simp: slice_def ptr_defs split: option.splits)
  show "in_range (hp_objrefs h') p \<and> slice (hp_objrefs h') p = slice (hp_objrefs h) p"
    if "in_range (hp_objrefs h) p" "ext h h'"
    using that in_range_ext(7) [OF that(2)] ext_nth(7) [OF that(2)]
    by (auto simp: slice_def in_range_def split: option.splits)
qed (auto intro: beyond_ext)

text \<open>A chart proxy is copied as its pointers are: options, credentials, TLS configuration, then the
  two slices; a release proxy has one slice.\<close>

lemmas spec_copier = seq_copier [OF opts.deep_copier_axioms seq_copier [OF creds.deep_copier_axioms tlss.deep_copier_axioms]]
lemmas chart_copier = seq_copier [OF spec_copier seq_copier [OF conds.deep_copier_axioms orefs.deep_copier_axioms]]
lemmas release_copier = seq_copier [OF spec_copier conds.deep_copier_axioms]

interpretation charts: deep_copier HelmChartProxy_DeepCopyInto wf_chart fresh_chart abs_chart
proof
  fix h h' h'' h1 and x y :: chart_h
  let ?p = "\<lambda>c. ((csh_Options (chh_Spec c), csh_Credentials (chh_Spec c), csh_TLSConfig (chh_Spec c)),
    cth_Conditions (chh_Status c), cth_MatchingClusters (chh_Status c))"
  note defs = wf_chart_def fresh_chart_def both_defs
  show "ext h h' \<and> wf_chart h' y \<and> fresh_chart h h' y \<and> abs_chart h' y = abs_chart h x"
    if w: "wf_chart h x" and c: "HelmChartProxy_DeepCopyInto x h = (y, h')"
  proof -
    have "\<exists>q. seq_copy (seq_copy HelmOptions_DeepCopyInto (seq_copy Credentials_DeepCopy TLSConfig_DeepCopy))
        (seq_copy copy_conditions copy_objrefs) (?p x) h = (q, h') \<and> ?p y = q \<and>
      csh_Fields (chh_Spec y) = csh_Fields (chh_Spec x) \<and> chh_Meta y = chh_Meta x \<and>
      cth_ObservedGeneration (chh_Status y) = cth_ObservedGeneration (chh_Status x)"
      using c by (auto simp: HelmChartProxy_DeepCopyInto_def HelmChartProxySpec_DeepCopyInto_def
          HelmChartProxyStatus_DeepCopyInto_def seq_copy_def split: prod.splits)
    then show ?thesis
      using deep_copier.copy [OF chart_copier, of h "?p x" "?p y" h'] w
      by (auto simp: defs abs_chart_def abs_chart_spec_def abs_chart_status_def)
  qed
  show "wf_chart h' x \<and> abs_chart h' x = abs_chart h x" if "wf_chart h x" "ext h h'"
    using deep_copier.stable [OF chart_copier, of h "?p x" h'] that
    by (simp add: defs abs_chart_def abs_chart_spec_def abs_chart_status_def)
  show "fresh_chart h h'' y" if "wf_chart h' y" "fresh_chart h h' y" "ext h' h''"
    using deep_copier.fresh_ext [OF chart_copier, of h' "?p y" h h''] that by (simp add: defs)
  show "fresh_chart h h' y" if "ext h h1" "fresh_chart h1 h' y"
    using deep_copier.fresh_old [OF chart_copier, of h h1 h' "?p y"] that by (simp add: defs)
qed

interpretation releases: deep_copier HelmReleaseProxy_DeepCopyInto wf_release fresh_release abs_release
proof
  fix h h' h'' h1 and x y :: release_h
  let ?p = "\<lambda>r. ((rsh_Options (rlh_Spec r), rsh_Credentials (rlh_Spec r), rsh_TLSConfig (rlh_Spec r)),
    rth_Conditions (rlh_Status r))"
  note defs = wf_release_def fresh_release_def both_defs
  show "ext h h' \<and> wf_release h' y \<and> fresh_release h h' y \<and> abs_release h' y = abs_release h x"
    if w: "wf_release h x" and c: "HelmReleaseProxy_DeepCopyInto x h = (y, h')"
  proof -
    have "\<exists>q. seq_copy (seq_copy HelmOptions_DeepCopyInto (seq_copy Credentials_DeepCopy TLSConfig_DeepCopy))
        copy_conditions (?p x) h = (q, h') \<and> ?p y = q \<and>
      rsh_Fields (rlh_Spec y) = rsh_Fields (rlh_Spec x) \<and> rlh_Meta y = rlh_Meta x \<and>
      (rlh_Status y)\<lparr>rth_Conditions := None\<rparr> = (rlh_Status x)\<lparr>rth_Conditions := None\<rparr>"
      using c by (auto simp: HelmReleaseProxy_DeepCopyInto_def HelmReleaseProxySpec_DeepCopyInto_def
          HelmReleaseProxyStatus_DeepCopyInto_def seq_copy_def split: prod.splits)
    then show ?thesis
      using deep_copier.copy [OF release_copier, of h "?p x" "?p y" h'] w
      by (cases "rlh_Status x"; cases "rlh_Status y")
        (auto simp: defs abs_release_def abs_release_spec_def abs_release_status_def)
  qed
  show "wf_release h' x \<and> abs_release h' x = abs_release h x" if "wf_release h x" "ext h h'"
    using deep_copier.stable [OF release_copier, of h "?p x" h'] that
    by (simp add: defs abs_release_def abs_release_spec_def abs_release_status_def)
  show "fresh_release h h'' y" if "wf_release h' y" "fresh_release h h' y" "ext h' h''"
    using deep_copier.fresh_ext [OF release_copier, of h' "?p y" h h''] that by (simp add: defs)
  show "fresh_release h h' y" if "ext h h1" "fresh_release h1 h' y"
    using deep_copier.fresh_old [OF release_copier, of h h1 h' "?p y"] that by (simp add: defs)
qed

section \<open>Building a release proxy: the steps\<close>

lemma localize_credentials_ok:
  assumes "ext h h'" and "beyond (hp_creds h) p" and "in_range (hp_creds h') p"
  shows "ext h (localize_credentials ns p h')" "in_range (hp_creds (localize_credentials ns p h')) p"
    "abs_cred_ptr (localize_credentials ns p h') p =
       map_option (\<lambda>cr. cr\<lparr>cr_Secret := (cr_Secret cr)\<lparr>sr_Namespace := ns\<rparr>,
          cr_Key := (if cr_Key cr = [] then DefaultOCIKey else cr_Key cr)\<rparr>) (abs_cred_ptr h' p)"
  using assms ext_write(1) [OF assms(1)] ext_write(1) [OF ext_write(1) [OF assms(1)]]
  by (auto simp: localize_credentials_def in_range_def beyond_def abs_cred_ptr_def Let_def split: option.splits)

lemma localize_tls_ok:
  assumes "ext h h'" and "fresh_tls_ptr h h' p" and "wf_tls_ptr h' p"
  shows "ext h (localize_tls ns p h')" "hp_creds (localize_tls ns p h') = hp_creds h'"
    "wf_tls_ptr (localize_tls ns p h') p"
    "abs_tls_ptr (localize_tls ns p h') p =
       map_option (\<lambda>t. t\<lparr>tls_CASecretRef := map_option (\<lambda>ref. ref\<lparr>sr_Namespace := ns\<rparr>) (tls_CASecretRef t)\<rparr>) (abs_tls_ptr h' p)"
  using assms ext_write(2) [OF assms(1)]
  by (auto simp: localize_tls_def wf_tls_ptr_def fresh_tls_ptr_def in_range_def beyond_def abs_tls_ptr_def abs_tls_def
      split: option.splits)

lemma new_release_h_abs: "abs_release h (new_release_h P c cluster) = new_release_proxy P c cluster"
  by (simp add: abs_release_def abs_release_spec_def abs_release_status_def abs_options_def abs_cred_ptr_def
      abs_tls_ptr_def new_release_h_def new_release_proxy_def zero_hrp_def zero_options_def slice_def)

lemma new_release_h_wf: "wf_release h (new_release_h P c cluster)"
  by (simp add: wf_release_def wf_options_def wf_tls_ptr_def in_range_def new_release_h_def)

text \<open>The heap after the two copies have been made and localized.\<close>

lemma localized_copies:
  assumes w: "wf_chart h c"
    and c1: "Credentials_DeepCopy (csh_Credentials (chh_Spec c)) h = (cr, h1)"
    and h2: "h2 = localize_credentials (m_Namespace (chh_Meta c)) cr h1"
    and c2: "TLSConfig_DeepCopy (csh_TLSConfig (chh_Spec c)) h2 = (t, h3)"
    and h4: "h4 = localize_tls (m_Namespace (chh_Meta c)) t h3"
  shows "ext h h4" "in_range (hp_creds h4) cr" "wf_tls_ptr h4 t"
    "abs_cred_ptr h4 cr = local_credentials (abs_chart h c)" "abs_tls_ptr h4 t = local_tls (abs_chart h c)"
proof -
  have w1: "in_range (hp_creds h) (csh_Credentials (chh_Spec c))" "wf_tls_ptr h (csh_TLSConfig (chh_Spec c))"
    using w by (simp_all add: wf_chart_def)
  note 1 = creds.copy [OF w1(1) c1]
  have 2: "ext h h2" "in_range (hp_creds h2) cr"
    "abs_cred_ptr h2 cr = map_option (\<lambda>cr. cr\<lparr>cr_Secret := (cr_Secret cr)\<lparr>sr_Namespace := m_Namespace (chh_Meta c)\<rparr>,
       cr_Key := (if cr_Key cr = [] then DefaultOCIKey else cr_Key cr)\<rparr>) (abs_cred_ptr h (csh_Credentials (chh_Spec c)))"
    using localize_credentials_ok [of h h1 cr] 1 unfolding h2 by auto
  have st: "wf_tls_ptr h2 (csh_TLSConfig (chh_Spec c))"
    "abs_tls_ptr h2 (csh_TLSConfig (chh_Spec c)) = abs_tls_ptr h (csh_TLSConfig (chh_Spec c))"
    using tlss.stable [OF w1(2) 2(1)] by simp_all
  note 3 = tlss.copy [OF st(1) c2]
  have e: "ext h h3" using 2(1) 3 by (blast intro: ext_trans)
  have f: "fresh_tls_ptr h h3 t" using tlss.fresh_old [OF 2(1)] 3 by blast
  note 4 = localize_tls_ok [OF e f, of "m_Namespace (chh_Meta c)"]
  show "ext h h4" "wf_tls_ptr h4 t" using 3 4 unfolding h4 by auto
  have "hp_creds h4 = hp_creds h3" using 3 4 unfolding h4 by auto
  then have "abs_cred_ptr h4 cr = abs_cred_ptr h3 cr" "in_range (hp_creds h4) cr = in_range (hp_creds h3) cr"
    by (simp_all add: abs_cred_ptr_def)
  then show "in_range (hp_creds h4) cr" "abs_cred_ptr h4 cr = local_credentials (abs_chart h c)"
    using creds.stable [OF 2(2)] 3 2(3) by (auto simp: local_credentials_def abs_chart_def abs_chart_spec_def)
  show "abs_tls_ptr h4 t = local_tls (abs_chart h c)"
    using 3 4(4) st(2) unfolding h4 by (simp add: local_tls_def abs_chart_def abs_chart_spec_def)
qed

text \<open>Copies of the list kinds, item by item.\<close>

lemma lists_copied:
  "pred_option (list_all (wf_chart h)) cs \<Longrightarrow> HelmChartProxyList_DeepCopyInto cs h = (cs', h') \<Longrightarrow>
     ext h h' \<and> map_option (map (abs_chart h')) cs' = map_option (map (abs_chart h)) cs"
  "pred_option (list_all (wf_release h)) rs \<Longrightarrow> HelmReleaseProxyList_DeepCopyInto rs h = (rs', h') \<Longrightarrow>
     ext h h' \<and> map_option (map (abs_release h')) rs' = map_option (map (abs_release h)) rs"
  using charts.copy_items_ok releases.copy_items_ok
  by (auto simp: HelmChartProxyList_DeepCopyInto_def HelmReleaseProxyList_DeepCopyInto_def deep_copy_def
      split: option.splits prod.splits)

text \<open>The copies that the client library asks for, as interface values: a nil object gives a nil
  interface, any other object one of its own kind that denotes the same value.\<close>

definition wf_object :: "heap \<Rightarrow> runtime_Object \<Rightarrow> bool" where
  "wf_object h x =
     (case x of ChartObject c \<Rightarrow> wf_chart h c | ChartListObject cs \<Rightarrow> pred_option (list_all (wf_chart h)) cs
      | ReleaseObject r \<Rightarrow> wf_release h r | ReleaseListObject rs \<Rightarrow> pred_option (list_all (wf_release h)) rs)"

fun same_object :: "heap \<Rightarrow> runtime_Object \<Rightarrow> heap \<Rightarrow> runtime_Object \<Rightarrow> bool" where
  "same_object h (ChartObject c) h' (ChartObject c') = (abs_chart h' c' = abs_chart h c)"
| "same_object h (ChartListObject cs) h' (ChartListObject cs') =
     (map_option (map (abs_chart h')) cs' = map_option (map (abs_chart h)) cs)"
| "same_object h (ReleaseObject r) h' (ReleaseObject r') = (abs_release h' r' = abs_release h r)"
| "same_object h (ReleaseListObject rs) h' (ReleaseListObject rs') =
     (map_option (map (abs_release h')) rs' = map_option (map (abs_release h)) rs)"
| "same_object h _ h' _ = False"

definition DeepCopyObject :: "runtime_Object \<Rightarrow> heap \<Rightarrow> runtime_Object option \<times> heap" where
  "DeepCopyObject x h =
     (case x of ChartObject c \<Rightarrow> HelmChartProxy_DeepCopyObject (Some c) h
      | ChartListObject cs \<Rightarrow> HelmChartProxyList_DeepCopyObject (Some cs) h
      | ReleaseObject r \<Rightarrow> HelmReleaseProxy_DeepCopyObject (Some r) h
      | ReleaseListObject rs \<Rightarrow> HelmReleaseProxyList_DeepCopyObject (Some rs) h)"

lemma deep_copy_object_same:
  assumes "wf_object h x" and "DeepCopyObject x h = (y, h')"
  shows "ext h h' \<and> (\<exists>x'. y = Some x' \<and> same_object h x h' x')"
  using assms lists_copied [of h] charts.copy [of h] releases.copy [of h]
  by (cases x) (fastforce simp: DeepCopyObject_def wf_object_def deep_copy_object_defs split: prod.splits)+






section \<open>Properties\<close>

text \<open>A chart proxy with credentials and a CA Secret, in a heap.\<close>

definition ex_heap :: heap where
  "ex_heap = \<lparr>hp_creds = [\<lparr>cr_Secret = \<lparr>sr_Name = ''s'', sr_Namespace = ''other''\<rparr>, cr_Key = []\<rparr>],
     hp_tls = [\<lparr>th_CASecretRef = Some 0, th_InsecureSkipTLSVerify = False\<rparr>],
     hp_refs = [\<lparr>sr_Name = ''ca'', sr_Namespace = []\<rparr>], hp_durations = [], hp_uninstalls = [],
     hp_conditions = [], hp_objrefs = []\<rparr>"

definition ex_chart_h :: chart_h where
  "ex_chart_h = \<lparr>chh_Meta = hcp_Meta (ex_hcp []),
     chh_Spec = \<lparr>csh_Fields = hcp_Spec (ex_hcp []),
       csh_Options = \<lparr>oh_Fields = zero_options, oh_Timeout = None, oh_Uninstall = None\<rparr>,
       csh_Credentials = Some 0, csh_TLSConfig = Some 0\<rparr>,
     chh_Status = \<lparr>cth_Conditions = None, cth_MatchingClusters = None, cth_ObservedGeneration = 0\<rparr>\<rparr>"

lemma ex_chart_h_wf: "wf_chart ex_heap ex_chart_h"
  by (simp add: wf_chart_def wf_options_def wf_tls_ptr_def in_range_def ex_heap_def ex_chart_h_def)



text \<open>C9: building a release proxy with pointers implements the value version. From objects whose
  pointers are in range, the pointer code returns nothing, or an object that denotes what the
  value version builds, with its pointers in range; and although it overwrites the namespace
  and the key of the Secret references in place, it changes neither the chart proxy nor any
  other object: it only writes to its own copies.\<close>

theorem construct_implemented_on_heap:
  assumes "wf_chart h c" and "pred_option (wf_release h) existing"
    and "construct_h P existing c v cluster h = (res, h')"
  shows "map_option (abs_release h') res =
      constructHelmReleaseProxy P (map_option (abs_release h) existing) (abs_chart h c) v cluster \<and>
    pred_option (wf_release h') res \<and> abs_chart h' c = abs_chart h c \<and>
    (\<forall>r. wf_release h r \<longrightarrow> abs_release h' r = abs_release h r)"
proof -
  define start where "start = (case existing of None \<Rightarrow> Some (new_release_h P (abs_chart h c) cluster)
    | Some r \<Rightarrow> (if release_proxy_changed (abs_release h r) (abs_chart h c) v then Some r else None))"
  have st: "map_option (abs_release h) start = (case map_option (abs_release h) existing of
      None \<Rightarrow> Some (new_release_proxy P (abs_chart h c) cluster)
    | Some r \<Rightarrow> (if release_proxy_changed r (abs_chart h c) v then Some r else None))"
    and wf: "pred_option (wf_release h) start"
    using assms(2) by (auto simp: start_def new_release_h_abs new_release_h_wf split: option.splits)
  show ?thesis
  proof (cases start)
    case None
    then have "res = None" "h' = h" using assms(3) by (simp_all add: construct_h_def start_def [symmetric])
    with None st show ?thesis by (auto simp: constructHelmReleaseProxy_def)
  next
    case (Some r)
    obtain cr h1 where c1: "Credentials_DeepCopy (csh_Credentials (chh_Spec c)) h = (cr, h1)" by (metis prod.collapse)
    define h2 where "h2 = localize_credentials (m_Namespace (chh_Meta c)) cr h1"
    obtain t h3 where c2: "TLSConfig_DeepCopy (csh_TLSConfig (chh_Spec c)) h2 = (t, h3)" by (metis prod.collapse)
    have h': "h' = localize_tls (m_Namespace (chh_Meta c)) t h3"
      and res: "res = Some (r\<lparr>rlh_Spec := \<lparr>rsh_Fields = (rsh_Fields (rlh_Spec r))
          \<lparr>rs_ReconcileStrategy := cs_ReconcileStrategy (csh_Fields (chh_Spec c)),
           rs_Version := cs_Version (csh_Fields (chh_Spec c)), rs_Values := v\<rparr>,
          rsh_Options = csh_Options (chh_Spec c), rsh_Credentials = cr, rsh_TLSConfig = t\<rparr>\<rparr>)"
      using assms(3) Some c1 c2 by (simp_all add: construct_h_def start_def [symmetric] h2_def [symmetric])
    note lc = localized_copies [OF assms(1) c1 h2_def c2 h']
    have wr: "wf_release h r" using wf Some by simp
    have c: "wf_chart h' c \<and> abs_chart h' c = abs_chart h c" by (rule charts.stable [OF assms(1) lc(1)])
    have r: "wf_release h' r \<and> abs_release h' r = abs_release h r" by (rule releases.stable [OF wr lc(1)])
    have "constructHelmReleaseProxy P (map_option (abs_release h) existing) (abs_chart h c) v cluster =
        Some ((abs_release h' r)\<lparr>hrp_Spec := (hrp_Spec (abs_release h' r))
            \<lparr>rs_ReconcileStrategy := cs_ReconcileStrategy (hcp_Spec (abs_chart h' c)),
             rs_Version := cs_Version (hcp_Spec (abs_chart h' c)), rs_Values := v,
             rs_Options := cs_Options (hcp_Spec (abs_chart h' c)),
             rs_Credentials := abs_cred_ptr h' cr, rs_TLSConfig := abs_tls_ptr h' t\<rparr>\<rparr>)"
      unfolding constructHelmReleaseProxy_def st [symmetric] using Some c r lc(4,5) by simp
    moreover have "\<dots> = map_option (abs_release h') res"
      by (simp add: res abs_release_def abs_release_spec_def abs_chart_def abs_chart_spec_def)
    moreover have "pred_option (wf_release h') res" using res c r lc(2,3) by (simp add: wf_release_def wf_chart_def)
    ultimately show ?thesis using c releases.stable [OF _ lc(1)] by auto
  qed
qed

theorem construct_implemented_on_heap_witness:
  "\<exists>r h'. construct_h sim_capi None ex_chart_h ''a: 1'' (ex_cluster ''c1'') ex_heap = (Some r, h') \<and>
     rs_Credentials (hrp_Spec (abs_release h' r)) =
       Some \<lparr>cr_Secret = \<lparr>sr_Name = ''s'', sr_Namespace = ''team''\<rparr>, cr_Key = ''config.json''\<rparr> \<and>
     abs_chart h' ex_chart_h = abs_chart ex_heap ex_chart_h"
proof -
  obtain res h' where c: "construct_h sim_capi None ex_chart_h ''a: 1'' (ex_cluster ''c1'') ex_heap = (res, h')"
    by (metis prod.collapse)
  have "abs_chart h' ex_chart_h = abs_chart ex_heap ex_chart_h"
    and "map_option (abs_release h') res =
      constructHelmReleaseProxy sim_capi None (abs_chart ex_heap ex_chart_h) ''a: 1'' (ex_cluster ''c1'')"
    using construct_implemented_on_heap [OF ex_chart_h_wf _ c] by simp_all
  moreover from this(2) obtain r where "res = Some r" by (auto simp: constructHelmReleaseProxy_def)
  moreover have "local_credentials (abs_chart ex_heap ex_chart_h) =
      Some \<lparr>cr_Secret = \<lparr>sr_Name = ''s'', sr_Namespace = ''team''\<rparr>, cr_Key = ''config.json''\<rparr>"
    by (simp add: local_credentials_def abs_chart_def abs_chart_spec_def abs_cred_ptr_def ex_heap_def ex_chart_h_def
        ex_hcp_def DefaultOCIKey_def)
  ultimately show ?thesis using c by (auto simp: constructHelmReleaseProxy_def)
qed

end
