(* ===== verification/Events.thy ===== *)
theory Events
  imports Chart_Controller
begin

text \<open>
  Which events wake which controller: \<^verbatim>\<open>SetupWithManager\<close> of the two controllers. Each builds the
  description of a controller, its own kind, its event filter and its watches with their mappers
  and predicates. The predicates, the mapper from clusters to objects and the delivery of events
  are Cluster API's and controller-runtime's and are parameters, with what their documentation
  says as a locale.
\<close>

section \<open>Events and controllers\<close>

datatype obj_kind = KindHelmChartProxy | KindHelmReleaseProxy | KindCluster

fun kind_of :: "client_object \<Rightarrow> obj_kind option" where
  "kind_of (ClusterObject _) = Some KindCluster"
| "kind_of (HelmChartProxyObject _) = Some KindHelmChartProxy"
| "kind_of (HelmReleaseProxyObject _) = Some KindHelmReleaseProxy"
| "kind_of OtherObject = None"

fun object_meta :: "client_object \<Rightarrow> ObjectMeta" where
  "object_meta (ClusterObject c) = cl_Meta c"
| "object_meta (HelmChartProxyObject c) = hcp_Meta c"
| "object_meta (HelmReleaseProxyObject r) = hrp_Meta r"
| "object_meta OtherObject = zero_meta"

text \<open>The events of \<^verbatim>\<open>controller-runtime/pkg/event\<close>; an update carries the old and the new object.\<close>

datatype event =
    CreateEvent client_object
  | UpdateEvent client_object client_object
  | DeleteEvent client_object
  | GenericEvent client_object

fun event_objects :: "event \<Rightarrow> client_object list" where
  "event_objects (CreateEvent ob) = [ob]"
| "event_objects (UpdateEvent old new) = [old, new]"
| "event_objects (DeleteEvent ob) = [ob]"
| "event_objects (GenericEvent ob) = [ob]"

lemma event_objects_nonempty [simp]: "event_objects ev \<noteq> []"
  by (cases ev) simp_all

text \<open>The object a predicate looks at.\<close>

definition event_object :: "event \<Rightarrow> client_object" where
  "event_object ev = last (event_objects ev)"

text \<open>\<^verbatim>\<open>predicates\<close> and \<^verbatim>\<open>util.ClusterToTypedObjectsMapper\<close> of Cluster API.\<close>

record 'k event_lib =
  e_ResourceNotPausedAndHasFilterLabel :: "string \<Rightarrow> event \<Rightarrow> bool"
  e_ResourceHasFilterLabel :: "string \<Rightarrow> event \<Rightarrow> bool"
  e_ClusterUnpaused :: "event \<Rightarrow> bool"
  e_ClusterControlPlaneInitialized :: "event \<Rightarrow> bool"
  e_All :: "(event \<Rightarrow> bool) list \<Rightarrow> event \<Rightarrow> bool"
  e_Any :: "(event \<Rightarrow> bool) list \<Rightarrow> event \<Rightarrow> bool"
  e_ClusterToTypedObjectsMapper :: "obj_kind \<Rightarrow> (client_object \<Rightarrow> 'k \<Rightarrow> nsname list) res"

text \<open>What \<^verbatim>\<open>ctrl.NewControllerManagedBy\<close> is told. A watch without predicates accepts every event.\<close>

record 'k watch =
  wa_Kind :: obj_kind
  wa_Map :: "client_object \<Rightarrow> 'k \<Rightarrow> nsname list"
  wa_Predicate :: "event \<Rightarrow> bool"

record 'k controller =
  ctl_MaxConcurrentReconciles :: int
  ctl_For :: obj_kind
  ctl_EventFilter :: "event \<Rightarrow> bool"
  ctl_Watches :: "'k watch list"

section \<open>\<open>SetupWithManager\<close>\<close>

definition hcp_SetupWithManager ::
  "'k event_lib \<Rightarrow> 'k kube \<Rightarrow> 'k capi \<Rightarrow> string \<Rightarrow> int \<Rightarrow> 'k controller" where
  "hcp_SetupWithManager E K P watchFilterValue maxConcurrent =
     \<lparr>ctl_MaxConcurrentReconciles = maxConcurrent,
      ctl_For = KindHelmChartProxy,
      ctl_EventFilter = e_ResourceNotPausedAndHasFilterLabel E watchFilterValue,
      ctl_Watches =
        [\<lparr>wa_Kind = KindCluster, wa_Map = ClusterToHelmChartProxiesMapper K P, wa_Predicate = (\<lambda>_. True)\<rparr>,
         \<lparr>wa_Kind = KindHelmReleaseProxy, wa_Map = (\<lambda>ob k. HelmReleaseProxyToHelmChartProxyMapper ob),
          wa_Predicate = (\<lambda>_. True)\<rparr>]\<rparr>"

definition hrp_SetupWithManager :: "'k event_lib \<Rightarrow> string \<Rightarrow> int \<Rightarrow> 'k controller res" where
  "hrp_SetupWithManager E watchFilterValue maxConcurrent =
     (case e_ClusterToTypedObjectsMapper E KindHelmReleaseProxy of
        Inl err \<Rightarrow> Inl err
      | Inr clusterToHelmReleaseProxies \<Rightarrow>
          Inr \<lparr>ctl_MaxConcurrentReconciles = maxConcurrent,
               ctl_For = KindHelmReleaseProxy,
               ctl_EventFilter = e_ResourceNotPausedAndHasFilterLabel E watchFilterValue,
               ctl_Watches =
                 [\<lparr>wa_Kind = KindCluster, wa_Map = clusterToHelmReleaseProxies,
                   wa_Predicate = e_All E
                     [e_Any E [e_ClusterUnpaused E, e_ClusterControlPlaneInitialized E],
                      e_ResourceHasFilterLabel E watchFilterValue]\<rparr>]\<rparr>)"

section \<open>Contract\<close>

definition WatchLabel :: string where "WatchLabel = ''cluster.x-k8s.io/watch-filter''"
definition PausedAnnotation :: string where "PausedAnnotation = ''cluster.x-k8s.io/paused''"

definition has_filter_label :: "string \<Rightarrow> client_object \<Rightarrow> bool" where
  "has_filter_label v ob = (v = [] \<or> m_Labels (object_meta ob) WatchLabel = Some v)"

definition not_paused :: "client_object \<Rightarrow> bool" where
  "not_paused ob = (m_Annotations (object_meta ob) PausedAnnotation = None)"

text \<open>
  An event that passes the controller's filter enqueues the object itself when it is of the
  controller's kind, and for each watch of the object's kind whose predicate accepts the event,
  what the mapper returns for the old and the new object. The filter predicate accepts objects
  that are not paused and, when a value is configured, carry the watch label with exactly that
  value. A controller reference names the owner and is marked as such.
\<close>

locale event_delivery = capi_laws P
  for P :: "'k capi" +
  fixes E :: "'k event_lib" and deliver :: "'k controller \<Rightarrow> event \<Rightarrow> 'k \<Rightarrow> nsname list"
  assumes delivered: "n \<in> set (deliver ctl ev k) \<longleftrightarrow> ctl_EventFilter ctl ev \<and>
      ((\<exists>ob \<in> set (event_objects ev). kind_of ob = Some (ctl_For ctl) \<and> n = meta_key (object_meta ob)) \<or>
       (\<exists>w \<in> set (ctl_Watches ctl). wa_Predicate w ev \<and>
          (\<exists>ob \<in> set (event_objects ev). kind_of ob = Some (wa_Kind w) \<and> n \<in> set (wa_Map w ob k))))"
    and filter_label: "e_ResourceNotPausedAndHasFilterLabel E v ev \<longleftrightarrow>
      not_paused (event_object ev) \<and> has_filter_label v (event_object ev)"
    and all_of: "e_All E ps ev \<longleftrightarrow> (\<forall>p \<in> set ps. p ev)"
    and any_of: "e_Any E ps ev \<longleftrightarrow> (\<exists>p \<in> set ps. p ev)"
    and has_label: "e_ResourceHasFilterLabel E v ev \<longleftrightarrow> has_filter_label v (event_object ev)"
    and owner: "p_ensure_owner P [] ref = [ref]"
    and controller_ref: "or_Name (p_controller_ref P c) = hcp_Name c" "or_Controller (p_controller_ref P c) = Some True"
begin

text \<open>The proxy the chart controller creates, as the server stores it: with the labels and the
  owner it was created with.\<close>

lemma filtered_out:
  assumes "v \<noteq> []" and "ctl_EventFilter ctl = e_ResourceNotPausedAndHasFilterLabel E v"
    and "m_Labels (object_meta (event_object ev)) WatchLabel = None"
  shows "deliver ctl ev k = []"
proof -
  have "n \<notin> set (deliver ctl ev k)" for n using assms by (simp add: delivered filter_label has_filter_label_def)
  then show ?thesis by (cases "deliver ctl ev k") auto
qed

lemma owner_request:
  assumes "constructHelmReleaseProxy P None c v cluster = Some r"
    and "m_OwnerReferences (hrp_Meta r') = m_OwnerReferences (hrp_Meta r)" and "hrp_Namespace r' = hrp_Namespace r"
  shows "HelmReleaseProxyToHelmChartProxyMapper (HelmReleaseProxyObject r') = [meta_key (hcp_Meta c)]"
  using assms
  by (auto simp: constructHelmReleaseProxy_def new_release_proxy_def HelmReleaseProxyToHelmChartProxyMapper_def owner
      controller_ref meta_key_def)

lemma chart_wakeup:
  assumes "not_paused (event_object ev)"
    and "\<And>ob. ob \<in> set (event_objects ev) \<Longrightarrow> kind_of ob = Some KindHelmReleaseProxy \<and>
      HelmReleaseProxyToHelmChartProxyMapper ob = [n]"
  shows "set (deliver (hcp_SetupWithManager E K P [] m) ev k) = {n}"
  using assms
  by (auto simp: delivered filter_label has_filter_label_def hcp_SetupWithManager_def)
    (metis last_in_set event_object_def event_objects_nonempty)

text \<open>Cluster events at the release controller.\<close>

lemma release_cluster_event:
  assumes "hrp_SetupWithManager E v m = Inr ctl" and "event_objects ev = [ClusterObject cl]"
    and "e_ClusterToTypedObjectsMapper E KindHelmReleaseProxy = Inr mapper"
  shows "n \<in> set (deliver ctl ev k) \<longleftrightarrow> not_paused (ClusterObject cl) \<and> has_filter_label v (ClusterObject cl) \<and>
    (e_ClusterUnpaused E ev \<or> e_ClusterControlPlaneInitialized E ev) \<and> n \<in> set (mapper (ClusterObject cl) k)"
  using assms by (auto simp: delivered filter_label all_of any_of has_label hrp_SetupWithManager_def event_object_def)

end

section \<open>Simulated delivery\<close>

definition sim_events :: "sim_kube event_lib" where
  "sim_events =
     \<lparr>e_ResourceNotPausedAndHasFilterLabel = (\<lambda>v ev. not_paused (event_object ev) \<and> has_filter_label v (event_object ev)),
      e_ResourceHasFilterLabel = (\<lambda>v ev. has_filter_label v (event_object ev)),
      e_ClusterUnpaused = (\<lambda>ev. case event_object ev of ClusterObject c \<Rightarrow> cl_Paused c \<noteq> Some True | _ \<Rightarrow> False),
      e_ClusterControlPlaneInitialized =
        (\<lambda>ev. case event_object ev of ClusterObject c \<Rightarrow> cl_ControlPlaneInitialized c = Some True | _ \<Rightarrow> False),
      e_All = (\<lambda>ps ev. list_all (\<lambda>p. p ev) ps), e_Any = (\<lambda>ps ev. list_ex (\<lambda>p. p ev) ps),
      e_ClusterToTypedObjectsMapper = (\<lambda>_. Inr (\<lambda>ob k. map (\<lambda>r. hrp_key r)
        (filter (\<lambda>r. m_Labels (hrp_Meta r) ClusterNameLabel = Some (m_Name (object_meta ob))) (sk_hrps k))))\<rparr>"

definition sim_deliver :: "'k controller \<Rightarrow> event \<Rightarrow> 'k \<Rightarrow> nsname list" where
  "sim_deliver ctl ev k =
     (if ctl_EventFilter ctl ev
      then map (\<lambda>ob. meta_key (object_meta ob)) (filter (\<lambda>ob. kind_of ob = Some (ctl_For ctl)) (event_objects ev)) @
        concat (map (\<lambda>w. concat (map (\<lambda>ob. wa_Map w ob k)
          (filter (\<lambda>ob. kind_of ob = Some (wa_Kind w)) (event_objects ev)))) (filter (\<lambda>w. wa_Predicate w ev) (ctl_Watches ctl)))
      else [])"

interpretation sim_delivery: event_delivery sim_capi sim_events sim_deliver
proof
  fix n ctl ev and k :: sim_kube
  show "n \<in> set (sim_deliver ctl ev k) \<longleftrightarrow> ctl_EventFilter ctl ev \<and>
      ((\<exists>ob \<in> set (event_objects ev). kind_of ob = Some (ctl_For ctl) \<and> n = meta_key (object_meta ob)) \<or>
       (\<exists>w \<in> set (ctl_Watches ctl). wa_Predicate w ev \<and>
          (\<exists>ob \<in> set (event_objects ev). kind_of ob = Some (wa_Kind w) \<and> n \<in> set (wa_Map w ob k))))"
    by (auto simp: sim_deliver_def)
qed (simp_all add: sim_events_def sim_capi_def list_all_iff list_ex_iff)

section \<open>Properties\<close>



text \<open>C37: with a watch filter configured, neither controller is ever woken by a release proxy that
  the chart controller created. Both controllers accept only objects that carry the watch label,
  and the proxies are created without it, so a new proxy is not installed until an event on its
  cluster happens to enqueue it, and its status changes do not reach the chart proxy.\<close>

theorem watch_filter_drops_release_proxies:
  assumes "event_delivery P E deliver" and "watchFilter \<noteq> []"
    and "constructHelmReleaseProxy P None c v cluster = Some r"
    and "event_object ev = HelmReleaseProxyObject r'" and "m_Labels (hrp_Meta r') = m_Labels (hrp_Meta r)"
    and "hrp_SetupWithManager E watchFilter m = Inr ctl"
  shows "deliver ctl ev k = [] \<and> deliver (hcp_SetupWithManager E K P watchFilter m') ev k = []"
proof -
  have l: "m_Labels (object_meta (event_object ev)) WatchLabel = None"
    using assms(3-5)
    by (auto simp: constructHelmReleaseProxy_def new_release_proxy_def const_defs WatchLabel_def)
  have "ctl_EventFilter ctl = e_ResourceNotPausedAndHasFilterLabel E watchFilter"
    using assms(6) by (auto simp: hrp_SetupWithManager_def split: sum.splits)
  with event_delivery.filtered_out [OF assms(1,2) _ l] show ?thesis by (simp add: hcp_SetupWithManager_def)
qed

theorem watch_filter_drops_release_proxies_witness:
  "\<exists>r ctl. constructHelmReleaseProxy sim_capi None (ex_hcp []) ''a: 1'' (ex_cluster ''c1'') = Some r \<and>
     hrp_SetupWithManager sim_events ''team-a'' 10 = Inr ctl \<and>
     sim_deliver ctl (CreateEvent (HelmReleaseProxyObject r)) sim_empty = []"
proof -
  obtain r where r: "constructHelmReleaseProxy sim_capi None (ex_hcp []) ''a: 1'' (ex_cluster ''c1'') = Some r"
    by (rule ex_construct)
  obtain ctl where c: "hrp_SetupWithManager sim_events ''team-a'' 10 = Inr ctl"
    by (simp add: hrp_SetupWithManager_def sim_events_def)
  from watch_filter_drops_release_proxies [OF sim_delivery.event_delivery_axioms _ r _ refl c,
      of "CreateEvent (HelmReleaseProxyObject r)"] r c
  show ?thesis by (auto simp: event_object_def)
qed

end
