(* ===== verification/Startup.thy ===== *)
theory Startup
  imports Events
begin

text \<open>
  \<^verbatim>\<open>main.go\<close> and \<^verbatim>\<open>version/version.go\<close>: the flags with their defaults, and the sequence of fallible
  calls that sets up the manager, registers both controllers, both webhooks and the health
  checks, and starts it. The manager, the flag parser and the logging set-up are parameters.
\<close>

section \<open>Version\<close>

record version_Info =
  vi_Major :: string
  vi_Minor :: string
  vi_GitVersion :: string
  vi_GitCommit :: string
  vi_GitTreeState :: string
  vi_BuildDate :: string
  vi_GoVersion :: string
  vi_Compiler :: string
  vi_Platform :: string

text \<open>The package variables, which the linker sets, and what the Go runtime reports.\<close>

record build_vars =
  bv_gitMajor :: string
  bv_gitMinor :: string
  bv_gitVersion :: string
  bv_gitCommit :: string
  bv_gitTreeState :: string
  bv_buildDate :: string
  bv_Version :: string
  bv_Compiler :: string
  bv_GOOS :: string
  bv_GOARCH :: string

definition version_Get :: "build_vars \<Rightarrow> version_Info" where
  "version_Get b =
     \<lparr>vi_Major = bv_gitMajor b, vi_Minor = bv_gitMinor b, vi_GitVersion = bv_gitVersion b,
      vi_GitCommit = bv_gitCommit b, vi_GitTreeState = bv_gitTreeState b, vi_BuildDate = bv_buildDate b,
      vi_GoVersion = bv_Version b, vi_Compiler = bv_Compiler b, vi_Platform = bv_GOOS b @ ''/'' @ bv_GOARCH b\<rparr>"

definition Info_String :: "version_Info \<Rightarrow> string" where
  "Info_String info = vi_GitVersion info"

section \<open>Flags\<close>

text \<open>Durations are nanoseconds, as in Go; the queries per second, a \<^verbatim>\<open>float32\<close> that is only passed
  on, are a whole number here.\<close>

definition Second :: int where "Second = 1000000000"

record flags =
  fl_leader_elect :: bool
  fl_lease_duration :: int
  fl_renew_deadline :: int
  fl_retry_period :: int
  fl_namespace :: string
  fl_watch_filter :: string
  fl_profiler_address :: string
  fl_chart_concurrency :: int
  fl_release_concurrency :: int
  fl_sync_period :: int
  fl_qps :: int
  fl_burst :: int
  fl_health_addr :: string
  fl_webhook_port :: int
  fl_webhook_cert_dir :: string

definition InitFlags :: flags where
  "InitFlags =
     \<lparr>fl_leader_elect = False, fl_lease_duration = 15 * Second, fl_renew_deadline = 10 * Second,
      fl_retry_period = 2 * Second, fl_namespace = [], fl_watch_filter = [], fl_profiler_address = [],
      fl_chart_concurrency = 10, fl_release_concurrency = 10, fl_sync_period = 10 * 60 * Second,
      fl_qps = 20, fl_burst = 30, fl_health_addr = '':9440'', fl_webhook_port = 9443,
      fl_webhook_cert_dir = ''/tmp/k8s-webhook-server/serving-certs/''\<rparr>"

section \<open>The manager\<close>

record manager_options =
  mo_LeaderElection :: bool
  mo_LeaderElectionID :: string
  mo_LeaseDuration :: int
  mo_RenewDeadline :: int
  mo_RetryPeriod :: int
  mo_HealthProbeBindAddress :: string
  mo_PprofBindAddress :: string
  mo_Metrics :: string
  mo_DefaultNamespaces :: "string list option"
  mo_SyncPeriod :: int
  mo_WebhookPort :: int
  mo_WebhookCertDir :: string
  mo_TLSOpts :: string

record manager_rest =
  mr_QPS :: int
  mr_Burst :: int
  mr_UserAgent :: string

text \<open>\<^verbatim>\<open>SetupWebhookWithManager\<close>: \<^verbatim>\<open>ctrl.NewWebhookManagedBy\<close> is told the kind of the object, which is
  the type parameter, and the one value that implements the defaulter and the validator.\<close>

record 'o webhook =
  wb_Default :: "'o \<Rightarrow> 'o"
  wb_ValidateCreate :: "'o \<Rightarrow> admission_error option"
  wb_ValidateUpdate :: "'o \<Rightarrow> 'o \<Rightarrow> admission_error option"
  wb_ValidateDelete :: "'o \<Rightarrow> admission_error option"

definition hcp_SetupWebhookWithManager :: "HelmChartProxy webhook" where
  "hcp_SetupWebhookWithManager =
     \<lparr>wb_Default = hcp_Default, wb_ValidateCreate = hcp_ValidateCreate,
      wb_ValidateUpdate = hcp_ValidateUpdate, wb_ValidateDelete = hcp_ValidateDelete\<rparr>"

definition hrp_SetupWebhookWithManager :: "HelmReleaseProxy webhook" where
  "hrp_SetupWebhookWithManager =
     \<lparr>wb_Default = hrp_Default, wb_ValidateCreate = hrp_ValidateCreate,
      wb_ValidateUpdate = hrp_ValidateUpdate, wb_ValidateDelete = hrp_ValidateDelete\<rparr>"

text \<open>What is registered with the manager.\<close>

datatype 'k registration =
    ControllerReg "'k controller"
  | ChartWebhookReg "HelmChartProxy webhook"
  | ReleaseWebhookReg "HelmReleaseProxy webhook"
  | HealthzReg string
  | ReadyzReg string

text \<open>The calls of \<^verbatim>\<open>main\<close> into libraries, over a state \<open>'m\<close> of the process. \<^verbatim>\<open>pflag.Parse\<close> may end the
  process with an exit code of its own; \<^verbatim>\<open>ctrl.GetConfigOrDie\<close> ends it when there is no
  configuration. The TLS and metrics options are opaque.\<close>

record ('m, 'k) manager_lib =
  mg_set_v :: "'m \<Rightarrow> go_error option"
  mg_parse :: "flags \<Rightarrow> 'm \<Rightarrow> int + flags"
  mg_manager_options :: "'m \<Rightarrow> (string \<times> string) res"
  mg_validate_logs :: "'m \<Rightarrow> go_error option"
  mg_config_ok :: "'m \<Rightarrow> bool"
  mg_new :: "manager_rest \<Rightarrow> manager_options \<Rightarrow> 'm \<Rightarrow> go_error option \<times> 'm"
  mg_register :: "'k registration \<Rightarrow> 'm \<Rightarrow> go_error option \<times> 'm"
  mg_start :: "'m \<Rightarrow> go_error option \<times> 'm"

datatype exit = Exit int | Returned

definition controllerName :: string where "controllerName = ''cluster-api-helm-controller-manager''"

text \<open>\<^verbatim>\<open>if err != nil { os.Exit(1) }\<close> after a registration.\<close>

definition or_exit ::
  "go_error option \<times> 'm \<Rightarrow> ('m \<Rightarrow> exit \<times> 'm) \<Rightarrow> exit \<times> 'm" where
  "or_exit r k = (case r of (Some err, m) \<Rightarrow> (Exit 1, m) | (None, m) \<Rightarrow> k m)"

text \<open>The registrations, in the order of \<^verbatim>\<open>main\<close>, then the start.\<close>

definition chart_controller_reg :: "'k event_lib \<Rightarrow> 'k kube \<Rightarrow> 'k capi \<Rightarrow> flags \<Rightarrow> 'k registration" where
  "chart_controller_reg E K P fl =
     ControllerReg (hcp_SetupWithManager E K P (fl_watch_filter fl) (fl_chart_concurrency fl))"

definition register_and_start ::
  "('m, 'k) manager_lib \<Rightarrow> 'k event_lib \<Rightarrow> 'k kube \<Rightarrow> 'k capi \<Rightarrow> flags \<Rightarrow> 'm \<Rightarrow> exit \<times> 'm" where
  "register_and_start L E K P fl m =
     or_exit (mg_register L (chart_controller_reg E K P fl) m) (\<lambda>m1.
     or_exit (mg_register L (ChartWebhookReg hcp_SetupWebhookWithManager) m1) (\<lambda>m2.
     or_exit (case hrp_SetupWithManager E (fl_watch_filter fl) (fl_release_concurrency fl) of
                Inl err \<Rightarrow> (Some err, m2)
              | Inr ctl \<Rightarrow> mg_register L (ControllerReg ctl) m2) (\<lambda>m3.
     or_exit (mg_register L (ReleaseWebhookReg hrp_SetupWebhookWithManager) m3) (\<lambda>m4.
     or_exit (mg_register L (HealthzReg ''healthz'') m4) (\<lambda>m5.
     or_exit (mg_register L (ReadyzReg ''readyz'') m5) (\<lambda>m6.
     or_exit (mg_start L m6) (\<lambda>m7. (Returned, m7))))))))"

definition main ::
  "('m, 'k) manager_lib \<Rightarrow> 'k event_lib \<Rightarrow> 'k kube \<Rightarrow> 'k capi \<Rightarrow> 'm \<Rightarrow> exit \<times> 'm" where
  "main L E K P m =
     (if mg_set_v L m \<noteq> None then (Exit 1, m)
      else case mg_parse L InitFlags m of
        Inl code \<Rightarrow> (Exit code, m)
      | Inr fl \<Rightarrow>
          (case mg_manager_options L m of
             Inl err \<Rightarrow> (Exit 1, m)
           | Inr (tlsOptions, metricsOptions) \<Rightarrow>
             let watchNamespaces = (if fl_namespace fl \<noteq> [] then Some [fl_namespace fl] else None)
             in if mg_validate_logs L m \<noteq> None then (Exit 1, m)
                else if \<not> mg_config_ok L m then (Exit 1, m)
                else or_exit
                  (mg_new L \<lparr>mr_QPS = fl_qps fl, mr_Burst = fl_burst fl, mr_UserAgent = p_user_agent P controllerName\<rparr>
                     \<lparr>mo_LeaderElection = fl_leader_elect fl, mo_LeaderElectionID = ''controller-leader-election-caaph'',
                      mo_LeaseDuration = fl_lease_duration fl, mo_RenewDeadline = fl_renew_deadline fl,
                      mo_RetryPeriod = fl_retry_period fl, mo_HealthProbeBindAddress = fl_health_addr fl,
                      mo_PprofBindAddress = fl_profiler_address fl, mo_Metrics = metricsOptions, mo_DefaultNamespaces = watchNamespaces,
                      mo_SyncPeriod = fl_sync_period fl, mo_WebhookPort = fl_webhook_port fl,
                      mo_WebhookCertDir = fl_webhook_cert_dir fl, mo_TLSOpts = tlsOptions\<rparr> m)
                  (register_and_start L E K P fl)))"

section \<open>Contract of the manager\<close>

text \<open>
  \<open>registered\<close> and \<open>started\<close> observe the manager. A new manager has no registrations, a successful
  registration is recorded; nothing but \<^verbatim>\<open>Start\<close> starts the manager, and it keeps the
  registrations.
\<close>

locale manager_api =
  fixes L :: "('m, 'k) manager_lib" and registered :: "'m \<Rightarrow> 'k registration list" and started :: "'m \<Rightarrow> bool"
  assumes new_idle: "mg_new L rc mo m = (e, m') \<Longrightarrow> \<not> started m \<Longrightarrow> \<not> started m'"
    and new_ok: "mg_new L rc mo m = (None, m') \<Longrightarrow> registered m' = []"
    and register_idle: "mg_register L g m = (e, m') \<Longrightarrow> \<not> started m \<Longrightarrow> \<not> started m'"
    and register_ok: "mg_register L g m = (None, m') \<Longrightarrow> registered m' = registered m @ [g]"
    and start_keeps: "mg_start L m = (e, m') \<Longrightarrow> registered m' = registered m"
    and start_ok: "mg_start L m = (None, m') \<Longrightarrow> started m'"
begin

lemma or_exit_started:
  assumes "or_exit r k = (x, m')" and "started m'" and "\<not> started (snd r)"
  obtains m where "r = (None, m)" "k m = (x, m')"
proof (cases r)
  case (Pair e m)
  with assms that show thesis by (cases e) (auto simp: or_exit_def)
qed

text \<open>One registration before the rest: it has happened when the manager is started.\<close>

lemma registration_step:
  assumes "or_exit (mg_register L g m) k = (x, m')" and "\<not> started m" and "started m'"
  obtains m1 where "registered m1 = registered m @ [g]" "\<not> started m1" "k m1 = (x, m')"
proof -
  obtain e m0 where r: "mg_register L g m = (e, m0)" by (metis prod.collapse)
  have "\<not> started (snd (mg_register L g m))" using register_idle [OF r assms(2)] r by simp
  then obtain m1 where m1: "mg_register L g m = (None, m1)" "k m1 = (x, m')"
    using or_exit_started [OF assms(1,3)] by blast
  with that [of m1] register_ok [OF m1(1)] register_idle [OF m1(1) assms(2)] show thesis by blast
qed

lemma start_registered:
  assumes "register_and_start L E K P fl m = (x, m')" and "\<not> started m" and "started m'"
  shows "\<exists>ctl. hrp_SetupWithManager E (fl_watch_filter fl) (fl_release_concurrency fl) = Inr ctl \<and>
    registered m' = registered m @ [chart_controller_reg E K P fl, ChartWebhookReg hcp_SetupWebhookWithManager,
      ControllerReg ctl, ReleaseWebhookReg hrp_SetupWebhookWithManager, HealthzReg ''healthz'', ReadyzReg ''readyz'']"
proof -
  obtain m2 where 2: "registered m2 = registered m @ [chart_controller_reg E K P fl, ChartWebhookReg hcp_SetupWebhookWithManager]"
    "\<not> started m2"
    "or_exit (case hrp_SetupWithManager E (fl_watch_filter fl) (fl_release_concurrency fl) of
        Inl err \<Rightarrow> (Some err, m2) | Inr ctl \<Rightarrow> mg_register L (ControllerReg ctl) m2) (\<lambda>m3.
     or_exit (mg_register L (ReleaseWebhookReg hrp_SetupWebhookWithManager) m3) (\<lambda>m4.
     or_exit (mg_register L (HealthzReg ''healthz'') m4) (\<lambda>m5.
     or_exit (mg_register L (ReadyzReg ''readyz'') m5) (\<lambda>m6.
     or_exit (mg_start L m6) (\<lambda>m7. (Returned, m7)))))) = (x, m')"
    using assms by (auto simp: register_and_start_def elim!: registration_step)
  obtain ctl where ctl: "hrp_SetupWithManager E (fl_watch_filter fl) (fl_release_concurrency fl) = Inr ctl"
  proof (cases "hrp_SetupWithManager E (fl_watch_filter fl) (fl_release_concurrency fl)")
    case (Inl err)
    with 2 assms(3) show thesis by (simp add: or_exit_def)
  qed (rule that)
  obtain m6 where 6: "registered m6 = registered m2 @ [ControllerReg ctl, ReleaseWebhookReg hrp_SetupWebhookWithManager,
      HealthzReg ''healthz'', ReadyzReg ''readyz'']" "or_exit (mg_start L m6) (\<lambda>m7. (Returned, m7)) = (x, m')"
    using 2(2,3) assms(3) by (auto simp: ctl elim!: registration_step)
  obtain e m7 where s: "mg_start L m6 = (e, m7)" by (metis prod.collapse)
  then have "m' = m7" using 6(2) by (auto simp: or_exit_def split: option.splits)
  with start_keeps [OF s] 6(1) 2(1) ctl show ?thesis by simp
qed

lemma main_returned: "main L E K P m = (Returned, m') \<Longrightarrow> started m'"
  using start_ok
  by (fastforce simp: main_def register_and_start_def or_exit_def Let_def split: if_splits sum.splits prod.splits option.splits)

lemma main_started:
  assumes "main L E K P m = (x, m')" and "\<not> started m" and "started m'"
  obtains fl m1 rc mo where "mg_parse L InitFlags m = Inr fl" "mg_new L rc mo m = (None, m1)"
    "register_and_start L E K P fl m1 = (x, m')" "\<not> started m1"
    "mo_DefaultNamespaces mo = (if fl_namespace fl = [] then None else Some [fl_namespace fl])"
proof -
  obtain fl rc mo where fl: "mg_parse L InitFlags m = Inr fl"
    and o: "or_exit (mg_new L rc mo m) (register_and_start L E K P fl) = (x, m')"
    and ns: "mo_DefaultNamespaces mo = (if fl_namespace fl = [] then None else Some [fl_namespace fl])"
    using assms by (auto simp: main_def Let_def split: if_splits sum.splits prod.splits)
  obtain e m0 where n: "mg_new L rc mo m = (e, m0)" by (metis prod.collapse)
  then have "\<not> started (snd (mg_new L rc mo m))" using new_idle [OF n assms(2)] by simp
  then obtain m1 where "mg_new L rc mo m = (None, m1)" "register_and_start L E K P fl m1 = (x, m')"
    using or_exit_started [OF o assms(3)] by blast
  with fl ns new_idle [OF this(1) assms(2)] that show thesis by blast
qed

end

section \<open>A manager that records\<close>

text \<open>The state is what is registered and whether the manager runs; one registration can be made to
  fail.\<close>

record 'k sim_manager =
  sm_registered :: "'k registration list"
  sm_started :: bool

definition sim_manager_lib :: "('k registration \<Rightarrow> bool) \<Rightarrow> ('k sim_manager, 'k) manager_lib" where
  "sim_manager_lib fails =
     \<lparr>mg_set_v = (\<lambda>_. None), mg_parse = (\<lambda>fl _. Inr fl), mg_manager_options = (\<lambda>_. Inr ([], [])),
      mg_validate_logs = (\<lambda>_. None), mg_config_ok = (\<lambda>_. True),
      mg_new = (\<lambda>_ _ m. (None, m\<lparr>sm_registered := []\<rparr>)),
      mg_register = (\<lambda>g m. if fails g then (Some (Errorf ''failed''), m)
        else (None, m\<lparr>sm_registered := sm_registered m @ [g]\<rparr>)),
      mg_start = (\<lambda>m. (None, m\<lparr>sm_started := True\<rparr>))\<rparr>"

interpretation sim_manager: manager_api "sim_manager_lib fails" sm_registered sm_started
  for fails :: "'k registration \<Rightarrow> bool"
  by unfold_locales (auto simp: sim_manager_lib_def split: if_splits)

section \<open>Properties\<close>

text \<open>C17: the manager never runs incomplete. If it is running when \<^verbatim>\<open>main\<close> ends, the chart controller,
  the chart webhook, the release controller, the release webhook and the two health checks are
  registered, in this order, with the watch filter and the concurrency of the command line, and
  the cache is restricted to the namespace of the command line when one is given; and \<^verbatim>\<open>main\<close>
  returns without an exit code only when the manager was started.\<close>

theorem startup_never_incomplete:
  assumes "manager_api L registered started" and "main L E K P m = (x, m')" and "\<not> started m"
  shows "(started m' \<longrightarrow> (\<exists>fl ctl rc mo m1. mg_parse L InitFlags m = Inr fl \<and>
      hrp_SetupWithManager E (fl_watch_filter fl) (fl_release_concurrency fl) = Inr ctl \<and>
      registered m' =
        [ControllerReg (hcp_SetupWithManager E K P (fl_watch_filter fl) (fl_chart_concurrency fl)),
         ChartWebhookReg hcp_SetupWebhookWithManager, ControllerReg ctl, ReleaseWebhookReg hrp_SetupWebhookWithManager,
         HealthzReg ''healthz'', ReadyzReg ''readyz''] \<and>
      mg_new L rc mo m = (None, m1) \<and>
      mo_DefaultNamespaces mo = (if fl_namespace fl = [] then None else Some [fl_namespace fl]))) \<and>
    (x = Returned \<longrightarrow> started m')" (is "(_ \<longrightarrow> ?complete) \<and> _")
proof (intro conjI impI)
  assume s: "started m'"
  obtain fl m1 rc mo where 1: "mg_parse L InitFlags m = Inr fl" "mg_new L rc mo m = (None, m1)"
    "register_and_start L E K P fl m1 = (x, m')" "\<not> started m1"
    "mo_DefaultNamespaces mo = (if fl_namespace fl = [] then None else Some [fl_namespace fl])"
    by (rule manager_api.main_started [OF assms(1-3) s])
  obtain ctl where ctl: "hrp_SetupWithManager E (fl_watch_filter fl) (fl_release_concurrency fl) = Inr ctl"
    and r: "registered m' = registered m1 @ [chart_controller_reg E K P fl, ChartWebhookReg hcp_SetupWebhookWithManager,
      ControllerReg ctl, ReleaseWebhookReg hrp_SetupWebhookWithManager, HealthzReg ''healthz'', ReadyzReg ''readyz'']"
    using manager_api.start_registered [OF assms(1) 1(3,4) s] by blast
  have "registered m' =
      [ControllerReg (hcp_SetupWithManager E K P (fl_watch_filter fl) (fl_chart_concurrency fl)),
       ChartWebhookReg hcp_SetupWebhookWithManager, ControllerReg ctl, ReleaseWebhookReg hrp_SetupWebhookWithManager,
       HealthzReg ''healthz'', ReadyzReg ''readyz'']"
    using r manager_api.new_ok [OF assms(1) 1(2)] by (simp add: chart_controller_reg_def)
  with 1(1,2,5) ctl show ?complete by blast
next
  assume "x = Returned"
  with assms(2) show "started m'" using manager_api.main_returned [OF assms(1)] by simp
qed

theorem startup_never_incomplete_witness:
  "length (sm_registered (snd (main (sim_manager_lib (\<lambda>_. False)) sim_events sim_kube_ops sim_capi
     \<lparr>sm_registered = [], sm_started = False\<rparr>))) = 6"
proof -
  let ?R = "main (sim_manager_lib (\<lambda>_. False)) sim_events sim_kube_ops sim_capi \<lparr>sm_registered = [], sm_started = False\<rparr>"
  have "fst ?R = Returned"
    by (simp add: main_def register_and_start_def or_exit_def sim_manager_lib_def hrp_SetupWithManager_def sim_events_def Let_def)
  then have r: "?R = (Returned, snd ?R)" by (metis prod.collapse)
  note s = startup_never_incomplete [OF sim_manager.manager_api_axioms r]
  have "sm_started (snd ?R)" using s by simp
  then show ?thesis using s by auto
qed

end
