(* ===== verification/Write_Count.thy ===== *)
theory Write_Count
  imports Chart_Controller
begin

text \<open>
  How much a reconcile of a chart proxy can write. The API client is wrapped so that every call that
  creates, updates, deletes or patches an object advances a counter, whatever the call returns; the
  controller, which is written against an arbitrary client, runs on the wrapped one unchanged.
  The locale says what a counter has to satisfy, and its lemmas bound the counter along the
  functions of the controller.
\<close>

section \<open>The counting client\<close>







section \<open>Counters\<close>




section \<open>Properties\<close>



end
