(* ===== verification/Spec2Isabelle.thy ===== *)
theory Spec2Isabelle
  imports Convergence Deep_Copy Startup Write_Count
begin

text \<open>
  \<^bold>\<open>Cluster API add-on provider for Helm\<close>

  The program (\<^verbatim>\<open>src/\<close>, Go) installs Helm charts on the workload clusters of a Cluster API
  management cluster. A \<^verbatim>\<open>HelmChartProxy\<close> selects clusters by labels and names a chart; the
  chart controller keeps one \<^verbatim>\<open>HelmReleaseProxy\<close> per selected cluster; the release controller
  makes one Helm release match one \<^verbatim>\<open>HelmReleaseProxy\<close> through a Helm client; admission webhooks
  default and validate both kinds. The controllers share no memory: they meet in the API
  server, where each reads and patches the objects, and in the finalizers, labels, annotations
  and conditions of those objects.

  \<^bold>\<open>Theories, in the order of import\<close>

  \<^item> \<open>Prelude\<close>: Go errors as values with wrapping and panics, results as sums, \<^verbatim>\<open>strings\<close>
    functions, the loop that stops at the first error with its invariant rules.
  \<^item> \<open>Api_Types\<close>: \<^verbatim>\<open>api/v1alpha1\<close> types, constants, getters and setters (records with the
    source's fields), and \<^verbatim>\<open>internal/util.go\<close>.
  \<^item> \<open>Go_Std\<close>, \<open>Go_Url\<close>: what the code uses of \<^verbatim>\<open>path\<close>, \<^verbatim>\<open>os\<close> and \<^verbatim>\<open>net/url\<close>. The file system is a
    state with an oracle of failing system calls; \<^verbatim>\<open>os.CreateTemp\<close> retries at most 10000 times,
    as in the library. URLs are parsed and printed byte by byte.
  \<^item> \<open>Env\<close>: everything that is not under \<^verbatim>\<open>src/\<close> and not the standard library, as records of
    functions the model is parametric in (API client \<open>K\<close>, helper packages \<open>P\<close>, template engine
    \<open>T\<close>, Helm SDK \<open>H\<close>), and the contracts the code relies on as locales: \<open>conditions_api\<close>,
    \<open>finalizers_api\<close>, \<open>capi_laws\<close>, \<open>kube_api\<close>, \<open>proxy_store\<close>.
  \<^item> \<open>Sim_Env\<close>: a concrete environment that meets every contract; it instantiates the parameters
    in the witnesses.
  \<^item> \<open>Helm_Client\<close>: \<^verbatim>\<open>internal/helm_client.go\<close>, every function. The interface \<^verbatim>\<open>internal.Client\<close> is
    the record \<open>hclient\<close>, its contract the locale \<open>helm_client\<close>, interpreted for the client over
    any SDK.
  \<^item> \<open>Webhooks\<close>: the two webhook files. \<open>hcp_history\<close> is the step relation of an object whose
    writes all pass the webhooks.
  \<^item> \<open>Values\<close>: \<^verbatim>\<open>internal/value_substitutions.go\<close>.
  \<^item> \<open>Release_Controller\<close>: \<^verbatim>\<open>controllers/helmreleaseproxy\<close>. \<^verbatim>\<open>Reconcile\<close> is \<open>hrp_Reconcile\<close> around
    \<open>Reconcile_body\<close>, \<open>Reconcile_deleting\<close> and \<open>Reconcile_live\<close>; deferred calls are written where
    they run. Lemmas in the locale \<open>release_env\<close>.
  \<^item> \<open>Chart_Phases\<close>, \<open>Chart_Controller\<close>: \<^verbatim>\<open>controllers/helmchartproxy\<close>, its phases and its
    \<^verbatim>\<open>Reconcile\<close> (\<open>hcp_Reconcile\<close> around \<open>chart_body\<close>, \<open>chart_deleting\<close>, \<open>chart_live\<close>) with the
    event mappers. Lemmas in the locale \<open>chart_env\<close>.
  \<^item> \<open>System\<close>: both controllers on one API server, as the step relation \<open>sys_run\<close>, one reconcile
    per step, interleaved with arbitrary actions of others. Lemmas in the locale \<open>system_env\<close>.
  \<^item> \<open>Convergence\<close>: repeated passes over the selected clusters, against the abstract state a chart
    proxy asks for (\<open>release_state\<close>, \<open>wanted_state\<close>). The locale \<open>settled_env\<close> extends
    \<open>system_env\<close> by what a write stores.
  \<^item> \<open>Write_Count\<close>: the chart controller on a client that counts its writes; the contract of a
    counter is the locale \<open>write_counter\<close>.
  \<^item> \<open>Deep_Copy\<close>: \<^verbatim>\<open>zz_generated.deepcopy.go\<close>, every function, over an explicit heap, and
    \<^verbatim>\<open>constructHelmReleaseProxy\<close> once more with pointers. What a deep copy promises is the locale
    \<open>deep_copier\<close>, interpreted for each kind of struct.
  \<^item> \<open>Events\<close>: \<^verbatim>\<open>SetupWithManager\<close> of both controllers: watches, mappers and predicates. How
    controller-runtime delivers events is the locale \<open>event_delivery\<close>.
  \<^item> \<open>Startup\<close>: \<^verbatim>\<open>main.go\<close>, \<^verbatim>\<open>version/version.go\<close> and \<^verbatim>\<open>SetupWebhookWithManager\<close>. The manager is a
    parameter with the contract \<open>manager_api\<close>.

  \<^bold>\<open>Conventions\<close>

  Objects the code mutates through pointers are passed and returned; a pointer that may be nil
  is an option; a nil map is the empty map. Only \<open>Deep_Copy\<close> has an explicit heap; it shows for
  the function that writes through copied pointers that passing values is adequate. A call that changes the API server, the Helm state
  or the file system takes and returns that state. An error is a value \<^term>\<open>Inl err\<close> or
  \<^term>\<open>Some err\<close>, and every early return is a branch. A reconcile is atomic: what other actors do
  happens between reconciles. Logging has no effect in the model. All functions are total;
  the only loops are over lists, except the bounded retry of \<^verbatim>\<open>os.CreateTemp\<close>.

  \<^bold>\<open>What is shown\<close>

  \<^item> Safety of the resources: the finalizers are set before anything is created and given up
    exactly when what they guard is gone; temporary files with credentials are removed on every
    path; Secrets are read in the proxy's namespace only; InstallOnce proxies are never touched
    again; deep copies share no memory with their originals; the manager never runs without one
    of its controllers or webhooks.
  \<^item> The invariant of the system: at most one release proxy per chart proxy and cluster, in
    every run, so that the lookup by labels is never ambiguous.
  \<^item> Refinement and convergence: a pass without error reaches the abstract state the chart
    proxy describes, the next pass writes nothing, and the number of writes of a reconcile is
    bounded by the objects it looks at; the pointer version of the construction implements the
    value version.
  \<^item> Functional behaviour: which URLs, references and updates the webhooks admit, and what
    holds of an admitted object for life; when a release is upgraded, a proxy rewritten,
    replaced or orphaned; what every outcome records in status, conditions and annotations;
    which events wake which controller, for which object.
  \<^item> Behaviour that differs from what comments, documentation or names promise: pending
    releases, chart names with a slash, options without effect, option changes that are not
    propagated, the overwritten reinstall condition, the dropped requeue, legacy URLs, the
    credentials file after a failed write, and release proxies that a watch filter hides. Each is a theorem about the code as it is.

  \<^bold>\<open>What is not modelled\<close>

  \<^verbatim>\<open>groupversion_info.go\<close> and the registration of types with a scheme (names for the client
  library), the generated mock of the Helm client, the build tools. Concurrency inside a
  reconcile and conflicts between a patch and a concurrent writer are left to the parameters:
  the API client of the model may fail at any call. The deep copies of metadata and label
  selectors belong to apimachinery and are values. Still to be added: the life of one release
  through both controllers, from the creation of its proxy to the uninstall.
\<close>

end
